(* ===== verification/Go_Prelude.thy ===== *)
theory Go_Prelude
  imports Main "HOL-Library.Word" "HOL-Library.Sublist" "HOL-Library.State_Monad"
begin

text \<open>
  The part of the Go language and of its standard library that the API server uses, shared by
  every component: byte strings and the functions of the packages strings and strconv, 64-bit
  signed integers and durations, the state monad in which effectful functions are written, and
  the generic lemmas about them.

  A Go string is a sequence of bytes; here it is a \<^typ>\<open>string\<close>, whose characters are bytes. A
  Go function that changes state is a computation of type \<open>('s, 'a) state\<close>; a Go result pair
  \<open>(value, error)\<close> is a sum whose left side is the error.
\<close>

named_theorems go_simps \<open>unfolding equations of the model's operations\<close>
named_theorems go_frames \<open>what an operation leaves unchanged\<close>

section \<open>Monadic computations\<close>

text \<open>
  The value and the final state of a computation; \<open>defer\<close> runs a clean-up after the body on every
  return path, as a Go defer statement does.
\<close>

definition result_of :: "('s, 'a) state \<Rightarrow> 's \<Rightarrow> 'a" where
  "result_of m s = fst (run_state m s)"

definition state_of :: "('s, 'a) state \<Rightarrow> 's \<Rightarrow> 's" where
  "state_of m s = snd (run_state m s)"

definition modify :: "('s \<Rightarrow> 's) \<Rightarrow> ('s, unit) state" where
  "modify f = State (\<lambda>s. ((), f s))"

definition gets :: "('s \<Rightarrow> 'a) \<Rightarrow> ('s, 'a) state" where
  "gets f = State (\<lambda>s. (f s, s))"

definition go_return :: "'a \<Rightarrow> ('s, 'a) state" where
  "go_return a = State_Monad.return a"

definition skip :: "('s, unit) state" where
  "skip = State_Monad.return ()"

definition go_if :: "bool \<Rightarrow> ('s, unit) state \<Rightarrow> ('s, unit) state" where
  "go_if b m = (if b then m else skip)"

definition defer_call :: "('s, unit) state \<Rightarrow> ('s, 'a) state \<Rightarrow> ('s, 'a) state" where
  "defer_call cleanup body = do { r \<leftarrow> body; _ \<leftarrow> cleanup; State_Monad.return r }"

lemma run_modify [simp]: "run_state (modify f) s = ((), f s)"
  by (simp add: modify_def)

lemma run_gets [simp]: "run_state (gets f) s = (f s, s)"
  by (simp add: gets_def)

lemma run_go_return [simp]: "run_state (go_return a) s = (a, s)"
  by (simp add: go_return_def)

lemma run_skip [simp]: "run_state skip s = ((), s)"
  by (simp add: skip_def)

lemma run_go_if [simp]: "run_state (go_if b m) s = (if b then run_state m s else ((), s))"
  by (simp add: go_if_def)

lemma run_defer_call [simp]:
  "run_state (defer_call c m) s =
     (case run_state m s of (r, s') \<Rightarrow> (r, snd (run_state c s')))"
  by (simp add: defer_call_def split: prod.splits)

lemma state_of_bind [simp]:
  "state_of (State_Monad.bind m f) s = state_of (f (result_of m s)) (state_of m s)"
  by (simp add: state_of_def result_of_def split: prod.splits)

lemma result_of_bind [simp]:
  "result_of (State_Monad.bind m f) s = result_of (f (result_of m s)) (state_of m s)"
  by (simp add: state_of_def result_of_def split: prod.splits)

lemma result_state_basic [simp]:
  "result_of (modify f) s = ()" "state_of (modify f) s = f s"
  "result_of (gets g) s = g s" "state_of (gets g) s = s"
  "result_of (go_return a) s = a" "state_of (go_return a) s = s"
  "result_of (State_Monad.return a) s = a" "state_of (State_Monad.return a) s = s"
  "state_of skip s = s"
  "state_of (go_if b m) s = (if b then state_of m s else s)"
  "result_of (defer_call c n) s = result_of n s"
  "state_of (defer_call c n) s = state_of c (state_of n s)"
  by (simp_all add: result_of_def state_of_def split: prod.splits)

text \<open>
  A computation \<open>keeps\<close> a view of the state when running it never changes that view. The rules
  follow the shape of the program text, so a frame fact about a long function is proved by going
  through its statements.
\<close>

definition keeps :: "('s \<Rightarrow> 'v) \<Rightarrow> ('s, 'a) state \<Rightarrow> bool" where
  "keeps v m \<longleftrightarrow> (\<forall>s. v (state_of m s) = v s)"

lemma keepsI: "(\<And>s. v (state_of m s) = v s) \<Longrightarrow> keeps v m"
  by (simp add: keeps_def)

lemma keepsD: "keeps v m \<Longrightarrow> v (state_of m s) = v s"
  by (simp add: keeps_def)

lemma keeps_run: "keeps v m \<Longrightarrow> run_state m s = (r, s') \<Longrightarrow> v s' = v s"
  by (auto simp: keeps_def state_of_def dest: spec [of _ s])

lemma keeps_bind [intro!, go_frames]:
  "keeps v m \<Longrightarrow> (\<And>a. keeps v (f a)) \<Longrightarrow> keeps v (State_Monad.bind m f)"
  by (simp add: keeps_def)

lemma keeps_basic [intro!, simp, go_frames]:
  "keeps v (State_Monad.return a)" "keeps v (go_return a)" "keeps v skip" "keeps v (gets f)"
  by (simp_all add: keeps_def)

lemma keeps_go_if [intro!, go_frames]: "(b \<Longrightarrow> keeps v m) \<Longrightarrow> keeps v (go_if b m)"
  by (simp add: keeps_def)

lemma keeps_if [intro!, go_frames]:
  "(b \<Longrightarrow> keeps v m) \<Longrightarrow> (\<not> b \<Longrightarrow> keeps v n) \<Longrightarrow> keeps v (if b then m else n)"
  by simp

lemma keeps_defer_call [intro!, go_frames]:
  "keeps v c \<Longrightarrow> keeps v m \<Longrightarrow> keeps v (defer_call c m)"
  by (simp add: keeps_def)

lemma keeps_case_sum [intro!, go_frames]:
  "(\<And>a. x = Inl a \<Longrightarrow> keeps v (f a)) \<Longrightarrow> (\<And>b. x = Inr b \<Longrightarrow> keeps v (g b)) \<Longrightarrow>
   keeps v (case x of Inl a \<Rightarrow> f a | Inr b \<Rightarrow> g b)"
  by (cases x) auto

lemma keeps_case_option [intro!, go_frames]:
  "(x = None \<Longrightarrow> keeps v m) \<Longrightarrow> (\<And>a. x = Some a \<Longrightarrow> keeps v (f a)) \<Longrightarrow>
   keeps v (case x of None \<Rightarrow> m | Some a \<Rightarrow> f a)"
  by (cases x) auto

lemma keeps_case_prod [intro!, go_frames]:
  "(\<And>a b. keeps v (f a b)) \<Longrightarrow> keeps v (case x of (a, b) \<Rightarrow> f a b)"
  by (cases x) auto

text \<open>
  A function of the start-up path returns, panics with a value, or ends the process (the
  logger's Fatal calls os.Exit after printing its message).
\<close>

datatype 'a go_run = Returns 'a | Panics string | Exits string

fun run_then :: "'a go_run \<Rightarrow> ('a \<Rightarrow> 'b go_run) \<Rightarrow> 'b go_run" where
  "run_then (Returns a) f = f a"
| "run_then (Panics p) f = Panics p"
| "run_then (Exits m) f = Exits m"

lemma run_then_Returns:
  "run_then r f = Returns b \<longleftrightarrow> (\<exists>a. r = Returns a \<and> f a = Returns b)"
  by (cases r) auto

section \<open>Integers and durations\<close>

text \<open>
  An int64 is an \<^typ>\<open>int\<close> kept in range by \<open>wrap64\<close>, the two's complement wrap-around of Go's
  arithmetic. A time.Duration counts nanoseconds. Go's integer division truncates towards zero.
\<close>

type_synonym int64 = int
type_synonym duration = int

definition wrap64 :: "int \<Rightarrow> int64" where
  "wrap64 i = (i + 2 ^ 63) mod 2 ^ 64 - 2 ^ 63"

definition int64_range :: "int \<Rightarrow> bool" where
  "int64_range i \<longleftrightarrow> - (2 ^ 63) \<le> i \<and> i < 2 ^ 63"

definition go_div :: "int \<Rightarrow> int \<Rightarrow> int" where
  "go_div a b = sgn a * sgn b * (\<bar>a\<bar> div \<bar>b\<bar>)"

abbreviation Microsecond :: duration where "Microsecond \<equiv> 1000"
abbreviation Millisecond :: duration where "Millisecond \<equiv> 1000000"
abbreviation Second :: duration where "Second \<equiv> 1000000000"
abbreviation Minute :: duration where "Minute \<equiv> 60000000000"

lemma wrap64_id: "int64_range i \<Longrightarrow> wrap64 i = i"
  by (simp add: wrap64_def int64_range_def)

lemma wrap64_in_range: "int64_range (wrap64 i)"
  by (auto simp: wrap64_def int64_range_def)

lemma go_div_nonneg: "0 \<le> a \<Longrightarrow> 0 < b \<Longrightarrow> go_div a b = a div b"
  by (cases "a = 0") (auto simp: go_div_def)

section \<open>Lists\<close>

lemma find_SomeD: "find P xs = Some x \<Longrightarrow> x \<in> set xs \<and> P x"
  by (induction xs) (auto split: if_splits)

lemma map_of_filter_key: "k' \<noteq> k \<Longrightarrow> map_of (filter (\<lambda>kv. fst kv \<noteq> k) l) k' = map_of l k'"
  by (induction l) auto

section \<open>Byte strings\<close>

definition isASCII :: "string \<Rightarrow> bool" where
  "isASCII s \<longleftrightarrow> list_all (\<lambda>c. of_char c < (128 :: nat)) s"

definition lower_char :: "char \<Rightarrow> char" where
  "lower_char c =
     (if 65 \<le> (of_char c :: nat) \<and> of_char c \<le> (90 :: nat) then char_of (of_char c + 32 :: nat) else c)"

definition upper_char :: "char \<Rightarrow> char" where
  "upper_char c =
     (if 97 \<le> (of_char c :: nat) \<and> of_char c \<le> (122 :: nat) then char_of (of_char c - 32 :: nat) else c)"

text \<open>
  strings.ToLower and strings.ToUpper: byte by byte on ASCII strings; on other strings the
  Unicode case tables apply, which are the parameter \<open>uni\<close>.
\<close>

definition ToLower :: "(string \<Rightarrow> string) \<Rightarrow> string \<Rightarrow> string" where
  "ToLower uni s = (if isASCII s then map lower_char s else uni s)"

definition ToUpper :: "(string \<Rightarrow> string) \<Rightarrow> string \<Rightarrow> string" where
  "ToUpper uni s = (if isASCII s then map upper_char s else uni s)"

text \<open>strings.Contains.\<close>

fun Contains :: "string \<Rightarrow> string \<Rightarrow> bool" where
  "Contains [] sub = (sub = [])"
| "Contains (c # s) sub = (prefix sub (c # s) \<or> Contains s sub)"

lemma Contains_iff: "Contains s sub \<longleftrightarrow> sublist sub s"
  by (induction s) (auto simp: sublist_Cons_right)

text \<open>strings.SplitN(s, sep, 2) and strings.Split for a one-byte separator.\<close>

definition SplitN2 :: "string \<Rightarrow> char \<Rightarrow> string list" where
  "SplitN2 s c = (case dropWhile ((\<noteq>) c) s of
      [] \<Rightarrow> [s]
    | _ # rest \<Rightarrow> [takeWhile ((\<noteq>) c) s, rest])"

fun Split :: "string \<Rightarrow> char \<Rightarrow> string list" where
  "Split [] c = [[]]"
| "Split (x # xs) c =
     (if x = c then [] # Split xs c
      else (case Split xs c of [] \<Rightarrow> [[x]] | w # ws \<Rightarrow> (x # w) # ws))"

lemma Split_not_Nil [simp]: "Split s c \<noteq> []"
  by (induction s) (auto split: list.splits)

fun Join :: "string list \<Rightarrow> char \<Rightarrow> string" where
  "Join [] c = []"
| "Join [w] c = w"
| "Join (w # v # ws) c = w @ c # Join (v # ws) c"

lemma Join_Cons: "ws \<noteq> [] \<Longrightarrow> Join (w # ws) c = w @ c # Join ws c"
  by (cases ws) auto

lemma Join_hd_Cons: "Join ((x # w) # ws) c = x # Join (w # ws) c"
  by (cases ws) auto

lemma Join_Split: "Join (Split s c) c = s"
proof (induction s)
  case Nil
  then show ?case by simp
next
  case (Cons x s)
  then show ?case
    by (auto simp: Join_Cons Join_hd_Cons split: list.splits)
qed

lemma Split_no_sep: "w \<in> set (Split s c) \<Longrightarrow> c \<notin> set w"
  by (induction s arbitrary: w) (auto split: list.splits if_splits)

lemma SplitN2_cases:
  "SplitN2 s c = [s] \<and> c \<notin> set s \<or>
   (\<exists>a b. SplitN2 s c = [a, b] \<and> s = a @ c # b \<and> c \<notin> set a)"
proof (cases "dropWhile ((\<noteq>) c) s")
  case Nil
  then have "SplitN2 s c = [s]" by (simp add: SplitN2_def del: dropWhile_eq_Nil_conv)
  with Nil show ?thesis by auto
next
  case (Cons x rest)
  then have "x = c" using hd_dropWhile [of "(\<noteq>) c" s] by simp
  moreover have "s = takeWhile ((\<noteq>) c) s @ dropWhile ((\<noteq>) c) s" by simp
  ultimately have "s = takeWhile ((\<noteq>) c) s @ c # rest" using Cons by simp
  moreover have "c \<notin> set (takeWhile ((\<noteq>) c) s)" by (auto dest: set_takeWhileD)
  ultimately show ?thesis using Cons by (auto simp: SplitN2_def)
qed

lemma SplitN2_append:
  assumes "c \<notin> set a"
  shows "SplitN2 (a @ c # b) c = [a, b]"
proof -
  from assms have "dropWhile ((\<noteq>) c) (a @ c # b) = c # b" by (induction a) auto
  moreover from assms have "takeWhile ((\<noteq>) c) (a @ c # b) = a" by (induction a) auto
  ultimately show ?thesis by (simp add: SplitN2_def)
qed

lemma SplitN2_absent: "c \<notin> set s \<Longrightarrow> SplitN2 s c = [s]"
  using SplitN2_cases [of s c] by auto

text \<open>
  strings.TrimSpace removes the white space runes at both ends. Each such rune is given by its
  UTF-8 bytes: the six ASCII ones, U+0085, U+00A0, U+1680, U+2000 to U+200A, U+2028, U+2029,
  U+202F, U+205F and U+3000.
\<close>

definition bytes :: "nat list \<Rightarrow> string" where
  "bytes = map char_of"

definition space_runes :: "string list" where
  "space_runes = map bytes
     ([[9], [10], [11], [12], [13], [32], [0xC2, 0x85], [0xC2, 0xA0], [0xE1, 0x9A, 0x80]]
      @ map (\<lambda>b. [0xE2, 0x80, b]) [0x80, 0x81, 0x82, 0x83, 0x84, 0x85, 0x86, 0x87, 0x88, 0x89, 0x8A]
      @ [[0xE2, 0x80, 0xA8], [0xE2, 0x80, 0xA9], [0xE2, 0x80, 0xAF], [0xE2, 0x81, 0x9F],
         [0xE3, 0x80, 0x80]])"

fun strip_prefix :: "string \<Rightarrow> string \<Rightarrow> string option" where
  "strip_prefix [] s = Some s"
| "strip_prefix (p # ps) [] = None"
| "strip_prefix (p # ps) (x # xs) = (if p = x then strip_prefix ps xs else None)"

lemma strip_prefix_Some: "strip_prefix p s = Some r \<longleftrightarrow> s = p @ r"
  by (induction p s rule: strip_prefix.induct) auto

fun first_match :: "string list \<Rightarrow> string \<Rightarrow> string option" where
  "first_match [] s = None"
| "first_match (p # ps) s = (case strip_prefix p s of Some r \<Rightarrow> Some r | None \<Rightarrow> first_match ps s)"

lemma first_match_shorter:
  "first_match ps s = Some r \<Longrightarrow> [] \<notin> set ps \<Longrightarrow> length r < length s"
  by (induction ps) (auto simp: strip_prefix_Some split: option.splits)

lemma space_runes_nonempty: "[] \<notin> set space_runes"
  by (simp add: space_runes_def bytes_def)

function trim_left :: "string list \<Rightarrow> string \<Rightarrow> string" where
  "trim_left ps s =
     (if [] \<in> set ps then s
      else case first_match ps s of None \<Rightarrow> s | Some r \<Rightarrow> trim_left ps r)"
  by pat_completeness auto
termination
  by (relation "measure (\<lambda>(ps, s). length s)") (auto dest: first_match_shorter)

declare trim_left.simps [simp del]

definition TrimSpace :: "string \<Rightarrow> string" where
  "TrimSpace s =
     rev (trim_left (map rev space_runes) (rev (trim_left space_runes s)))"

text \<open>strings.TrimRight(s, cutset) for a one-byte cut set.\<close>

definition TrimRight :: "string \<Rightarrow> char \<Rightarrow> string" where
  "TrimRight s c = rev (dropWhile ((=) c) (rev s))"

lemma TrimRight_no_suffix: "TrimRight s c = [] \<or> last (TrimRight s c) \<noteq> c"
  by (cases "dropWhile ((=) c) (rev s) = []")
    (use hd_dropWhile [of "(=) c" "rev s"] in \<open>auto simp: TrimRight_def last_rev\<close>)

section \<open>Decimal numbers\<close>

text \<open>fmt's verb d and strconv.Itoa; strconv.ParseInt(s, 10, 64), which is also strconv.Atoi on a
  64-bit platform (a range error and a syntax error are both \<^const>\<open>None\<close>: callers only test
  whether there is an error).\<close>

definition digit_char :: "nat \<Rightarrow> char" where
  "digit_char d = char_of (48 + d)"

definition digit_val :: "char \<Rightarrow> nat option" where
  "digit_val c =
     (if 48 \<le> (of_char c :: nat) \<and> of_char c \<le> (57 :: nat) then Some (of_char c - 48) else None)"

fun show_nat :: "nat \<Rightarrow> string" where
  "show_nat n =
     (if n < 10 then [digit_char n] else show_nat (n div 10) @ [digit_char (n mod 10)])"

declare show_nat.simps [simp del]

definition Itoa :: "int \<Rightarrow> string" where
  "Itoa i = (if i < 0 then CHR ''-'' # show_nat (nat (- i)) else show_nat (nat i))"

fun parse_digits :: "nat \<Rightarrow> string \<Rightarrow> nat option" where
  "parse_digits acc [] = Some acc"
| "parse_digits acc (c # cs) =
     (case digit_val c of None \<Rightarrow> None | Some d \<Rightarrow> parse_digits (10 * acc + d) cs)"

definition ParseInt :: "string \<Rightarrow> int64 option" where
  "ParseInt s =
     (let neg = (s \<noteq> [] \<and> hd s = CHR ''-'');
          ds = (if s \<noteq> [] \<and> (hd s = CHR ''-'' \<or> hd s = CHR ''+'') then tl s else s)
      in if ds = [] then None
         else case parse_digits 0 ds of
             None \<Rightarrow> None
           | Some n \<Rightarrow>
               (let i = (if neg then - int n else int n)
                in if int64_range i then Some i else None))"

lemma digit_val_char: "d < 10 \<Longrightarrow> digit_val (digit_char d) = Some d"
  by (simp add: digit_val_def digit_char_def)

lemma parse_digits_append:
  "parse_digits acc (xs @ ys) =
     (case parse_digits acc xs of None \<Rightarrow> None | Some n \<Rightarrow> parse_digits n ys)"
  by (induction xs arbitrary: acc) (auto split: option.splits)

lemma parse_digits_show_nat: "parse_digits 0 (show_nat n) = Some n"
proof (induction n rule: show_nat.induct)
  case (1 n)
  show ?case
  proof (cases "n < 10")
    case True
    then show ?thesis by (simp add: show_nat.simps [of n] digit_val_char)
  next
    case False
    with 1 have "parse_digits 0 (show_nat (n div 10)) = Some (n div 10)" by simp
    with False show ?thesis
      by (simp add: show_nat.simps [of n] parse_digits_append digit_val_char)
  qed
qed

lemma show_nat_digits: "c \<in> set (show_nat n) \<Longrightarrow> 48 \<le> (of_char c :: nat) \<and> of_char c \<le> (57 :: nat)"
  by (induction n rule: show_nat.induct)
    (subst (asm) (2) show_nat.simps, auto simp: digit_char_def split: if_splits)

lemma show_nat_not_Nil [simp]: "show_nat n \<noteq> []"
  by (subst show_nat.simps) simp

lemma hd_show_nat: "hd (show_nat n) \<noteq> CHR ''-''" "hd (show_nat n) \<noteq> CHR ''+''"
  using show_nat_digits [of "hd (show_nat n)" n] by auto

lemma ParseInt_Itoa: "int64_range i \<Longrightarrow> ParseInt (Itoa i) = Some i"
  by (auto simp: ParseInt_def Itoa_def Let_def parse_digits_show_nat hd_show_nat)

end
