(* ===== verification/App_Errors.thy ===== *)
theory App_Errors
  imports Go_Prelude
begin

text \<open>
  Go error values and the package pkg/errors: the API errors (api.go), the base error with its
  code, details and cause (base.go) and the configuration error (global.go), with the text an
  error prints, its Unwrap and the standard library's errors.Is.
\<close>

section \<open>Error values\<close>

datatype api_kind =
    NotFoundError | BadRequestError | InternalServerErrorError | UnauthorizedError | ConflictError

record ApiError =
  Message :: string
  Code :: string
  Details :: "string option"
  StatusCode :: int

text \<open>
  The concrete types that embed *BaseError.
\<close>

datatype base_kind = PlainBaseError | EnvConfigError | ConfigError

text \<open>
  Every error of the program: the sentinels it compares with, an error that only has a text
  (errors.New, or one made by a library), an error that prints a text and unwraps to another one
  (fmt.Errorf with the verb w, or a library error with a cause), and the two families of
  pkg/errors. A base error has a code, a message, details and a cause.
\<close>

datatype go_error =
    CtxCanceled
  | CtxDeadlineExceeded
  | ErrTxDone
  | ErrServerClosed
  | ErrNoChange
  | ErrText string
  | ErrWrap string go_error
  | ErrApi api_kind ApiError
  | ErrBase base_kind string string "(string \<times> string) list option" "go_error option"

text \<open>The text of an error: the method Error of each type.\<close>

fun Error :: "go_error \<Rightarrow> string" where
  "Error CtxCanceled = ''context canceled''"
| "Error CtxDeadlineExceeded = ''context deadline exceeded''"
| "Error ErrTxDone = ''sql: transaction has already been committed or rolled back''"
| "Error ErrServerClosed = ''http: Server closed''"
| "Error ErrNoChange = ''no change''"
| "Error (ErrText t) = t"
| "Error (ErrWrap t e) = t"
| "Error (ErrApi k a) = Message a"
| "Error (ErrBase k code msg det None) = msg"
| "Error (ErrBase k code msg det (Some c)) = msg @ '': '' @ Error c"

text \<open>
  Unwrap exists on wrapping errors and on base errors (promoted from the embedded *BaseError);
  an ApiError has no Unwrap method.
\<close>

fun Unwrap :: "go_error \<Rightarrow> go_error option" where
  "Unwrap (ErrWrap t e) = Some e"
| "Unwrap (ErrBase k code msg det cause) = cause"
| "Unwrap e = None"

text \<open>errors.Is for a sentinel target: some error of the Unwrap chain is the target.\<close>

fun errors_Is :: "go_error \<Rightarrow> go_error \<Rightarrow> bool" where
  "errors_Is (ErrWrap t e) tgt = (ErrWrap t e = tgt \<or> errors_Is e tgt)"
| "errors_Is (ErrBase k code msg det (Some c)) tgt =
     (ErrBase k code msg det (Some c) = tgt \<or> errors_Is c tgt)"
| "errors_Is e tgt = (e = tgt)"

text \<open>fmt.Errorf with a prefix and the verb w at the end.\<close>

definition Errorf_w :: "string \<Rightarrow> go_error \<Rightarrow> go_error" where
  "Errorf_w pre e = ErrWrap (pre @ Error e) e"

section \<open>Constructors\<close>

definition unwrapErrorDetails :: "go_error option \<Rightarrow> string option" where
  "unwrapErrorDetails err = (case err of None \<Rightarrow> None | Some e \<Rightarrow> Some (Error e))"

definition NewNotFoundError :: "string \<Rightarrow> go_error option \<Rightarrow> go_error" where
  "NewNotFoundError message cause = ErrApi NotFoundError
     \<lparr>Message = message, Code = ''NOT_FOUND_ERROR'', Details = unwrapErrorDetails cause,
      StatusCode = 404\<rparr>"

definition NewBadRequestError :: "string \<Rightarrow> go_error option \<Rightarrow> go_error" where
  "NewBadRequestError message cause = ErrApi BadRequestError
     \<lparr>Message = message, Code = ''BAD_REQUEST_ERROR'', Details = unwrapErrorDetails cause,
      StatusCode = 400\<rparr>"

definition NewInternalServerError :: "string \<Rightarrow> go_error option \<Rightarrow> go_error" where
  "NewInternalServerError message cause = ErrApi InternalServerErrorError
     \<lparr>Message = message, Code = ''INTERNAL_SERVER_ERROR'', Details = unwrapErrorDetails cause,
      StatusCode = 500\<rparr>"

definition NewUnauthorizedError :: "string \<Rightarrow> go_error option \<Rightarrow> go_error" where
  "NewUnauthorizedError message cause = ErrApi UnauthorizedError
     \<lparr>Message = message, Code = ''UNAUTHORIZED_ERROR'', Details = unwrapErrorDetails cause,
      StatusCode = 401\<rparr>"

definition NewConflictError :: "string \<Rightarrow> go_error option \<Rightarrow> go_error" where
  "NewConflictError message cause = ErrApi ConflictError
     \<lparr>Message = message, Code = ''CONFLICT_ERROR'', Details = unwrapErrorDetails cause,
      StatusCode = 409\<rparr>"

definition NewConfigError :: "string \<Rightarrow> go_error option \<Rightarrow> go_error" where
  "NewConfigError message cause = ErrBase ConfigError ''CONFIG_ERROR'' message None cause"

definition NewInitializationError :: "string \<Rightarrow> go_error option \<Rightarrow> go_error" where
  "NewInitializationError message cause =
     ErrBase EnvConfigError ''ENV_CONFIG_INITIALIZATION_ERROR'' message None cause"

text \<open>The methods CodeString, WithMetadata and Metadata of a base error.\<close>

fun CodeString :: "go_error \<Rightarrow> string option" where
  "CodeString (ErrBase k code msg det cause) = Some code"
| "CodeString e = None"

fun WithMetadata :: "go_error \<Rightarrow> string \<Rightarrow> string \<Rightarrow> go_error" where
  "WithMetadata (ErrBase k code msg det cause) key val =
     ErrBase k code msg
       (Some ((key, val) # filter (\<lambda>kv. fst kv \<noteq> key) (case det of None \<Rightarrow> [] | Some d \<Rightarrow> d))) cause"
| "WithMetadata e key val = e"

fun Metadata :: "go_error \<Rightarrow> (string \<times> string) list option" where
  "Metadata (ErrBase k code msg det cause) = det"
| "Metadata e = None"

section \<open>Facts\<close>

lemma errors_Is_refl [simp]: "errors_Is e e"
  by (cases "(e, e)" rule: errors_Is.cases) auto

lemma errors_Is_Errorf_w [simp]: "errors_Is (Errorf_w p e) CtxCanceled = errors_Is e CtxCanceled"
  "errors_Is (Errorf_w p e) CtxDeadlineExceeded = errors_Is e CtxDeadlineExceeded"
  "errors_Is (Errorf_w p e) ErrTxDone = errors_Is e ErrTxDone"
  by (simp_all add: Errorf_w_def)

lemma Error_Errorf_w [simp]: "Error (Errorf_w p e) = p @ Error e"
  by (simp add: Errorf_w_def)

lemma Error_api [simp]:
  "Error (NewNotFoundError m c) = m" "Error (NewBadRequestError m c) = m"
  "Error (NewInternalServerError m c) = m" "Error (NewUnauthorizedError m c) = m"
  "Error (NewConflictError m c) = m"
  by (simp_all add: NewNotFoundError_def NewBadRequestError_def NewInternalServerError_def
      NewUnauthorizedError_def NewConflictError_def)

text \<open>An API error hides its cause from errors.Is: it has no Unwrap method.\<close>

lemma errors_Is_internal [simp]:
  "errors_Is (NewInternalServerError m c) CtxCanceled = False"
  "errors_Is (NewInternalServerError m c) CtxDeadlineExceeded = False"
  by (simp_all add: NewInternalServerError_def)

lemma Error_WithMetadata [simp]: "Error (WithMetadata e k v) = Error e"
proof (cases e)
  case (ErrBase k c m d cause)
  then show ?thesis by (cases cause) simp_all
qed simp_all

lemma Metadata_WithMetadata:
  assumes "e = ErrBase bk c m d cause"
  shows "map_of (the (Metadata (WithMetadata e k v))) k = Some v"
    and "k' \<noteq> k \<Longrightarrow> map_of (the (Metadata (WithMetadata e k v))) k' =
           map_of (case d of None \<Rightarrow> [] | Some l \<Rightarrow> l) k'"
  using assms by (auto simp: map_of_filter_key split: option.splits)

end
