(* ===== verification/Env_Config.thy ===== *)
theory Env_Config
  imports Complex_Main App_Errors
begin

text \<open>
  The package internal/config (env.go): the configuration records, loading them from the process
  environment, the package-level singleton behind Init and MustGet, and the environment names.

  Parameters: \<open>load\<close> is godotenv.Load, which adds the variables of a file to the environment;
  \<open>parseFloat\<close> is strconv.ParseFloat; \<open>uni\<close> the Unicode lower-case tables. The value of an unset
  variable is the empty string, as os.Getenv returns it.
\<close>

section \<open>Data\<close>

datatype float64 = Finite rat | PosInf | NegInf | NaN

record DatabaseConfig =
  db_Host :: string
  db_Port :: int
  db_User :: string
  db_Password :: string
  db_Name :: string
  db_SSLMode :: string

record ServerConfig =
  srv_Port :: int
  srv_Host :: string

record RedisConfig =
  ConnectionString :: string
  rc_PoolSize :: int
  rc_ConnectTimeout :: duration
  rc_ReadTimeout :: duration
  rc_WriteTimeout :: duration

record OtelConfig =
  Endpoint :: string
  TLSInsecure :: bool
  DeploymentEnv :: string
  TraceSamplingRate :: float64
  ServiceName :: string
  ServiceVersion :: string

record GCSConfig =
  SAPath :: string

record S3Config =
  s3_Bucket :: string
  s3_Region :: string
  s3_AccessKeyID :: string
  s3_SecretAccessKey :: string
  s3_EndpointURL :: string

record StorageConfig =
  st_Provider :: string
  st_Bucket :: string
  st_GCS :: GCSConfig
  st_S3 :: S3Config

record EnvConfig =
  Environment_name :: string
  Server :: ServerConfig
  DB :: DatabaseConfig
  Redis :: RedisConfig
  Otel :: OtelConfig
  Storage :: StorageConfig
  CORSAllowedOrigins :: "string list"
  LogLevel :: string
  EncryptionKey :: string
  AutoMigrate :: bool
  MaxAssetSizeBytes :: int64

type_synonym environ = "string \<rightharpoonup> string"

section \<open>Reading the environment\<close>

definition Getenv :: "environ \<Rightarrow> string \<Rightarrow> string" where
  "Getenv env key = (case env key of None \<Rightarrow> [] | Some v \<Rightarrow> v)"

definition envOr :: "environ \<Rightarrow> string \<Rightarrow> string \<Rightarrow> string" where
  "envOr env key def = (let v = Getenv env key in if v \<noteq> [] then v else def)"

definition parseTLSInsecure :: "(string \<Rightarrow> string) \<Rightarrow> string \<Rightarrow> bool" where
  "parseTLSInsecure uni raw = (ToLower uni (TrimSpace raw) \<noteq> ''false'')"

definition AtoiOr :: "string \<Rightarrow> int \<Rightarrow> int" where
  "AtoiOr s def = (case ParseInt s of None \<Rightarrow> def | Some n \<Rightarrow> n)"

definition GetEnvConfig ::
  "(string \<Rightarrow> environ \<Rightarrow> environ) \<Rightarrow> (string \<Rightarrow> float64 option) \<Rightarrow> (string \<Rightarrow> string) \<Rightarrow>
   string \<Rightarrow> environ \<Rightarrow> go_error + EnvConfig" where
  "GetEnvConfig load parseFloat uni envFile penv =
    (let e = load envFile penv;
         host = envOr e ''HOST'' ''0.0.0.0'';
         port = AtoiOr (Getenv e ''PORT'') 5010;
         dbPort = AtoiOr (Getenv e ''DB_PORT'') 5432;
         env = Getenv e ''ENV''
     in if env = [] then Inl (NewInitializationError ''ENV is not set'' None) else
     let dbUser = Getenv e ''DB_USER''
     in if dbUser = [] then Inl (NewInitializationError ''DB_USER is not set'' None) else
     let dbPassword = Getenv e ''DB_PASSWORD''
     in if dbPassword = [] then Inl (NewInitializationError ''DB_PASSWORD is not set'' None) else
     let dbName = Getenv e ''DB_NAME''
     in if dbName = [] then Inl (NewInitializationError ''DB_NAME is not set'' None) else
     let redisConnStr = Getenv e ''REDIS_CONNECTION_STRING''
     in if redisConnStr = [] then
          Inl (NewInitializationError ''REDIS_CONNECTION_STRING is not set'' None) else
     let encryptionKey = Getenv e ''ENCRYPTION_KEY''
     in if encryptionKey = [] then Inl (NewInitializationError ''ENCRYPTION_KEY is not set'' None)
     else if length encryptionKey \<noteq> 32 then
       Inl (NewInitializationError
         (''ENCRYPTION_KEY must be exactly 32 bytes for AES-256, got '' @
            Itoa (int (length encryptionKey))) None) else
     let traceSamplingRate =
           (let raw = Getenv e ''TRACE_SAMPLING_RATE'' in
            if raw \<noteq> [] then
              (case parseFloat raw of Some parsed \<Rightarrow> parsed | None \<Rightarrow> Finite (1 / 10))
            else Finite (1 / 10));
         maxAssetSize =
           (let raw = Getenv e ''MAX_ASSET_SIZE_BYTES'' in
            if raw \<noteq> [] then
              (case ParseInt raw of
                 Some n \<Rightarrow> if n > 0 then n else 500 * 1024 * 1024
               | None \<Rightarrow> 500 * 1024 * 1024)
            else 500 * 1024 * 1024);
         corsOrigins =
           (let raw = Getenv e ''CORS_ALLOWED_ORIGINS'' in
            if raw \<noteq> [] then Split raw CHR '','' else [''http://localhost:5173''])
     in Inr
      \<lparr>Environment_name = env,
       Server = \<lparr>srv_Port = port, srv_Host = host\<rparr>,
       DB = \<lparr>db_Host = envOr e ''DB_HOST'' ''localhost'', db_Port = dbPort, db_User = dbUser,
             db_Password = dbPassword, db_Name = dbName, db_SSLMode = ''disable''\<rparr>,
       Redis = \<lparr>ConnectionString = redisConnStr, rc_PoolSize = 0, rc_ConnectTimeout = 0,
                rc_ReadTimeout = 0, rc_WriteTimeout = 0\<rparr>,
       Otel = \<lparr>Endpoint = envOr e ''OTEL_EXPORTER_OTLP_ENDPOINT'' ''otel-collector:4317'',
               TLSInsecure = parseTLSInsecure uni (Getenv e ''OTEL_TLS_INSECURE''),
               DeploymentEnv = envOr e ''DEPLOYMENT_ENV'' env,
               TraceSamplingRate = traceSamplingRate,
               ServiceName = envOr e ''SERVICE_NAME'' ''mpiper-api'',
               ServiceVersion = envOr e ''SERVICE_VERSION'' ''dev''\<rparr>,
       Storage = \<lparr>st_Provider = envOr e ''BUCKET_PROVIDER'' ''gcs'',
                  st_Bucket = envOr e ''BUCKET_NAME'' ''mpiper'',
                  st_GCS = \<lparr>SAPath = Getenv e ''GCS_SA_PATH''\<rparr>,
                  st_S3 = \<lparr>s3_Bucket = envOr e ''S3_BUCKET_NAME'' (envOr e ''BUCKET_NAME'' ''mpiper''),
                           s3_Region = Getenv e ''S3_REGION'',
                           s3_AccessKeyID = Getenv e ''S3_ACCESS_KEY_ID'',
                           s3_SecretAccessKey = Getenv e ''S3_SECRET_ACCESS_KEY'',
                           s3_EndpointURL = Getenv e ''S3_ENDPOINT_URL''\<rparr>\<rparr>,
       CORSAllowedOrigins = corsOrigins,
       LogLevel = envOr e ''LOG_LEVEL'' ''INFO'',
       EncryptionKey = encryptionKey,
       AutoMigrate = (ToLower uni (Getenv e ''AUTO_MIGRATE'') = ''true''),
       MaxAssetSizeBytes = maxAssetSize\<rparr>)"

section \<open>The singleton\<close>

record config_state =
  instance_cfg :: "EnvConfig option"
  once_done :: bool

definition config_start :: config_state where
  "config_start = \<lparr>instance_cfg = None, once_done = False\<rparr>"

definition Init :: "EnvConfig \<Rightarrow> config_state \<Rightarrow> config_state" where
  "Init cfg c = (if once_done c then c else \<lparr>instance_cfg = Some cfg, once_done = True\<rparr>)"

text \<open>The left side of the result is the value MustGet panics with.\<close>

definition MustGet :: "config_state \<Rightarrow> string + EnvConfig" where
  "MustGet c = (case instance_cfg c of
      None \<Rightarrow> Inl (''config: MustGet called before Init '' @ bytes [0xE2, 0x80, 0x94]
                     @ '' call config.Init(cfg) at startup'')
    | Some cfg \<Rightarrow> Inr cfg)"

section \<open>Environment names\<close>

datatype Environment = Development | Staging | Production | OtherEnvironment string

definition ToEnvironment :: "string \<Rightarrow> Environment" where
  "ToEnvironment env =
    (if env = ''production'' then Production
     else if env = ''staging'' then Staging
     else if env = ''development'' then Development
     else Development)"

definition InitializeConfig ::
  "(string \<Rightarrow> environ \<Rightarrow> environ) \<Rightarrow> (string \<Rightarrow> float64 option) \<Rightarrow> (string \<Rightarrow> string) \<Rightarrow>
   Environment \<Rightarrow> environ \<Rightarrow> go_error + EnvConfig" where
  "InitializeConfig load parseFloat uni env penv = (case env of
      Production \<Rightarrow> GetEnvConfig load parseFloat uni ''.env'' penv
    | Staging \<Rightarrow> GetEnvConfig load parseFloat uni ''.env.staging'' penv
    | Development \<Rightarrow> GetEnvConfig load parseFloat uni ''.env.local'' penv
    | OtherEnvironment _ \<Rightarrow> GetEnvConfig load parseFloat uni ''.env'' penv)"

section \<open>What loading guarantees\<close>

definition required_vars :: "string list" where
  "required_vars = [''ENV'', ''DB_USER'', ''DB_PASSWORD'', ''DB_NAME'', ''REDIS_CONNECTION_STRING'',
     ''ENCRYPTION_KEY'']"

text \<open>
  The contract of loading: the error, if any, that the environment deserves.
\<close>

definition config_error :: "environ \<Rightarrow> go_error option" where
  "config_error e = (case find (\<lambda>v. Getenv e v = []) required_vars of
      Some v \<Rightarrow> Some (NewInitializationError (v @ '' is not set'') None)
    | None \<Rightarrow>
        (if length (Getenv e ''ENCRYPTION_KEY'') = 32 then None
         else Some (NewInitializationError
           (''ENCRYPTION_KEY must be exactly 32 bytes for AES-256, got '' @
             Itoa (int (length (Getenv e ''ENCRYPTION_KEY'')))) None)))"

lemma GetEnvConfig_Inl:
  "GetEnvConfig load pf uni f penv = Inl err \<longleftrightarrow> config_error (load f penv) = Some err"
  by (auto simp: GetEnvConfig_def Let_def required_vars_def config_error_def)

lemma GetEnvConfig_loads:
  "config_error (load f penv) = None \<Longrightarrow> \<exists>cfg. GetEnvConfig load pf uni f penv = Inr cfg"
  using GetEnvConfig_Inl [of load pf uni f penv] by (cases "GetEnvConfig load pf uni f penv") auto

lemma config_error_None:
  "config_error e = None \<Longrightarrow> length (Getenv e ''ENCRYPTION_KEY'') = 32"
  "config_error e = None \<Longrightarrow> v \<in> set required_vars \<Longrightarrow> Getenv e v \<noteq> []"
  by (auto simp: config_error_def find_None_iff split: option.splits if_splits)

lemma GetEnvConfig_fields:
  assumes "GetEnvConfig load pf uni f penv = Inr cfg"
  shows "Environment_name cfg = Getenv (load f penv) ''ENV''"
    and "EncryptionKey cfg = Getenv (load f penv) ''ENCRYPTION_KEY''"
    and "db_User (DB cfg) = Getenv (load f penv) ''DB_USER''"
    and "db_Password (DB cfg) = Getenv (load f penv) ''DB_PASSWORD''"
    and "db_Name (DB cfg) = Getenv (load f penv) ''DB_NAME''"
    and "db_SSLMode (DB cfg) = ''disable''"
    and "ConnectionString (Redis cfg) = Getenv (load f penv) ''REDIS_CONNECTION_STRING''"
    and "CORSAllowedOrigins cfg = (let raw = Getenv (load f penv) ''CORS_ALLOWED_ORIGINS'' in
           if raw \<noteq> [] then Split raw CHR '','' else [''http://localhost:5173''])"
    and "MaxAssetSizeBytes cfg = (case ParseInt (Getenv (load f penv) ''MAX_ASSET_SIZE_BYTES'') of
             Some n \<Rightarrow> if n > 0 then n else 500 * 1024 * 1024 | None \<Rightarrow> 500 * 1024 * 1024)"
proof -
  have "config_error (load f penv) = None"
    using assms GetEnvConfig_Inl [of load pf uni f penv]
    by (cases "config_error (load f penv)") auto
  then have set: "Getenv (load f penv) ''ENV'' \<noteq> []" "Getenv (load f penv) ''DB_USER'' \<noteq> []"
    "Getenv (load f penv) ''DB_PASSWORD'' \<noteq> []" "Getenv (load f penv) ''DB_NAME'' \<noteq> []"
    "Getenv (load f penv) ''REDIS_CONNECTION_STRING'' \<noteq> []"
    "Getenv (load f penv) ''ENCRYPTION_KEY'' \<noteq> []"
    "length (Getenv (load f penv) ''ENCRYPTION_KEY'') = 32"
    by (auto simp: required_vars_def dest: config_error_None)
  have cfg: "cfg = projr (GetEnvConfig load pf uni f penv)" by (simp add: assms)
  show "Environment_name cfg = Getenv (load f penv) ''ENV''"
    and "EncryptionKey cfg = Getenv (load f penv) ''ENCRYPTION_KEY''"
    and "db_User (DB cfg) = Getenv (load f penv) ''DB_USER''"
    and "db_Password (DB cfg) = Getenv (load f penv) ''DB_PASSWORD''"
    and "db_Name (DB cfg) = Getenv (load f penv) ''DB_NAME''"
    and "db_SSLMode (DB cfg) = ''disable''"
    and "ConnectionString (Redis cfg) = Getenv (load f penv) ''REDIS_CONNECTION_STRING''"
    and "CORSAllowedOrigins cfg = (let raw = Getenv (load f penv) ''CORS_ALLOWED_ORIGINS'' in
           if raw \<noteq> [] then Split raw CHR '','' else [''http://localhost:5173''])"
    and "MaxAssetSizeBytes cfg = (case ParseInt (Getenv (load f penv) ''MAX_ASSET_SIZE_BYTES'') of
             Some n \<Rightarrow> if n > 0 then n else 500 * 1024 * 1024 | None \<Rightarrow> 500 * 1024 * 1024)"
    by (simp_all add: cfg GetEnvConfig_def Let_def set ParseInt_def [of "[]"])
qed

lemma ParseInt_in_range: "ParseInt s = Some n \<Longrightarrow> int64_range n"
  by (auto simp: ParseInt_def Let_def split: if_splits option.splits)

text \<open>C16. GetEnvConfig fails exactly when a required variable is unset, or when the encryption key
  is not 32 bytes long, and its error names the first unset variable in the order of the code;
  otherwise it returns a configuration.\<close>

theorem GetEnvConfig_outcome:
  "(case config_error (load f penv) of
      Some err \<Rightarrow> GetEnvConfig load pf uni f penv = Inl err
    | None \<Rightarrow> \<exists>cfg. GetEnvConfig load pf uni f penv = Inr cfg)"
  using GetEnvConfig_loads [of load f penv pf uni]
  by (cases "config_error (load f penv)") (auto simp: GetEnvConfig_Inl)

text \<open>C17. A configuration that loads is usable: every required field is non-empty, the encryption
  key has the 32 bytes AES-256 needs, the size limit is a positive int64 and there is at least one
  allowed origin.\<close>

theorem GetEnvConfig_valid:
  assumes "GetEnvConfig load pf uni f penv = Inr cfg"
  shows "length (EncryptionKey cfg) = 32 \<and> Environment_name cfg \<noteq> [] \<and> db_User (DB cfg) \<noteq> [] \<and>
    db_Password (DB cfg) \<noteq> [] \<and> db_Name (DB cfg) \<noteq> [] \<and> ConnectionString (Redis cfg) \<noteq> [] \<and>
    0 < MaxAssetSizeBytes cfg \<and> int64_range (MaxAssetSizeBytes cfg) \<and> CORSAllowedOrigins cfg \<noteq> []"
proof -
  have ok: "config_error (load f penv) = None"
    using assms GetEnvConfig_Inl [of load pf uni f penv]
    by (cases "config_error (load f penv)") auto
  have "0 < MaxAssetSizeBytes cfg \<and> int64_range (MaxAssetSizeBytes cfg)"
    by (auto simp: GetEnvConfig_fields [OF assms] int64_range_def split: option.splits
        dest: ParseInt_in_range [unfolded int64_range_def])
  moreover have "CORSAllowedOrigins cfg \<noteq> []"
    by (simp add: GetEnvConfig_fields [OF assms] Let_def)
  ultimately show ?thesis
    using config_error_None [OF ok]
    by (simp add: GetEnvConfig_fields [OF assms] required_vars_def)
qed

definition sample_env :: environ where
  "sample_env = [''ENV'' \<mapsto> ''production'', ''DB_USER'' \<mapsto> ''mpiper'', ''DB_PASSWORD'' \<mapsto> ''secret'',
     ''DB_NAME'' \<mapsto> ''mpiper'', ''REDIS_CONNECTION_STRING'' \<mapsto> ''redis://localhost:6379/0'',
     ''ENCRYPTION_KEY'' \<mapsto> ''0123456789abcdef0123456789abcdef'', ''MAX_ASSET_SIZE_BYTES'' \<mapsto> ''-5'']"

lemma sample_env_loads:
  "\<exists>cfg. GetEnvConfig (\<lambda>f e. e) (\<lambda>s. None) id ''.env'' sample_env = Inr cfg"
  by (rule GetEnvConfig_loads)
    (simp add: required_vars_def sample_env_def Getenv_def config_error_def)

theorem GetEnvConfig_valid_witness:
  "\<exists>cfg. GetEnvConfig (\<lambda>f e. e) (\<lambda>s. None) id ''.env'' sample_env = Inr cfg \<and>
     length (EncryptionKey cfg) = 32 \<and> 0 < MaxAssetSizeBytes cfg"
  using sample_env_loads GetEnvConfig_valid by blast

end
