(* ===== verification/App_Metrics.thy ===== *)
theory App_Metrics
  imports Env_Config
begin

text \<open>
  The package internal/metrics: the struct of OpenTelemetry instruments and the functions that
  create them (metrics.go), and the tracer initialisation with its sampler, instance id and
  endpoint helpers (otel.go).

  The OpenTelemetry SDK is a parameter: \<open>meter\<close> creates an instrument or fails, \<open>exporter\<close> builds
  an OTLP exporter from a list of options, \<open>resource\<close> detects resource attributes. The struct's
  instruments are named by the Go field names; the struct maps a field to the instrument it holds
  (nothing before initialisation).
\<close>

section \<open>Instruments\<close>

datatype metric_field =
    HTTPRequestDuration | HTTPRequestCount | HTTPRequestSize
  | HTTPResponseSize | HTTPActiveRequests | AssetUploadTotal
  | AssetUploadDuration | AssetProcessingTotal | AssetProcessingSuccess
  | AssetProcessingFailed | AssetProcessingDuration | AssetSizeBytes
  | StorageOperationDuration | StorageOperationTotal | StorageOperationErrors
  | DBQueryDuration | DBQueryTotal | DBQueryErrors
  | DBConnectionsActive | DBConnectionsIdle | DBTransactionTotal
  | DBTransactionErrors | QueueMessagePublished | QueueMessageConsumed
  | QueueMessageFailed | QueueDepth | QueueProcessingLag
  | SystemMemoryUsage | SystemGoroutineCount | SystemGCPauseDuration

datatype instrument_kind =
    Float64Histogram | Int64Counter | Int64Histogram | Int64UpDownCounter | Int64ObservableGauge

datatype observer = ObserveMemAlloc | ObserveNumGoroutine

record instrument =
  ikind :: instrument_kind
  iname :: string
  idesc :: string
  iunit :: string
  icallback :: "observer option"

type_synonym Metrics = "metric_field \<rightharpoonup> instrument"

type_synonym meter =
  "instrument_kind \<Rightarrow> string \<Rightarrow> string \<Rightarrow> string \<Rightarrow> observer option \<Rightarrow> go_error + instrument"

text \<open>
  Each block of an init function asks the meter for an instrument, ends the process with
  \<open>Failed to create ...\<close> when that fails and otherwise stores the instrument in its field.
\<close>

fun create_instruments ::
  "meter \<Rightarrow> (metric_field \<times> instrument_kind \<times> string \<times> string \<times> string \<times> observer option \<times> string) list
     \<Rightarrow> Metrics \<Rightarrow> Metrics go_run" where
  "create_instruments meter [] m = Returns m"
| "create_instruments meter ((fld, kind, name, desc, unit, cb, what) # regs) m =
     (case meter kind name desc unit cb of
        Inl err \<Rightarrow> Exits (''Failed to create '' @ what @ '': '' @ Error err)
      | Inr i \<Rightarrow> create_instruments meter regs (m(fld \<mapsto> i)))"

definition initHTTPMetrics :: "meter \<Rightarrow> Metrics \<Rightarrow> Metrics go_run" where
  "initHTTPMetrics meter m = create_instruments meter
     [(HTTPRequestDuration, Float64Histogram, ''http.server.request.duration'',
         ''Duration of HTTP requests in seconds'', ''s'', None, ''HTTP request duration''),
      (HTTPRequestCount, Int64Counter, ''http.server.request.count'',
         ''Total number of HTTP requests'', ''{request}'', None, ''HTTP request counter''),
      (HTTPRequestSize, Int64Histogram, ''http.server.request.size'',
         ''Size of HTTP request in bytes'', ''By'', None, ''HTTP request size''),
      (HTTPResponseSize, Int64Histogram, ''http.server.response.size'',
         ''Size of HTTP response in bytes'', ''By'', None, ''HTTP response size''),
      (HTTPActiveRequests, Int64UpDownCounter, ''http.server.active_requests'',
         ''Number of active HTTP requests'', ''{request}'', None, ''active requests counter'')] m"

definition initBusinessMetrics :: "meter \<Rightarrow> Metrics \<Rightarrow> Metrics go_run" where
  "initBusinessMetrics meter m = create_instruments meter
     [(AssetUploadTotal, Int64Counter, ''asset.upload.total'',
         ''Total number of asset uploads'', ''{upload}'', None, ''asset upload counter''),
      (AssetUploadDuration, Float64Histogram, ''asset.upload.duration'',
         ''Duration of asset upload operations'', ''s'', None, ''asset upload duration''),
      (AssetProcessingTotal, Int64Counter, ''asset.processing.total'',
         ''Total number of assets processed'', ''{asset}'', None, ''asset processing counter''),
      (AssetProcessingSuccess, Int64Counter, ''asset.processing.success'',
         ''Number of successfully processed assets'', ''{asset}'', None, ''asset processing success counter''),
      (AssetProcessingFailed, Int64Counter, ''asset.processing.failed'',
         ''Number of failed asset processing attempts'', ''{asset}'', None, ''asset processing failed counter''),
      (AssetProcessingDuration, Float64Histogram, ''asset.processing.duration'',
         ''Duration of asset processing'', ''s'', None, ''asset processing duration''),
      (AssetSizeBytes, Int64Histogram, ''asset.size'',
         ''Size of assets in bytes'', ''By'', None, ''asset size histogram'')] m"

definition initStorageMetrics :: "meter \<Rightarrow> Metrics \<Rightarrow> Metrics go_run" where
  "initStorageMetrics meter m = create_instruments meter
     [(StorageOperationDuration, Float64Histogram, ''storage.operation.duration'',
         ''Duration of storage operations'', ''s'', None, ''storage operation duration''),
      (StorageOperationTotal, Int64Counter, ''storage.operation.total'',
         ''Total number of storage operations'', ''{operation}'', None, ''storage operation counter''),
      (StorageOperationErrors, Int64Counter, ''storage.operation.errors'',
         ''Number of storage operation errors'', ''{error}'', None, ''storage operation errors'')] m"

definition initDatabaseMetrics :: "meter \<Rightarrow> Metrics \<Rightarrow> Metrics go_run" where
  "initDatabaseMetrics meter m = create_instruments meter
     [(DBQueryDuration, Float64Histogram, ''db.query.duration'',
         ''Duration of database queries'', ''s'', None, ''DB query duration''),
      (DBQueryTotal, Int64Counter, ''db.query.total'',
         ''Total number of database queries'', ''{query}'', None, ''DB query counter''),
      (DBQueryErrors, Int64Counter, ''db.query.errors'',
         ''Number of database query errors'', ''{error}'', None, ''DB query errors''),
      (DBConnectionsActive, Int64UpDownCounter, ''db.connections.active'',
         ''Number of active database connections'', ''{connection}'', None, ''DB active connections''),
      (DBConnectionsIdle, Int64UpDownCounter, ''db.connections.idle'',
         ''Number of idle database connections'', ''{connection}'', None, ''DB idle connections''),
      (DBTransactionTotal, Int64Counter, ''db.transaction.total'',
         ''Total number of database transactions'', ''{transaction}'', None, ''DB transaction counter''),
      (DBTransactionErrors, Int64Counter, ''db.transaction.errors'',
         ''Number of database transaction errors'', ''{error}'', None, ''DB transaction errors'')] m"

definition initQueueMetrics :: "meter \<Rightarrow> Metrics \<Rightarrow> Metrics go_run" where
  "initQueueMetrics meter m = create_instruments meter
     [(QueueMessagePublished, Int64Counter, ''queue.message.published'',
         ''Number of messages published to queue'', ''{message}'', None, ''queue published counter''),
      (QueueMessageConsumed, Int64Counter, ''queue.message.consumed'',
         ''Number of messages consumed from queue'', ''{message}'', None, ''queue consumed counter''),
      (QueueMessageFailed, Int64Counter, ''queue.message.failed'',
         ''Number of failed queue messages'', ''{message}'', None, ''queue failed counter''),
      (QueueDepth, Int64ObservableGauge, ''queue.depth'',
         ''Current number of messages in the queue'', ''{message}'', None, ''queue depth gauge''),
      (QueueProcessingLag, Float64Histogram, ''queue.processing.lag'',
         ''Queue message processing lag in seconds'', ''s'', None, ''queue processing lag'')] m"

definition initSystemMetrics :: "meter \<Rightarrow> Metrics \<Rightarrow> Metrics go_run" where
  "initSystemMetrics meter m = create_instruments meter
     [(SystemMemoryUsage, Int64ObservableGauge, ''system.memory.usage'',
         ''System memory usage in bytes'', ''By'', Some ObserveMemAlloc, ''memory usage gauge''),
      (SystemGoroutineCount, Int64ObservableGauge, ''system.goroutine.count'',
         ''Number of goroutines'', ''{goroutine}'', Some ObserveNumGoroutine, ''goroutine count gauge''),
      (SystemGCPauseDuration, Float64Histogram, ''system.gc.pause.duration'',
         ''GC pause duration in seconds'', ''s'', None, ''GC pause duration'')] m"

text \<open>The callback that RegisterQueueDepthFunc installs: observe the depth, or hand on the error.\<close>

definition queue_depth_callback ::
  "(go_error + int64) \<Rightarrow> go_error + (metric_field \<times> int64) list" where
  "queue_depth_callback n = (case n of Inl err \<Rightarrow> Inl err | Inr k \<Rightarrow> Inr [(QueueDepth, k)])"

section \<open>Exporters\<close>

text \<open>stripURLScheme removes one of three URL schemes when something follows it.\<close>

fun strip_first_scheme :: "string list \<Rightarrow> string \<Rightarrow> string" where
  "strip_first_scheme [] endpoint = endpoint"
| "strip_first_scheme (scheme # schemes) endpoint =
     (if length endpoint > length scheme \<and> take (length scheme) endpoint = scheme
      then drop (length scheme) endpoint
      else strip_first_scheme schemes endpoint)"

definition stripURLScheme :: "string \<Rightarrow> string" where
  "stripURLScheme endpoint = strip_first_scheme [''grpc://'', ''http://'', ''https://''] endpoint"

definition getInstanceID :: "(go_error + string) \<Rightarrow> int \<Rightarrow> string" where
  "getInstanceID hostname unixNow = (case hostname of
      Inr h \<Rightarrow> h
    | Inl _ \<Rightarrow> ''instance-'' @ Itoa unixNow)"

datatype sampler = AlwaysSample | ParentBased sampler | TraceIDRatioBased float64

definition getSampler :: "OtelConfig \<Rightarrow> sampler" where
  "getSampler otelCfg =
    (let env = DeploymentEnv otelCfg
     in if env = ''development'' \<or> env = ''dev'' \<or> env = [] then AlwaysSample
        else ParentBased (TraceIDRatioBased (TraceSamplingRate otelCfg)))"

datatype otlp_option =
    WithEndpoint string
  | WithRetry duration duration duration
  | WithTimeout duration
  | WithCompressor string
  | WithMaxCallRecvMsgSize int
  | WithInsecure
  | WithInsecureCredentials
  | WithClientTLS

definition transport_options :: "OtelConfig \<Rightarrow> otlp_option list" where
  "transport_options otelCfg =
    (if TLSInsecure otelCfg then [WithInsecure, WithInsecureCredentials] else [WithClientTLS])"

definition metric_options :: "OtelConfig \<Rightarrow> otlp_option list" where
  "metric_options otelCfg =
    [WithEndpoint (stripURLScheme (Endpoint otelCfg)), WithTimeout (10 * Second),
     WithCompressor ''gzip'', WithMaxCallRecvMsgSize (100 * 1024 * 1024)]
    @ transport_options otelCfg"

definition trace_options :: "OtelConfig \<Rightarrow> otlp_option list" where
  "trace_options otelCfg =
    [WithEndpoint (stripURLScheme (Endpoint otelCfg)),
     WithRetry (5 * Second) (30 * Second) (5 * Minute),
     WithTimeout (10 * Second), WithCompressor ''gzip'', WithMaxCallRecvMsgSize (100 * 1024 * 1024)]
    @ transport_options otelCfg"

record resource_attrs =
  res_service_name :: string
  res_service_version :: string
  res_deployment_env :: string
  res_instance_id :: string

text \<open>
  A resource that cannot be detected is replaced by the default one (\<^const>\<open>None\<close>) with a warning.
\<close>

definition detect_resource ::
  "(resource_attrs \<Rightarrow> go_error + resource_attrs) \<Rightarrow> OtelConfig \<Rightarrow> string \<Rightarrow> resource_attrs option" where
  "detect_resource resource otelCfg instanceID =
    (case resource \<lparr>res_service_name = ServiceName otelCfg, res_service_version = ServiceVersion otelCfg,
                    res_deployment_env = DeploymentEnv otelCfg, res_instance_id = instanceID\<rparr> of
       Inl err \<Rightarrow> None
     | Inr res \<Rightarrow> Some res)"

text \<open>
  The request-duration histogram has explicit bucket boundaries, here in milliseconds.
\<close>

record meter_provider =
  mp_resource :: "resource_attrs option"
  mp_view :: "string \<times> instrument_kind \<times> nat list"

definition InitMetrics ::
  "config_state \<Rightarrow> (otlp_option list \<Rightarrow> go_error + unit) \<Rightarrow>
   (resource_attrs \<Rightarrow> go_error + resource_attrs) \<Rightarrow> string \<Rightarrow> meter \<Rightarrow> (Metrics \<times> meter_provider) go_run" where
  "InitMetrics cst exporter resource instanceID meter =
    (case MustGet cst of
       Inl p \<Rightarrow> Panics p
     | Inr cfg \<Rightarrow>
        (let otelCfg = Otel cfg
         in case exporter (metric_options otelCfg) of
              Inl err \<Rightarrow> Exits (''Failed to create OTLP metric exporter: '' @ Error err)
            | Inr _ \<Rightarrow>
               (let mp = \<lparr>mp_resource = detect_resource resource otelCfg instanceID,
                          mp_view = (''http.server.request.duration'', Float64Histogram,
                            [50, 100, 200, 500, 1000, 2000, 5000, 10000])\<rparr>
                in run_then (initHTTPMetrics meter Map.empty) (\<lambda>m.
                   run_then (initBusinessMetrics meter m) (\<lambda>m.
                   run_then (initStorageMetrics meter m) (\<lambda>m.
                   run_then (initDatabaseMetrics meter m) (\<lambda>m.
                   run_then (initQueueMetrics meter m) (\<lambda>m.
                   run_then (initSystemMetrics meter m) (\<lambda>m. Returns (m, mp))))))))))"

record tracer_provider =
  tp_resource :: "resource_attrs option"
  tp_sampler :: sampler
  tp_max_queue :: nat
  tp_batch_timeout :: duration
  tp_max_batch :: nat
  tp_attr_value_limit :: nat
  tp_attr_count_limit :: nat
  tp_event_count_limit :: nat
  tp_link_count_limit :: nat
  tp_attr_per_event_limit :: nat
  tp_attr_per_link_limit :: nat

definition InitTracer ::
  "config_state \<Rightarrow> (otlp_option list \<Rightarrow> go_error + unit) \<Rightarrow>
   (resource_attrs \<Rightarrow> go_error + resource_attrs) \<Rightarrow> string \<Rightarrow> tracer_provider go_run" where
  "InitTracer cst exporter resource instanceID =
    (case MustGet cst of
       Inl p \<Rightarrow> Panics p
     | Inr cfg \<Rightarrow>
        (let otelCfg = Otel cfg
         in case exporter (trace_options otelCfg) of
              Inl err \<Rightarrow> Exits (''Failed to create OTLP trace exporter: '' @ Error err)
            | Inr _ \<Rightarrow> Returns
                \<lparr>tp_resource = detect_resource resource otelCfg instanceID,
                 tp_sampler = getSampler otelCfg,
                 tp_max_queue = 2048, tp_batch_timeout = 5 * Second, tp_max_batch = 512,
                 tp_attr_value_limit = 4096, tp_attr_count_limit = 128, tp_event_count_limit = 128,
                 tp_link_count_limit = 128, tp_attr_per_event_limit = 128,
                 tp_attr_per_link_limit = 128\<rparr>))"

end
