(* ===== verification/World.thy ===== *)
theory World
  imports App_Metrics
begin

text \<open>
  The state the API server works on and the calls by which it leaves the process: PostgreSQL
  through database/sql, the Redis stream, the object store, the clock, the context and the UUID
  generator, and the telemetry it emits (spans, metrics, log lines).

  Whatever answers from outside is not code of the repository. Each such peer is a reply function
  of the state, numbered by call: \<open>db_reply w n\<close> is what the database does with the \<open>n\<close>-th
  statement, and so on. A theorem about an operation therefore holds for every behaviour of the
  peers, failures included. A call that reports a failure may still have taken effect (a
  connection lost after the server committed), which the outcome types say.
\<close>

section \<open>Telemetry\<close>

datatype attr = AStr string | AInt int

type_synonym attrs = "(string \<times> attr) list"

datatype span_code = CodeOk | CodeError

datatype log_level = LDebug | LInfo | LWarn | LError

datatype metric_value = MInt int | MSeconds duration

datatype tel_event =
    SpanStart string attrs
  | SpanAttrs string attrs
  | SpanStatus string span_code string
  | SpanError string go_error
  | SpanEvent string string attrs
  | SpanEnd string
  | MetricAdd metric_field int attrs
  | MetricRecord metric_field metric_value attrs
  | LogLine log_level string attrs

section \<open>Database state\<close>

text \<open>The tables assets and jobs of internal/database/migrations, with the columns the server
  writes. An asset is keyed by its id; the jobs table is a list of rows.\<close>

type_synonym uuid = string

record asset_row =
  original_url :: string
  asset_type :: string
  mime_type :: string
  asset_status :: string
  size_bytes :: int64
  a_created_at :: int
  a_updated_at :: int

record job_row =
  job_id :: int64
  job_asset :: uuid
  job_type :: string
  job_status :: string
  job_attempts :: nat
  j_created_at :: int
  j_updated_at :: int

record database =
  assets :: "uuid \<rightharpoonup> asset_row"
  jobs :: "job_row list"

record txn =
  tx_view :: database
  tx_failed :: bool
  tx_now :: int

datatype db_outcome = DbOk | DbFail go_error bool

section \<open>Redis and object store state\<close>

record stream_entry =
  entry_id :: string
  entry_fields :: "(string \<times> string) list"

text \<open>
  XADD succeeds with the id of the entry and may trim old entries; or it fails, possibly after
  the entry was added and old ones trimmed.
\<close>

datatype xadd_outcome = XOk string nat | XFail go_error "(string \<times> nat) option"

record stored_object =
  obj_data :: string
  obj_content_type :: string
  obj_metadata :: "(string \<times> string) list"
  obj_etag :: string

type_synonym object_store = "(string \<times> string) \<rightharpoonup> stored_object"

record world =
  w_db :: database
  w_tx :: "txn option"
  job_seq :: int64
  db_reply :: "nat \<Rightarrow> db_outcome"
  db_calls :: nat
  streams :: "string \<Rightarrow> stream_entry list"
  xadd_reply :: "nat \<Rightarrow> xadd_outcome"
  xadd_calls :: nat
  objects :: object_store
  sdk_calls :: nat
  uuid_supply :: "nat \<Rightarrow> uuid"
  uuid_calls :: nat
  clock :: "nat \<Rightarrow> int"
  clock_calls :: nat
  ctx_reply :: "nat \<Rightarrow> go_error option"
  ctx_calls :: nat
  rand_reply :: "nat \<Rightarrow> nat"
  rand_calls :: nat
  sleeps :: "duration list"
  tel :: "tel_event list"

type_synonym 'a go = "(world, 'a) state"

section \<open>Telemetry and environment calls\<close>

definition emit :: "tel_event list \<Rightarrow> unit go" where
  "emit es = modify (\<lambda>w. w\<lparr>tel := tel w @ es\<rparr>)"

definition time_Now :: "int go" where
  "time_Now = State (\<lambda>w. (clock w (clock_calls w), w\<lparr>clock_calls := Suc (clock_calls w)\<rparr>))"

definition time_Since :: "int \<Rightarrow> duration go" where
  "time_Since start = do { t \<leftarrow> time_Now; go_return (t - start) }"

definition ctx_Err :: "go_error option go" where
  "ctx_Err = State (\<lambda>w. (ctx_reply w (ctx_calls w), w\<lparr>ctx_calls := Suc (ctx_calls w)\<rparr>))"

definition uuid_New :: "uuid go" where
  "uuid_New = State (\<lambda>w. (uuid_supply w (uuid_calls w), w\<lparr>uuid_calls := Suc (uuid_calls w)\<rparr>))"

text \<open>rand's Int63n panics on a bound that is not positive (\<^const>\<open>None\<close>). A sleep is recorded.\<close>

definition Int63n :: "int64 \<Rightarrow> (int64 option) go" where
  "Int63n n = (if n \<le> 0 then go_return None
     else State (\<lambda>w. (Some (int (rand_reply w (rand_calls w)) mod n),
                       w\<lparr>rand_calls := Suc (rand_calls w)\<rparr>)))"

definition time_Sleep :: "duration \<Rightarrow> unit go" where
  "time_Sleep d = modify (\<lambda>w. w\<lparr>sleeps := sleeps w @ [d]\<rparr>)"

text \<open>A span: its start event, the body, and the deferred End.\<close>

definition with_span :: "string \<Rightarrow> 'a go \<Rightarrow> 'a go" where
  "with_span name body = do { _ \<leftarrow> emit [SpanStart name []]; defer_call (emit [SpanEnd name]) body }"

section \<open>database/sql\<close>

definition db_call :: "db_outcome go" where
  "db_call = State (\<lambda>w. (db_reply w (db_calls w), w\<lparr>db_calls := Suc (db_calls w)\<rparr>))"

type_synonym 'a statement = "int \<Rightarrow> database \<Rightarrow> go_error + ('a \<times> database)"

text \<open>A statement outside a transaction: it commits by itself.\<close>

definition ExecAuto :: "'a statement \<Rightarrow> (go_error + 'a) go" where
  "ExecAuto stmt = do {
     r \<leftarrow> db_call;
     now \<leftarrow> time_Now;
     d \<leftarrow> gets w_db;
     (case (r, stmt now d) of
        (DbOk, Inl e) \<Rightarrow> go_return (Inl e)
      | (DbOk, Inr (a, d')) \<Rightarrow> do { _ \<leftarrow> modify (\<lambda>w. w\<lparr>w_db := d'\<rparr>); go_return (Inr a) }
      | (DbFail e applied, Inr (a, d')) \<Rightarrow>
          do { _ \<leftarrow> go_if applied (modify (\<lambda>w. w\<lparr>w_db := d'\<rparr>)); go_return (Inl e) }
      | (DbFail e applied, Inl e') \<Rightarrow> go_return (Inl e)) }"

definition BeginTx :: "(go_error option) go" where
  "BeginTx = do {
     r \<leftarrow> db_call;
     (case r of
        DbFail e _ \<Rightarrow> go_return (Some e)
      | DbOk \<Rightarrow> do {
          now \<leftarrow> time_Now;
          _ \<leftarrow> modify (\<lambda>w. w\<lparr>w_tx := Some \<lparr>tx_view = w_db w, tx_failed = False, tx_now = now\<rparr>\<rparr>);
          go_return None }) }"

definition aborted_tx :: go_error where
  "aborted_tx = ErrText
     ''pq: current transaction is aborted, commands ignored until end of transaction block''"

definition failed_commit :: go_error where
  "failed_commit = ErrText ''pq: Could not complete operation in a failed transaction''"

text \<open>A statement inside the open transaction works on the transaction's view; an error leaves the
  transaction aborted.\<close>

definition ExecTx :: "'a statement \<Rightarrow> (go_error + 'a) go" where
  "ExecTx stmt = do {
     tx \<leftarrow> gets w_tx;
     (case tx of
        None \<Rightarrow> go_return (Inl ErrTxDone)
      | Some t \<Rightarrow>
         (if tx_failed t then go_return (Inl aborted_tx) else do {
            r \<leftarrow> db_call;
            (case (r, stmt (tx_now t) (tx_view t)) of
               (DbOk, Inr (a, d')) \<Rightarrow>
                 do { _ \<leftarrow> modify (\<lambda>w. w\<lparr>w_tx := Some (t\<lparr>tx_view := d'\<rparr>)\<rparr>); go_return (Inr a) }
             | (DbOk, Inl e) \<Rightarrow>
                 do { _ \<leftarrow> modify (\<lambda>w. w\<lparr>w_tx := Some (t\<lparr>tx_failed := True\<rparr>)\<rparr>); go_return (Inl e) }
             | (DbFail e _, _) \<Rightarrow>
                 do { _ \<leftarrow> modify (\<lambda>w. w\<lparr>w_tx := Some (t\<lparr>tx_failed := True\<rparr>)\<rparr>); go_return (Inl e) }) })) }"

definition Commit :: "(go_error option) go" where
  "Commit = do {
     tx \<leftarrow> gets w_tx;
     (case tx of
        None \<Rightarrow> go_return (Some ErrTxDone)
      | Some t \<Rightarrow> do {
          _ \<leftarrow> modify (\<lambda>w. w\<lparr>w_tx := None\<rparr>);
          r \<leftarrow> db_call;
          (if tx_failed t then go_return (Some failed_commit) else
           (case r of
              DbOk \<Rightarrow> do { _ \<leftarrow> modify (\<lambda>w. w\<lparr>w_db := tx_view t\<rparr>); go_return None }
            | DbFail e applied \<Rightarrow> do {
                _ \<leftarrow> go_if applied (modify (\<lambda>w. w\<lparr>w_db := tx_view t\<rparr>));
                go_return (Some e) })) }) }"

definition Rollback :: "(go_error option) go" where
  "Rollback = do {
     tx \<leftarrow> gets w_tx;
     (case tx of
        None \<Rightarrow> go_return (Some ErrTxDone)
      | Some t \<Rightarrow> do {
          _ \<leftarrow> modify (\<lambda>w. w\<lparr>w_tx := None\<rparr>);
          r \<leftarrow> db_call;
          go_return (case r of DbOk \<Rightarrow> None | DbFail e _ \<Rightarrow> Some e) }) }"

section \<open>Running the calls\<close>

lemma run_emit [simp]: "run_state (emit es) w = ((), w\<lparr>tel := tel w @ es\<rparr>)"
  by (simp add: emit_def)

lemma run_time_Now [simp]:
  "run_state time_Now w = (clock w (clock_calls w), w\<lparr>clock_calls := Suc (clock_calls w)\<rparr>)"
  by (simp add: time_Now_def)

lemma run_time_Since [simp]:
  "run_state (time_Since s) w = (clock w (clock_calls w) - s, w\<lparr>clock_calls := Suc (clock_calls w)\<rparr>)"
  by (simp add: time_Since_def)

lemma run_ctx_Err [simp]:
  "run_state ctx_Err w = (ctx_reply w (ctx_calls w), w\<lparr>ctx_calls := Suc (ctx_calls w)\<rparr>)"
  by (simp add: ctx_Err_def)

lemma run_uuid_New [simp]:
  "run_state uuid_New w = (uuid_supply w (uuid_calls w), w\<lparr>uuid_calls := Suc (uuid_calls w)\<rparr>)"
  by (simp add: uuid_New_def)

lemma run_Int63n [simp]:
  "run_state (Int63n n) w = (if n \<le> 0 then (None, w)
     else (Some (int (rand_reply w (rand_calls w)) mod n), w\<lparr>rand_calls := Suc (rand_calls w)\<rparr>))"
  by (simp add: Int63n_def)

lemma run_time_Sleep [simp]: "run_state (time_Sleep d) w = ((), w\<lparr>sleeps := sleeps w @ [d]\<rparr>)"
  by (simp add: time_Sleep_def)

lemma run_db_call [simp]:
  "run_state db_call w = (db_reply w (db_calls w), w\<lparr>db_calls := Suc (db_calls w)\<rparr>)"
  by (simp add: db_call_def)

lemma run_with_span [simp]:
  "run_state (with_span n body) w =
     (case run_state body (w\<lparr>tel := tel w @ [SpanStart n []]\<rparr>) of
        (r, w') \<Rightarrow> (r, w'\<lparr>tel := tel w' @ [SpanEnd n]\<rparr>))"
  by (simp add: with_span_def)

text \<open>
  The part of the world a request can change lastingly, leaving aside telemetry and the counters
  that number the calls.
\<close>

definition durable :: "world \<Rightarrow> database \<times> (string \<Rightarrow> stream_entry list) \<times> object_store" where
  "durable w = (w_db w, streams w, objects w)"

definition peers ::
  "world \<Rightarrow> (nat \<Rightarrow> db_outcome) \<times> (nat \<Rightarrow> xadd_outcome) \<times> (nat \<Rightarrow> uuid) \<times> (nat \<Rightarrow> int)
     \<times> (nat \<Rightarrow> go_error option)" where
  "peers w = (db_reply w, xadd_reply w, uuid_supply w, clock w, ctx_reply w)"

lemma durable_update [simp]:
  "durable (w\<lparr>tel := a\<rparr>) = durable w" "durable (w\<lparr>clock_calls := n\<rparr>) = durable w"
  "durable (w\<lparr>ctx_calls := n\<rparr>) = durable w" "durable (w\<lparr>db_calls := n\<rparr>) = durable w"
  "durable (w\<lparr>uuid_calls := n\<rparr>) = durable w" "durable (w\<lparr>sdk_calls := n\<rparr>) = durable w"
  "durable (w\<lparr>xadd_calls := n\<rparr>) = durable w" "durable (w\<lparr>w_tx := t\<rparr>) = durable w"
  "durable (w\<lparr>job_seq := j\<rparr>) = durable w" "durable (w\<lparr>sleeps := sl\<rparr>) = durable w"
  "durable (w\<lparr>rand_calls := n\<rparr>) = durable w"
  by (simp_all add: durable_def)

section \<open>What the transaction calls do\<close>

text \<open>A commit that reports an error although the server applied it.\<close>

definition ambiguous_db :: "world \<Rightarrow> bool" where
  "ambiguous_db w \<longleftrightarrow> (\<exists>n e. db_reply w n = DbFail e True)"

lemma run_BeginTx:
  assumes "run_state BeginTx w = (r, w')"
  shows "durable w' = durable w \<and> peers w' = peers w \<and> sleeps w' = sleeps w \<and> job_seq w' = job_seq w"
    and "r = None \<Longrightarrow>
      \<exists>t. w_tx w' = Some t \<and> tx_view t = w_db w \<and> \<not> tx_failed t"
    and "r \<noteq> None \<Longrightarrow> w_tx w' = w_tx w"
    and "db_reply w (db_calls w) = DbOk \<Longrightarrow> r = None"
  using assms by (auto simp: BeginTx_def durable_def peers_def split: db_outcome.splits)

lemma run_Rollback:
  assumes "run_state Rollback w = (r, w')"
  shows "durable w' = durable w \<and> peers w' = peers w \<and> sleeps w' = sleeps w \<and> job_seq w' = job_seq w"
    and "w_tx w' = None"
  using assms by (auto simp: Rollback_def durable_def peers_def split: option.splits)

lemma run_Commit:
  assumes "run_state Commit w = (r, w')"
  shows "streams w' = streams w \<and> objects w' = objects w \<and> peers w' = peers w \<and>
      sleeps w' = sleeps w \<and> job_seq w' = job_seq w"
    and "w_tx w' = None"
    and "r = None \<Longrightarrow> \<exists>t. w_tx w = Some t \<and> \<not> tx_failed t \<and> w_db w' = tx_view t"
    and "r \<noteq> None \<Longrightarrow> w_db w' = w_db w \<or> ambiguous_db w"
    and "r \<noteq> None \<Longrightarrow> w_db w' = w_db w \<or> (\<exists>t. w_tx w = Some t \<and> \<not> tx_failed t \<and> w_db w' = tx_view t)"
    and "w_tx w = Some t \<Longrightarrow> \<not> tx_failed t \<Longrightarrow> db_reply w (db_calls w) = DbOk \<Longrightarrow> r = None"
  using assms
  by (auto simp: Commit_def durable_def peers_def ambiguous_db_def
      split: option.splits db_outcome.splits if_splits)

lemma ambiguous_db_peers: "peers w' = peers w \<Longrightarrow> ambiguous_db w' = ambiguous_db w"
  by (simp add: peers_def ambiguous_db_def)

text \<open>A world at rest with healthy peers, on which witnesses evaluate.\<close>

definition idle_world :: world where
  "idle_world = \<lparr>w_db = \<lparr>assets = Map.empty, jobs = []\<rparr>, w_tx = None, job_seq = 1,
     db_reply = (\<lambda>n. DbOk), db_calls = 0, streams = (\<lambda>s. []), xadd_reply = (\<lambda>n. XOk ''1-0'' 0),
     xadd_calls = 0, objects = Map.empty, sdk_calls = 0, uuid_supply = (\<lambda>n. ''u'' @ show_nat n),
     uuid_calls = 0, clock = (\<lambda>n. int n), clock_calls = 0, ctx_reply = (\<lambda>n. None), ctx_calls = 0,
     rand_reply = (\<lambda>n. n), rand_calls = 0, sleeps = [], tel = []\<rparr>"

end
