(* ===== verification/Asset_Repo.thy ===== *)
theory Asset_Repo
  imports World
begin

text \<open>
  The package internal/repository, asset_repo.go up to the transaction helper: asset types and
  statuses, the MIME types the pipeline accepts, the SQL statements on the tables assets and jobs
  and the repository methods around them. The SQL of a query is a function on the tables; the
  constraints it can violate (primary key, foreign key, unique index) are those of
  internal/database/migrations.
\<close>

section \<open>Asset types, statuses and MIME types\<close>

datatype AssetType = ImageAsset | VideoAsset | AudioAsset | DocumentAsset | OtherAsset

fun AssetType_string :: "AssetType \<Rightarrow> string" where
  "AssetType_string ImageAsset = ''image''"
| "AssetType_string VideoAsset = ''video''"
| "AssetType_string AudioAsset = ''audio''"
| "AssetType_string DocumentAsset = ''document''"
| "AssetType_string OtherAsset = ''other''"

datatype Status = StatusUploading | StatusUploaded | StatusProcessing | StatusReady | StatusFailed

fun Status_string :: "Status \<Rightarrow> string" where
  "Status_string StatusUploading = ''uploading''"
| "Status_string StatusUploaded = ''uploaded''"
| "Status_string StatusProcessing = ''processing''"
| "Status_string StatusReady = ''done''"
| "Status_string StatusFailed = ''failed''"

definition ToAssetType :: "string \<Rightarrow> AssetType" where
  "ToAssetType fileType =
    (if fileType = ''image'' then ImageAsset
     else if fileType = ''video'' then VideoAsset
     else if fileType = ''audio'' then AudioAsset
     else if fileType = ''document'' then DocumentAsset
     else OtherAsset)"

definition SupportedMIMETypes :: "(string \<times> AssetType) list" where
  "SupportedMIMETypes =
    [(''image/jpeg'', ImageAsset), (''image/png'', ImageAsset), (''image/webp'', ImageAsset),
     (''video/mp4'', VideoAsset), (''video/quicktime'', VideoAsset)]"

definition IsSupportedMIMEType :: "string \<Rightarrow> bool" where
  "IsSupportedMIMEType mimeType = (map_of SupportedMIMETypes mimeType \<noteq> None)"

definition ToAssetTypeFromMimeType :: "string \<Rightarrow> AssetType" where
  "ToAssetTypeFromMimeType mimeType =
    (if length mimeType < 5 then OtherAsset
     else if take 5 mimeType = ''image'' then ImageAsset
     else if take 5 mimeType = ''video'' then VideoAsset
     else if take 5 mimeType = ''audio'' then AudioAsset
     else if mimeType = ''application/pdf'' \<or> mimeType = ''application/msword'' \<or>
             mimeType = ''application/vnd.openxmlformats-officedocument.wordprocessingml.document''
       then DocumentAsset
     else OtherAsset)"

section \<open>SQL statements\<close>

definition duplicate_asset :: go_error where
  "duplicate_asset = ErrText ''pq: duplicate key value violates unique constraint assets_pkey''"

definition missing_asset :: go_error where
  "missing_asset = ErrText
     ''pq: insert or update on table jobs violates foreign key constraint jobs_asset_id_fkey''"

definition sql_insert_asset ::
  "uuid \<Rightarrow> string \<Rightarrow> string \<Rightarrow> string \<Rightarrow> string \<Rightarrow> int64 \<Rightarrow> unit statement" where
  "sql_insert_asset aid url typ mime status sz now d =
    (case assets d aid of
       Some _ \<Rightarrow> Inl duplicate_asset
     | None \<Rightarrow> Inr ((), d\<lparr>assets := (assets d)(aid \<mapsto>
         \<lparr>original_url = url, asset_type = typ, mime_type = mime, asset_status = status,
          size_bytes = sz, a_created_at = now, a_updated_at = now\<rparr>)\<rparr>))"

text \<open>The UPDATE of MarkAssetUploadedTx returns the number of rows it changed.\<close>

definition sql_mark_uploaded :: "string \<Rightarrow> uuid \<Rightarrow> nat statement" where
  "sql_mark_uploaded status aid now d =
    (case assets d aid of
       None \<Rightarrow> Inr (0, d)
     | Some row \<Rightarrow>
        (if asset_status row = ''uploading''
         then Inr (1, d\<lparr>assets := (assets d)(aid \<mapsto> row\<lparr>asset_status := status, a_updated_at := now\<rparr>)\<rparr>)
         else Inr (0, d)))"

text \<open>
  INSERT INTO jobs ... ON CONFLICT (asset_id, type) DO UPDATE SET updated_at = NOW() RETURNING
  job_id, where \<open>seq\<close> is the id the sequence hands out.
\<close>

definition sql_upsert_job :: "int64 \<Rightarrow> string \<Rightarrow> uuid \<Rightarrow> string \<Rightarrow> int64 statement" where
  "sql_upsert_job seq typ asset status now d =
    (case find (\<lambda>j. job_asset j = asset \<and> job_type j = typ) (jobs d) of
       Some j \<Rightarrow>
         Inr (job_id j, d\<lparr>jobs := map (\<lambda>k. if job_asset k = asset \<and> job_type k = typ
                                         then k\<lparr>j_updated_at := now\<rparr> else k) (jobs d)\<rparr>)
     | None \<Rightarrow>
        (case assets d asset of
           None \<Rightarrow> Inl missing_asset
         | Some _ \<Rightarrow> Inr (seq, d\<lparr>jobs := jobs d @
             [\<lparr>job_id = seq, job_asset = asset, job_type = typ, job_status = status,
               job_attempts = 0, j_created_at = now, j_updated_at = now\<rparr>]\<rparr>)))"

section \<open>The repository\<close>

text \<open>The interface AssetRepository as a record of its methods (GetDB hands out the database that
  the transaction calls of the theory World work on).\<close>

record AssetRepository =
  ar_CreateAsset :: "uuid \<Rightarrow> string \<Rightarrow> int64 \<Rightarrow> AssetType \<Rightarrow> string \<Rightarrow> (go_error option) go"
  ar_CreateAssetTx :: "uuid \<Rightarrow> string \<Rightarrow> int64 \<Rightarrow> AssetType \<Rightarrow> string \<Rightarrow> (go_error option) go"
  ar_MarkAssetUploadedTx :: "uuid \<Rightarrow> (go_error + bool) go"
  ar_InsertProcessAssetJobTx :: "uuid \<Rightarrow> (go_error + int64) go"

record assetRepo =
  repo_m :: "Metrics option"

definition CreateAsset ::
  "assetRepo \<Rightarrow> uuid \<Rightarrow> string \<Rightarrow> int64 \<Rightarrow> AssetType \<Rightarrow> string \<Rightarrow> (go_error option) go" where
  "CreateAsset r aid url sz fileType mimeType = do {
     start \<leftarrow> time_Now;
     res \<leftarrow> ExecAuto (sql_insert_asset aid url (AssetType_string fileType) mimeType
              (Status_string StatusUploading) sz);
     duration \<leftarrow> time_Since start;
     let attrs = [(''db.operation'', AStr ''insert''), (''db.table'', AStr ''assets'')];
     (case res of
        Inl err \<Rightarrow> do {
          let attrs = attrs @ [(''db.status'', AStr ''error'')];
          _ \<leftarrow> go_if (repo_m r \<noteq> None) (emit [MetricAdd DBQueryErrors 1 attrs]);
          _ \<leftarrow> emit [LogLine LError (''Failed to create asset: '' @ Error err) []];
          go_return (Some (NewInternalServerError ''Could not insert row'' (Some err))) }
      | Inr _ \<Rightarrow> do {
          let attrs = attrs @ [(''db.status'', AStr ''success'')];
          _ \<leftarrow> go_if (repo_m r \<noteq> None)
                (emit [MetricAdd DBQueryTotal 1 attrs, MetricRecord DBQueryDuration (MSeconds duration) attrs]);
          go_return None }) }"

definition CreateAssetTx ::
  "assetRepo \<Rightarrow> uuid \<Rightarrow> string \<Rightarrow> int64 \<Rightarrow> AssetType \<Rightarrow> string \<Rightarrow> (go_error option) go" where
  "CreateAssetTx r aid url sz fileType mimeType = do {
     start \<leftarrow> time_Now;
     res \<leftarrow> ExecTx (sql_insert_asset aid url (AssetType_string fileType) mimeType
              (Status_string StatusUploading) sz);
     duration \<leftarrow> time_Since start;
     let attrs = [(''db.operation'', AStr ''insert''), (''db.table'', AStr ''assets'')];
     (case res of
        Inl err \<Rightarrow> do {
          let attrs = attrs @ [(''db.status'', AStr ''error'')];
          _ \<leftarrow> go_if (repo_m r \<noteq> None) (emit [MetricAdd DBQueryErrors 1 attrs]);
          _ \<leftarrow> emit [LogLine LError (''Failed to create asset in transaction: '' @ Error err) []];
          go_return (Some (NewInternalServerError ''Could not insert row in transaction'' (Some err))) }
      | Inr _ \<Rightarrow> do {
          let attrs = attrs @ [(''db.status'', AStr ''success'')];
          _ \<leftarrow> go_if (repo_m r \<noteq> None)
                (emit [MetricAdd DBQueryTotal 1 attrs, MetricRecord DBQueryDuration (MSeconds duration) attrs]);
          go_return None }) }"

text \<open>sql.Result's RowsAffected may itself report an error of the driver.\<close>

definition RowsAffected :: "nat \<Rightarrow> (go_error + nat) go" where
  "RowsAffected n = do {
     r \<leftarrow> db_call;
     go_return (case r of DbOk \<Rightarrow> Inr n | DbFail e _ \<Rightarrow> Inl e) }"

definition MarkAssetUploadedTx :: "assetRepo \<Rightarrow> uuid \<Rightarrow> (go_error + bool) go" where
  "MarkAssetUploadedTx r aid = do {
     res \<leftarrow> ExecTx (sql_mark_uploaded (Status_string StatusUploaded) aid);
     (case res of
        Inl err \<Rightarrow> do {
          _ \<leftarrow> emit [LogLine LError (''Failed to mark asset as uploaded in transaction: '' @ Error err) []];
          go_return (Inl (NewInternalServerError ''Could not update row in transaction'' (Some err))) }
      | Inr n \<Rightarrow> do {
          rows \<leftarrow> RowsAffected n;
          (case rows of
             Inl err \<Rightarrow> do {
               _ \<leftarrow> emit [LogLine LError (''Failed to get rows affected: '' @ Error err) []];
               go_return (Inl (NewInternalServerError ''Could not get rows affected in transaction'' (Some err))) }
           | Inr rowsAffected \<Rightarrow>
               (if rowsAffected = 0 then go_return (Inr False) else go_return (Inr True))) }) }"

definition nextval :: "int64 go" where
  "nextval = State (\<lambda>w. (job_seq w, w\<lparr>job_seq := job_seq w + 1\<rparr>))"

definition InsertProcessAssetJobTx :: "assetRepo \<Rightarrow> uuid \<Rightarrow> (go_error + int64) go" where
  "InsertProcessAssetJobTx r assetID = do {
     seq \<leftarrow> nextval;
     res \<leftarrow> ExecTx (sql_upsert_job seq ''process_asset'' assetID (Status_string StatusProcessing));
     (case res of
        Inl err \<Rightarrow> do {
          _ \<leftarrow> emit [LogLine LError (''Failed to insert process asset job in transaction: '' @ Error err) []];
          go_return (Inl (NewInternalServerError
            ''Could not insert process asset job in transaction'' (Some err))) }
      | Inr jobID \<Rightarrow> go_return (Inr jobID)) }"

definition NewAssetRepository :: "Metrics option \<Rightarrow> AssetRepository" where
  "NewAssetRepository m =
    (let r = \<lparr>repo_m = m\<rparr>
     in \<lparr>ar_CreateAsset = CreateAsset r, ar_CreateAssetTx = CreateAssetTx r,
         ar_MarkAssetUploadedTx = MarkAssetUploadedTx r,
         ar_InsertProcessAssetJobTx = InsertProcessAssetJobTx r\<rparr>)"

section \<open>Types and MIME types\<close>

lemma ToAssetType_string [simp]: "ToAssetType (AssetType_string t) = t"
  by (cases t) (simp_all add: ToAssetType_def)

lemma inj_AssetType_string: "inj AssetType_string"
  by (rule inj_on_inverseI [where g = ToAssetType]) simp

lemma Status_string_inj: "Status_string s = Status_string t \<Longrightarrow> s = t"
  by (cases s; cases t) simp_all

text \<open>C22. The table of accepted MIME types and the classifier used when the row is written agree:
  an accepted type is classified as its table entry, hence as an image or a video; what the
  classifier would call audio, document or other is rejected.\<close>

theorem supported_mime_classified:
  "map_of SupportedMIMETypes mime = Some ty \<Longrightarrow>
     IsSupportedMIMEType mime \<and> ToAssetTypeFromMimeType mime = ty \<and> (ty = ImageAsset \<or> ty = VideoAsset)"
  by (auto simp: SupportedMIMETypes_def IsSupportedMIMEType_def ToAssetTypeFromMimeType_def
      split: if_splits)

theorem supported_mime_classified_witness:
  "IsSupportedMIMEType ''video/quicktime'' \<and> ToAssetTypeFromMimeType ''video/quicktime'' = VideoAsset"
  using supported_mime_classified [of "''video/quicktime''" VideoAsset]
  by (simp add: SupportedMIMETypes_def)

section \<open>Statements keep the table constraints\<close>

text \<open>
  What the schema enforces and the sequence provides: job ids are unique and below the sequence,
  at most one job per asset and type, every job refers to an asset.
\<close>

definition db_inv :: "int64 \<Rightarrow> database \<Rightarrow> bool" where
  "db_inv seq d \<longleftrightarrow>
     distinct (map job_id (jobs d)) \<and> (\<forall>j \<in> set (jobs d). job_id j < seq) \<and>
     distinct (map (\<lambda>j. (job_asset j, job_type j)) (jobs d)) \<and>
     (\<forall>j \<in> set (jobs d). assets d (job_asset j) \<noteq> None)"

definition awaiting :: "database \<Rightarrow> uuid \<Rightarrow> bool" where
  "awaiting d a \<longleftrightarrow> (\<exists>row. assets d a = Some row \<and> asset_status row = ''uploading'')"

definition has_job :: "database \<Rightarrow> uuid \<Rightarrow> bool" where
  "has_job d a \<longleftrightarrow> (\<exists>j \<in> set (jobs d). job_asset j = a \<and> job_type j = ''process_asset'')"

text \<open>
  The invariant of the upload protocol: an asset has a processing job exactly when it exists and
  has left the status uploading.
\<close>

definition jobs_match_status :: "database \<Rightarrow> bool" where
  "jobs_match_status d \<longleftrightarrow>
     (\<forall>a. has_job d a \<longleftrightarrow> (\<exists>row. assets d a = Some row \<and> asset_status row \<noteq> ''uploading''))"

definition marked :: "database \<Rightarrow> uuid \<Rightarrow> int \<Rightarrow> database" where
  "marked d a now = d\<lparr>assets := (assets d)(a \<mapsto>
     (the (assets d a))\<lparr>asset_status := ''uploaded'', a_updated_at := now\<rparr>)\<rparr>"

definition with_new_job :: "database \<Rightarrow> uuid \<Rightarrow> int64 \<Rightarrow> int \<Rightarrow> database" where
  "with_new_job d a seq now = d\<lparr>jobs := jobs d @
     [\<lparr>job_id = seq, job_asset = a, job_type = ''process_asset'', job_status = ''processing'',
       job_attempts = 0, j_created_at = now, j_updated_at = now\<rparr>]\<rparr>"

definition with_new_asset ::
  "database \<Rightarrow> uuid \<Rightarrow> string \<Rightarrow> AssetType \<Rightarrow> string \<Rightarrow> int64 \<Rightarrow> int \<Rightarrow> database" where
  "with_new_asset d a url ty mime sz now = d\<lparr>assets := (assets d)(a \<mapsto>
     \<lparr>original_url = url, asset_type = AssetType_string ty, mime_type = mime,
      asset_status = ''uploading'', size_bytes = sz, a_created_at = now, a_updated_at = now\<rparr>)\<rparr>"

lemma sql_insert_asset_Inr:
  "sql_insert_asset a url (AssetType_string ty) mime ''uploading'' sz now d = Inr (u, d') \<longleftrightarrow>
     assets d a = None \<and> d' = with_new_asset d a url ty mime sz now"
  by (auto simp: sql_insert_asset_def with_new_asset_def split: option.splits)

lemma sql_mark_uploaded_eq:
  "sql_mark_uploaded ''uploaded'' a now d =
     (if awaiting d a then Inr (1, marked d a now) else Inr (0, d))"
  by (auto simp: sql_mark_uploaded_def awaiting_def marked_def split: option.splits)

lemma sql_upsert_job_new:
  "\<not> has_job d a \<Longrightarrow> assets d a \<noteq> None \<Longrightarrow>
     sql_upsert_job seq ''process_asset'' a ''processing'' now d = Inr (seq, with_new_job d a seq now)"
  by (auto simp: sql_upsert_job_def has_job_def with_new_job_def find_None_iff split: option.splits
      dest!: find_SomeD)

lemma sql_upsert_job_existing:
  assumes "has_job d a"
  shows "\<exists>j \<in> set (jobs d). \<exists>d'. job_asset j = a \<and> job_type j = ''process_asset'' \<and>
     sql_upsert_job seq ''process_asset'' a st now d = Inr (job_id j, d') \<and>
     assets d' = assets d \<and> map job_id (jobs d') = map job_id (jobs d) \<and>
     map job_status (jobs d') = map job_status (jobs d)"
proof -
  from assms obtain j where
    j: "find (\<lambda>j. job_asset j = a \<and> job_type j = ''process_asset'') (jobs d) = Some j"
    by (cases "find (\<lambda>j. job_asset j = a \<and> job_type j = ''process_asset'') (jobs d)")
      (auto simp: has_job_def find_None_iff)
  then have "j \<in> set (jobs d)" "job_asset j = a" "job_type j = ''process_asset''"
    by (auto simp: find_Some_iff)
  with j show ?thesis by (fastforce simp: sql_upsert_job_def)
qed

lemma db_inv_with_new_asset:
  "db_inv seq d \<Longrightarrow> db_inv seq (with_new_asset d a url ty mime sz now)"
  by (auto simp: db_inv_def with_new_asset_def)

lemma db_inv_marked: "db_inv seq d \<Longrightarrow> db_inv seq (marked d a now)"
  by (auto simp: db_inv_def marked_def)

lemma db_inv_with_new_job:
  "db_inv seq d \<Longrightarrow> \<not> has_job d a \<Longrightarrow> assets d a \<noteq> None \<Longrightarrow>
     db_inv (seq + 1) (with_new_job d a seq now)"
  by (fastforce simp: db_inv_def with_new_job_def has_job_def)

lemma db_inv_mono: "db_inv seq d \<Longrightarrow> seq \<le> seq' \<Longrightarrow> db_inv seq' d"
  by (fastforce simp: db_inv_def)

lemma jobs_match_status_with_new_asset:
  "jobs_match_status d \<Longrightarrow> assets d a = None \<Longrightarrow>
     jobs_match_status (with_new_asset d a url ty mime sz now)"
  by (auto simp: jobs_match_status_def with_new_asset_def has_job_def)

lemma jobs_match_status_complete:
  "jobs_match_status d \<Longrightarrow> awaiting d a \<Longrightarrow>
     jobs_match_status (with_new_job (marked d a now) a seq now')"
  by (auto simp: jobs_match_status_def marked_def with_new_job_def has_job_def awaiting_def)

lemma awaiting_no_job: "jobs_match_status d \<Longrightarrow> awaiting d a \<Longrightarrow> \<not> has_job d a"
  by (auto simp: jobs_match_status_def awaiting_def)

lemma marked_frame [simp]:
  "jobs (marked d a now) = jobs d" "has_job (marked d a now) b = has_job d b"
  "assets (marked d a now) a \<noteq> None" "\<not> awaiting (marked d a now) a"
  by (simp_all add: marked_def has_job_def awaiting_def)

section \<open>The contract of the repository\<close>

text \<open>
  What the service relies on. Inside an open transaction the two Tx methods change only the
  transaction's view: marking succeeds with True exactly when the asset was awaiting its upload,
  and inserting the job adds one job with the next id when there is none. A failed method leaves
  the committed tables alone. CreateAsset writes one new row or reports an error.
\<close>

definition open_tx :: "world \<Rightarrow> txn \<Rightarrow> bool" where
  "open_tx w t \<longleftrightarrow> w_tx w = Some t \<and> \<not> tx_failed t"

definition db_healthy :: "world \<Rightarrow> bool" where
  "db_healthy w \<longleftrightarrow> (\<forall>n. db_reply w n = DbOk)"

locale asset_repository =
  fixes R :: AssetRepository
  assumes create_ok:
    "run_state (ar_CreateAsset R a url sz ty mime) w = (None, w') \<Longrightarrow>
       assets (w_db w) a = None \<and> (\<exists>now. w_db w' = with_new_asset (w_db w) a url ty mime sz now)"
    and create_err:
    "run_state (ar_CreateAsset R a url sz ty mime) w = (Some e, w') \<Longrightarrow>
       w_db w' = w_db w \<or>
       assets (w_db w) a = None \<and> (\<exists>now. w_db w' = with_new_asset (w_db w) a url ty mime sz now)"
    and create_frame:
    "run_state (ar_CreateAsset R a url sz ty mime) w = (r, w') \<Longrightarrow>
       streams w' = streams w \<and> objects w' = objects w \<and> peers w' = peers w \<and> job_seq w' = job_seq w"
    and create_succeeds:
    "run_state (ar_CreateAsset R a url sz ty mime) w = (r, w') \<Longrightarrow> db_healthy w \<Longrightarrow>
       assets (w_db w) a = None \<Longrightarrow> r = None"
    and mark_ok:
    "open_tx w t \<Longrightarrow> run_state (ar_MarkAssetUploadedTx R a) w = (Inr b, w') \<Longrightarrow>
       b = awaiting (tx_view t) a \<and>
       (\<exists>t'. open_tx w' t' \<and> tx_view t' = (if b then marked (tx_view t) a (tx_now t) else tx_view t))"
    and mark_frame:
    "run_state (ar_MarkAssetUploadedTx R a) w = (rm, w') \<Longrightarrow>
       durable w' = durable w \<and> peers w' = peers w \<and> job_seq w' = job_seq w \<and>
       (w_tx w \<noteq> None \<longrightarrow> w_tx w' \<noteq> None)"
    and mark_succeeds:
    "open_tx w t \<Longrightarrow> run_state (ar_MarkAssetUploadedTx R a) w = (rm, w') \<Longrightarrow> db_healthy w \<Longrightarrow>
       \<exists>b. rm = Inr b"
    and job_ok:
    "open_tx w t \<Longrightarrow> run_state (ar_InsertProcessAssetJobTx R a) w = (Inr j, w') \<Longrightarrow>
       \<not> has_job (tx_view t) a \<Longrightarrow>
       assets (tx_view t) a \<noteq> None \<and> j = job_seq w \<and>
       (\<exists>t' now. open_tx w' t' \<and> tx_view t' = with_new_job (tx_view t) a j now)"
    and job_frame:
    "run_state (ar_InsertProcessAssetJobTx R a) w = (rj, w') \<Longrightarrow>
       durable w' = durable w \<and> peers w' = peers w \<and> job_seq w' = job_seq w + 1 \<and>
       (w_tx w \<noteq> None \<longrightarrow> w_tx w' \<noteq> None)"
    and job_succeeds:
    "open_tx w t \<Longrightarrow> run_state (ar_InsertProcessAssetJobTx R a) w = (rj, w') \<Longrightarrow> db_healthy w \<Longrightarrow>
       assets (tx_view t) a \<noteq> None \<Longrightarrow> \<exists>j. rj = Inr j"

lemma run_nextval [simp]: "run_state nextval w = (job_seq w, w\<lparr>job_seq := job_seq w + 1\<rparr>)"
  by (simp add: nextval_def)

lemma run_CreateAsset:
  assumes "run_state (CreateAsset r a url sz ty mime) w = (res, w')"
  shows "streams w' = streams w \<and> objects w' = objects w \<and> peers w' = peers w \<and> job_seq w' = job_seq w"
    and "res = None \<Longrightarrow>
      assets (w_db w) a = None \<and> (\<exists>now. w_db w' = with_new_asset (w_db w) a url ty mime sz now)"
    and "res \<noteq> None \<Longrightarrow> w_db w' = w_db w \<or>
      assets (w_db w) a = None \<and> (\<exists>now. w_db w' = with_new_asset (w_db w) a url ty mime sz now)"
    and "db_healthy w \<Longrightarrow> assets (w_db w) a = None \<Longrightarrow> res = None"
  using assms
  by (auto simp: CreateAsset_def ExecAuto_def sql_insert_asset_def with_new_asset_def Let_def
      peers_def db_healthy_def split: db_outcome.splits option.splits sum.splits prod.splits if_splits)

lemma run_MarkAssetUploadedTx:
  assumes "run_state (MarkAssetUploadedTx r a) w = (res, w')"
  shows "durable w' = durable w \<and> peers w' = peers w \<and> job_seq w' = job_seq w \<and>
      (w_tx w \<noteq> None \<longrightarrow> w_tx w' \<noteq> None)"
    and "open_tx w t \<Longrightarrow> res = Inr b \<Longrightarrow> b = awaiting (tx_view t) a \<and>
       (\<exists>t'. open_tx w' t' \<and> tx_view t' = (if b then marked (tx_view t) a (tx_now t) else tx_view t))"
    and "open_tx w t \<Longrightarrow> db_healthy w \<Longrightarrow> \<exists>b. res = Inr b"
  using assms
  by (auto simp: MarkAssetUploadedTx_def ExecTx_def RowsAffected_def sql_mark_uploaded_eq
      peers_def durable_def db_healthy_def open_tx_def
      split: db_outcome.splits option.splits sum.splits prod.splits if_splits)

lemma run_InsertProcessAssetJobTx:
  assumes "run_state (InsertProcessAssetJobTx r a) w = (res, w')"
  shows "durable w' = durable w \<and> peers w' = peers w \<and> job_seq w' = job_seq w + 1 \<and>
      (w_tx w \<noteq> None \<longrightarrow> w_tx w' \<noteq> None)"
    and "open_tx w t \<Longrightarrow> res = Inr j \<Longrightarrow> \<not> has_job (tx_view t) a \<Longrightarrow>
       assets (tx_view t) a \<noteq> None \<and> j = job_seq w \<and>
       (\<exists>t' now. open_tx w' t' \<and> tx_view t' = with_new_job (tx_view t) a j now)"
    and "open_tx w t \<Longrightarrow> db_healthy w \<Longrightarrow> assets (tx_view t) a \<noteq> None \<Longrightarrow> \<exists>j. res = Inr j"
  using assms
  by (auto simp: InsertProcessAssetJobTx_def ExecTx_def sql_upsert_job_def with_new_job_def
      has_job_def peers_def durable_def db_healthy_def open_tx_def
      split: db_outcome.splits option.splits sum.splits prod.splits if_splits dest!: find_SomeD)

lemma NewAssetRepository_sel [simp]:
  "ar_CreateAsset (NewAssetRepository m) = CreateAsset \<lparr>repo_m = m\<rparr>"
  "ar_CreateAssetTx (NewAssetRepository m) = CreateAssetTx \<lparr>repo_m = m\<rparr>"
  "ar_MarkAssetUploadedTx (NewAssetRepository m) = MarkAssetUploadedTx \<lparr>repo_m = m\<rparr>"
  "ar_InsertProcessAssetJobTx (NewAssetRepository m) = InsertProcessAssetJobTx \<lparr>repo_m = m\<rparr>"
  by (simp_all add: NewAssetRepository_def Let_def)

interpretation repo: asset_repository "NewAssetRepository m" for m
proof (unfold_locales, unfold NewAssetRepository_sel, goal_cases)
  case 1 then show ?case using run_CreateAsset(2) by blast
next
  case 2 then show ?case using run_CreateAsset(3) by blast
next
  case 3 then show ?case using run_CreateAsset(1) by blast
next
  case 4 then show ?case using run_CreateAsset(4) by blast
next
  case 5 then show ?case using run_MarkAssetUploadedTx(2) by blast
next
  case 6 then show ?case using run_MarkAssetUploadedTx(1) by blast
next
  case 7 then show ?case using run_MarkAssetUploadedTx(3) by blast
next
  case 8 then show ?case using run_InsertProcessAssetJobTx(2) by blast
next
  case 9 then show ?case using run_InsertProcessAssetJobTx(1) by blast
next
  case 10 then show ?case using run_InsertProcessAssetJobTx(3) by blast
qed

end
