(* ===== verification/Tx_Retry.thy ===== *)
theory Tx_Retry
  imports Asset_Repo
begin

text \<open>
  The transaction helper of internal/repository/asset_repo.go: ExecTransaction with its retry
  loop, sleepWithBackoff and shouldRetry.

  Parameters: \<open>uni\<close> the Unicode lower-case tables; \<open>ovf\<close> the value a conversion of a float64 that
  is out of range to int64 gives, which the Go specification leaves to the implementation (the
  least int64 on amd64). The backoff of attempt \<open>n\<close> is 100 ms times a power of two; both are exact
  as float64 values.
\<close>

section \<open>Transient errors\<close>

definition transientMarkers :: "string list" where
  "transientMarkers =
    [''sqlstate 40001'', ''40001'', ''serialization_failure'', ''could not serialize'',
     ''sqlstate 40p01'', ''40p01'', ''deadlock detected'', ''deadlock'', ''lock wait timeout'',
     ''1213'', ''serialization error'', ''retry transaction'', ''write conflict'']"

definition shouldRetry :: "(string \<Rightarrow> string) \<Rightarrow> go_error option \<Rightarrow> bool" where
  "shouldRetry uni err = (case err of
      None \<Rightarrow> False
    | Some e \<Rightarrow>
       (if errors_Is e CtxCanceled \<or> errors_Is e CtxDeadlineExceeded then False
        else (let msg = ToLower uni (Error e) in list_ex (\<lambda>m. Contains msg m) transientMarkers)))"

section \<open>Backoff\<close>

definition backoff_of :: "int \<Rightarrow> nat \<Rightarrow> duration" where
  "backoff_of ovf attempt =
    (let base = 100 * Millisecond;
         maxCap = 5 * Second;
         f = base * 2 ^ (attempt - 1);
         backoff = (if f < 2 ^ 63 then f else ovf)
     in if backoff > maxCap then maxCap else backoff)"

text \<open>The panic is that of rand.Int63n on a bound that is not positive.\<close>

definition sleepWithBackoff :: "int \<Rightarrow> nat \<Rightarrow> (unit go_run) go" where
  "sleepWithBackoff ovf attempt = do {
     let backoff = backoff_of ovf attempt;
     r \<leftarrow> Int63n (go_div backoff 2);
     (case r of
        None \<Rightarrow> go_return (Panics ''invalid argument to Int63n'')
      | Some n \<Rightarrow> do {
          let jitter = n - go_div backoff 4;
          let sleep = backoff + jitter;
          let sleep = (if sleep < 0 then 0 else sleep);
          _ \<leftarrow> time_Sleep sleep;
          go_return (Returns ()) }) }"

section \<open>ExecTransaction\<close>

text \<open>
  One pass of the loop either ends the function or asks for another attempt with the last error.
  The body \<open>fn\<close> returns an error or nil, or panics; a panic becomes an error. The deferred
  rollback of each pass is not needed on any exit: every path has committed or rolled back and set
  rolledBack before it leaves.
\<close>

datatype tx_step = Finished "(go_error option) go_run" | Again go_error

definition retry_or :: "(string \<Rightarrow> string) \<Rightarrow> int \<Rightarrow> nat \<Rightarrow> nat \<Rightarrow> go_error \<Rightarrow> go_error \<Rightarrow> tx_step go" where
  "retry_or uni ovf maxAttempts attempt err lastErr =
    (if shouldRetry uni (Some err) \<and> attempt < maxAttempts then do {
       c \<leftarrow> ctx_Err;
       (if c = None then do {
          s \<leftarrow> sleepWithBackoff ovf attempt;
          (case s of
             Returns _ \<Rightarrow> go_return (Again lastErr)
           | Panics p \<Rightarrow> go_return (Finished (Panics p))
           | Exits m \<Rightarrow> go_return (Finished (Exits m))) }
        else go_return (Finished (Returns (Some lastErr)))) }
     else go_return (Finished (Returns (Some lastErr))))"

definition rollback_error :: "go_error option \<Rightarrow> go_error \<Rightarrow> go_error" where
  "rollback_error rbErr fnErr = (case rbErr of
      Some rb \<Rightarrow>
        (if errors_Is rb ErrTxDone then fnErr
         else ErrWrap (''tx rollback error: '' @ Error rb @ '' (original: '' @ Error fnErr @ '')'') fnErr)
    | None \<Rightarrow> fnErr)"

text \<open>What follows the call of the body: roll back on an error, commit otherwise.\<close>

definition tx_finish ::
  "(string \<Rightarrow> string) \<Rightarrow> int \<Rightarrow> nat \<Rightarrow> nat \<Rightarrow> (go_error option) go_run \<Rightarrow> tx_step go" where
  "tx_finish uni ovf maxAttempts attempt fr =
    (case fr of
       Exits m \<Rightarrow> go_return (Finished (Exits m))
     | _ \<Rightarrow> do {
         let fnErr = (case fr of
              Returns e \<Rightarrow> e
            | Panics p \<Rightarrow> Some (ErrText (''panic in transaction func: '' @ p))
            | Exits _ \<Rightarrow> None);
         (case fnErr of
            Some fe \<Rightarrow> do {
              rb \<leftarrow> Rollback;
              retry_or uni ovf maxAttempts attempt fe (rollback_error rb fe) }
          | None \<Rightarrow> do {
              ce \<leftarrow> Commit;
              (case ce of
                 Some err \<Rightarrow> do {
                   _ \<leftarrow> Rollback;
                   retry_or uni ovf maxAttempts attempt err (Errorf_w ''tx commit: '' err) }
               | None \<Rightarrow> go_return (Finished (Returns None))) }) })"

definition tx_attempt ::
  "(string \<Rightarrow> string) \<Rightarrow> int \<Rightarrow> ((go_error option) go_run) go \<Rightarrow> nat \<Rightarrow> nat \<Rightarrow> tx_step go" where
  "tx_attempt uni ovf fn maxAttempts attempt = do {
     c \<leftarrow> ctx_Err;
     (case c of
        Some err \<Rightarrow> go_return (Finished (Returns (Some err)))
      | None \<Rightarrow> do {
          b \<leftarrow> BeginTx;
          (case b of
             Some err \<Rightarrow>
               (if shouldRetry uni (Some err) \<and> attempt < maxAttempts then do {
                  s \<leftarrow> sleepWithBackoff ovf attempt;
                  (case s of
                     Returns _ \<Rightarrow> go_return (Again err)
                   | Panics p \<Rightarrow> go_return (Finished (Panics p))
                   | Exits m \<Rightarrow> go_return (Finished (Exits m))) }
                else go_return (Finished (Returns (Some (Errorf_w ''begin tx: '' err)))))
           | None \<Rightarrow> do {
               fr \<leftarrow> fn;
               tx_finish uni ovf maxAttempts attempt fr }) }) }"

text \<open>\<open>left\<close> counts the passes still allowed, so the current attempt is \<open>maxAttempts - left + 1\<close>.\<close>

fun tx_loop ::
  "(string \<Rightarrow> string) \<Rightarrow> int \<Rightarrow> ((go_error option) go_run) go \<Rightarrow> nat \<Rightarrow> nat \<Rightarrow> go_error option \<Rightarrow>
   ((go_error option) go_run) go" where
  "tx_loop uni ovf fn maxAttempts 0 lastErr =
     go_return (Returns (Some (case lastErr of
        None \<Rightarrow> ErrText ''transaction failed after retries''
      | Some e \<Rightarrow> e)))"
| "tx_loop uni ovf fn maxAttempts (Suc left) lastErr = do {
     st \<leftarrow> tx_attempt uni ovf fn maxAttempts (maxAttempts - left);
     (case st of
        Finished r \<Rightarrow> go_return r
      | Again e \<Rightarrow> tx_loop uni ovf fn maxAttempts left (Some e)) }"

definition ExecTransaction ::
  "(string \<Rightarrow> string) \<Rightarrow> int \<Rightarrow> int \<Rightarrow> ((go_error option) go_run) go \<Rightarrow> ((go_error option) go_run) go" where
  "ExecTransaction uni ovf maxAttempts fn =
    (let n = nat (if maxAttempts \<le> 0 then 1 else maxAttempts)
     in tx_loop uni ovf fn n n None)"

section \<open>Backoff stays within its bounds\<close>

lemma backoff_of_eq:
  assumes "1 \<le> attempt" "attempt \<le> 37"
  shows "backoff_of ovf attempt = min (100000000 * 2 ^ (attempt - 1)) 5000000000"
proof -
  have "(2::int) ^ (attempt - 1) \<le> 2 ^ 36" using assms by (intro power_increasing) auto
  then show ?thesis by (simp add: backoff_of_def Let_def)
qed

lemma backoff_of_div4:
  assumes "1 \<le> attempt" "attempt \<le> 37"
  shows "4 dvd backoff_of ovf attempt" "100000000 \<le> backoff_of ovf attempt"
    "backoff_of ovf attempt \<le> 5000000000"
  using assms by (auto simp: backoff_of_eq min_def)



text \<open>C20. From the 38th attempt on the float64 backoff no longer fits int64; where the conversion
  yields a value that is not positive (amd64 gives the least int64), the next retry panics inside
  rand.Int63n instead of sleeping five seconds.\<close>

theorem sleepWithBackoff_overflow_panics:
  assumes "38 \<le> attempt" and "ovf \<le> 1"
  shows "run_state (sleepWithBackoff ovf attempt) w = (Panics ''invalid argument to Int63n'', w)"
proof -
  have "(2::int) ^ 37 \<le> 2 ^ (attempt - 1)" using assms(1) by (intro power_increasing) auto
  then have b: "backoff_of ovf attempt = ovf" using assms(2) by (simp add: backoff_of_def Let_def)
  have "go_div ovf 2 \<le> 0"
    using assms(2) by (cases "ovf \<le> 0") (auto simp: go_div_def sgn_if)
  then show ?thesis by (simp add: sleepWithBackoff_def b Let_def)
qed

theorem sleepWithBackoff_overflow_panics_witness:
  "run_state (sleepWithBackoff (- (2 ^ 63)) 38) idle_world =
     (Panics ''invalid argument to Int63n'', idle_world)"
  by (rule sleepWithBackoff_overflow_panics) simp_all

section \<open>Which errors are retried\<close>

lemma shouldRetry_context:
  "shouldRetry uni (Some e) \<Longrightarrow> \<not> errors_Is e CtxCanceled \<and> \<not> errors_Is e CtxDeadlineExceeded"
  by (auto simp: shouldRetry_def)


section \<open>Atomicity of ExecTransaction\<close>

text \<open>
  What a retry may touch: the sleeps, the random numbers and the context polls.
\<close>

lemma run_sleepWithBackoff:
  assumes "run_state (sleepWithBackoff ovf attempt) w = (r, w')"
  shows "durable w' = durable w \<and> peers w' = peers w \<and> w_tx w' = w_tx w"
    and "length (sleeps w') = (if r = Returns () then Suc (length (sleeps w)) else length (sleeps w))"
    and "r \<noteq> Exits m"
  using assms
  by (auto simp: sleepWithBackoff_def durable_def peers_def Let_def split: option.splits if_splits)

lemma run_retry_or:
  assumes "run_state (retry_or uni ovf mx k err lastErr) w = (st, w')"
  shows "durable w' = durable w \<and> peers w' = peers w \<and> w_tx w' = w_tx w"
    and "length (sleeps w') = length (sleeps w) + (if \<exists>e. st = Again e then 1 else 0)"
    and "st \<noteq> Finished (Returns None)"
    and "st = Again e \<Longrightarrow> k < mx"
proof -
  let ?w = "w\<lparr>ctx_calls := Suc (ctx_calls w)\<rparr>"
  obtain s w1 where sl: "run_state (sleepWithBackoff ovf k) ?w = (s, w1)"
    by (cases "run_state (sleepWithBackoff ovf k) ?w")
  have w: "durable ?w = durable w" "peers ?w = peers w" by (simp_all add: durable_def peers_def)
  have "durable w' = durable w \<and> peers w' = peers w \<and> w_tx w' = w_tx w \<and>
      length (sleeps w') = length (sleeps w) + (if \<exists>e. st = Again e then 1 else 0)"
  proof (cases "shouldRetry uni (Some err) \<and> k < mx")
    case False
    then have "(Finished (Returns (Some lastErr)), w) = (st, w')"
      using assms by (auto simp: retry_or_def split: if_splits)
    then show ?thesis by auto
  next
    case retry: True
    show ?thesis
    proof (cases "ctx_reply w (ctx_calls w)")
      case None
      then show ?thesis
        using assms retry sl run_sleepWithBackoff [OF sl] w by (cases s) (auto simp: retry_or_def)
    next
      case (Some c)
      then have "(Finished (Returns (Some lastErr)), ?w) = (st, w')"
        using assms retry by (simp add: retry_or_def)
      then show ?thesis using w by auto
    qed
  qed
  then show "durable w' = durable w \<and> peers w' = peers w \<and> w_tx w' = w_tx w"
    and "length (sleeps w') = length (sleeps w) + (if \<exists>e. st = Again e then 1 else 0)"
    by blast+
qed (use assms in \<open>auto simp: retry_or_def split: if_splits prod.splits go_run.splits\<close>)

text \<open>
  The effect of one pass from \<open>w\<close> to \<open>w'\<close>: nothing but the tables can change, no transaction stays
  open, one sleep before another pass; the tables change only by a commit, or by a commit whose outcome was
  lost.
\<close>

definition pass_effect :: "world \<Rightarrow> tx_step \<Rightarrow> world \<Rightarrow> bool" where
  "pass_effect w st w' \<longleftrightarrow>
     peers w' = peers w \<and> streams w' = streams w \<and> objects w' = objects w \<and> w_tx w' = None \<and>
     length (sleeps w') = length (sleeps w) + (if \<exists>e. st = Again e then 1 else 0) \<and>
     (st \<noteq> Finished (Returns None) \<longrightarrow> w_db w' = w_db w \<or> ambiguous_db w)"

lemma run_tx_finish:
  assumes run: "run_state (tx_finish uni ovf mx k fr) w = (st, w')" and fr: "\<And>m. fr \<noteq> Exits m"
  shows "pass_effect w st w' \<and> (\<forall>e. st = Again e \<longrightarrow> k < mx) \<and>
    (st = Finished (Returns None) \<longrightarrow>
      fr = Returns None \<and> (\<exists>t. w_tx w = Some t \<and> \<not> tx_failed t \<and> w_db w' = tx_view t))"
proof -
  consider
    (rolled) fe rb w1 le where "run_state Rollback w = (rb, w1)" "fr \<noteq> Returns None"
      "run_state (retry_or uni ovf mx k fe le) w1 = (st, w')"
  | (commit_failed) err w1 rb w2 le where "run_state Commit w = (Some err, w1)"
      "run_state Rollback w1 = (rb, w2)" "run_state (retry_or uni ovf mx k err le) w2 = (st, w')"
  | (committed) "run_state Commit w = (None, w')" "st = Finished (Returns None)" "fr = Returns None"
    using run fr
    by (auto simp: tx_finish_def Let_def split: go_run.splits option.splits prod.splits)
  then show ?thesis
  proof cases
    case rolled
    note r = run_Rollback [OF rolled(1)] run_retry_or(1,2,3) [OF rolled(3)]
    show ?thesis
      using r run_retry_or(4) [OF rolled(3)] by (auto simp: pass_effect_def durable_def)
  next
    case commit_failed
    note r = run_Commit(1,2) [OF commit_failed(1)] run_Commit(4) [OF commit_failed(1)]
      run_Rollback [OF commit_failed(2)] run_retry_or(1,2,3) [OF commit_failed(3)]
    show ?thesis
      using r run_retry_or(4) [OF commit_failed(3)] by (auto simp: pass_effect_def durable_def)
  next
    case committed
    note r = run_Commit(1,2) [OF committed(1)] run_Commit(3) [OF committed(1)]
    show ?thesis using r committed(2,3) by (simp add: pass_effect_def)
  qed
qed

text \<open>
  The tables \<open>d'\<close> are what one run of the body, begun on the tables \<open>d\<close> and returning nil, left in
  its transaction.
\<close>

definition committed_by :: "((go_error option) go_run) go \<Rightarrow> database \<Rightarrow> database \<Rightarrow> bool" where
  "committed_by fn d d' \<longleftrightarrow>
     (\<exists>w0 w1 t0 t. w_tx w0 = Some t0 \<and> tx_view t0 = d \<and> run_state fn w0 = (Returns None, w1) \<and>
        w_tx w1 = Some t \<and> \<not> tx_failed t \<and> d' = tx_view t)"

text \<open>
  The interface of a transaction body: it works on the transaction only (the committed tables,
  the stream and the objects are left alone) and does not sleep.
\<close>

locale tx_body =
  fixes fn :: "((go_error option) go_run) go"
  assumes body_durable: "keeps durable fn"
    and body_peers: "keeps peers fn"
    and body_sleeps: "keeps sleeps fn"
    and body_returns: "run_state fn w = (r, w') \<Longrightarrow> r \<noteq> Exits m"
begin

lemmas body_run = keeps_run [OF body_durable] keeps_run [OF body_peers] keeps_run [OF body_sleeps]

lemma attempt_effect:
  assumes run: "run_state (tx_attempt uni ovf fn mx k) w = (st, w')" and tx: "w_tx w = None"
  shows "pass_effect w st w' \<and> (\<forall>e. st = Again e \<longrightarrow> k < mx) \<and>
    (st = Finished (Returns None) \<longrightarrow> committed_by fn (w_db w) (w_db w'))"
proof -
  let ?w = "w\<lparr>ctx_calls := Suc (ctx_calls w)\<rparr>"
  have cw: "durable ?w = durable w" "peers ?w = peers w" "sleeps ?w = sleeps w" "w_tx ?w = None"
    by (simp_all add: durable_def peers_def tx)
  consider
    (ctx) err where "st = Finished (Returns (Some err))" "w' = ?w"
  | (begin_failed) err where "run_state BeginTx ?w = (Some err, w')" "st \<noteq> Finished (Returns None)"
      "\<And>e. st \<noteq> Again e"
  | (begin_retry) err w0 s where "run_state BeginTx ?w = (Some err, w0)" "k < mx"
      "run_state (sleepWithBackoff ovf k) w0 = (s, w')" "st \<noteq> Finished (Returns None)"
      "(\<exists>e. st = Again e) = (s = Returns ())"
  | (body) w0 fr w1 where "run_state BeginTx ?w = (None, w0)" "run_state fn w0 = (fr, w1)"
      "run_state (tx_finish uni ovf mx k fr) w1 = (st, w')"
    using run by (auto simp: tx_attempt_def split: option.splits prod.splits if_splits go_run.splits)
  then show ?thesis
  proof cases
    case ctx
    then show ?thesis using cw by (simp add: pass_effect_def durable_def)
  next
    case begin_failed
    then show ?thesis
      using cw run_BeginTx(1) [OF begin_failed(1)] run_BeginTx(3) [OF begin_failed(1)]
      by (auto simp: pass_effect_def durable_def)
  next
    case begin_retry
    then show ?thesis
      using cw run_BeginTx(1) [OF begin_retry(1)] run_BeginTx(3) [OF begin_retry(1)]
        run_sleepWithBackoff [OF begin_retry(3)]
      by (auto simp: pass_effect_def durable_def)
  next
    case body
    have "\<And>m. fr \<noteq> Exits m" using body(2) body_returns by blast
    note fin = run_tx_finish [OF body(3) this]
    have same: "peers w1 = peers w" "durable w1 = durable w" "sleeps w1 = sleeps w"
      using cw run_BeginTx(1) [OF body(1)] body_run(1,2,3) [OF body(2)] by simp_all
    then have dur: "w_db w1 = w_db w" "streams w1 = streams w" "objects w1 = objects w"
      by (simp_all add: durable_def)
    have eff: "pass_effect w st w'"
      using fin same dur ambiguous_db_peers [OF same(1)] by (simp add: pass_effect_def)
    obtain t0 where t0: "w_tx w0 = Some t0" "tx_view t0 = w_db w"
      using run_BeginTx(2) [OF body(1)] by auto
    have "st = Finished (Returns None) \<longrightarrow> run_state fn w0 = (Returns None, w1) \<and>
        (\<exists>t. w_tx w1 = Some t \<and> \<not> tx_failed t \<and> w_db w' = tx_view t)"
      using fin body(2) by simp
    with t0 have "st = Finished (Returns None) \<longrightarrow> committed_by fn (w_db w) (w_db w')"
      unfolding committed_by_def by blast
    with eff fin show ?thesis by blast
  qed
qed

lemma loop_effect:
  assumes "run_state (tx_loop uni ovf fn mx left le) w = (r, w')" and "w_tx w = None" and "left \<le> mx"
  shows "peers w' = peers w \<and> streams w' = streams w \<and> objects w' = objects w \<and> w_tx w' = None \<and>
    length (sleeps w') \<le> length (sleeps w) + (left - 1) \<and>
    (r \<noteq> Returns None \<longrightarrow> w_db w' = w_db w \<or> ambiguous_db w) \<and>
    (r = Returns None \<longrightarrow> (\<exists>d. (d = w_db w \<or> ambiguous_db w) \<and> committed_by fn d (w_db w')))"
  using assms
proof (induction left arbitrary: le w)
  case 0
  then show ?case by auto
next
  case (Suc left)
  obtain st w1 where at: "run_state (tx_attempt uni ovf fn mx (mx - left)) w = (st, w1)"
    by (cases "run_state (tx_attempt uni ovf fn mx (mx - left)) w")
  note eff = attempt_effect [OF at Suc.prems(2)]
  show ?case
  proof (cases st)
    case (Finished q)
    then have "r = q" "w' = w1" using Suc.prems(1) at by simp_all
    then show ?thesis using eff Finished by (auto simp: pass_effect_def)
  next
    case (Again e)
    then have "run_state (tx_loop uni ovf fn mx left (Some e)) w1 = (r, w')"
      using Suc.prems(1) at by simp
    moreover have w1: "w_tx w1 = None" "peers w1 = peers w" "left \<le> mx" "0 < left"
      using eff Again Suc.prems(3) by (auto simp: pass_effect_def)
    ultimately have IH: "peers w' = peers w1 \<and> streams w' = streams w1 \<and> objects w' = objects w1 \<and>
        w_tx w' = None \<and> length (sleeps w') \<le> length (sleeps w1) + (left - 1) \<and>
        (r \<noteq> Returns None \<longrightarrow> w_db w' = w_db w1 \<or> ambiguous_db w1) \<and>
        (r = Returns None \<longrightarrow> (\<exists>d. (d = w_db w1 \<or> ambiguous_db w1) \<and> committed_by fn d (w_db w')))"
      by (intro Suc.IH) auto
    have "w_db w1 = w_db w \<or> ambiguous_db w" "streams w1 = streams w" "objects w1 = objects w"
      "length (sleeps w1) = Suc (length (sleeps w))" "ambiguous_db w1 = ambiguous_db w"
      using eff Again ambiguous_db_peers [OF w1(2)] by (auto simp: pass_effect_def)
    then show ?thesis using IH w1(2,4) by auto
  qed
qed

lemma exec_effect:
  assumes "run_state (ExecTransaction uni ovf maxAttempts fn) w = (r, w')" and "w_tx w = None"
  shows "streams w' = streams w \<and> objects w' = objects w \<and> w_tx w' = None \<and>
    length (sleeps w') \<le> length (sleeps w) + nat (maxAttempts - 1) \<and>
    (r \<noteq> Returns None \<longrightarrow> w_db w' = w_db w \<or> ambiguous_db w) \<and>
    (r = Returns None \<longrightarrow> (\<exists>d. (d = w_db w \<or> ambiguous_db w) \<and> committed_by fn d (w_db w')))"
proof -
  let ?n = "nat (if maxAttempts \<le> 0 then 1 else maxAttempts)"
  have "run_state (tx_loop uni ovf fn ?n ?n None) w = (r, w')"
    using assms(1) unfolding ExecTransaction_def Let_def .
  moreover have "?n - 1 = nat (maxAttempts - 1)" by auto
  ultimately show ?thesis using loop_effect [OF _ assms(2), of uni ovf ?n ?n None r w'] by auto
qed

end

text \<open>
  A repository method as a body: its error, or nil.
\<close>

definition repo_body :: "(go_error option) go \<Rightarrow> ((go_error option) go_run) go" where
  "repo_body m = do { e \<leftarrow> m; go_return (Returns e) }"

lemma CreateAssetTx_frame:
  "keeps durable (CreateAssetTx r a url sz ty mime)" "keeps peers (CreateAssetTx r a url sz ty mime)"
  "keeps sleeps (CreateAssetTx r a url sz ty mime)"
  by (rule keepsI, auto simp: state_of_def CreateAssetTx_def ExecTx_def durable_def peers_def Let_def
      split: option.splits db_outcome.splits sum.splits prod.splits if_splits)+

interpretation create_tx: tx_body "repo_body (CreateAssetTx r a url sz ty mime)" for r a url sz ty mime
proof
  show "run_state (repo_body (CreateAssetTx r a url sz ty mime)) w = (res, w') \<Longrightarrow> res \<noteq> Exits m"
    for w res w' m by (auto simp: repo_body_def split: prod.splits)
qed (use CreateAssetTx_frame in \<open>auto simp: repo_body_def\<close>)

text \<open>C10. ExecTransaction is all or nothing for a body that works only on its transaction: a nil
  result means some run of the body returned nil and exactly its view was committed; any other
  result (error or panic) leaves the committed tables as they were, unless the database applied a
  commit whose outcome it reported as an error. No transaction is left open, and there are at most
  maxAttempts - 1 sleeps.\<close>

theorem ExecTransaction_atomic:
  assumes "tx_body fn" and "run_state (ExecTransaction uni ovf maxAttempts fn) w = (r, w')"
    and "w_tx w = None" and "\<not> ambiguous_db w"
  shows "streams w' = streams w \<and> objects w' = objects w \<and> w_tx w' = None \<and>
    length (sleeps w') \<le> length (sleeps w) + nat (maxAttempts - 1) \<and>
    (r \<noteq> Returns None \<longrightarrow> w_db w' = w_db w) \<and>
    (r = Returns None \<longrightarrow> committed_by fn (w_db w) (w_db w'))"
  using tx_body.exec_effect [OF assms(1-3)] assms(4) by blast

definition sample_create :: "((go_error option) go_run) go" where
  "sample_create = repo_body (CreateAssetTx \<lparr>repo_m = None\<rparr> ''a'' ''u'' 1 ImageAsset ''image/png'')"

lemma sample_create_returns:
  "fst (run_state (ExecTransaction id 0 1 sample_create) idle_world) = Returns None"
  by (simp add: ExecTransaction_def tx_attempt_def BeginTx_def idle_world_def repo_body_def
      sample_create_def CreateAssetTx_def ExecTx_def sql_insert_asset_def tx_finish_def Commit_def
      Let_def)

theorem ExecTransaction_atomic_witness:
  "committed_by sample_create (w_db idle_world)
     (w_db (snd (run_state (ExecTransaction id 0 1 sample_create) idle_world)))"
  using ExecTransaction_atomic [OF create_tx.tx_body_axioms [of "\<lparr>repo_m = None\<rparr>" "''a''" "''u''" 1
        ImageAsset "''image/png''", folded sample_create_def], of id 0 1 idle_world "Returns None"
      "snd (run_state (ExecTransaction id 0 1 sample_create) idle_world)"] sample_create_returns
  by (auto simp: ambiguous_db_def idle_world_def prod_eq_iff)

end
