(* ===== verification/Go_Json.thy ===== *)
theory Go_Json
  imports App_Errors
begin

text \<open>
  The part of the standard package encoding/json that the server relies on: encoding of objects
  with string, integer, boolean, null, array and object members, as json.Marshal and
  json.Encoder.Encode do it (object keys of a Go map sorted, HTML characters and control
  characters escaped, invalid UTF-8 replaced by U+FFFD).
\<close>

section \<open>UTF-8\<close>

definition byte :: "char \<Rightarrow> nat" where
  "byte c = of_char c"

definition in_range :: "nat \<Rightarrow> nat \<Rightarrow> char \<Rightarrow> bool" where
  "in_range lo hi c \<longleftrightarrow> lo \<le> byte c \<and> byte c \<le> hi"

text \<open>
  The length of the well-formed UTF-8 sequence of two to four bytes at the head of a string, 0 when
  there is none (utf8.DecodeRuneInString then returns RuneError with width 1).
\<close>

definition utf8_two :: "char \<Rightarrow> char \<Rightarrow> bool" where
  "utf8_two a b \<longleftrightarrow> in_range 0xC2 0xDF a \<and> in_range 0x80 0xBF b"

definition utf8_three :: "char \<Rightarrow> char \<Rightarrow> char \<Rightarrow> bool" where
  "utf8_three a b c \<longleftrightarrow>
     (in_range 0xE0 0xE0 a \<and> in_range 0xA0 0xBF b \<or> in_range 0xE1 0xEC a \<and> in_range 0x80 0xBF b \<or>
      in_range 0xED 0xED a \<and> in_range 0x80 0x9F b \<or> in_range 0xEE 0xEF a \<and> in_range 0x80 0xBF b) \<and>
     in_range 0x80 0xBF c"

definition utf8_four :: "char \<Rightarrow> char \<Rightarrow> char \<Rightarrow> char \<Rightarrow> bool" where
  "utf8_four a b c d \<longleftrightarrow>
     (in_range 0xF0 0xF0 a \<and> in_range 0x90 0xBF b \<or> in_range 0xF1 0xF3 a \<and> in_range 0x80 0xBF b \<or>
      in_range 0xF4 0xF4 a \<and> in_range 0x80 0x8F b) \<and>
     in_range 0x80 0xBF c \<and> in_range 0x80 0xBF d"

definition utf8_multi :: "string \<Rightarrow> nat" where
  "utf8_multi s =
    (if 2 \<le> length s \<and> utf8_two (s ! 0) (s ! 1) then 2
     else if 3 \<le> length s \<and> utf8_three (s ! 0) (s ! 1) (s ! 2) then 3
     else if 4 \<le> length s \<and> utf8_four (s ! 0) (s ! 1) (s ! 2) (s ! 3) then 4
     else 0)"

section \<open>Encoding\<close>

definition hex_digit :: "nat \<Rightarrow> char" where
  "hex_digit n = (if n < 10 then char_of (48 + n) else char_of (87 + n))"

definition quote_char :: char where "quote_char = CHR 0x22"
definition backslash :: char where "backslash = CHR 0x5C"

text \<open>The escape of one ASCII byte, with HTML escaping on.\<close>

definition escape_byte :: "char \<Rightarrow> string" where
  "escape_byte c =
    (if c = quote_char then [backslash, quote_char]
     else if c = backslash then [backslash, backslash]
     else if byte c = 8 then [backslash, CHR ''b'']
     else if byte c = 12 then [backslash, CHR ''f'']
     else if byte c = 10 then [backslash, CHR ''n'']
     else if byte c = 13 then [backslash, CHR ''r'']
     else if byte c = 9 then [backslash, CHR ''t'']
     else if byte c < 32 \<or> c = CHR ''<'' \<or> c = CHR ''>'' \<or> c = CHR ''&'' then
       [backslash, CHR ''u'', CHR ''0'', CHR ''0'', hex_digit (byte c div 16), hex_digit (byte c mod 16)]
     else [c])"

function encode_chars :: "string \<Rightarrow> string" where
  "encode_chars [] = []"
| "encode_chars (c # s) =
    (if byte c < 128 then escape_byte c @ encode_chars s
     else let n = utf8_multi (c # s) in
       if n = 0 then backslash # ''ufffd'' @ encode_chars s
       else if take n (c # s) = bytes [0xE2, 0x80, 0xA8] then backslash # ''u2028'' @ encode_chars (drop n (c # s))
       else if take n (c # s) = bytes [0xE2, 0x80, 0xA9] then backslash # ''u2029'' @ encode_chars (drop n (c # s))
       else take n (c # s) @ encode_chars (drop n (c # s)))"
  by pat_completeness auto
termination
  by (relation "measure length") (auto simp: Let_def)

declare encode_chars.simps(2) [simp del]

definition encode_string :: "string \<Rightarrow> string" where
  "encode_string s = quote_char # encode_chars s @ [quote_char]"

text \<open>
  A value as the encoder sees it. \<open>JUnsupported\<close> stands for a Go value that has no JSON form (a
  channel or a function), for which Marshal reports an error.
\<close>

datatype json =
    JNull | JBool bool | JInt int | JString string | JArray "json list" | JObject "(string \<times> json) list"
  | JUnsupported string

fun join_comma :: "string list \<Rightarrow> string" where
  "join_comma [] = []"
| "join_comma [x] = x"
| "join_comma (x # y # xs) = x @ CHR '','' # join_comma (y # xs)"

fun encode :: "json \<Rightarrow> string" where
  "encode JNull = ''null''"
| "encode (JBool b) = (if b then ''true'' else ''false'')"
| "encode (JInt i) = Itoa i"
| "encode (JString s) = encode_string s"
| "encode (JArray vs) = CHR ''['' # join_comma (map encode vs) @ '']''"
| "encode (JObject kvs) =
     CHR ''{'' # join_comma (map (\<lambda>kv. encode_string (fst kv) @ CHR '':'' # encode (snd kv)) kvs) @ ''}''"
| "encode (JUnsupported t) = []"

fun supported :: "json \<Rightarrow> bool" where
  "supported (JUnsupported t) = False"
| "supported (JArray vs) = list_all supported vs"
| "supported (JObject kvs) = list_all (\<lambda>kv. supported (snd kv)) kvs"
| "supported v = True"

text \<open>A Go map: its keys are encoded in the byte-wise order.\<close>

fun string_le :: "string \<Rightarrow> string \<Rightarrow> bool" where
  "string_le [] ys = True"
| "string_le (x # xs) [] = False"
| "string_le (x # xs) (y # ys) = (byte x < byte y \<or> x = y \<and> string_le xs ys)"

fun insert_key :: "string \<times> json \<Rightarrow> (string \<times> json) list \<Rightarrow> (string \<times> json) list" where
  "insert_key kv [] = [kv]"
| "insert_key kv (lw # lws) = (if string_le (fst kv) (fst lw) then kv # lw # lws else lw # insert_key kv lws)"

definition go_map :: "(string \<times> json) list \<Rightarrow> json" where
  "go_map kvs = JObject (foldr insert_key kvs [])"

definition Marshal :: "json \<Rightarrow> go_error + string" where
  "Marshal v = (if supported v then Inr (encode v) else Inl (ErrText ''json: unsupported type''))"

text \<open>json.Encoder.Encode writes the encoding and a newline; on an error nothing is written.\<close>

definition Encode :: "json \<Rightarrow> string" where
  "Encode v = (if supported v then encode v @ [CHR 0x0A] else [])"

end
