(* ===== verification/Go_Time.thy ===== *)
theory Go_Time
  imports Go_Prelude
begin

text \<open>
  The printing functions of the standard package time that the server uses: Duration.String and
  Time.Format with the layout RFC3339 of a time in UTC. A time is the number of nanoseconds since
  1 January 1970.
\<close>

definition pad_left :: "nat \<Rightarrow> string \<Rightarrow> string" where
  "pad_left n s = replicate (n - length s) (CHR ''0'') @ s"

text \<open>The fraction \<open>v\<close> of \<open>prec\<close> digits after a decimal point, without trailing zeros.\<close>

definition fmtFrac :: "nat \<Rightarrow> nat \<Rightarrow> string" where
  "fmtFrac v prec =
    (if v = 0 then []
     else CHR ''.'' # rev (dropWhile (\<lambda>c. c = CHR ''0'') (rev (pad_left prec (show_nat v)))))"

definition Duration_String :: "duration \<Rightarrow> string" where
  "Duration_String d =
    (let u = nat \<bar>d\<bar>; secs = u div 1000000000 in
     if u = 0 then ''0s''
     else (if d < 0 then ''-'' else []) @
       (if u < 1000 then show_nat u @ ''ns''
        else if u < 1000000 then show_nat (u div 1000) @ fmtFrac (u mod 1000) 3 @ bytes [0xC2, 0xB5] @ ''s''
        else if u < 1000000000 then show_nat (u div 1000000) @ fmtFrac (u mod 1000000) 6 @ ''ms''
        else (if secs \<ge> 3600 then show_nat (secs div 3600) @ ''h'' else []) @
             (if secs \<ge> 60 then show_nat (secs div 60 mod 60) @ ''m'' else []) @
             show_nat (secs mod 60) @ fmtFrac (u mod 1000000000) 9 @ ''s''))"

text \<open>The date of the day \<open>z\<close> after 1 January 1970 in the proleptic Gregorian calendar.\<close>

definition civil_from_days :: "int \<Rightarrow> int \<times> int \<times> int" where
  "civil_from_days z =
    (let z' = z + 719468;
         era = z' div 146097;
         doe = z' mod 146097;
         yoe = (doe - doe div 1460 + doe div 36524 - doe div 146096) div 365;
         doy = doe - (365 * yoe + yoe div 4 - yoe div 100);
         mp = (5 * doy + 2) div 153;
         d = doy - (153 * mp + 2) div 5 + 1;
         m = (if mp < 10 then mp + 3 else mp - 9)
     in (yoe + era * 400 + (if m \<le> 2 then 1 else 0), m, d))"

definition padInt :: "nat \<Rightarrow> int \<Rightarrow> string" where
  "padInt n i = (if i < 0 then ''-'' else []) @ pad_left n (show_nat (nat \<bar>i\<bar>))"

definition FormatRFC3339 :: "int \<Rightarrow> string" where
  "FormatRFC3339 t =
    (let secs = t div 1000000000;
         sod = secs mod 86400;
         (y, m, d) = civil_from_days (secs div 86400)
     in padInt 4 y @ ''-'' @ padInt 2 m @ ''-'' @ padInt 2 d @ ''T'' @ padInt 2 (sod div 3600) @ '':'' @
        padInt 2 (sod div 60 mod 60) @ '':'' @ padInt 2 (sod mod 60) @ ''Z'')"

lemma isASCII_append [simp]: "isASCII (s @ t) \<longleftrightarrow> isASCII s \<and> isASCII t"
  by (simp add: isASCII_def)

lemma isASCII_Cons [simp]: "isASCII (c # t) \<longleftrightarrow> of_char c < (128 :: nat) \<and> isASCII t"
  by (simp add: isASCII_def)

lemma isASCII_Nil [simp]: "isASCII []"
  by (simp add: isASCII_def)

lemma isASCII_show_nat [simp]: "isASCII (show_nat n)"
  using show_nat_digits by (fastforce simp: isASCII_def list_all_iff)

lemma isASCII_replicate [simp]: "isASCII [c] \<Longrightarrow> isASCII (replicate n c)"
  by (simp add: isASCII_def list_all_iff)

lemma isASCII_padInt [simp]: "isASCII (padInt n i)"
  by (simp add: padInt_def pad_left_def)

lemma isASCII_FormatRFC3339 [simp]: "isASCII (FormatRFC3339 t)"
  by (simp add: FormatRFC3339_def Let_def split: prod.splits)

end
