(* ===== verification/Go_Json_Decode.thy ===== *)
theory Go_Json_Decode
  imports Go_Json Go_Time
begin

text \<open>
  Decoding with encoding/json: the grammar of RFC 8259 as Go's scanner accepts it (nesting up to
  10000 levels), the unquoting of strings with surrogate pairs and replacement of invalid UTF-8,
  and the assignment of an object's members to the fields of a struct. Numbers keep their literal,
  as the target type decides how it is read. Decoding what Marshal produced gives the value back.

  The text of a decoding error only reaches the log, so the model keeps just its kind.
\<close>

section \<open>Strings\<close>

definition hex_val :: "char \<Rightarrow> nat option" where
  "hex_val c =
    (if 48 \<le> byte c \<and> byte c \<le> 57 then Some (byte c - 48)
     else if 97 \<le> byte c \<and> byte c \<le> 102 then Some (byte c - 87)
     else if 65 \<le> byte c \<and> byte c \<le> 70 then Some (byte c - 55)
     else None)"

fun getu4 :: "string \<Rightarrow> (nat \<times> string) option" where
  "getu4 (a # b # c # d # s) =
     (case (hex_val a, hex_val b, hex_val c, hex_val d) of
        (Some w, Some x, Some y, Some z) \<Rightarrow> Some (4096 * w + 256 * x + 16 * y + z, s)
      | _ \<Rightarrow> None)"
| "getu4 s = None"

definition utf8_encode :: "nat \<Rightarrow> string" where
  "utf8_encode r =
    (if r < 0x80 then bytes [r]
     else if r < 0x800 then bytes [0xC0 + r div 64, 0x80 + r mod 64]
     else if r < 0x10000 then bytes [0xE0 + r div 4096, 0x80 + r div 64 mod 64, 0x80 + r mod 64]
     else bytes [0xF0 + r div 262144, 0x80 + r div 4096 mod 64, 0x80 + r div 64 mod 64, 0x80 + r mod 64])"

definition rune_error :: string where
  "rune_error = bytes [0xEF, 0xBF, 0xBD]"

definition is_surrogate :: "nat \<Rightarrow> bool" where
  "is_surrogate r \<longleftrightarrow> 0xD800 \<le> r \<and> r < 0xE000"

text \<open>The second half of a surrogate pair, written as another escape.\<close>

definition low_half :: "nat \<Rightarrow> string \<Rightarrow> (nat \<times> string) option" where
  "low_half r1 s =
    (if r1 < 0xDC00 \<and> take 2 s = [backslash, CHR ''u''] then
       (case getu4 (drop 2 s) of
          Some (r2, s') \<Rightarrow>
            (if 0xDC00 \<le> r2 \<and> r2 < 0xE000
             then Some ((r1 - 0xD800) * 1024 + (r2 - 0xDC00) + 0x10000, s') else None)
        | None \<Rightarrow> None)
     else None)"

definition simple_escape :: "char \<Rightarrow> char option" where
  "simple_escape e =
    (if e = quote_char \<or> e = backslash \<or> e = CHR ''/'' then Some e
     else if e = CHR ''b'' then Some (CHR 0x08) else if e = CHR ''f'' then Some (CHR 0x0C)
     else if e = CHR ''n'' then Some (CHR 0x0A) else if e = CHR ''r'' then Some (CHR 0x0D)
     else if e = CHR ''t'' then Some (CHR 0x09) else None)"

definition prepend :: "string \<Rightarrow> (string \<times> string) option \<Rightarrow> (string \<times> string) option" where
  "prepend p r = map_option (\<lambda>(t, s). (p @ t, s)) r"

lemma getu4_length: "getu4 s = Some (r, s') \<Longrightarrow> length s' < length s"
  by (cases s rule: getu4.cases) (auto split: option.splits)

lemma low_half_length: "low_half r s = Some (q, s') \<Longrightarrow> length s' < length s"
  using getu4_length [of "drop 2 s" _ s'] by (auto simp: low_half_def split: if_splits option.splits)

text \<open>The characters of a string up to the closing quote, and what follows.\<close>

function unquote :: "string \<Rightarrow> (string \<times> string) option" where
  "unquote [] = None"
| "unquote (c # s) =
    (if c = quote_char then Some ([], s)
     else if c = backslash then
       (case s of
          [] \<Rightarrow> None
        | e # s' \<Rightarrow>
           (if e = CHR ''u'' then
              (case getu4 s' of
                 None \<Rightarrow> None
               | Some (r1, s1) \<Rightarrow>
                  (if is_surrogate r1 then
                     (case low_half r1 s1 of
                        Some (r, s2) \<Rightarrow> prepend (utf8_encode r) (unquote s2)
                      | None \<Rightarrow> prepend rune_error (unquote s1))
                   else prepend (utf8_encode r1) (unquote s1)))
            else (case simple_escape e of None \<Rightarrow> None | Some x \<Rightarrow> prepend [x] (unquote s'))))
     else if byte c < 32 then None
     else if byte c < 128 then prepend [c] (unquote s)
     else let n = utf8_multi (c # s) in
       if n = 0 then prepend rune_error (unquote s)
       else prepend (take n (c # s)) (unquote (drop n (c # s))))"
  by pat_completeness auto
termination
  by (relation "measure length")
    (auto simp: Let_def dest!: getu4_length low_half_length)

declare unquote.simps(2) [simp del]

section \<open>Values\<close>

datatype jvalue =
    VNull | VBool bool | VNumber string | VString string
  | VArray "jvalue list" | VObject "(string \<times> jvalue) list"

definition is_digit :: "char \<Rightarrow> bool" where
  "is_digit c \<longleftrightarrow> digit_val c \<noteq> None"

definition number_exp :: "string \<Rightarrow> string \<Rightarrow> (string \<times> string) option" where
  "number_exp acc s = (case s of
      [] \<Rightarrow> Some (acc, [])
    | c # r \<Rightarrow>
       (if c = CHR ''e'' \<or> c = CHR ''E'' then
          (let sg = (if r \<noteq> [] \<and> (hd r = CHR ''+'' \<or> hd r = CHR ''-'') then [hd r] else []);
               r1 = drop (length sg) r
           in if takeWhile is_digit r1 = [] then None
              else Some (acc @ c # sg @ takeWhile is_digit r1, dropWhile is_digit r1))
        else Some (acc, s)))"

definition number_frac :: "string \<Rightarrow> string \<Rightarrow> (string \<times> string) option" where
  "number_frac acc s =
    (if s \<noteq> [] \<and> hd s = CHR ''.'' then
       (if takeWhile is_digit (tl s) = [] then None
        else number_exp (acc @ CHR ''.'' # takeWhile is_digit (tl s)) (dropWhile is_digit (tl s)))
     else number_exp acc s)"

definition number_lit :: "string \<Rightarrow> (string \<times> string) option" where
  "number_lit s =
    (let sg = (if s \<noteq> [] \<and> hd s = CHR ''-'' then ''-'' else []);
         s1 = drop (length sg) s
     in if s1 = [] \<or> \<not> is_digit (hd s1) then None
        else if hd s1 = CHR ''0'' then number_frac (sg @ ''0'') (tl s1)
        else number_frac (sg @ takeWhile is_digit s1) (dropWhile is_digit s1))"

definition is_space :: "char \<Rightarrow> bool" where
  "is_space c \<longleftrightarrow> c = CHR '' '' \<or> c = CHR 0x09 \<or> c = CHR 0x0D \<or> c = CHR 0x0A"

definition skip_ws :: "string \<Rightarrow> string" where
  "skip_ws s = dropWhile is_space s"

definition expect :: "char \<Rightarrow> string \<Rightarrow> string option" where
  "expect c s = (case skip_ws s of [] \<Rightarrow> None | x # r \<Rightarrow> if x = c then Some r else None)"

text \<open>\<open>depth\<close> is how many levels may still be opened; the first argument bounds the calls, and is enough
  when it exceeds the length of the input (\<open>parse_value_enough\<close> below).\<close>

fun parse_value :: "nat \<Rightarrow> nat \<Rightarrow> string \<Rightarrow> (jvalue \<times> string) option"
  and parse_members :: "nat \<Rightarrow> nat \<Rightarrow> string \<Rightarrow> ((string \<times> jvalue) list \<times> string) option"
  and parse_elems :: "nat \<Rightarrow> nat \<Rightarrow> string \<Rightarrow> (jvalue list \<times> string) option" where
  "parse_value 0 depth s = None"
| "parse_value (Suc n) depth s =
    (case skip_ws s of
       [] \<Rightarrow> None
     | c # r \<Rightarrow>
        (if c = quote_char then map_option (\<lambda>(t, r'). (VString t, r')) (unquote r)
         else if c = CHR ''{'' then
           (if depth = 0 then None
            else case expect (CHR ''}'') r of
                Some r' \<Rightarrow> Some (VObject [], r')
              | None \<Rightarrow> map_option (\<lambda>(ms, r'). (VObject ms, r')) (parse_members n (depth - 1) r))
         else if c = CHR ''['' then
           (if depth = 0 then None
            else case expect (CHR '']'') r of
                Some r' \<Rightarrow> Some (VArray [], r')
              | None \<Rightarrow> map_option (\<lambda>(vs, r'). (VArray vs, r')) (parse_elems n (depth - 1) r))
         else if take 4 (c # r) = ''null'' then Some (VNull, drop 4 (c # r))
         else if take 4 (c # r) = ''true'' then Some (VBool True, drop 4 (c # r))
         else if take 5 (c # r) = ''false'' then Some (VBool False, drop 5 (c # r))
         else map_option (\<lambda>(l, r'). (VNumber l, r')) (number_lit (c # r))))"
| "parse_members 0 depth s = None"
| "parse_members (Suc n) depth s =
    (case expect quote_char s of
       None \<Rightarrow> None
     | Some r \<Rightarrow>
      (case unquote r of
         None \<Rightarrow> None
       | Some (k, r1) \<Rightarrow>
        (case expect (CHR '':'') r1 of
           None \<Rightarrow> None
         | Some r2 \<Rightarrow>
          (case parse_value n depth r2 of
             None \<Rightarrow> None
           | Some (v, r3) \<Rightarrow>
              (case expect (CHR '','') r3 of
                 Some r4 \<Rightarrow> map_option (\<lambda>(ms, r5). ((k, v) # ms, r5)) (parse_members n depth r4)
               | None \<Rightarrow> map_option (\<lambda>r4. ([(k, v)], r4)) (expect (CHR ''}'') r3))))))"
| "parse_elems 0 depth s = None"
| "parse_elems (Suc n) depth s =
    (case parse_value n depth s of
       None \<Rightarrow> None
     | Some (v, r3) \<Rightarrow>
        (case expect (CHR '','') r3 of
           Some r4 \<Rightarrow> map_option (\<lambda>(vs, r5). (v # vs, r5)) (parse_elems n depth r4)
         | None \<Rightarrow> map_option (\<lambda>r4. ([v], r4)) (expect (CHR '']'') r3)))"

definition syntax_error :: go_error where
  "syntax_error = ErrText ''json: syntax error''"

definition type_error :: go_error where
  "type_error = ErrText ''json: cannot unmarshal value into Go value''"

text \<open>Decoder.Decode reads the first value of the stream; Unmarshal wants nothing after it.\<close>

definition Decode_value :: "string \<Rightarrow> go_error + jvalue" where
  "Decode_value s = (case parse_value (Suc (length s)) 10000 s of
      None \<Rightarrow> Inl syntax_error
    | Some (v, rest) \<Rightarrow> Inr v)"

definition Unmarshal_value :: "string \<Rightarrow> go_error + jvalue" where
  "Unmarshal_value s = (case parse_value (Suc (length s)) 10000 s of
      None \<Rightarrow> Inl syntax_error
    | Some (v, rest) \<Rightarrow> if skip_ws rest = [] then Inr v else Inl syntax_error)"

section \<open>Decoding into a struct\<close>

text \<open>
  Field names are compared after folding case; besides ASCII letters this identifies the long s
  (U+017F) with s and the Kelvin sign (U+212A) with k. A type mismatch is remembered, the first
  one is returned, and decoding goes on.
\<close>

fun fold_key :: "string \<Rightarrow> string" where
  "fold_key [] = []"
| "fold_key (c # s) =
    (if c = char_of (0xC5 :: nat) \<and> s \<noteq> [] \<and> hd s = char_of (0xBF :: nat) then CHR ''s'' # fold_key (tl s)
     else if c = char_of (0xE2 :: nat) \<and> take 2 s = bytes [0x84, 0xAA] then CHR ''k'' # fold_key (drop 2 s)
     else lower_char c # fold_key s)"

definition find_field :: "string list \<Rightarrow> string \<Rightarrow> string option" where
  "find_field names key =
    (if key \<in> set names then Some key else find (\<lambda>n. fold_key n = fold_key key) names)"

text \<open>\<open>store f v x\<close> assigns the value \<open>v\<close> to the field \<open>f\<close> of \<open>x\<close>, None when its type does not fit.\<close>

fun assign_members ::
  "string list \<Rightarrow> (string \<Rightarrow> jvalue \<Rightarrow> 'a \<Rightarrow> 'a option) \<Rightarrow> (string \<times> jvalue) list \<Rightarrow>
   'a \<times> go_error option \<Rightarrow> 'a \<times> go_error option" where
  "assign_members names store [] acc = acc"
| "assign_members names store ((k, v) # ms) (x, err) =
    assign_members names store ms
      (case find_field names k of
         None \<Rightarrow> (x, err)
       | Some f \<Rightarrow>
          (case store f v x of
             Some x' \<Rightarrow> (x', err)
           | None \<Rightarrow> (x, if err = None then Some type_error else err)))"

definition decode_struct ::
  "string list \<Rightarrow> (string \<Rightarrow> jvalue \<Rightarrow> 'a \<Rightarrow> 'a option) \<Rightarrow> 'a \<Rightarrow> jvalue \<Rightarrow> go_error + 'a" where
  "decode_struct names store x v = (case v of
      VObject ms \<Rightarrow>
        (case assign_members names store ms (x, None) of (x', None) \<Rightarrow> Inr x' | (x', Some e) \<Rightarrow> Inl e)
    | VNull \<Rightarrow> Inr x
    | _ \<Rightarrow> Inl type_error)"

text \<open>Values for a string and an int64 field: null leaves the field as it is.\<close>

definition set_string :: "(string \<Rightarrow> 'a \<Rightarrow> 'a) \<Rightarrow> jvalue \<Rightarrow> 'a \<Rightarrow> 'a option" where
  "set_string upd v x = (case v of VString s \<Rightarrow> Some (upd s x) | VNull \<Rightarrow> Some x | _ \<Rightarrow> None)"

definition set_int64 :: "(int64 \<Rightarrow> 'a \<Rightarrow> 'a) \<Rightarrow> jvalue \<Rightarrow> 'a \<Rightarrow> 'a option" where
  "set_int64 upd v x = (case v of
      VNumber l \<Rightarrow> map_option (\<lambda>i. upd i x) (ParseInt l) | VNull \<Rightarrow> Some x | _ \<Rightarrow> None)"

section \<open>Round trip\<close>

text \<open>What the encoder makes of a string that is not valid UTF-8.\<close>

function to_valid :: "string \<Rightarrow> string" where
  "to_valid [] = []"
| "to_valid (c # s) =
    (if byte c < 128 then c # to_valid s
     else let n = utf8_multi (c # s) in
       if n = 0 then rune_error @ to_valid s else take n (c # s) @ to_valid (drop n (c # s)))"
  by pat_completeness auto
termination
  by (relation "measure length") (auto simp: Let_def)

declare to_valid.simps(2) [simp del]

lemma to_valid_ASCII [simp]: "isASCII s \<Longrightarrow> to_valid s = s"
  by (induction s) (simp_all add: to_valid.simps(2) byte_def)

lemma char_of_byte [simp]: "char_of (byte c) = c"
  by (simp add: byte_def)

lemma byte_inject: "byte c = byte d \<Longrightarrow> c = d"
  by (simp add: byte_def)

lemma hex_val_digit: "n < 16 \<Longrightarrow> hex_val (hex_digit n) = Some n"
  by (auto simp: hex_val_def hex_digit_def byte_def)

lemma hex_val_0 [simp]: "hex_val (CHR ''0'') = Some 0"
  by (simp add: hex_val_def byte_def)

lemma escape_chars_distinct [simp]:
  "quote_char \<noteq> backslash" "backslash \<noteq> quote_char" "CHR ''u'' \<noteq> quote_char" "CHR ''u'' \<noteq> backslash"
  "CHR ''b'' \<noteq> quote_char" "CHR ''b'' \<noteq> backslash" "CHR ''f'' \<noteq> quote_char" "CHR ''f'' \<noteq> backslash"
  "CHR ''n'' \<noteq> quote_char" "CHR ''n'' \<noteq> backslash" "CHR ''r'' \<noteq> quote_char" "CHR ''r'' \<noteq> backslash"
  "CHR ''t'' \<noteq> quote_char" "CHR ''t'' \<noteq> backslash" "quote_char \<noteq> CHR ''u''" "backslash \<noteq> CHR ''u''"
  by (simp_all add: quote_char_def backslash_def)

lemma unquote_simple:
  "e \<noteq> CHR ''u'' \<Longrightarrow> simple_escape e = Some x \<Longrightarrow>
     unquote (backslash # e # s) = prepend [x] (unquote s)"
  by (simp add: unquote.simps(2))

lemma unquote_u4:
  "getu4 s = Some (r, s') \<Longrightarrow> \<not> is_surrogate r \<Longrightarrow>
     unquote (backslash # CHR ''u'' # s) = prepend (utf8_encode r) (unquote s')"
  by (simp add: unquote.simps(2))

lemma unquote_plain:
  "c \<noteq> quote_char \<Longrightarrow> c \<noteq> backslash \<Longrightarrow> 32 \<le> byte c \<Longrightarrow> byte c < 128 \<Longrightarrow>
     unquote (c # s) = prepend [c] (unquote s)"
  by (simp add: unquote.simps(2))

lemma unquote_escape_byte:
  assumes "byte c < 128"
  shows "unquote (escape_byte c @ s) = prepend [c] (unquote s)"
proof -
  have hex: "byte c div 16 < 16" "byte c mod 16 < 16" "16 * (byte c div 16) + byte c mod 16 = byte c"
    using assms by auto
  have g: "getu4 (CHR ''0'' # CHR ''0'' # hex_digit (byte c div 16) # hex_digit (byte c mod 16) # s) =
      Some (byte c, s)"
    by (simp add: hex_val_digit [OF hex(1)] hex_val_digit [OF hex(2)] hex(3))
  have u: "unquote (backslash # CHR ''u'' # CHR ''0'' # CHR ''0'' # hex_digit (byte c div 16) #
      hex_digit (byte c mod 16) # s) = prepend [c] (unquote s)"
    using unquote_u4 [OF g] assms by (simp add: is_surrogate_def utf8_encode_def bytes_def)
  have ctl: "byte c = 8 \<Longrightarrow> c = CHR 0x08" "byte c = 12 \<Longrightarrow> c = CHR 0x0C" "byte c = 10 \<Longrightarrow> c = CHR 0x0A"
    "byte c = 13 \<Longrightarrow> c = CHR 0x0D" "byte c = 9 \<Longrightarrow> c = CHR 0x09"
    by (rule byte_inject, simp add: byte_def)+
  have html: "byte (CHR ''<'') = 60" "byte (CHR ''>'') = 62" "byte (CHR ''&'') = 38"
    by (simp_all add: byte_def)
  show ?thesis
  proof (cases "c = quote_char \<or> c = backslash \<or> byte c \<in> {8, 12, 10, 13, 9}")
    case True
    then show ?thesis
      by (auto simp: escape_byte_def unquote_simple simple_escape_def html dest: ctl)
  next
    case False
    then have "escape_byte c = (if byte c < 32 \<or> c = CHR ''<'' \<or> c = CHR ''>'' \<or> c = CHR ''&'' then
       [backslash, CHR ''u'', CHR ''0'', CHR ''0'', hex_digit (byte c div 16), hex_digit (byte c mod 16)]
       else [c])" by (simp add: escape_byte_def)
    then show ?thesis using False assms by (simp add: u unquote_plain)
  qed
qed

lemma unquote_fffd: "unquote (backslash # ''ufffd'' @ s) = prepend rune_error (unquote s)"
proof -
  have "getu4 (''fffd'' @ s) = Some (0xFFFD, s)" by (simp add: hex_val_def byte_def)
  from unquote_u4 [OF this] show ?thesis
    by (simp add: is_surrogate_def utf8_encode_def rune_error_def)
qed

lemma unquote_u2028:
  "unquote (backslash # ''u2028'' @ s) = prepend (bytes [0xE2, 0x80, 0xA8]) (unquote s)"
  "unquote (backslash # ''u2029'' @ s) = prepend (bytes [0xE2, 0x80, 0xA9]) (unquote s)"
proof -
  have "getu4 (''2028'' @ s) = Some (0x2028, s)" "getu4 (''2029'' @ s) = Some (0x2029, s)"
    by (simp_all add: hex_val_def byte_def)
  from unquote_u4 [OF this(1)] unquote_u4 [OF this(2)] show
    "unquote (backslash # ''u2028'' @ s) = prepend (bytes [0xE2, 0x80, 0xA8]) (unquote s)"
    "unquote (backslash # ''u2029'' @ s) = prepend (bytes [0xE2, 0x80, 0xA9]) (unquote s)"
    by (simp_all add: is_surrogate_def utf8_encode_def)
qed

lemma utf8_multi_cases: "utf8_multi s = 0 \<or> 2 \<le> utf8_multi s \<and> utf8_multi s \<le> length s"
  by (auto simp: utf8_multi_def)

lemma utf8_two_three: "utf8_two a b \<Longrightarrow> \<not> utf8_three a b c"
  by (auto simp: utf8_two_def utf8_three_def in_range_def)

lemma utf8_multi_prefix:
  assumes "utf8_multi s = n" "n \<noteq> 0"
  shows "utf8_multi (take n s @ t) = n"
proof -
  have len: "2 \<le> n" "n \<le> length s" using utf8_multi_cases [of s] assms by auto
  have nth: "i < n \<Longrightarrow> (take n s @ t) ! i = s ! i" for i using len by (simp add: nth_append)
  have two: "(take n s @ t) ! 0 = s ! 0" "(take n s @ t) ! 1 = s ! 1" using len by (auto intro: nth)
  consider "n = 2" "utf8_two (s ! 0) (s ! 1)"
    | "n = 3" "\<not> utf8_two (s ! 0) (s ! 1)" "utf8_three (s ! 0) (s ! 1) (s ! 2)"
    | "n = 4" "\<not> utf8_two (s ! 0) (s ! 1)" "\<not> utf8_three (s ! 0) (s ! 1) (s ! 2)"
        "utf8_four (s ! 0) (s ! 1) (s ! 2) (s ! 3)"
    using assms len by (force simp: utf8_multi_def split: if_split_asm)
  then show ?thesis
  proof cases
    case 1
    then show ?thesis unfolding utf8_multi_def two using len by simp
  next
    case 2
    then show ?thesis unfolding utf8_multi_def two using len nth [of 2] by simp
  next
    case 3
    then show ?thesis unfolding utf8_multi_def two using len nth [of 2] nth [of 3] by simp
  qed
qed

lemma unquote_multi:
  assumes "128 \<le> byte c" "utf8_multi (c # s) = n" "n \<noteq> 0"
  shows "unquote (take n (c # s) @ t) = prepend (take n (c # s)) (unquote t)"
proof -
  obtain m where n: "n = Suc m" using assms(3) by (cases n) auto
  have "utf8_multi (c # take m s @ t) = Suc m"
    using utf8_multi_prefix [OF assms(2,3), of t] n by simp
  moreover have "length (take m s) = m" using utf8_multi_cases [of "c # s"] assms(2) n by auto
  moreover have "c \<noteq> quote_char" "c \<noteq> backslash"
    using assms(1) by (auto simp: quote_char_def backslash_def byte_def)
  ultimately show ?thesis using assms(1) n by (simp add: unquote.simps(2) Let_def)
qed

lemma prepend_Some [simp]: "prepend p (Some (t, s)) = Some (p @ t, s)"
  by (simp add: prepend_def)

lemma unquote_encode: "unquote (encode_chars s @ quote_char # r) = Some (to_valid s, r)"
proof (induction s rule: encode_chars.induct)
  case 1
  then show ?case by (simp add: unquote.simps(2))
next
  case (2 c s)
  let ?n = "utf8_multi (c # s)"
  consider "byte c < 128" | "128 \<le> byte c" "?n = 0" | "128 \<le> byte c" "?n \<noteq> 0" by linarith
  then show ?case
  proof cases
    case 1
    then show ?thesis using 2(1) by (simp add: encode_chars.simps(2) to_valid.simps(2) unquote_escape_byte)
  next
    case c: 2
    then show ?thesis using 2(2) unquote_fffd [of "encode_chars s @ quote_char # r"]
      by (simp add: encode_chars.simps(2) to_valid.simps(2) Let_def)
  next
    case c: 3
    note IH = 2(3-5) [OF _ refl]
    show ?thesis
      using c IH unquote_u2028 [of "encode_chars (drop ?n (c # s)) @ quote_char # r"]
        unquote_multi [OF c(1) refl c(2), of "encode_chars (drop ?n (c # s)) @ quote_char # r"]
      by (simp add: encode_chars.simps(2) to_valid.simps(2) Let_def)
  qed
qed

text \<open>A value as the decoder sees it: numbers by their literal, strings made valid.\<close>

fun raw :: "json \<Rightarrow> jvalue" where
  "raw JNull = VNull"
| "raw (JBool b) = VBool b"
| "raw (JInt i) = VNumber (Itoa i)"
| "raw (JString s) = VString (to_valid s)"
| "raw (JArray vs) = VArray (map raw vs)"
| "raw (JObject kvs) = VObject (map (\<lambda>kv. (to_valid (fst kv), raw (snd kv))) kvs)"
| "raw (JUnsupported t) = VNull"

fun nesting :: "json \<Rightarrow> nat" where
  "nesting (JArray vs) = Suc (foldr (\<lambda>v m. max (nesting v) m) vs 0)"
| "nesting (JObject kvs) = Suc (foldr (\<lambda>kv m. max (nesting (snd kv)) m) kvs 0)"
| "nesting v = 0"

text \<open>What may follow a value so that a number ends where its literal does.\<close>

definition ends_value :: "string \<Rightarrow> bool" where
  "ends_value s \<longleftrightarrow> s = [] \<or> \<not> is_digit (hd s) \<and> hd s \<notin> {CHR ''.'', CHR ''e'', CHR ''E''}"

lemma is_digit_show_nat: "c \<in> set (show_nat n) \<Longrightarrow> is_digit c"
  using show_nat_digits [of c n] by (auto simp: is_digit_def digit_val_def)

lemma show_nat_zero: "hd (show_nat n) = CHR ''0'' \<Longrightarrow> n = 0"
proof (induction n rule: show_nat.induct)
  case (1 n)
  show ?case
  proof (cases "n < 10")
    case True
    then have "digit_char n = CHR ''0''" using 1(2) by (simp add: show_nat.simps [of n])
    then have "digit_val (digit_char n) = digit_val (CHR ''0'')" by simp
    with True show ?thesis by (simp add: digit_val_char) (simp add: digit_val_def)
  next
    case False
    then have "hd (show_nat (n div 10)) = CHR ''0''"
      using 1(2) by (simp add: show_nat.simps [of n])
    with 1(1) False have "n div 10 = 0" by blast
    with False show ?thesis by simp
  qed
qed

lemma span_show_nat:
  assumes "s = [] \<or> \<not> is_digit (hd s)"
  shows "takeWhile is_digit (show_nat n @ s) = show_nat n"
    and "dropWhile is_digit (show_nat n @ s) = s"
  using assms by (cases s; auto simp: takeWhile_append dropWhile_append is_digit_show_nat)+

lemma number_tail:
  "ends_value s \<Longrightarrow> number_frac acc s = Some (acc, s)"
  by (cases s) (auto simp: ends_value_def number_frac_def number_exp_def)

lemma number_unsigned:
  assumes "ends_value s" "sg = [] \<or> sg = ''-''"
  shows "number_lit (sg @ show_nat n @ s) = Some (sg @ show_nat n, s)"
proof -
  have digit: "is_digit (hd (show_nat n))" by (rule is_digit_show_nat [of _ n]) simp
  have e: "s = [] \<or> \<not> is_digit (hd s)" using assms(1) by (auto simp: ends_value_def)
  have "digit_char 0 = CHR ''0''" by (rule byte_inject) (simp add: byte_def digit_char_def)
  then have zero: "show_nat 0 = ''0''" by (simp add: show_nat.simps)
  show ?thesis
  proof (cases "hd (show_nat n) = CHR ''0''")
    case True
    then have "n = 0" by (rule show_nat_zero)
    then show ?thesis using assms zero hd_show_nat(1) [of 0]
      by (auto simp: number_lit_def Let_def number_tail is_digit_def digit_val_def)
  next
    case False
    then show ?thesis using assms digit hd_show_nat(1) [of n]
      by (auto simp: number_lit_def Let_def number_tail span_show_nat [OF e])
  qed
qed

lemma number_Itoa: "ends_value s \<Longrightarrow> number_lit (Itoa i @ s) = Some (Itoa i, s)"
  using number_unsigned [of s "[]" "nat i"] number_unsigned [of s "''-''" "nat (- i)"]
  by (simp add: Itoa_def)

lemma skip_ws_id: "s \<noteq> [] \<Longrightarrow> \<not> is_space (hd s) \<Longrightarrow> skip_ws s = s"
  by (cases s) (simp_all add: skip_ws_def)

lemma expect_here [simp]: "\<not> is_space c \<Longrightarrow> expect c (c # s) = Some s"
  by (simp add: expect_def skip_ws_def)

lemma expect_not [simp]: "\<not> is_space d \<Longrightarrow> d \<noteq> c \<Longrightarrow> expect c (d # s) = None"
  by (simp add: expect_def skip_ws_def)

lemma punct_not_space [simp]:
  "\<not> is_space CHR '',''" "\<not> is_space CHR '':''" "\<not> is_space CHR ''}''" "\<not> is_space CHR '']''"
  "\<not> is_space CHR ''{''" "\<not> is_space CHR ''[''" "\<not> is_space quote_char"
  "\<not> is_space CHR ''n''" "\<not> is_space CHR ''t''" "\<not> is_space CHR ''f''"
  by (simp_all add: is_space_def quote_char_def)

lemma punct_ends_value [simp]:
  "ends_value (CHR '','' # s)" "ends_value (CHR ''}'' # s)" "ends_value (CHR '']'' # s)"
  by (simp_all add: ends_value_def is_digit_def digit_val_def)

lemma quote_distinct [simp]:
  "quote_char \<noteq> CHR ''}''" "quote_char \<noteq> CHR ''{''" "quote_char \<noteq> CHR ''[''" "quote_char \<noteq> CHR '']''"
  "CHR ''{'' \<noteq> quote_char" "CHR ''['' \<noteq> quote_char" "CHR ''n'' \<noteq> quote_char"
  "CHR ''t'' \<noteq> quote_char" "CHR ''f'' \<noteq> quote_char"
  by (simp_all add: quote_char_def)

text \<open>The first character of an encoding decides the branch of the parser.\<close>

lemma Itoa_head:
  "\<exists>c r. Itoa i = c # r \<and> (is_digit c \<or> c = CHR ''-'')"
proof -
  have "\<exists>c r. show_nat n = c # r \<and> is_digit c" for n
    using is_digit_show_nat [of "hd (show_nat n)" n] by (cases "show_nat n") auto
  from this [of "nat i"] this [of "nat (- i)"] show ?thesis by (auto simp: Itoa_def)
qed

lemma digit_distinct:
  assumes "is_digit c \<or> c = CHR ''-''"
  shows "c \<noteq> quote_char" "c \<noteq> CHR ''{''" "c \<noteq> CHR ''[''" "c \<noteq> CHR '']''" "c \<noteq> CHR ''n''" "c \<noteq> CHR ''t''" "c \<noteq> CHR ''f''"
    "\<not> is_space c"
  using assms by (auto simp: is_digit_def digit_val_def quote_char_def is_space_def)

lemma encode_head:
  assumes "supported v"
  shows "\<exists>c r. encode v = c # r \<and> \<not> is_space c \<and> c \<noteq> CHR '']''"
proof (cases v)
  case (JInt i)
  obtain c r where "Itoa i = c # r" "is_digit c \<or> c = CHR ''-''" using Itoa_head by blast
  then show ?thesis using JInt digit_distinct by auto
qed (use assms in \<open>auto simp: encode_string_def is_space_def quote_char_def\<close>)

lemma parse_number:
  assumes "ends_value s"
  shows "parse_value (Suc n) depth (Itoa i @ s) = Some (VNumber (Itoa i), s)"
proof -
  obtain c r where c: "Itoa i = c # r" "is_digit c \<or> c = CHR ''-''" using Itoa_head by blast
  show ?thesis
    using number_Itoa [OF assms, of i] digit_distinct [OF c(2)] c(1) by (simp add: skip_ws_def)
qed

lemma join_comma_Cons:
  "xs \<noteq> [] \<Longrightarrow> join_comma (x # xs) = x @ CHR '','' # join_comma xs"
  by (cases xs) simp_all

text \<open>\<open>reads v\<close>: the parser gets \<open>v\<close> back from its encoding, whatever follows.\<close>

definition reads :: "json \<Rightarrow> bool" where
  "reads v \<longleftrightarrow> (\<forall>n depth s. supported v \<longrightarrow> nesting v \<le> depth \<longrightarrow> length (encode v) < n \<longrightarrow>
     ends_value s \<longrightarrow> parse_value n depth (encode v @ s) = Some (raw v, s))"

lemma parse_elems_encode:
  assumes "\<forall>v \<in> set vs. reads v \<and> supported v \<and> nesting v \<le> depth" "vs \<noteq> []"
    and "Suc (length (join_comma (map encode vs))) < n"
  shows "parse_elems n depth (join_comma (map encode vs) @ CHR '']'' # s) = Some (map raw vs, s)"
  using assms
proof (induction vs arbitrary: n)
  case (Cons v vs)
  then obtain m where n: "n = Suc m" by (cases n) auto
  have v: "reads v" "supported v" "nesting v \<le> depth" using Cons.prems(1) by simp_all
  show ?case
  proof (cases "vs = []")
    case True
    then show ?thesis using Cons.prems(3) v n by (simp add: reads_def)
  next
    case False
    then have "parse_elems m depth (join_comma (map encode vs) @ CHR '']'' # s) = Some (map raw vs, s)"
      using Cons.prems n by (intro Cons.IH) (auto simp: join_comma_Cons)
    then show ?thesis using Cons.prems(3) v n False by (simp add: reads_def join_comma_Cons)
  qed
qed simp

abbreviation encode_member :: "string \<times> json \<Rightarrow> string" where
  "encode_member kv \<equiv> encode_string (fst kv) @ CHR '':'' # encode (snd kv)"

lemma parse_members_encode:
  assumes "\<forall>kv \<in> set kvs. reads (snd kv) \<and> supported (snd kv) \<and> nesting (snd kv) \<le> depth" "kvs \<noteq> []"
    and "Suc (length (join_comma (map encode_member kvs))) < n"
  shows "parse_members n depth (join_comma (map encode_member kvs) @ CHR ''}'' # s) =
    Some (map (\<lambda>kv. (to_valid (fst kv), raw (snd kv))) kvs, s)"
  using assms
proof (induction kvs arbitrary: n)
  case (Cons kv kvs)
  then obtain m where n: "n = Suc m" by (cases n) auto
  have v: "reads (snd kv)" "supported (snd kv)" "nesting (snd kv) \<le> depth" using Cons.prems(1) by simp_all
  show ?case
  proof (cases "kvs = []")
    case True
    then show ?thesis using Cons.prems(3) v n by (simp add: reads_def encode_string_def unquote_encode)
  next
    case False
    then have "parse_members m depth (join_comma (map encode_member kvs) @ CHR ''}'' # s) =
        Some (map (\<lambda>kv. (to_valid (fst kv), raw (snd kv))) kvs, s)"
      using Cons.prems n by (intro Cons.IH) (auto simp: join_comma_Cons)
    then show ?thesis
      using Cons.prems(3) v n False by (simp add: reads_def join_comma_Cons encode_string_def unquote_encode)
  qed
qed simp

lemma nesting_member:
  "v \<in> set vs \<Longrightarrow> nesting v \<le> foldr (\<lambda>v m. max (nesting v) m) vs 0"
  "kv \<in> set kvs \<Longrightarrow> nesting (snd kv) \<le> foldr (\<lambda>kv m. max (nesting (snd kv)) m) kvs 0"
  by (induction vs) (auto, induction kvs, auto)

lemma head_join_comma:
  "xs \<noteq> [] \<Longrightarrow> hd xs = c # r \<Longrightarrow> \<exists>r'. join_comma xs = c # r'"
  by (cases xs rule: join_comma.cases) auto

lemma reads_all: "reads v"
proof (induction v)
  case (JArray vs)
  show ?case
  proof (cases "vs = []")
    case True
    then show ?thesis by (auto simp: reads_def skip_ws_def gr0_conv_Suc dest!: less_imp_Suc_add)
  next
    case False
    show ?thesis unfolding reads_def
    proof (intro allI impI)
      fix n depth s
      assume a: "supported (JArray vs)" "nesting (JArray vs) \<le> depth" "length (encode (JArray vs)) < n"
      obtain m where n: "n = Suc m" using a(3) by (cases n) auto
      have el: "\<forall>v \<in> set vs. reads v \<and> supported v \<and> nesting v \<le> depth - 1"
        using JArray a(1,2) nesting_member(1) [of _ vs] by (fastforce simp: list_all_iff)
      obtain v vs' where v: "vs = v # vs'" using False by (cases vs) auto
      then obtain c r where "encode v = c # r" "\<not> is_space c" "c \<noteq> CHR '']''"
        using encode_head [of v] el by auto
      then obtain r' where "join_comma (map encode vs) = c # r'"
        using head_join_comma [of "map encode vs"] v by auto
      then have "expect (CHR '']'') (join_comma (map encode vs) @ CHR '']'' # s) = None"
        using \<open>\<not> is_space c\<close> \<open>c \<noteq> CHR '']''\<close> by simp
      moreover have "parse_elems m (depth - 1) (join_comma (map encode vs) @ CHR '']'' # s) = Some (map raw vs, s)"
        using a(3) n by (intro parse_elems_encode [OF el False]) simp
      ultimately show "parse_value n depth (encode (JArray vs) @ s) = Some (raw (JArray vs), s)"
        using n a(2) by (simp add: skip_ws_def)
    qed
  qed
next
  case (JObject kvs)
  show ?case
  proof (cases "kvs = []")
    case True
    then show ?thesis by (auto simp: reads_def skip_ws_def dest!: less_imp_Suc_add)
  next
    case False
    show ?thesis unfolding reads_def
    proof (intro allI impI)
      fix n depth s
      assume a: "supported (JObject kvs)" "nesting (JObject kvs) \<le> depth" "length (encode (JObject kvs)) < n"
      obtain m where n: "n = Suc m" using a(3) by (cases n) auto
      have el: "\<forall>kv \<in> set kvs. reads (snd kv) \<and> supported (snd kv) \<and> nesting (snd kv) \<le> depth - 1"
        using JObject a(1,2) nesting_member(2) [of _ kvs] by (fastforce simp: list_all_iff snds.simps)
      obtain r' where "join_comma (map encode_member kvs) = quote_char # r'"
        using head_join_comma [of "map encode_member kvs"] False
        by (cases kvs) (auto simp: encode_string_def)
      then have "expect (CHR ''}'') (join_comma (map encode_member kvs) @ CHR ''}'' # s) = None" by simp
      moreover have "parse_members m (depth - 1) (join_comma (map encode_member kvs) @ CHR ''}'' # s) =
          Some (map (\<lambda>kv. (to_valid (fst kv), raw (snd kv))) kvs, s)"
        using a(3) n by (intro parse_members_encode [OF el False]) simp
      ultimately show "parse_value n depth (encode (JObject kvs) @ s) = Some (raw (JObject kvs), s)"
        using n a(2) by (simp add: skip_ws_def)
    qed
  qed
next
  case (JString x)
  have "parse_value (Suc n) depth (encode_string x @ s) = Some (VString (to_valid x), s)" for n depth s
    by (simp add: skip_ws_def encode_string_def unquote_encode)
  then show ?case by (auto simp: reads_def simp del: parse_value.simps dest!: less_imp_Suc_add)
next
  case (JInt i)
  show ?case
    by (auto simp: reads_def parse_number simp del: parse_value.simps dest!: less_imp_Suc_add)
next
  case (JBool b)
  then show ?case by (cases b) (auto simp: reads_def skip_ws_def dest!: less_imp_Suc_add)
qed (auto simp: reads_def skip_ws_def dest!: less_imp_Suc_add)

lemma Unmarshal_Marshal:
  assumes "Marshal v = Inr s" "nesting v \<le> 10000"
  shows "Unmarshal_value s = Inr (raw v)" and "Decode_value (s @ t) = Inr (raw v) \<or> \<not> ends_value t"
proof -
  have s: "supported v" "s = encode v" using assms(1) by (simp_all add: Marshal_def split: if_splits)
  have "parse_value (Suc (length s)) 10000 (encode v @ []) = Some (raw v, [])"
    using reads_all [of v] s assms(2) by (simp add: reads_def ends_value_def del: parse_value.simps)
  then show "Unmarshal_value s = Inr (raw v)" using s by (simp add: Unmarshal_value_def skip_ws_def del: parse_value.simps)
  have "ends_value t \<Longrightarrow> parse_value (Suc (length (s @ t))) 10000 (encode v @ t) = Some (raw v, t)"
    using reads_all [of v] s assms(2) by (simp add: reads_def del: parse_value.simps)
  then show "Decode_value (s @ t) = Inr (raw v) \<or> \<not> ends_value t"
    using s by (auto simp: Decode_value_def simp del: parse_value.simps)
qed

section \<open>Enough fuel\<close>

lemma skip_ws_length: "length (skip_ws s) \<le> length s"
  by (simp add: skip_ws_def length_dropWhile_le)

lemma expect_length: "expect c s = Some r \<Longrightarrow> length r < length s"
  using skip_ws_length [of s] by (auto simp: expect_def split: list.splits if_splits)

lemma unquote_length: "unquote s = Some (t, r) \<Longrightarrow> length r < length s"
proof (induction "length s" arbitrary: s t rule: less_induct)
  case less
  have rec: "length r < length s" if "prepend p (unquote s') = Some (t, r)" "length s' < length s" for p s'
    using less.hyps [OF that(2)] that by (fastforce simp: prepend_def)
  obtain c s1 where s: "s = c # s1" using less.prems by (cases s) auto
  consider "c = quote_char" | "c = backslash" "c \<noteq> quote_char" | "c \<noteq> quote_char" "c \<noteq> backslash" by blast
  then show ?case
  proof cases
    case 2
    then show ?thesis using less.prems rec
      by (auto simp: s unquote.simps(2) split: list.splits if_splits option.splits dest!: getu4_length low_half_length)
  next
    case 3
    then show ?thesis using less.prems rec by (auto simp: s unquote.simps(2) Let_def split: if_splits)
  qed (use less.prems s in \<open>simp add: unquote.simps(2)\<close>)
qed

lemma number_exp_length: "number_exp acc s = Some (l, r) \<Longrightarrow> length r \<le> length s"
proof (induction s)
  case (Cons c s)
  then show ?case
    using length_dropWhile_le [of is_digit s] length_dropWhile_le [of is_digit "tl s"]
    by (auto simp: number_exp_def Let_def drop_Suc split: if_splits)
qed (simp add: number_exp_def)

lemma number_frac_length: "number_frac acc s = Some (l, r) \<Longrightarrow> length r \<le> length s"
  using number_exp_length length_dropWhile_le [of is_digit "tl s"]
  by (fastforce simp: number_frac_def split: if_splits)

lemma number_lit_length:
  assumes "number_lit s = Some (l, r)"
  shows "length r < length s"
proof -
  let ?s = "drop (length (if s \<noteq> [] \<and> hd s = CHR ''-'' then ''-'' else [])) s"
  have "?s \<noteq> []" "is_digit (hd ?s)" using assms by (auto simp: number_lit_def Let_def split: if_splits)
  then obtain c t where s: "?s = c # t" "is_digit c" by (cases ?s) auto
  have "length r \<le> length t \<or> length r \<le> length (dropWhile is_digit t)"
    using assms s number_frac_length by (auto simp: number_lit_def Let_def split: if_splits)
  moreover have "length t < length s" using arg_cong [OF s(1), of length] by (auto split: if_splits)
  ultimately show ?thesis using length_dropWhile_le [of is_digit t] by linarith
qed

text \<open>A successful parse needs no more fuel than the characters it consumes.\<close>

definition consumes :: "(nat \<Rightarrow> 'a option) \<Rightarrow> string \<Rightarrow> 'a \<Rightarrow> string \<Rightarrow> bool" where
  "consumes p s x r \<longleftrightarrow> length r < length s \<and> (\<forall>m. length s - length r \<le> m \<longrightarrow> p m = Some x)"

lemma consumesD:
  assumes "consumes p s x r"
  shows "length r < length s" "length s - length r \<le> m \<Longrightarrow> p m = Some x"
  using assms by (simp_all add: consumes_def)

lemma consumesI:
  assumes "length r < length s" "\<And>m. length s - length r \<le> Suc m \<Longrightarrow> p (Suc m) = Some x"
  shows "consumes p s x r"
  unfolding consumes_def
proof (intro conjI allI impI)
  fix m assume "length s - length r \<le> m"
  then show "p m = Some x" using assms by (cases m) simp_all
qed (rule assms(1))

lemma value_consumes:
  assumes ms: "\<And>d q ms r. parse_members n d q = Some (ms, r) \<Longrightarrow> consumes (\<lambda>m. parse_members m d q) q (ms, r) r"
    and es: "\<And>d q vs r. parse_elems n d q = Some (vs, r) \<Longrightarrow> consumes (\<lambda>m. parse_elems m d q) q (vs, r) r"
    and v: "parse_value (Suc n) depth s = Some (v, r)"
  shows "consumes (\<lambda>m. parse_value m depth s) s (v, r) r"
proof -
  from v obtain c q where q: "skip_ws s = c # q" by (cases "skip_ws s") auto
  have len: "length q < length s" using skip_ws_length [of s] q by simp
  consider (obj) ms where "c = CHR ''{''" "depth \<noteq> 0" "expect (CHR ''}'') q = None" "parse_members n (depth - 1) q = Some (ms, r)"
      "v = VObject ms"
    | (arr) vs where "c = CHR ''[''" "depth \<noteq> 0" "expect (CHR '']'') q = None" "parse_elems n (depth - 1) q = Some (vs, r)"
      "v = VArray vs"
    | (flat) "length r < length (c # q)" "\<And>m. parse_value (Suc m) depth s = Some (v, r)"
    using v by (auto simp: q split: if_splits option.splits
        dest: unquote_length number_lit_length expect_length less_SucI)
  then show ?thesis
  proof cases
    case obj
    note ih = consumesD [OF ms [OF obj(4)]]
    show ?thesis by (rule consumesI) (use ih len q obj in simp_all)
  next
    case arr
    note ih = consumesD [OF es [OF arr(4)]]
    show ?thesis by (rule consumesI) (use ih len q arr in simp_all)
  next
    case flat
    show ?thesis by (rule consumesI) (use len flat in \<open>simp_all del: parse_value.simps(2)\<close>)
  qed
qed

lemma members_consumes:
  assumes vs: "\<And>d q v r. parse_value n d q = Some (v, r) \<Longrightarrow> consumes (\<lambda>m. parse_value m d q) q (v, r) r"
    and ms: "\<And>d q ms r. parse_members n d q = Some (ms, r) \<Longrightarrow> consumes (\<lambda>m. parse_members m d q) q (ms, r) r"
    and m: "parse_members (Suc n) depth s = Some (kvs, r)"
  shows "consumes (\<lambda>m. parse_members m depth s) s (kvs, r) r"
proof -
  from m obtain r0 k r1 r2 v r3 where
    p: "expect quote_char s = Some r0" "unquote r0 = Some (k, r1)" "expect (CHR '':'') r1 = Some r2" "parse_value n depth r2 = Some (v, r3)"
    by (auto split: option.splits)
  have l: "length r0 < length s" "length r1 < length r0" "length r2 < length r1"
    using expect_length unquote_length p(1-3) by blast+
  note v = consumesD [OF vs [OF p(4)]]
  show ?thesis
  proof (cases "expect (CHR '','') r3")
    case None
    then have e: "expect (CHR ''}'') r3 = Some r" "kvs = [(k, v)]" using m p by auto
    show ?thesis by (rule consumesI) (use l v expect_length [OF e(1)] p None e in simp_all)
  next
    case (Some r4)
    then obtain kvs' where e: "parse_members n depth r4 = Some (kvs', r)" "kvs = (k, v) # kvs'" using m p by auto
    note ih = consumesD [OF ms [OF e(1)]]
    show ?thesis by (rule consumesI) (use l v ih expect_length [OF Some] p Some e in simp_all)
  qed
qed

lemma elems_consumes:
  assumes vs: "\<And>d q v r. parse_value n d q = Some (v, r) \<Longrightarrow> consumes (\<lambda>m. parse_value m d q) q (v, r) r"
    and es: "\<And>d q vs r. parse_elems n d q = Some (vs, r) \<Longrightarrow> consumes (\<lambda>m. parse_elems m d q) q (vs, r) r"
    and m: "parse_elems (Suc n) depth s = Some (xs, r)"
  shows "consumes (\<lambda>m. parse_elems m depth s) s (xs, r) r"
proof -
  from m obtain v r3 where p: "parse_value n depth s = Some (v, r3)" by (auto split: option.splits)
  note v = consumesD [OF vs [OF p]]
  show ?thesis
  proof (cases "expect (CHR '','') r3")
    case None
    then have e: "expect (CHR '']'') r3 = Some r" "xs = [v]" using m p by auto
    show ?thesis by (rule consumesI) (use v expect_length [OF e(1)] None e in simp_all)
  next
    case (Some r4)
    then obtain xs' where e: "parse_elems n depth r4 = Some (xs', r)" "xs = v # xs'" using m p by auto
    note ih = consumesD [OF es [OF e(1)]]
    show ?thesis by (rule consumesI) (use v ih expect_length [OF Some] Some e in simp_all)
  qed
qed

lemma parse_consumes:
  "(parse_value n d s = Some (v, r) \<longrightarrow> consumes (\<lambda>m. parse_value m d s) s (v, r) r) \<and>
   (parse_members n d s = Some (kvs, r) \<longrightarrow> consumes (\<lambda>m. parse_members m d s) s (kvs, r) r) \<and>
   (parse_elems n d s = Some (xs, r) \<longrightarrow> consumes (\<lambda>m. parse_elems m d s) s (xs, r) r)"
proof (induction n arbitrary: d s v r kvs xs)
  case (Suc n)
  have v: "consumes (\<lambda>m. parse_value m d q) q (v, r) r" if "parse_value n d q = Some (v, r)" for d q v r
    using Suc.IH that by blast
  have m: "consumes (\<lambda>m. parse_members m d q) q (kvs, r) r" if "parse_members n d q = Some (kvs, r)" for d q kvs r
    using Suc.IH that by blast
  have e: "consumes (\<lambda>m. parse_elems m d q) q (xs, r) r" if "parse_elems n d q = Some (xs, r)" for d q xs r
    using Suc.IH that by blast
  from value_consumes [OF m e] members_consumes [OF v m] elems_consumes [OF v e] show ?case by blast
qed simp

text \<open>The fuel of the decoder does not limit it: every larger fuel gives the same result.\<close>

lemma parse_value_enough:
  assumes "length s < n"
  shows "parse_value n d s = parse_value (Suc (length s)) d s"
proof -
  have "parse_value m d s = Some (v, r)" if "parse_value k d s = Some (v, r)" "length s < m" for k m v r
    using parse_consumes [of k d s v r] that by (simp add: consumes_def del: parse_value.simps)
  then have "parse_value n d s = Some x \<longleftrightarrow> parse_value (Suc (length s)) d s = Some x" for x
    using assms by (metis lessI surj_pair)
  then show ?thesis by (metis not_None_eq)
qed

end
