(* ===== verification/Redis_Queue.thy ===== *)
theory Redis_Queue
  imports World Go_Json_Decode
begin

text \<open>
  The package internal/queue: the Redis client (redis.go) and the stream producer RedisQueue
  (queue.go) with its retry loop.

  Parameters: \<open>ParseURL\<close> is go-redis's URL parser. The server's answer to the n-th XADD is the
  reply function of the world: it may fail before or after the entry was added, and an approximate
  MAXLEN may trim old entries as long as MAXLEN entries stay.
\<close>

section \<open>Client\<close>

record redis_url =
  url_Addr :: string
  url_Password :: string
  url_DB :: int

record redis_Options =
  opt_Addr :: string
  opt_Password :: string
  opt_DB :: int
  opt_PoolSize :: int
  opt_DialTimeout :: duration
  opt_ReadTimeout :: duration
  opt_WriteTimeout :: duration
  MinIdleConns :: int

record RedisClient =
  rc_cfg :: RedisConfig
  rc_client :: redis_Options

definition MustGetRedisClient ::
  "(string \<Rightarrow> go_error + redis_url) \<Rightarrow> RedisConfig \<Rightarrow> (go_error + RedisClient) go" where
  "MustGetRedisClient ParseURL cfg = do {
     u \<leftarrow> (if ConnectionString cfg \<noteq> [] then
             (case ParseURL (ConnectionString cfg) of
                Inl err \<Rightarrow> go_return (Inl (NewConfigError ''invalid redis URL'' (Some err)))
              | Inr options \<Rightarrow> do {
                  _ \<leftarrow> emit [LogLine LInfo ''Connecting to Redis using URL'' []];
                  go_return (Inr options) })
           else go_return (Inr \<lparr>url_Addr = [], url_Password = [], url_DB = 0\<rparr>));
     go_return (case u of
        Inl err \<Rightarrow> Inl err
      | Inr o' \<Rightarrow> Inr \<lparr>rc_cfg = cfg, rc_client =
          \<lparr>opt_Addr = url_Addr o', opt_Password = url_Password o', opt_DB = url_DB o',
           opt_PoolSize = rc_PoolSize cfg, opt_DialTimeout = rc_ConnectTimeout cfg,
           opt_ReadTimeout = rc_ReadTimeout cfg, opt_WriteTimeout = rc_WriteTimeout cfg,
           MinIdleConns = 2\<rparr>\<rparr>) }"

text \<open>XLEN: the length of the stream, or the error \<open>failure\<close> the call reports.\<close>

definition XLen :: "go_error option \<Rightarrow> RedisClient \<Rightarrow> string \<Rightarrow> (go_error + int64) go" where
  "XLen failure rc stream = do {
     s \<leftarrow> gets streams;
     go_return (case failure of Some e \<Rightarrow> Inl e | None \<Rightarrow> Inr (int (length (s stream)))) }"

section \<open>Queue\<close>

record RedisQueueOptions =
  QueueName :: string
  MaxRetries :: int
  RetryInterval :: duration
  ConnectionTimeOut :: duration
  ReadTimeout :: duration
  WriteTimeout :: duration
  PoolSize :: int
  AddTimestamp :: bool
  AddSource :: bool
  MaxStreamLength :: int64
  EnableMetrics :: bool

record RedisQueue =
  rq_redis :: "RedisClient option"
  rq_options :: RedisQueueOptions
  rq_m :: "Metrics option"

definition default_options :: "RedisQueueOptions \<Rightarrow> RedisQueueOptions" where
  "default_options opts = opts\<lparr>
     QueueName := (if QueueName opts = [] then ''media:jobs'' else QueueName opts),
     MaxRetries := (if MaxRetries opts < 0 then 3 else MaxRetries opts),
     RetryInterval := (if RetryInterval opts \<le> 0 then 2 * Second else RetryInterval opts),
     ConnectionTimeOut := (if ConnectionTimeOut opts \<le> 0 then 2 * Second else ConnectionTimeOut opts),
     ReadTimeout := (if ReadTimeout opts \<le> 0 then 5 * Second else ReadTimeout opts),
     WriteTimeout := (if WriteTimeout opts \<le> 0 then 5 * Second else WriteTimeout opts),
     PoolSize := (if PoolSize opts \<le> 0 then 10 else PoolSize opts),
     MaxStreamLength := (if MaxStreamLength opts \<le> 0 then 10000 else MaxStreamLength opts)\<rparr>"

text \<open>
  The queue and, when there are metrics, the callback registered for the depth gauge. A nil client
  makes the callback dereference a nil pointer.
\<close>

type_synonym depth_fn = "go_error option \<Rightarrow> ((go_error + int64) go_run) go"

definition queue_depth :: "RedisClient option \<Rightarrow> string \<Rightarrow> depth_fn" where
  "queue_depth client streamName failure = (case client of
      None \<Rightarrow> go_return (Panics ''invalid memory address or nil pointer dereference'')
    | Some rc \<Rightarrow> do { n \<leftarrow> XLen failure rc streamName; go_return (Returns n) })"

definition NewRedisQueue ::
  "RedisClient option \<Rightarrow> RedisQueueOptions \<Rightarrow> Metrics option \<Rightarrow> RedisQueue \<times> depth_fn option" where
  "NewRedisQueue client options m =
    (let options = default_options options
     in (\<lparr>rq_redis = client, rq_options = options, rq_m = m\<rparr>,
         if m \<noteq> None then Some (queue_depth client (QueueName options)) else None))"

section \<open>XADD\<close>

record XAddArgs =
  Stream :: string
  Values :: "(string \<times> string) list"
  ID :: string
  Approx :: bool
  MaxLen :: int64

text \<open>Trimming: none without MAXLEN, down to MAXLEN entries when exact, any number of old entries
  that leaves MAXLEN when approximate (\<open>k\<close> is the server's choice).\<close>

definition trim_stream :: "XAddArgs \<Rightarrow> nat \<Rightarrow> stream_entry list \<Rightarrow> stream_entry list" where
  "trim_stream args k es =
    (if MaxLen args \<le> 0 then es
     else if Approx args then drop (min k (length es - nat (MaxLen args))) es
     else drop (length es - nat (MaxLen args)) es)"

definition stream_add :: "XAddArgs \<Rightarrow> string \<Rightarrow> nat \<Rightarrow> world \<Rightarrow> world" where
  "stream_add args i k w = w\<lparr>streams := (streams w)(Stream args :=
     trim_stream args k (streams w (Stream args) @ [\<lparr>entry_id = i, entry_fields = Values args\<rparr>]))\<rparr>"

definition XAdd :: "XAddArgs \<Rightarrow> (go_error + string) go" where
  "XAdd args = do {
     r \<leftarrow> gets (\<lambda>w. xadd_reply w (xadd_calls w));
     _ \<leftarrow> modify (\<lambda>w. w\<lparr>xadd_calls := Suc (xadd_calls w)\<rparr>);
     (case r of
        XOk i k \<Rightarrow> do { _ \<leftarrow> modify (stream_add args i k); go_return (Inr i) }
      | XFail e None \<Rightarrow> go_return (Inl e)
      | XFail e (Some (i, k)) \<Rightarrow> do { _ \<leftarrow> modify (stream_add args i k); go_return (Inl e) }) }"

definition ctx_error :: "go_error \<Rightarrow> bool" where
  "ctx_error e \<longleftrightarrow> errors_Is e CtxCanceled \<or> errors_Is e CtxDeadlineExceeded"

text \<open>
  The loop of doXAddWithRetry from attempt \<open>attempt\<close> on, with \<open>left\<close> passes to go. The timeout of
  the attempt's context is part of the reply: it shows as a context error.
\<close>

definition xadd_span :: string where
  "xadd_span = ''RedisQueue.doXAddWithRetry''"

definition retries_exhausted :: "go_error option \<Rightarrow> (go_error + string) go" where
  "retries_exhausted lastErr = do {
     _ \<leftarrow> emit (case lastErr of None \<Rightarrow> [] | Some e \<Rightarrow> [SpanError xadd_span e]);
     _ \<leftarrow> emit [SpanStatus xadd_span CodeError ''All retry attempts exhausted''];
     go_return (Inl (NewInternalServerError ''Failed to add entry to Redis stream after retries'' lastErr)) }"

fun xadd_loop ::
  "RedisQueue \<Rightarrow> XAddArgs \<Rightarrow> nat \<Rightarrow> int \<Rightarrow> go_error option \<Rightarrow> (go_error + string) go" where
  "xadd_loop rq args 0 attempt lastErr = retries_exhausted lastErr"
| "xadd_loop rq args (Suc left) attempt lastErr = do {
     _ \<leftarrow> emit [SpanEvent xadd_span ''Attempting Redis XADD'' [(''attempt'', AInt (attempt + 1))]];
     r \<leftarrow> XAdd args;
     (case r of
        Inr i \<Rightarrow> do {
          _ \<leftarrow> emit [SpanAttrs xadd_span [(''message.id'', AStr i), (''attempts_used'', AInt (attempt + 1))],
                      SpanStatus xadd_span CodeOk ''Message added to stream''];
          go_return (Inr i) }
      | Inl err \<Rightarrow>
         (if ctx_error err then do {
            _ \<leftarrow> emit [SpanError xadd_span err,
                        SpanStatus xadd_span CodeError ''Context cancelled or deadline exceeded''];
            go_return (Inl err) }
          else do {
            _ \<leftarrow> emit [SpanEvent xadd_span ''Retry attempt failed''
                        [(''attempt'', AInt (attempt + 1)), (''error'', AStr (Error err))]];
            _ \<leftarrow> go_if (attempt < MaxRetries (rq_options rq)) (do {
                  let sleepDuration = wrap64 ((attempt + 1) * RetryInterval (rq_options rq));
                  _ \<leftarrow> emit [SpanEvent xadd_span ''Waiting before retry''
                             [(''duration'', AStr (Duration_String sleepDuration))]];
                  time_Sleep sleepDuration });
            xadd_loop rq args left (attempt + 1) (Some err) })) }"

definition doXAddWithRetry :: "RedisQueue \<Rightarrow> XAddArgs \<Rightarrow> (go_error + string) go" where
  "doXAddWithRetry rq args = with_span xadd_span (do {
     _ \<leftarrow> emit [SpanAttrs xadd_span
           [(''max_retries'', AInt (MaxRetries (rq_options rq))), (''stream'', AStr (Stream args))]];
     xadd_loop rq args (nat (MaxRetries (rq_options rq) + 1)) 0 None })"

section \<open>Enqueue\<close>

text \<open>
  The payload is a Go map with string keys; an int64 in it is a \<^const>\<open>JInt\<close>. The type assertions
  that pick span attributes succeed for an int64 or a string.
\<close>

type_synonym payload = "(string \<times> json) list"

definition enqueue_span :: string where
  "enqueue_span = ''RedisQueue.Enqueue''"

definition payload_attrs :: "payload \<Rightarrow> tel_event list" where
  "payload_attrs payload =
    (case map_of payload ''job_id'' of
       Some (JInt i) \<Rightarrow> [SpanAttrs enqueue_span [(''job_id'', AInt i)]] | _ \<Rightarrow> []) @
    (case map_of payload ''asset_id'' of
       Some (JString s) \<Rightarrow> [SpanAttrs enqueue_span [(''asset_id'', AStr s)]] | _ \<Rightarrow> []) @
    (case map_of payload ''event'' of
       Some (JString s) \<Rightarrow> [SpanAttrs enqueue_span [(''event'', AStr s)]] | _ \<Rightarrow> [])"

definition xadd_args :: "RedisQueueOptions \<Rightarrow> string \<Rightarrow> XAddArgs" where
  "xadd_args opts body =
    (let args = \<lparr>Stream = QueueName opts, Values = [(''body'', body)], ID = ''*'', Approx = False, MaxLen = 0\<rparr>
     in if MaxStreamLength opts > 0 then args\<lparr>Approx := True, MaxLen := MaxStreamLength opts\<rparr> else args)"

definition publish :: "RedisQueue \<Rightarrow> int \<Rightarrow> string \<Rightarrow> (go_error + string) go" where
  "publish rq start body = do {
     let opts = rq_options rq;
     _ \<leftarrow> emit [SpanAttrs enqueue_span [(''payload.size_bytes'', AInt (int (length body)))]];
     let args = xadd_args opts body;
     _ \<leftarrow> go_if (MaxStreamLength opts > 0)
           (emit [SpanAttrs enqueue_span [(''queue.max_length'', AInt (MaxStreamLength opts))]]);
     res \<leftarrow> doXAddWithRetry rq args;
     (case res of
        Inl err \<Rightarrow> do {
          _ \<leftarrow> emit [SpanError enqueue_span err,
                      SpanStatus enqueue_span CodeError ''Failed to enqueue message''];
          _ \<leftarrow> go_if (rq_m rq \<noteq> None) (emit [MetricAdd QueueMessageFailed 1
                [(''queue.name'', AStr (QueueName opts)), (''error.type'', AStr ''publish_failed'')]]);
          go_return (Inl err) }
      | Inr i \<Rightarrow> do {
          duration \<leftarrow> time_Since start;
          let attrs = [(''queue.name'', AStr (QueueName opts))];
          _ \<leftarrow> go_if (rq_m rq \<noteq> None) (emit [MetricAdd QueueMessagePublished 1 attrs,
                MetricRecord QueueProcessingLag (MSeconds duration) attrs]);
          _ \<leftarrow> emit [SpanAttrs enqueue_span [(''message.id'', AStr i)],
                      SpanStatus enqueue_span CodeOk ''Message enqueued successfully''];
          go_return (Inr i) }) }"

definition Enqueue :: "RedisQueue \<Rightarrow> payload \<Rightarrow> (go_error + string) go" where
  "Enqueue rq payload = with_span enqueue_span (do {
     start \<leftarrow> time_Now;
     _ \<leftarrow> emit [SpanAttrs enqueue_span
           [(''queue.name'', AStr (QueueName (rq_options rq))), (''queue.type'', AStr ''redis_stream'')]];
     _ \<leftarrow> emit (payload_attrs payload);
     (case rq_redis rq of
        None \<Rightarrow> do {
          let err = NewInternalServerError ''Redis client is not initialized''
                      (Some (ErrText ''nil redis client''));
          _ \<leftarrow> emit [SpanError enqueue_span err,
                      SpanStatus enqueue_span CodeError ''Redis client not initialized''];
          go_return (Inl err) }
      | Some _ \<Rightarrow>
         (case Marshal (go_map payload) of
            Inl err \<Rightarrow> do {
              _ \<leftarrow> emit [SpanError enqueue_span err,
                          SpanStatus enqueue_span CodeError ''Failed to marshal payload''];
              go_return (Inl (NewInternalServerError ''Failed to marshal payload'' (Some err))) }
          | Inr body \<Rightarrow> publish rq start body)) })"

text \<open>Close hands the request to the client; with a nil client it dereferences a nil pointer.
  \<open>closeErr\<close> is what the client's Close reports.\<close>

definition Close :: "(RedisClient \<Rightarrow> go_error option) \<Rightarrow> RedisQueue \<Rightarrow> (go_error option) go_run" where
  "Close closeErr rq = (case rq_redis rq of
      None \<Rightarrow> Panics ''invalid memory address or nil pointer dereference''
    | Some rc \<Rightarrow> Returns (closeErr rc))"

section \<open>Options\<close>


definition bare_options :: RedisQueueOptions where
  "bare_options = \<lparr>QueueName = [], MaxRetries = 0, RetryInterval = 5, ConnectionTimeOut = 0,
     ReadTimeout = 0, WriteTimeout = 0, PoolSize = 0, AddTimestamp = False, AddSource = False,
     MaxStreamLength = -1, EnableMetrics = False\<rparr>"


section \<open>The retry loop\<close>

text \<open>A reply that lets the loop go on: an error that is not a context error.\<close>

fun transient :: "xadd_outcome \<Rightarrow> bool" where
  "transient (XOk i k) = False"
| "transient (XFail e a) = (\<not> ctx_error e)"

fun xadd_verdict :: "xadd_outcome \<Rightarrow> go_error + string" where
  "xadd_verdict (XOk i k) = Inr i"
| "xadd_verdict (XFail e a) = Inl (if ctx_error e then e
     else NewInternalServerError ''Failed to add entry to Redis stream after retries'' (Some e))"

fun reply_error :: "xadd_outcome \<Rightarrow> go_error option" where
  "reply_error (XOk i k) = None"
| "reply_error (XFail e a) = Some e"

fun applied :: "XAddArgs \<Rightarrow> xadd_outcome \<Rightarrow> world \<Rightarrow> world" where
  "applied args (XOk i k) w = stream_add args i k w"
| "applied args (XFail e None) w = w"
| "applied args (XFail e (Some (i, k))) w = stream_add args i k w"

lemma run_XAdd:
  "run_state (XAdd args) w =
     (let x = xadd_reply w (xadd_calls w)
      in (case x of XOk i k \<Rightarrow> Inr i | XFail e a \<Rightarrow> Inl e,
          applied args x (w\<lparr>xadd_calls := Suc (xadd_calls w)\<rparr>)))"
  by (auto simp: XAdd_def split: xadd_outcome.splits option.splits)

lemma stream_add_sel [simp]:
  "xadd_reply (stream_add args i k w) = xadd_reply w" "xadd_calls (stream_add args i k w) = xadd_calls w"
  "sleeps (stream_add args i k w) = sleeps w" "w_db (stream_add args i k w) = w_db w"
  "w_tx (stream_add args i k w) = w_tx w" "objects (stream_add args i k w) = objects w"
  "peers (stream_add args i k w) = peers w" "job_seq (stream_add args i k w) = job_seq w"
  by (simp_all add: stream_add_def peers_def)

lemma applied_sel [simp]:
  "xadd_reply (applied args x w) = xadd_reply w" "xadd_calls (applied args x w) = xadd_calls w"
  "sleeps (applied args x w) = sleeps w" "w_db (applied args x w) = w_db w"
  "w_tx (applied args x w) = w_tx w" "objects (applied args x w) = objects w"
  "peers (applied args x w) = peers w" "job_seq (applied args x w) = job_seq w"
  "s \<noteq> Stream args \<Longrightarrow> streams (applied args x w) s = streams w s"
  by (induction args x w rule: applied.induct) (simp_all add: stream_add_def peers_def)

text \<open>
  The loop as seen from outside: the attempts \<open>0..k\<close> are made, all but the last answered by a
  transient error, the last by a final answer unless the attempts ran out; in between it sleeps
  one, two, three, ... intervals.
\<close>

definition attempts_made :: "RedisQueue \<Rightarrow> nat \<Rightarrow> nat \<Rightarrow> int \<Rightarrow> world \<Rightarrow> (go_error + string) \<Rightarrow> world \<Rightarrow> bool" where
  "attempts_made rq left k attempt w r w' \<longleftrightarrow>
     k \<le> left \<and> (\<forall>i < k. transient (xadd_reply w (xadd_calls w + i))) \<and>
     (k < left \<longrightarrow> \<not> transient (xadd_reply w (xadd_calls w + k))) \<and>
     xadd_calls w' = xadd_calls w + Suc k \<and>
     sleeps w' = sleeps w @
       map (\<lambda>i. wrap64 ((attempt + 1 + int i) * RetryInterval (rq_options rq))) [0..<k] \<and>
     r = xadd_verdict (xadd_reply w (xadd_calls w + k))"

lemma upt_map_shift: "map f [0..<Suc k] = f 0 # map (\<lambda>i. f (Suc i)) [0..<k]"
  by (simp add: upt_conv_Cons map_Suc_upt [symmetric] o_def del: upt_Suc)

lemma xadd_loop_attempts:
  assumes "run_state (xadd_loop rq args (Suc left) attempt e0) w = (r, w')"
    and "attempt + int left = MaxRetries (rq_options rq)"
  shows "\<exists>k. attempts_made rq left k attempt w r w'"
  using assms
proof (induction left arbitrary: attempt e0 w)
  case 0
  show ?case
    using 0 by (intro exI [of _ 0]; cases "xadd_reply w (xadd_calls w)")
      (auto simp: attempts_made_def run_XAdd Let_def retries_exhausted_def split: if_splits)
next
  case (Suc left)
  let ?x = "xadd_reply w (xadd_calls w)"
  show ?case
  proof (cases "transient ?x")
    case False
    then show ?thesis
      using Suc.prems by (intro exI [of _ 0]; cases ?x)
        (auto simp: attempts_made_def run_XAdd Let_def split: if_splits)
  next
    case True
    then obtain e a where x: "?x = XFail e a" "\<not> ctx_error e" by (cases ?x) auto
    define w1 where "w1 = snd (run_state (do {
        _ \<leftarrow> emit [SpanEvent xadd_span ''Attempting Redis XADD'' [(''attempt'', AInt (attempt + 1))]];
        _ \<leftarrow> XAdd args;
        _ \<leftarrow> emit [SpanEvent xadd_span ''Retry attempt failed''
              [(''attempt'', AInt (attempt + 1)), (''error'', AStr (Error e))],
            SpanEvent xadd_span ''Waiting before retry'' [(''duration'',
              AStr (Duration_String (wrap64 ((attempt + 1) * RetryInterval (rq_options rq)))))]];
        time_Sleep (wrap64 ((attempt + 1) * RetryInterval (rq_options rq))) }) w)"
    have run: "run_state (xadd_loop rq args (Suc left) (attempt + 1) (Some e)) w1 = (r, w')"
      using Suc.prems x by (simp add: w1_def run_XAdd Let_def del: xadd_loop.simps(2)
          add: xadd_loop.simps(2) [of rq args "Suc left"])
    have w1: "xadd_calls w1 = Suc (xadd_calls w)" "xadd_reply w1 = xadd_reply w"
      "sleeps w1 = sleeps w @ [wrap64 ((attempt + 1) * RetryInterval (rq_options rq))]"
      by (simp_all add: w1_def run_XAdd Let_def)
    have "attempt + 1 + int left = MaxRetries (rq_options rq)" using Suc.prems(2) by simp
    from Suc.IH [OF run this] obtain k where k: "attempts_made rq left k (attempt + 1) w1 r w'" ..
    have "attempts_made rq (Suc left) (Suc k) attempt w r w'"
      using k w1 True unfolding attempts_made_def
      by (auto simp: upt_map_shift add.assoc less_Suc_eq_0_disj simp del: upt_Suc)
    then show ?thesis ..
  qed
qed

text \<open>C9. doXAddWithRetry makes at most MaxRetries + 1 attempts and stops at the first one that
  succeeds or fails with a context error; before attempt i + 1 it sleeps i times the interval; it
  returns the id of the last attempt, its context error unchanged, or an internal server error
  around the last error.\<close>

theorem doXAddWithRetry_attempts:
  assumes "run_state (doXAddWithRetry rq args) w = (r, w')" and "0 \<le> MaxRetries (rq_options rq)"
  shows "\<exists>k. attempts_made rq (nat (MaxRetries (rq_options rq))) k 0 w r w'"
proof -
  let ?w = "w\<lparr>tel := tel w @ [SpanStart xadd_span [], SpanAttrs xadd_span
      [(''max_retries'', AInt (MaxRetries (rq_options rq))), (''stream'', AStr (Stream args))]]\<rparr>"
  have n: "nat (MaxRetries (rq_options rq) + 1) = Suc (nat (MaxRetries (rq_options rq)))"
    using assms(2) by simp
  obtain w1 where w1: "run_state (xadd_loop rq args (Suc (nat (MaxRetries (rq_options rq)))) 0 None) ?w
      = (r, w1)" "w' = w1\<lparr>tel := tel w1 @ [SpanEnd xadd_span]\<rparr>"
    using assms(1) by (auto simp: doXAddWithRetry_def n simp del: xadd_loop.simps split: prod.splits)
  from xadd_loop_attempts [OF w1(1)] assms(2)
  obtain k where "attempts_made rq (nat (MaxRetries (rq_options rq))) k 0 ?w r w1" by auto
  then show ?thesis using w1(2) by (auto simp: attempts_made_def)
qed

definition sample_options :: RedisQueueOptions where
  "sample_options = \<lparr>QueueName = ''media:jobs'', MaxRetries = 3, RetryInterval = 2 * Second,
     ConnectionTimeOut = 2 * Second, ReadTimeout = 0, WriteTimeout = 0, PoolSize = 0,
     AddTimestamp = False, AddSource = False, MaxStreamLength = 10000, EnableMetrics = True\<rparr>"

definition sample_client :: RedisClient where
  "sample_client = \<lparr>rc_cfg = \<lparr>ConnectionString = [], rc_PoolSize = 10, rc_ConnectTimeout = 0,
     rc_ReadTimeout = 0, rc_WriteTimeout = 0\<rparr>, rc_client = \<lparr>opt_Addr = [], opt_Password = [], opt_DB = 0,
     opt_PoolSize = 10, opt_DialTimeout = 0, opt_ReadTimeout = 0, opt_WriteTimeout = 0, MinIdleConns = 2\<rparr>\<rparr>"

definition sample_queue :: RedisQueue where
  "sample_queue = fst (NewRedisQueue (Some sample_client) sample_options None)"

definition flaky_world :: world where
  "flaky_world = idle_world\<lparr>xadd_reply :=
     (\<lambda>n. if n = 0 then XFail (ErrText ''connection reset'') (Some (''1-0'', 0)) else XOk ''2-0'' 0)\<rparr>"

theorem doXAddWithRetry_attempts_witness:
  "\<exists>k. attempts_made sample_queue 3 k 0 flaky_world
     (fst (run_state (doXAddWithRetry sample_queue (xadd_args sample_options ''x'')) flaky_world))
     (snd (run_state (doXAddWithRetry sample_queue (xadd_args sample_options ''x'')) flaky_world))"
  using doXAddWithRetry_attempts [of sample_queue "xadd_args sample_options ''x''" flaky_world,
      OF prod.collapse [symmetric]]
  by (simp add: sample_queue_def NewRedisQueue_def default_options_def sample_options_def Let_def)

section \<open>What reaches the stream\<close>

text \<open>
  \<open>grew fs ml xs ys\<close>: the stream went from \<open>xs\<close> to \<open>ys\<close> by adding entries with the fields \<open>fs\<close> only
  and by dropping oldest entries only, never below \<open>ml\<close> entries.
\<close>

definition grew :: "(string \<times> string) list \<Rightarrow> nat \<Rightarrow> stream_entry list \<Rightarrow> stream_entry list \<Rightarrow> bool" where
  "grew fs ml xs ys \<longleftrightarrow> (\<exists>added n. ys = drop n (xs @ added) \<and> n \<le> length (xs @ added) \<and>
     (\<forall>e \<in> set added. entry_fields e = fs) \<and> (n = 0 \<or> ml \<le> length ys))"

lemma grew_refl [simp]: "grew fs ml xs xs"
  by (simp add: grew_def exI [of _ "[]"] exI [of _ 0])

lemma grew_trans:
  assumes "grew fs ml xs ys" "grew fs ml ys zs"
  shows "grew fs ml xs zs"
proof -
  obtain a n where a: "ys = drop n (xs @ a)" "n \<le> length (xs @ a)" "\<forall>e \<in> set a. entry_fields e = fs"
    "n = 0 \<or> ml \<le> length ys" using assms(1) by (auto simp: grew_def)
  obtain b m where b: "zs = drop m (ys @ b)" "m \<le> length (ys @ b)" "\<forall>e \<in> set b. entry_fields e = fs"
    "m = 0 \<or> ml \<le> length zs" using assms(2) by (auto simp: grew_def)
  have "ys @ b = drop n (xs @ a @ b)" using a(1,2) by simp
  then have "zs = drop (n + m) (xs @ a @ b)" unfolding b(1) by (simp only: drop_drop add.commute)
  moreover have "n + m \<le> length (xs @ a @ b)" using a b(2) by auto
  moreover have "n + m = 0 \<or> ml \<le> length zs" using a(4) b(1,4) by auto
  ultimately show ?thesis
    unfolding grew_def using a(3) b(3) by (intro exI [of _ "a @ b"] exI [of _ "n + m"]) auto
qed

lemma grew_trim:
  "entry_fields e = fs \<Longrightarrow> grew fs (nat (MaxLen args)) xs (trim_stream args k (xs @ [e]))"
  unfolding grew_def trim_stream_def
  by (rule exI [of _ "[e]"],
      rule exI [of _ "if MaxLen args \<le> 0 then 0
        else if Approx args then min k (Suc (length xs) - nat (MaxLen args))
        else Suc (length xs) - nat (MaxLen args)"]) (auto simp: min_def)

lemma last_trim:
  "0 < MaxLen args \<Longrightarrow> trim_stream args k (xs @ [e]) \<noteq> [] \<and> last (trim_stream args k (xs @ [e])) = e"
  by (auto simp: trim_stream_def)

lemma grew_applied:
  "grew (Values args) (nat (MaxLen args)) (streams w (Stream args)) (streams (applied args x w) (Stream args))"
  by (induction args x w rule: applied.induct) (simp_all add: stream_add_def grew_trim)

text \<open>The part of the world a queue has no business with.\<close>

definition beyond_queue ::
  "world \<Rightarrow> database \<times> txn option \<times> object_store \<times> int64 \<times> (nat \<Rightarrow> db_outcome) \<times>
     (nat \<Rightarrow> xadd_outcome) \<times> (nat \<Rightarrow> uuid) \<times> (nat \<Rightarrow> int) \<times> (nat \<Rightarrow> go_error option)" where
  "beyond_queue w = (w_db w, w_tx w, objects w, job_seq w, peers w)"

definition queue_effect ::
  "XAddArgs \<Rightarrow> world \<Rightarrow> (go_error + string) \<Rightarrow> world \<Rightarrow> bool" where
  "queue_effect args w r w' \<longleftrightarrow>
     beyond_queue w' = beyond_queue w \<and> (\<forall>s. s \<noteq> Stream args \<longrightarrow> streams w' s = streams w s) \<and>
     grew (Values args) (nat (MaxLen args)) (streams w (Stream args)) (streams w' (Stream args)) \<and>
     (\<forall>i. r = Inr i \<longrightarrow> 0 < MaxLen args \<longrightarrow> streams w' (Stream args) \<noteq> [] \<and>
        last (streams w' (Stream args)) = \<lparr>entry_id = i, entry_fields = Values args\<rparr>)"

lemma beyond_queue_update [simp]:
  "beyond_queue (w\<lparr>tel := t\<rparr>) = beyond_queue w" "beyond_queue (w\<lparr>sleeps := sl\<rparr>) = beyond_queue w"
  "beyond_queue (w\<lparr>xadd_calls := n\<rparr>) = beyond_queue w" "beyond_queue (w\<lparr>clock_calls := n\<rparr>) = beyond_queue w"
  "beyond_queue (applied args x w) = beyond_queue w" "beyond_queue (stream_add args i k w) = beyond_queue w"
  by (simp_all add: beyond_queue_def peers_def [symmetric]) (simp_all add: peers_def)

lemma xadd_loop_effect:
  assumes "run_state (xadd_loop rq args left attempt e0) w = (r, w')"
  shows "queue_effect args w r w'"
  using assms
proof (induction left arbitrary: attempt e0 w)
  case 0
  then show ?case by (auto simp: queue_effect_def retries_exhausted_def)
next
  case (Suc left)
  let ?x = "xadd_reply w (xadd_calls w)"
  let ?w = "applied args ?x (w\<lparr>tel := tel w @ [SpanEvent xadd_span ''Attempting Redis XADD''
      [(''attempt'', AInt (attempt + 1))]], xadd_calls := Suc (xadd_calls w)\<rparr>)"
  have base: "beyond_queue ?w = beyond_queue w" "\<And>s. s \<noteq> Stream args \<Longrightarrow> streams ?w s = streams w s"
    using grew_applied [of args _ ?x] by simp_all
  have grown: "grew (Values args) (nat (MaxLen args)) (streams w (Stream args)) (streams ?w (Stream args))"
    using grew_applied [of args "w\<lparr>tel := tel w @ [SpanEvent xadd_span ''Attempting Redis XADD''
      [(''attempt'', AInt (attempt + 1))]], xadd_calls := Suc (xadd_calls w)\<rparr>" ?x] by simp
  show ?case
  proof (cases ?x)
    case (XOk i k)
    then have res: "r = Inr i" "w' = ?w\<lparr>tel := tel ?w @ [SpanAttrs xadd_span
        [(''message.id'', AStr i), (''attempts_used'', AInt (attempt + 1))],
        SpanStatus xadd_span CodeOk ''Message added to stream'']\<rparr>"
      using Suc.prems by (auto simp: run_XAdd Let_def)
    moreover have "0 < MaxLen args \<Longrightarrow> streams ?w (Stream args) \<noteq> [] \<and>
        last (streams ?w (Stream args)) = \<lparr>entry_id = i, entry_fields = Values args\<rparr>"
      using last_trim [of args] XOk by (simp add: stream_add_def)
    ultimately show ?thesis using base grown by (simp add: queue_effect_def)
  next
    case (XFail e a)
    show ?thesis
    proof (cases "ctx_error e")
      case True
      then show ?thesis using Suc.prems XFail base grown
        by (auto simp: queue_effect_def run_XAdd Let_def)
    next
      case False
      then obtain w1 where w1: "run_state (xadd_loop rq args left (attempt + 1) (Some e)) w1 = (r, w')"
        "beyond_queue w1 = beyond_queue ?w" "streams w1 = streams ?w"
        using Suc.prems XFail by (auto simp: run_XAdd Let_def split: if_splits)
      from Suc.IH [OF w1(1)] show ?thesis
        using w1(2,3) base grown by (auto simp: queue_effect_def intro: grew_trans)
    qed
  qed
qed

lemma doXAddWithRetry_effect:
  assumes "run_state (doXAddWithRetry rq args) w = (r, w')"
  shows "queue_effect args w r w'"
proof -
  let ?e = "[SpanStart xadd_span [], SpanAttrs xadd_span
      [(''max_retries'', AInt (MaxRetries (rq_options rq))), (''stream'', AStr (Stream args))]]"
  obtain w1 where w1: "run_state (xadd_loop rq args (nat (MaxRetries (rq_options rq) + 1)) 0 None)
      (w\<lparr>tel := tel w @ ?e\<rparr>) = (r, w1)" "w' = w1\<lparr>tel := tel w1 @ [SpanEnd xadd_span]\<rparr>"
    using assms by (auto simp: doXAddWithRetry_def simp del: xadd_loop.simps split: prod.splits)
  from xadd_loop_effect [OF w1(1)] show ?thesis using w1(2) by (simp add: queue_effect_def)
qed

section \<open>Enqueue\<close>

definition message :: "payload \<Rightarrow> (string \<times> string) list" where
  "message p = [(''body'', encode (go_map p))]"

lemma xadd_args_sel [simp]:
  "Stream (xadd_args opts body) = QueueName opts" "Values (xadd_args opts body) = [(''body'', body)]"
  "0 < MaxStreamLength opts \<Longrightarrow> MaxLen (xadd_args opts body) = MaxStreamLength opts"
  "0 < MaxLen (xadd_args opts body) \<longleftrightarrow> 0 < MaxStreamLength opts"
  by (simp_all add: xadd_args_def Let_def)

lemma publish_effect:
  assumes "run_state (publish rq start body) w = (r, w')"
  shows "queue_effect (xadd_args (rq_options rq) body) w r w'"
proof -
  obtain w0 r1 w1 where w1: "run_state (doXAddWithRetry rq (xadd_args (rq_options rq) body)) w0 = (r1, w1)"
    "streams w0 = streams w" "beyond_queue w0 = beyond_queue w" "r = r1"
    "streams w' = streams w1" "beyond_queue w' = beyond_queue w1"
    using assms by (auto simp: publish_def Let_def split: prod.splits sum.splits if_splits)
  from doXAddWithRetry_effect [OF w1(1)] show ?thesis
    using w1(2-) by (simp add: queue_effect_def)
qed

text \<open>What a caller sees of Enqueue.\<close>

lemma Enqueue_effect:
  assumes "run_state (Enqueue rq p) w = (r, w')" and "0 < MaxStreamLength (rq_options rq)"
  shows "beyond_queue w' = beyond_queue w \<and>
     (\<forall>s. s \<noteq> QueueName (rq_options rq) \<longrightarrow> streams w' s = streams w s) \<and>
     grew (message p) (nat (MaxStreamLength (rq_options rq)))
       (streams w (QueueName (rq_options rq))) (streams w' (QueueName (rq_options rq))) \<and>
     (\<forall>i. r = Inr i \<longrightarrow> rq_redis rq \<noteq> None \<and> supported (go_map p) \<and>
        streams w' (QueueName (rq_options rq)) \<noteq> [] \<and>
        last (streams w' (QueueName (rq_options rq))) = \<lparr>entry_id = i, entry_fields = message p\<rparr>)"
proof (cases "rq_redis rq \<noteq> None \<and> supported (go_map p)")
  case False
  then show ?thesis
    using assms(1) by (auto simp: Enqueue_def Marshal_def Let_def split: prod.splits option.splits)
next
  case True
  then obtain w0 w1 start where w1: "run_state (publish rq start (encode (go_map p))) w0 = (r, w1)"
    "streams w0 = streams w" "beyond_queue w0 = beyond_queue w"
    "streams w' = streams w1" "beyond_queue w' = beyond_queue w1"
    using assms(1) by (auto simp: Enqueue_def Marshal_def Let_def split: prod.splits)
  from publish_effect [OF w1(1)] show ?thesis
    using w1(2-) True assms(2) by (simp add: queue_effect_def message_def)
qed

text \<open>A Redis that accepts every entry, and one that is unreachable.\<close>

definition redis_healthy :: "world \<Rightarrow> bool" where
  "redis_healthy w \<longleftrightarrow> (\<forall>n. \<exists>i k. xadd_reply w n = XOk i k)"

definition redis_down :: "world \<Rightarrow> bool" where
  "redis_down w \<longleftrightarrow> (\<forall>n. \<exists>e. xadd_reply w n = XFail e None)"

lemma redis_peers:
  "peers w' = peers w \<Longrightarrow> redis_healthy w' = redis_healthy w \<and> redis_down w' = redis_down w"
  by (simp add: peers_def redis_healthy_def redis_down_def)

lemma xadd_loop_healthy:
  assumes "redis_healthy w" "run_state (xadd_loop rq args (Suc left) attempt e0) w = (r, w')"
  shows "\<exists>i. r = Inr i"
proof -
  obtain i k where "xadd_reply w (xadd_calls w) = XOk i k"
    using assms(1) unfolding redis_healthy_def by blast
  then show ?thesis using assms(2) by (auto simp: run_XAdd Let_def)
qed

lemma xadd_loop_down:
  assumes "redis_down w" "run_state (xadd_loop rq args left attempt e0) w = (r, w')"
  shows "streams w' = streams w \<and> (\<exists>e. r = Inl e)"
  using assms
proof (induction left arbitrary: attempt e0 w)
  case 0
  then show ?case by (auto simp: retries_exhausted_def)
next
  case (Suc left)
  obtain e where e: "xadd_reply w (xadd_calls w) = XFail e None"
    using Suc.prems(1) unfolding redis_down_def by blast
  show ?case
  proof (cases "ctx_error e")
    case True
    then show ?thesis using Suc.prems(2) e by (auto simp: run_XAdd Let_def)
  next
    case False
    then obtain w1 where "run_state (xadd_loop rq args left (attempt + 1) (Some e)) w1 = (r, w')"
      "streams w1 = streams w" "xadd_reply w1 = xadd_reply w"
      using Suc.prems(2) e by (auto simp: run_XAdd Let_def split: if_splits)
    moreover have "redis_down w1" using Suc.prems(1) calculation(3) by (simp add: redis_down_def)
    ultimately show ?thesis using Suc.IH by metis
  qed
qed

lemma publish_outcome:
  assumes "run_state (publish rq start body) w = (r, w')"
  shows "redis_healthy w \<Longrightarrow> 0 \<le> MaxRetries (rq_options rq) \<Longrightarrow> \<exists>i. r = Inr i"
    and "redis_down w \<Longrightarrow> streams w' = streams w \<and> (\<exists>e. r = Inl e)"
proof -
  obtain w0 r1 w1 where w1: "run_state (xadd_loop rq (xadd_args (rq_options rq) body)
      (nat (MaxRetries (rq_options rq) + 1)) 0 None) w0 = (r1, w1)"
    "streams w0 = streams w" "xadd_reply w0 = xadd_reply w" "r = r1" "streams w' = streams w1"
    using assms by (auto simp: publish_def doXAddWithRetry_def Let_def simp del: xadd_loop.simps
        split: prod.splits sum.splits if_splits)
  show "\<exists>i. r = Inr i" if "redis_healthy w" "0 \<le> MaxRetries (rq_options rq)"
  proof -
    have "redis_healthy w0" using that(1) w1(3) by (simp add: redis_healthy_def)
    moreover have "nat (MaxRetries (rq_options rq) + 1) = Suc (nat (MaxRetries (rq_options rq)))"
      using that(2) by simp
    ultimately show ?thesis using xadd_loop_healthy w1(1,4) by metis
  qed
  show "streams w' = streams w \<and> (\<exists>e. r = Inl e)" if "redis_down w"
    using that xadd_loop_down [OF _ w1(1)] w1(2-5) by (simp add: redis_down_def)
qed

lemma Enqueue_outcome:
  assumes "run_state (Enqueue rq p) w = (r, w')"
  shows "redis_healthy w \<Longrightarrow> 0 \<le> MaxRetries (rq_options rq) \<Longrightarrow> rq_redis rq \<noteq> None \<Longrightarrow>
      supported (go_map p) \<Longrightarrow> \<exists>i. r = Inr i"
    and "redis_down w \<or> rq_redis rq = None \<Longrightarrow> streams w' = streams w \<and> (\<exists>e. r = Inl e)"
proof -
  have pub: "\<exists>start w0 w1. run_state (publish rq start (encode (go_map p))) w0 = (r, w1) \<and>
      streams w0 = streams w \<and> xadd_reply w0 = xadd_reply w \<and> streams w' = streams w1"
    if c: "rq_redis rq \<noteq> None" "supported (go_map p)"
  proof -
    obtain start w0 w1 where "run_state (publish rq start (encode (go_map p))) w0 = (r, w1)"
      "streams w0 = streams w" "xadd_reply w0 = xadd_reply w" "streams w' = streams w1"
      using c assms by (auto simp: Enqueue_def Marshal_def Let_def split: prod.splits)
    then show ?thesis by blast
  qed
  show "\<exists>i. r = Inr i" if h: "redis_healthy w" "0 \<le> MaxRetries (rq_options rq)" "rq_redis rq \<noteq> None"
      "supported (go_map p)"
  proof -
    obtain start w0 w1 where "run_state (publish rq start (encode (go_map p))) w0 = (r, w1)"
      "xadd_reply w0 = xadd_reply w" using pub h by blast
    then show ?thesis using publish_outcome(1) [of rq start _ w0] h by (simp add: redis_healthy_def)
  qed
  show "streams w' = streams w \<and> (\<exists>e. r = Inl e)" if d: "redis_down w \<or> rq_redis rq = None"
  proof (cases "rq_redis rq \<noteq> None \<and> supported (go_map p)")
    case True
    then obtain start w0 w1 where p: "run_state (publish rq start (encode (go_map p))) w0 = (r, w1)"
      "streams w0 = streams w" "xadd_reply w0 = xadd_reply w" "streams w' = streams w1"
      using pub by blast
    then show ?thesis using publish_outcome(2) [OF p(1)] d True by (simp add: redis_down_def)
  next
    case False
    then show ?thesis using assms
      by (auto simp: Enqueue_def Marshal_def Let_def split: prod.splits option.splits if_splits)
  qed
qed

text \<open>
  The contract of a job queue: enqueueing touches only its own stream, adds nothing there but
  copies of its message, keeps at least \<open>cap\<close> newest entries, and when it reports an id the
  message is the newest entry, with that id. A \<open>usable\<close> queue (one that has a client) succeeds when
  Redis accepts entries; otherwise, or when Redis is unreachable, it fails and adds nothing.
\<close>

locale job_queue =
  fixes enqueue :: "payload \<Rightarrow> (go_error + string) go" and stream :: string and cap :: nat
    and usable :: bool
  assumes enqueue_frame: "run_state (enqueue p) w = (r, w') \<Longrightarrow> beyond_queue w' = beyond_queue w"
    and enqueue_other:
    "run_state (enqueue p) w = (r, w') \<Longrightarrow> s \<noteq> stream \<Longrightarrow> streams w' s = streams w s"
    and enqueue_grew:
    "run_state (enqueue p) w = (r, w') \<Longrightarrow> grew (message p) cap (streams w stream) (streams w' stream)"
    and enqueue_ok:
    "run_state (enqueue p) w = (Inr i, w') \<Longrightarrow> streams w' stream \<noteq> [] \<and>
       last (streams w' stream) = \<lparr>entry_id = i, entry_fields = message p\<rparr>"
    and enqueue_up:
    "run_state (enqueue p) w = (r, w') \<Longrightarrow> redis_healthy w \<Longrightarrow> usable \<Longrightarrow> supported (go_map p) \<Longrightarrow>
       \<exists>i. r = Inr i"
    and enqueue_down:
    "run_state (enqueue p) w = (r, w') \<Longrightarrow> redis_down w \<or> \<not> usable \<Longrightarrow>
       streams w' = streams w \<and> (\<exists>e. r = Inl e)"
begin

lemma enqueue_keeps_db:
  "run_state (enqueue p) w = (r, w') \<Longrightarrow>
     w_db w' = w_db w \<and> w_tx w' = w_tx w \<and> objects w' = objects w \<and> job_seq w' = job_seq w \<and>
     peers w' = peers w"
  using enqueue_frame by (fastforce simp: beyond_queue_def)

lemma enqueue_delivers:
  "run_state (enqueue p) w = (Inr i, w') \<Longrightarrow> \<exists>e \<in> set (streams w' stream). entry_fields e = message p"
  using enqueue_ok by (metis last_in_set stream_entry.select_convs(2))

text \<open>An entry seen afterwards was there before or carries the message.\<close>

lemma enqueue_only:
  "run_state (enqueue p) w = (r, w') \<Longrightarrow> e \<in> set (streams w' s) \<Longrightarrow>
     e \<in> set (streams w s) \<or> s = stream \<and> entry_fields e = message p"
  using enqueue_grew [of p w r w'] enqueue_other [of p w r w' s]
  by (cases "s = stream") (auto simp: grew_def dest!: in_set_dropD)

end

lemma NewRedisQueue_sel [simp]:
  "rq_redis (fst (NewRedisQueue client opts m)) = client"
  "rq_options (fst (NewRedisQueue client opts m)) = default_options opts"
  "rq_m (fst (NewRedisQueue client opts m)) = m"
  by (simp_all add: NewRedisQueue_def Let_def)

lemma default_options_length [simp]: "0 < MaxStreamLength (default_options opts)"
  by (simp add: default_options_def)

lemma default_options_retries [simp]: "0 \<le> MaxRetries (default_options opts)"
  by (simp add: default_options_def)

interpretation redis: job_queue "Enqueue (fst (NewRedisQueue client opts m))"
  "QueueName (default_options opts)" "nat (MaxStreamLength (default_options opts))" "client \<noteq> None"
  for client opts m
proof (unfold_locales, goal_cases)
  case (5 p w r w')
  then show ?case using Enqueue_outcome(1) [OF 5(1)] by simp
next
  case (6 p w r w')
  then show ?case using Enqueue_outcome(2) [OF 6(1)] by simp
qed (use Enqueue_effect [of "fst (NewRedisQueue client opts m)"] in \<open>(fastforce | blast)+\<close>)

section \<open>The message\<close>

lemma map_of_insert_key:
  "k \<notin> fst ` set kvs \<Longrightarrow> map_of (insert_key (k, v) kvs) = (map_of kvs)(k \<mapsto> v)"
  by (induction kvs) (auto simp: fun_eq_iff)

lemma set_insert_key [simp]: "set (insert_key kv kvs) = insert kv (set kvs)"
  by (induction kvs) auto

lemma set_sorted_keys [simp]: "set (foldr insert_key kvs []) = set kvs"
  by (induction kvs) auto

lemma map_of_sorted_keys:
  "distinct (map fst kvs) \<Longrightarrow> map_of (foldr insert_key kvs []) = map_of kvs"
  by (induction kvs) (auto simp: map_of_insert_key image_iff)

lemma map_of_raw_members:
  "list_all (\<lambda>kv. isASCII (fst kv)) kvs \<Longrightarrow>
     map_of (map (\<lambda>kv. (to_valid (fst kv), raw (snd kv))) kvs) k = map_option raw (map_of kvs k)"
  by (induction kvs) auto

text \<open>A payload whose members have no further structure (strings and numbers), with distinct ASCII
  keys: the shape of the messages the service sends.\<close>

definition flat :: "payload \<Rightarrow> bool" where
  "flat p \<longleftrightarrow> list_all (\<lambda>kv. isASCII (fst kv) \<and> supported (snd kv) \<and> nesting (snd kv) = 0) p \<and>
     distinct (map fst p)"

lemma nesting_flat: "\<forall>kv \<in> set kvs. nesting (snd kv) = 0 \<Longrightarrow> nesting (JObject kvs) = 1"
  by (induction kvs) auto

lemma decode_message:
  assumes "flat p"
  shows "\<exists>ms. Unmarshal_value (encode (go_map p)) = Inr (VObject ms) \<and>
    (\<forall>k. map_of ms k = map_option raw (map_of p k))"
proof -
  let ?s = "foldr insert_key p []"
  have "Marshal (go_map p) = Inr (encode (go_map p))"
    using assms by (auto simp: Marshal_def go_map_def flat_def list_all_iff)
  moreover have "nesting (go_map p) = 1"
    unfolding go_map_def by (rule nesting_flat) (use assms in \<open>auto simp: flat_def list_all_iff\<close>)
  ultimately have "Unmarshal_value (encode (go_map p)) = Inr (raw (go_map p))"
    by (intro Unmarshal_Marshal) simp_all
  moreover have "map_of (map (\<lambda>kv. (to_valid (fst kv), raw (snd kv))) ?s) k = map_option raw (map_of p k)" for k
    using assms by (subst map_of_raw_members) (auto simp: flat_def list_all_iff map_of_sorted_keys)
  ultimately show ?thesis by (auto simp: go_map_def)
qed

text \<open>C8. When Enqueue reports an id, the stream's newest entry has this id and its body field is a
  JSON object from which a reader gets back every member of the payload; the stream keeps at least
  MaxStreamLength entries of what it had, gains only copies of this message, and nothing else in
  the world changes.\<close>

theorem Enqueue_delivers:
  assumes "run_state (Enqueue (fst (NewRedisQueue client opts m)) p) w = (Inr i, w')" and "flat p"
  shows "\<exists>body ms. streams w' (QueueName (default_options opts)) \<noteq> [] \<and>
      last (streams w' (QueueName (default_options opts))) = \<lparr>entry_id = i, entry_fields = [(''body'', body)]\<rparr> \<and>
      Unmarshal_value body = Inr (VObject ms) \<and> (\<forall>k. map_of ms k = map_option raw (map_of p k)) \<and>
      grew [(''body'', body)] (nat (MaxStreamLength (default_options opts)))
        (streams w (QueueName (default_options opts))) (streams w' (QueueName (default_options opts))) \<and>
      (\<forall>s. s \<noteq> QueueName (default_options opts) \<longrightarrow> streams w' s = streams w s) \<and>
      beyond_queue w' = beyond_queue w"
proof -
  obtain ms where "Unmarshal_value (encode (go_map p)) = Inr (VObject ms)"
    "\<forall>k. map_of ms k = map_option raw (map_of p k)" using decode_message [OF assms(2)] by blast
  then show ?thesis
    using redis.enqueue_ok [OF assms(1)] redis.enqueue_grew [OF assms(1)]
      redis.enqueue_frame [OF assms(1)] redis.enqueue_other [OF assms(1)]
    unfolding message_def by blast
qed

definition sample_payload :: payload where
  "sample_payload = [(''job_id'', JInt 7), (''asset_id'', JString ''a''), (''event'', JString ''asset_uploaded'')]"

lemma sample_enqueue:
  "fst (run_state (Enqueue sample_queue sample_payload) flaky_world) = Inr ''2-0''"
proof -
  have s: "supported (go_map sample_payload)" by (simp add: sample_payload_def go_map_def byte_def)
  have n: "rq_redis sample_queue = Some sample_client" "rq_m sample_queue = None"
    "MaxRetries (rq_options sample_queue) = 3" "0 < MaxStreamLength (rq_options sample_queue)"
    by (simp_all add: sample_queue_def sample_options_def default_options_def NewRedisQueue_def)
  have four: "xadd_loop rq args 4 = xadd_loop rq args (Suc 3)" "xadd_loop rq args 3 = xadd_loop rq args (Suc 2)"
    for rq args by (simp_all add: eval_nat_numeral)
  show ?thesis
    by (simp add: Enqueue_def publish_def doXAddWithRetry_def n s Marshal_def Let_def run_XAdd
        flaky_world_def idle_world_def stream_add_def ctx_error_def
        four [unfolded xadd_loop.simps(2)])
qed

theorem Enqueue_delivers_witness:
  "\<exists>body ms. Unmarshal_value body = Inr (VObject ms) \<and> map_of ms ''job_id'' = Some (VNumber (Itoa 7)) \<and>
     last (streams (snd (run_state (Enqueue sample_queue sample_payload) flaky_world)) ''media:jobs'') =
       \<lparr>entry_id = ''2-0'', entry_fields = [(''body'', body)]\<rparr>"
proof -
  have run: "run_state (Enqueue (fst (NewRedisQueue (Some sample_client) sample_options None)) sample_payload)
      flaky_world = (Inr ''2-0'', snd (run_state (Enqueue sample_queue sample_payload) flaky_world))"
    using sample_enqueue by (simp add: sample_queue_def [symmetric] prod_eq_iff)
  have "flat sample_payload" by (simp add: flat_def sample_payload_def isASCII_def)
  from Enqueue_delivers [OF run this] obtain body ms where
    "Unmarshal_value body = Inr (VObject ms)" "\<forall>k. map_of ms k = map_option raw (map_of sample_payload k)"
    "last (streams (snd (run_state (Enqueue sample_queue sample_payload) flaky_world)) ''media:jobs'') =
       \<lparr>entry_id = ''2-0'', entry_fields = [(''body'', body)]\<rparr>"
    by (auto simp: sample_options_def default_options_def)
  then show ?thesis by (auto simp: sample_payload_def)
qed

end
