(* ===== verification/Storagex.thy ===== *)
theory Storagex
  imports World Go_Json_Decode
begin

text \<open>
  The package pkg/utils/storagex: the interface StorageX, its two implementations on Google Cloud
  Storage (gcs.go) and on S3 or MinIO (s3.go), and the factory (factory.go).

  The cloud SDKs are parameters: a client is a record of the calls the code makes, each a function
  of the call's number, its arguments and the state of the object store. Reading calls cannot
  change the store by their type; writing calls return the new store, also when they fail. \<open>uni\<close>
  stands for the Unicode case tables, \<open>quoteU\<close> for strconv.Quote on text that is not ASCII. Times
  are printed in UTC.
\<close>

section \<open>Data\<close>

record PutOptions =
  po_Metadata :: "(string \<times> string) list option"
  po_ContentType :: string

record PresignedURLOptions =
  pu_ContentType :: string
  ExpiresInSeconds :: int64
  Method :: string

record ObjectAttrs =
  Size :: int64
  ContentType :: string
  ETag :: string

record Config =
  cfg_Provider :: string
  cfg_Region :: string
  cfg_Endpoint :: string
  cfg_Bucket :: string
  cfg_AccessKeyID :: string
  cfg_SecretAccessKey :: string
  cfg_SessionToken :: string
  cfg_GCPServiceAccount :: string

text \<open>An io.Reader: the bytes it delivers and the error it ends with, if it does not end with EOF.\<close>

record reader =
  rd_bytes :: string
  rd_err :: "go_error option"

record StorageX =
  sx_PutObject :: "string \<Rightarrow> string \<Rightarrow> reader \<Rightarrow> PutOptions option \<Rightarrow> (go_error option) go"
  sx_GetObject :: "string \<Rightarrow> string \<Rightarrow> (go_error + string) go"
  sx_GetObjectAttrs :: "string \<Rightarrow> string \<Rightarrow> (go_error + ObjectAttrs) go"
  sx_GeneratePresignedURL :: "string \<Rightarrow> string \<Rightarrow> PresignedURLOptions option \<Rightarrow> (go_error + string) go"
  sx_PublicURL :: "string \<Rightarrow> string \<Rightarrow> (go_error + string) go"
  sx_DeleteObject :: "string \<Rightarrow> string \<Rightarrow> (go_error option) go"

definition no_presign_options :: PresignedURLOptions where
  "no_presign_options = \<lparr>pu_ContentType = [], ExpiresInSeconds = 0, Method = []\<rparr>"

text \<open>The verb q of fmt on a string.\<close>

definition quote_byte :: "char \<Rightarrow> string" where
  "quote_byte c =
    (if c = quote_char \<or> c = backslash then [backslash, c]
     else if byte c = 7 then [backslash, CHR ''a''] else if byte c = 8 then [backslash, CHR ''b'']
     else if byte c = 12 then [backslash, CHR ''f''] else if byte c = 10 then [backslash, CHR ''n'']
     else if byte c = 13 then [backslash, CHR ''r''] else if byte c = 9 then [backslash, CHR ''t'']
     else if byte c = 11 then [backslash, CHR ''v'']
     else if byte c < 32 \<or> byte c = 127
       then [backslash, CHR ''x'', hex_digit (byte c div 16), hex_digit (byte c mod 16)]
     else [c])"

definition Quote :: "(string \<Rightarrow> string) \<Rightarrow> string \<Rightarrow> string" where
  "Quote quoteU s = (if isASCII s then quote_char # concat (map quote_byte s) @ [quote_char] else quoteU s)"

section \<open>Calls of an SDK\<close>

definition sdk_write :: "(nat \<Rightarrow> object_store \<Rightarrow> 'a \<times> object_store) \<Rightarrow> 'a go" where
  "sdk_write f = State (\<lambda>w. case f (sdk_calls w) (objects w) of
     (r, objs) \<Rightarrow> (r, w\<lparr>objects := objs, sdk_calls := Suc (sdk_calls w)\<rparr>))"

definition sdk_read :: "(nat \<Rightarrow> object_store \<Rightarrow> 'a) \<Rightarrow> 'a go" where
  "sdk_read f = State (\<lambda>w. (f (sdk_calls w) (objects w), w\<lparr>sdk_calls := Suc (sdk_calls w)\<rparr>))"

definition storage_attrs :: "string \<Rightarrow> string \<Rightarrow> string \<Rightarrow> string \<Rightarrow> tel_event" where
  "storage_attrs sp provider bucket key = SpanAttrs sp
     [(''storage.bucket'', AStr bucket), (''storage.key'', AStr key), (''storage.provider'', AStr provider)]"

definition span_fails :: "string \<Rightarrow> go_error \<Rightarrow> string \<Rightarrow> tel_event list" where
  "span_fails sp err msg = [SpanError sp err, SpanStatus sp CodeError msg]"

text \<open>recordOperationMetrics is the same in both implementations but for the provider's name.\<close>

definition recordOperationMetrics ::
  "string \<Rightarrow> Metrics option \<Rightarrow> string \<Rightarrow> bool \<Rightarrow> duration \<Rightarrow> unit go" where
  "recordOperationMetrics provider m operation success duration =
    go_if (m \<noteq> None) (do {
      let status = (if success then ''success'' else ''error'');
      let attrs = [(''storage.operation'', AStr operation), (''storage.provider'', AStr provider),
                   (''storage.status'', AStr status)];
      _ \<leftarrow> emit [MetricAdd (if success then StorageOperationTotal else StorageOperationErrors) 1 attrs];
      emit [MetricRecord StorageOperationDuration (MSeconds duration) attrs] })"

section \<open>Google Cloud Storage\<close>

record gcs_writer =
  wr_bucket :: string
  wr_key :: string
  wr_ContentType :: string
  wr_Metadata :: "(string \<times> string) list option"

record SignedURLOptions =
  GoogleAccessID :: string
  PrivateKey :: string
  so_Method :: string
  Expires :: int
  so_ContentType :: string

record gcs_client =
  gc_Write :: "nat \<Rightarrow> gcs_writer \<Rightarrow> string \<Rightarrow> go_error option"
  gc_CloseWriter :: "gcs_writer \<Rightarrow> string \<Rightarrow> nat \<Rightarrow> object_store \<Rightarrow> go_error option \<times> object_store"
  gc_NewReader :: "string \<Rightarrow> string \<Rightarrow> nat \<Rightarrow> object_store \<Rightarrow> go_error + string"
  gc_Attrs :: "string \<Rightarrow> string \<Rightarrow> nat \<Rightarrow> object_store \<Rightarrow> go_error + ObjectAttrs"
  gc_Delete :: "string \<Rightarrow> string \<Rightarrow> nat \<Rightarrow> object_store \<Rightarrow> go_error option \<times> object_store"
  gc_Close :: "go_error option"
  gc_SignedURL :: "string \<Rightarrow> string \<Rightarrow> SignedURLOptions \<Rightarrow> go_error + string"

record gcsStorage =
  g_client :: gcs_client
  secretAccessID :: string
  privateKey :: string
  g_m :: "Metrics option"

definition gcs_PutObject ::
  "gcsStorage \<Rightarrow> string \<Rightarrow> string \<Rightarrow> reader \<Rightarrow> PutOptions option \<Rightarrow> (go_error option) go" where
  "gcs_PutObject g bucket key data options = (let sp = ''GCS.PutObject'' in with_span sp (do {
     start \<leftarrow> time_Now;
     _ \<leftarrow> emit [storage_attrs sp ''gcs'' bucket key];
     let wc = \<lparr>wr_bucket = bucket, wr_key = key,
               wr_ContentType = (case options of Some o' \<Rightarrow> po_ContentType o' | None \<Rightarrow> []),
               wr_Metadata = (case options of Some o' \<Rightarrow> po_Metadata o' | None \<Rightarrow> None)\<rparr>;
     _ \<leftarrow> go_if (wr_ContentType wc \<noteq> [])
           (emit [SpanAttrs sp [(''object.content_type'', AStr (wr_ContentType wc))]]);
     _ \<leftarrow> (case wr_Metadata wc of
             None \<Rightarrow> skip
           | Some md \<Rightarrow> emit [SpanAttrs sp [(''metadata.count'', AInt (int (length md)))]]);
     wErr \<leftarrow> sdk_read (\<lambda>n objs. gc_Write (g_client g) n wc (rd_bytes data));
     (case (case wErr of Some e \<Rightarrow> Some e | None \<Rightarrow> rd_err data) of
        Some err \<Rightarrow> do {
          _ \<leftarrow> emit (span_fails sp err ''Failed to write object data'');
          d \<leftarrow> time_Since start;
          _ \<leftarrow> recordOperationMetrics ''gcs'' (g_m g) ''put'' False d;
          go_return (Some err) }
      | None \<Rightarrow> do {
          _ \<leftarrow> emit [SpanAttrs sp [(''bytes_written'', AInt (int (length (rd_bytes data))))]];
          cErr \<leftarrow> sdk_write (gc_CloseWriter (g_client g) wc (rd_bytes data));
          (case cErr of
             Some err \<Rightarrow> do {
               _ \<leftarrow> emit (span_fails sp err ''Failed to close writer'');
               d \<leftarrow> time_Since start;
               _ \<leftarrow> recordOperationMetrics ''gcs'' (g_m g) ''put'' False d;
               go_return (Some err) }
           | None \<Rightarrow> do {
               d \<leftarrow> time_Since start;
               _ \<leftarrow> recordOperationMetrics ''gcs'' (g_m g) ''put'' True d;
               _ \<leftarrow> emit [SpanStatus sp CodeOk ''Object uploaded successfully''];
               go_return None }) }) }))"

definition gcs_GetObject :: "gcsStorage \<Rightarrow> string \<Rightarrow> string \<Rightarrow> (go_error + string) go" where
  "gcs_GetObject g bucket key = (let sp = ''GCS.GetObject'' in with_span sp (do {
     _ \<leftarrow> emit [storage_attrs sp ''gcs'' bucket key];
     r \<leftarrow> sdk_read (gc_NewReader (g_client g) bucket key);
     (case r of
        Inl err \<Rightarrow> do {
          _ \<leftarrow> emit (span_fails sp err ''Failed to get object'');
          go_return (Inl err) }
      | Inr rc \<Rightarrow> do {
          _ \<leftarrow> emit [SpanStatus sp CodeOk ''Object reader created''];
          go_return (Inr rc) }) }))"

definition gcs_GetObjectAttrs :: "gcsStorage \<Rightarrow> string \<Rightarrow> string \<Rightarrow> (go_error + ObjectAttrs) go" where
  "gcs_GetObjectAttrs g bucket key = (let sp = ''GCS.GetObjectAttrs'' in with_span sp (do {
     _ \<leftarrow> emit [storage_attrs sp ''gcs'' bucket key];
     r \<leftarrow> sdk_read (gc_Attrs (g_client g) bucket key);
     (case r of
        Inl err \<Rightarrow> do {
          _ \<leftarrow> emit (span_fails sp err ''Failed to get object attributes'');
          go_return (Inl err) }
      | Inr attrs \<Rightarrow> do {
          _ \<leftarrow> emit [SpanAttrs sp [(''object.size'', AInt (Size attrs)),
                        (''object.content_type'', AStr (ContentType attrs))],
                      SpanStatus sp CodeOk ''Object attributes retrieved''];
          go_return (Inr \<lparr>Size = Size attrs, ContentType = ContentType attrs, ETag = ETag attrs\<rparr>) }) }))"

definition gcs_Close :: "gcsStorage \<Rightarrow> go_error option" where
  "gcs_Close g = gc_Close (g_client g)"

text \<open>How long a signed URL is valid: the requested seconds, 15 minutes when that is 0.\<close>

definition presign_expiry :: "PresignedURLOptions \<Rightarrow> duration" where
  "presign_expiry opts =
    (let expiresIn = wrap64 (ExpiresInSeconds opts * Second)
     in if expiresIn = 0 then 15 * Minute else expiresIn)"

definition gcs_GeneratePresignedURL ::
  "gcsStorage \<Rightarrow> string \<Rightarrow> string \<Rightarrow> PresignedURLOptions option \<Rightarrow> (go_error + string) go" where
  "gcs_GeneratePresignedURL g bucket key options =
    (let sp = ''GCS.GeneratePresignedURL'' in with_span sp (do {
     _ \<leftarrow> emit [storage_attrs sp ''gcs'' bucket key];
     let opts = (case options of None \<Rightarrow> no_presign_options | Some o' \<Rightarrow> o');
     _ \<leftarrow> go_if (Method opts \<noteq> []) (emit [SpanAttrs sp [(''presigned.method'', AStr (Method opts))]]);
     _ \<leftarrow> go_if (pu_ContentType opts \<noteq> [])
           (emit [SpanAttrs sp [(''presigned.content_type'', AStr (pu_ContentType opts))]]);
     (if secretAccessID g = [] \<or> privateKey g = [] then do {
        let err = NewInternalServerError ''GCS signing credentials are not configured''
                    (Some (ErrText ''missing GCS signing credentials''));
        _ \<leftarrow> emit (span_fails sp err ''Missing GCS signing credentials'');
        go_return (Inl err) }
      else do {
        let expiresIn = presign_expiry opts;
        now \<leftarrow> time_Now;
        let expiresAt = now + expiresIn;
        _ \<leftarrow> emit [SpanAttrs sp
              [(''presigned.expires_in_seconds'', AInt (go_div expiresIn Second)),
               (''presigned.expires_at'', AStr (FormatRFC3339 expiresAt))],
             LogLine LDebug ''Generating signed URL''
              [(''bucket'', AStr bucket), (''key'', AStr key), (''method'', AStr (Method opts)),
               (''expires_at'', AInt expiresAt)]];
        let signedOpts = \<lparr>GoogleAccessID = secretAccessID g, PrivateKey = privateKey g,
              so_Method = Method opts, Expires = expiresAt, so_ContentType = pu_ContentType opts\<rparr>;
        (case gc_SignedURL (g_client g) bucket key signedOpts of
           Inl err \<Rightarrow> do {
             _ \<leftarrow> emit (span_fails sp err ''Failed to generate signed URL'');
             go_return (Inl (NewInternalServerError ''Failed to generate signed URL'' (Some err))) }
         | Inr url \<Rightarrow> do {
             _ \<leftarrow> emit [SpanStatus sp CodeOk ''Presigned URL generated''];
             go_return (Inr url) }) }) }))"

definition gcs_url :: "string \<Rightarrow> string \<Rightarrow> string" where
  "gcs_url bucket key = ''https://storage.googleapis.com/'' @ bucket @ ''/'' @ key"

definition gcs_PublicURL :: "gcsStorage \<Rightarrow> string \<Rightarrow> string \<Rightarrow> (go_error + string) go" where
  "gcs_PublicURL g bucket key = (let sp = ''GCS.PublicURL'' in with_span sp (do {
     _ \<leftarrow> emit [storage_attrs sp ''gcs'' bucket key,
                 SpanStatus sp CodeOk ''Public URL generated''];
     go_return (Inr (gcs_url bucket key)) }))"

definition gcs_DeleteObject :: "gcsStorage \<Rightarrow> string \<Rightarrow> string \<Rightarrow> (go_error option) go" where
  "gcs_DeleteObject g bucket key = (let sp = ''GCS.DeleteObject'' in with_span sp (do {
     _ \<leftarrow> emit [storage_attrs sp ''gcs'' bucket key];
     r \<leftarrow> sdk_write (gc_Delete (g_client g) bucket key);
     (case r of
        Some err \<Rightarrow> do {
          _ \<leftarrow> emit (span_fails sp err ''Failed to delete object'');
          go_return (Some err) }
      | None \<Rightarrow> do {
          _ \<leftarrow> emit [SpanStatus sp CodeOk ''Object deleted successfully''];
          go_return None }) }))"

definition gcs_storage :: "gcsStorage \<Rightarrow> StorageX" where
  "gcs_storage g = \<lparr>sx_PutObject = gcs_PutObject g, sx_GetObject = gcs_GetObject g,
     sx_GetObjectAttrs = gcs_GetObjectAttrs g, sx_GeneratePresignedURL = gcs_GeneratePresignedURL g,
     sx_PublicURL = gcs_PublicURL g, sx_DeleteObject = gcs_DeleteObject g\<rparr>"

text \<open>
  The library the constructors use: storage.NewClient, with or without a credentials file, and the
  file system for os.ReadFile.
\<close>

record gcs_lib =
  gl_NewClient :: "string option \<Rightarrow> go_error + gcs_client"
  gl_ReadFile :: "string \<Rightarrow> go_error + string"

definition NewGCSStorage :: "gcs_lib \<Rightarrow> Metrics option \<Rightarrow> go_error + gcsStorage" where
  "NewGCSStorage lib m = (case gl_NewClient lib None of
      Inl err \<Rightarrow> Inl err
    | Inr client \<Rightarrow> Inr \<lparr>g_client = client, secretAccessID = [], privateKey = [], g_m = m\<rparr>)"

record serviceAccount =
  ClientEmail :: string
  sa_PrivateKey :: string

definition store_serviceAccount :: "string \<Rightarrow> jvalue \<Rightarrow> serviceAccount \<Rightarrow> serviceAccount option" where
  "store_serviceAccount f v sa =
    (if f = ''client_email'' then set_string (\<lambda>s a. a\<lparr>ClientEmail := s\<rparr>) v sa
     else set_string (\<lambda>s a. a\<lparr>sa_PrivateKey := s\<rparr>) v sa)"

definition Unmarshal_serviceAccount :: "string \<Rightarrow> go_error + serviceAccount" where
  "Unmarshal_serviceAccount data = (case Unmarshal_value data of
      Inl err \<Rightarrow> Inl err
    | Inr v \<Rightarrow> decode_struct [''client_email'', ''private_key''] store_serviceAccount
                \<lparr>ClientEmail = [], sa_PrivateKey = []\<rparr> v)"

definition NewGCSStorageFromServiceAccountJSON ::
  "gcs_lib \<Rightarrow> string \<Rightarrow> Metrics option \<Rightarrow> go_error + gcsStorage" where
  "NewGCSStorageFromServiceAccountJSON lib path m =
    (case gl_NewClient lib (Some path) of
       Inl err \<Rightarrow> Inl err
     | Inr client \<Rightarrow>
      (case gl_ReadFile lib path of
         Inl err \<Rightarrow> Inl err
       | Inr data \<Rightarrow>
        (case Unmarshal_serviceAccount data of
           Inl err \<Rightarrow> Inl err
         | Inr sa \<Rightarrow>
            (if ClientEmail sa = [] \<or> sa_PrivateKey sa = [] then
               Inl (NewInternalServerError ''Invalid service account JSON''
                     (Some (ErrText ''missing client_email or private_key'')))
             else Inr \<lparr>g_client = client, secretAccessID = ClientEmail sa,
                       privateKey = sa_PrivateKey sa, g_m = m\<rparr>))))"

section \<open>S3 and MinIO\<close>

record PutObjectInput =
  pi_Bucket :: string
  pi_Key :: string
  pi_Body :: "reader option"
  pi_ContentType :: "string option"
  pi_Metadata :: "(string \<times> string) list option"

record HeadObjectOutput =
  ho_ContentLength :: "int64 option"
  ho_ContentType :: "string option"
  ho_ETag :: "string option"

text \<open>A presigning call returns a request (its URL) or nil, and an error or nil.\<close>

record s3_client =
  s3c_PutObject :: "PutObjectInput \<Rightarrow> nat \<Rightarrow> object_store \<Rightarrow> go_error option \<times> object_store"
  s3c_GetObject :: "string \<Rightarrow> string \<Rightarrow> nat \<Rightarrow> object_store \<Rightarrow> go_error + string"
  s3c_HeadObject :: "string \<Rightarrow> string \<Rightarrow> nat \<Rightarrow> object_store \<Rightarrow> go_error + HeadObjectOutput"
  s3c_DeleteObject :: "string \<Rightarrow> string \<Rightarrow> nat \<Rightarrow> object_store \<Rightarrow> go_error option \<times> object_store"
  s3c_PresignPutObject :: "PutObjectInput \<Rightarrow> duration \<Rightarrow> string option \<times> go_error option"
  s3c_PresignGetObject :: "string \<Rightarrow> string \<Rightarrow> duration \<Rightarrow> string option \<times> go_error option"

record s3Storage =
  s3_client :: s3_client
  region :: string
  endpoint :: string
  s3_m :: "Metrics option"

text \<open>
  What the constructor hands to the SDK: the load options (region and static credentials) and the
  client options (base endpoint and path style). \<open>al_Load\<close> reports whether LoadDefaultConfig fails.
\<close>

record aws_load_options =
  lo_region :: string
  lo_credentials :: "(string \<times> string \<times> string) option"

record s3_options =
  BaseEndpoint :: "string option"
  UsePathStyle :: bool

record aws_lib =
  al_Load :: "aws_load_options \<Rightarrow> go_error option"
  al_NewFromConfig :: "aws_load_options \<Rightarrow> s3_options \<Rightarrow> s3_client"

definition NewS3Storage :: "aws_lib \<Rightarrow> Config \<Rightarrow> Metrics option \<Rightarrow> go_error + s3Storage" where
  "NewS3Storage lib cfg m =
    (let reg = (if cfg_Region cfg = [] then ''us-east-1'' else cfg_Region cfg);
         loadOpts = \<lparr>lo_region = reg, lo_credentials =
           (if cfg_AccessKeyID cfg \<noteq> []
            then Some (cfg_AccessKeyID cfg, cfg_SecretAccessKey cfg, cfg_SessionToken cfg) else None)\<rparr>;
         opts = (if cfg_Endpoint cfg \<noteq> [] then \<lparr>BaseEndpoint = Some (cfg_Endpoint cfg), UsePathStyle = True\<rparr>
                 else \<lparr>BaseEndpoint = None, UsePathStyle = False\<rparr>)
     in case al_Load lib loadOpts of
          Some err \<Rightarrow> Inl (NewInternalServerError ''Failed to load AWS config'' (Some err))
        | None \<Rightarrow> Inr \<lparr>s3_client = al_NewFromConfig lib loadOpts opts, region = reg,
                       endpoint = cfg_Endpoint cfg, s3_m = m\<rparr>)"

definition s3_PutObject ::
  "s3Storage \<Rightarrow> string \<Rightarrow> string \<Rightarrow> reader \<Rightarrow> PutOptions option \<Rightarrow> (go_error option) go" where
  "s3_PutObject s bucket key data options = (let sp = ''S3.PutObject'' in with_span sp (do {
     start \<leftarrow> time_Now;
     _ \<leftarrow> emit [storage_attrs sp ''s3'' bucket key];
     let inp = \<lparr>pi_Bucket = bucket, pi_Key = key, pi_Body = Some data,
           pi_ContentType = (case options of
               Some o' \<Rightarrow> (if po_ContentType o' \<noteq> [] then Some (po_ContentType o') else None) | None \<Rightarrow> None),
           pi_Metadata = (case options of Some o' \<Rightarrow> po_Metadata o' | None \<Rightarrow> None)\<rparr>;
     r \<leftarrow> sdk_write (s3c_PutObject (s3_client s) inp);
     (case r of
        Some err \<Rightarrow> do {
          _ \<leftarrow> emit (span_fails sp err ''Failed to put object'');
          d \<leftarrow> time_Since start;
          _ \<leftarrow> recordOperationMetrics ''s3'' (s3_m s) ''put'' False d;
          go_return (Some err) }
      | None \<Rightarrow> do {
          d \<leftarrow> time_Since start;
          _ \<leftarrow> recordOperationMetrics ''s3'' (s3_m s) ''put'' True d;
          _ \<leftarrow> emit [SpanStatus sp CodeOk ''Object uploaded successfully''];
          go_return None }) }))"

definition s3_GetObject :: "s3Storage \<Rightarrow> string \<Rightarrow> string \<Rightarrow> (go_error + string) go" where
  "s3_GetObject s bucket key = (let sp = ''S3.GetObject'' in with_span sp (do {
     _ \<leftarrow> emit [storage_attrs sp ''s3'' bucket key];
     r \<leftarrow> sdk_read (s3c_GetObject (s3_client s) bucket key);
     (case r of
        Inl err \<Rightarrow> do {
          _ \<leftarrow> emit (span_fails sp err ''Failed to get object'');
          go_return (Inl err) }
      | Inr body \<Rightarrow> do {
          _ \<leftarrow> emit [SpanStatus sp CodeOk ''Object reader created''];
          go_return (Inr body) }) }))"

definition s3_GetObjectAttrs :: "s3Storage \<Rightarrow> string \<Rightarrow> string \<Rightarrow> (go_error + ObjectAttrs) go" where
  "s3_GetObjectAttrs s bucket key = (let sp = ''S3.GetObjectAttrs'' in with_span sp (do {
     _ \<leftarrow> emit [storage_attrs sp ''s3'' bucket key];
     r \<leftarrow> sdk_read (s3c_HeadObject (s3_client s) bucket key);
     (case r of
        Inl err \<Rightarrow> do {
          _ \<leftarrow> emit (span_fails sp err ''Failed to get object attributes'');
          go_return (Inl err) }
      | Inr head \<Rightarrow> do {
          let attrs = \<lparr>Size = (case ho_ContentLength head of Some n \<Rightarrow> n | None \<Rightarrow> 0),
                ContentType = (case ho_ContentType head of Some t \<Rightarrow> t | None \<Rightarrow> []),
                ETag = (case ho_ETag head of Some t \<Rightarrow> t | None \<Rightarrow> [])\<rparr>;
          _ \<leftarrow> emit [SpanAttrs sp [(''object.size'', AInt (Size attrs)),
                        (''object.content_type'', AStr (ContentType attrs))],
                      SpanStatus sp CodeOk ''Object attributes retrieved''];
          go_return (Inr attrs) }) }))"

definition s3_presigned :: "string option \<times> go_error option \<Rightarrow> (go_error + string) go" where
  "s3_presigned res = (let sp = ''S3.GeneratePresignedURL'' in
    (case snd res of
       Some err \<Rightarrow> do {
         _ \<leftarrow> emit (span_fails sp err ''Failed to generate presigned URL'');
         go_return (Inl (NewInternalServerError ''Failed to generate presigned URL'' (Some err))) }
     | None \<Rightarrow> do {
         _ \<leftarrow> emit [SpanStatus sp CodeOk ''Presigned URL generated''];
         go_return (Inr (case fst res of Some url \<Rightarrow> url | None \<Rightarrow> [])) }))"

definition s3_GeneratePresignedURL ::
  "(string \<Rightarrow> string) \<Rightarrow> (string \<Rightarrow> string) \<Rightarrow> s3Storage \<Rightarrow> string \<Rightarrow> string \<Rightarrow>
   PresignedURLOptions option \<Rightarrow> (go_error + string) go" where
  "s3_GeneratePresignedURL uni quoteU s bucket key options =
    (let sp = ''S3.GeneratePresignedURL'' in with_span sp (do {
     _ \<leftarrow> emit [storage_attrs sp ''s3'' bucket key];
     let opts = (case options of None \<Rightarrow> no_presign_options | Some o' \<Rightarrow> o');
     let expiresIn = presign_expiry opts;
     let method = ToUpper uni (Method opts);
     (if method = [] \<or> method = ''PUT'' then
        s3_presigned (s3c_PresignPutObject (s3_client s)
          \<lparr>pi_Bucket = bucket, pi_Key = key, pi_Body = None,
           pi_ContentType = (if pu_ContentType opts \<noteq> [] then Some (pu_ContentType opts) else None),
           pi_Metadata = None\<rparr> expiresIn)
      else if method = ''GET'' then
        s3_presigned (s3c_PresignGetObject (s3_client s) bucket key expiresIn)
      else go_return (Inl (NewInternalServerError ''Unsupported presign method''
             (Some (ErrText (''method '' @ Quote quoteU (Method opts))))))) }))"

definition s3_url :: "s3Storage \<Rightarrow> string \<Rightarrow> string \<Rightarrow> string" where
  "s3_url s bucket key =
    (if endpoint s \<noteq> [] then TrimRight (endpoint s) (CHR ''/'') @ ''/'' @ bucket @ ''/'' @ key
     else ''https://'' @ bucket @ ''.s3.'' @ region s @ ''.amazonaws.com/'' @ key)"

definition s3_PublicURL :: "s3Storage \<Rightarrow> string \<Rightarrow> string \<Rightarrow> (go_error + string) go" where
  "s3_PublicURL s bucket key = (let sp = ''S3.PublicURL'' in with_span sp (do {
     _ \<leftarrow> emit [storage_attrs sp ''s3'' bucket key, SpanStatus sp CodeOk ''Public URL generated''];
     go_return (Inr (s3_url s bucket key)) }))"

definition s3_DeleteObject :: "s3Storage \<Rightarrow> string \<Rightarrow> string \<Rightarrow> (go_error option) go" where
  "s3_DeleteObject s bucket key = (let sp = ''S3.DeleteObject'' in with_span sp (do {
     _ \<leftarrow> emit [storage_attrs sp ''s3'' bucket key];
     r \<leftarrow> sdk_write (s3c_DeleteObject (s3_client s) bucket key);
     (case r of
        Some err \<Rightarrow> do {
          _ \<leftarrow> emit (span_fails sp err ''Failed to delete object'');
          go_return (Some err) }
      | None \<Rightarrow> do {
          _ \<leftarrow> emit [SpanStatus sp CodeOk ''Object deleted successfully''];
          go_return None }) }))"

definition s3_storage :: "(string \<Rightarrow> string) \<Rightarrow> (string \<Rightarrow> string) \<Rightarrow> s3Storage \<Rightarrow> StorageX" where
  "s3_storage uni quoteU s = \<lparr>sx_PutObject = s3_PutObject s, sx_GetObject = s3_GetObject s,
     sx_GetObjectAttrs = s3_GetObjectAttrs s,
     sx_GeneratePresignedURL = s3_GeneratePresignedURL uni quoteU s,
     sx_PublicURL = s3_PublicURL s, sx_DeleteObject = s3_DeleteObject s\<rparr>"

section \<open>Factory\<close>

record storage_libs =
  sl_uni :: "string \<Rightarrow> string"
  sl_quoteU :: "string \<Rightarrow> string"
  sl_gcs :: gcs_lib
  sl_aws :: aws_lib

definition New :: "storage_libs \<Rightarrow> Config \<Rightarrow> Metrics option \<Rightarrow> go_error + StorageX" where
  "New libs cfg m =
    (let p = ToLower (sl_uni libs) (cfg_Provider cfg) in
     if p = ''gcs'' \<or> p = ''gcp'' then
       (if cfg_GCPServiceAccount cfg = [] then
          Inl (ErrText ''GCS service account path (GCS_SA_PATH) is not set'')
        else map_sum id gcs_storage
          (NewGCSStorageFromServiceAccountJSON (sl_gcs libs) (cfg_GCPServiceAccount cfg) m))
     else if p = ''s3'' \<or> p = ''minio'' then
       map_sum id (s3_storage (sl_uni libs) (sl_quoteU libs)) (NewS3Storage (sl_aws libs) cfg m)
     else Inl (ErrText (''unknown storage provider: '' @ Quote (sl_quoteU libs) (cfg_Provider cfg))))"

section \<open>The contract of a storage client\<close>

text \<open>
  A storage client touches nothing but the object store, and of its operations only PutObject and
  DeleteObject change that.
\<close>

definition beyond_storage ::
  "world \<Rightarrow> database \<times> txn option \<times> (string \<Rightarrow> stream_entry list) \<times> int64 \<times> (nat \<Rightarrow> db_outcome) \<times>
     (nat \<Rightarrow> xadd_outcome) \<times> (nat \<Rightarrow> uuid) \<times> (nat \<Rightarrow> int) \<times> (nat \<Rightarrow> go_error option)" where
  "beyond_storage w = (w_db w, w_tx w, streams w, job_seq w, peers w)"

locale storage_client =
  fixes S :: StorageX
  assumes presign_frame: "keeps (\<lambda>w. (beyond_storage w, objects w)) (sx_GeneratePresignedURL S b k opts)"
    and public_frame: "keeps (\<lambda>w. (beyond_storage w, objects w)) (sx_PublicURL S b k)"
    and attrs_frame: "keeps (\<lambda>w. (beyond_storage w, objects w)) (sx_GetObjectAttrs S b k)"
    and get_frame: "keeps (\<lambda>w. (beyond_storage w, objects w)) (sx_GetObject S b k)"
    and put_frame: "keeps beyond_storage (sx_PutObject S b k data popts)"
    and delete_frame: "keeps beyond_storage (sx_DeleteObject S b k)"
begin

text \<open>Reading operations seen from the database side.\<close>

lemma reads_keep:
  assumes "run_state (sx_GeneratePresignedURL S b k opts) w = (rp, w') \<or>
    run_state (sx_PublicURL S b k) w = (ru, w') \<or> run_state (sx_GetObjectAttrs S b k) w = (ra, w')"
  shows "w_db w' = w_db w" "w_tx w' = w_tx w" "streams w' = streams w" "job_seq w' = job_seq w"
    "peers w' = peers w" "objects w' = objects w"
  using assms keeps_run [OF presign_frame] keeps_run [OF public_frame] keeps_run [OF attrs_frame]
  by (fastforce simp: beyond_storage_def)+

end

lemma run_sdk_write [simp]:
  "run_state (sdk_write f) w = (case f (sdk_calls w) (objects w) of
     (r, objs) \<Rightarrow> (r, w\<lparr>objects := objs, sdk_calls := Suc (sdk_calls w)\<rparr>))"
  by (simp add: sdk_write_def)

lemma run_sdk_read [simp]:
  "run_state (sdk_read f) w = (f (sdk_calls w) (objects w), w\<lparr>sdk_calls := Suc (sdk_calls w)\<rparr>)"
  by (simp add: sdk_read_def)

lemma beyond_storage_update [simp]:
  "beyond_storage (w\<lparr>tel := t\<rparr>) = beyond_storage w" "beyond_storage (w\<lparr>sdk_calls := n\<rparr>) = beyond_storage w"
  "beyond_storage (w\<lparr>clock_calls := n\<rparr>) = beyond_storage w" "beyond_storage (w\<lparr>objects := objs\<rparr>) = beyond_storage w"
  by (simp_all add: beyond_storage_def peers_def)

lemma keeps_storage_basic [intro!]:
  "keeps beyond_storage (emit es)" "keeps (\<lambda>w. (beyond_storage w, objects w)) (emit es)"
  "keeps beyond_storage time_Now" "keeps (\<lambda>w. (beyond_storage w, objects w)) time_Now"
  "keeps beyond_storage (time_Since t)" "keeps beyond_storage (sdk_write f)"
  "keeps beyond_storage (sdk_read g)" "keeps (\<lambda>w. (beyond_storage w, objects w)) (sdk_read h)"
  by (auto simp: keeps_def state_of_def split: prod.splits)

lemma keeps_with_span [intro!]:
  "keeps beyond_storage m \<Longrightarrow> keeps beyond_storage (with_span n m)"
  "keeps (\<lambda>w. (beyond_storage w, objects w)) m' \<Longrightarrow> keeps (\<lambda>w. (beyond_storage w, objects w)) (with_span n m')"
  unfolding with_span_def by auto

lemma keeps_recordOperationMetrics [intro!]:
  "keeps beyond_storage (recordOperationMetrics p m op ok d)"
  unfolding recordOperationMetrics_def Let_def by auto

lemmas gcs_ops = gcs_storage_def gcs_PutObject_def gcs_GetObject_def gcs_GetObjectAttrs_def
  gcs_GeneratePresignedURL_def gcs_PublicURL_def gcs_DeleteObject_def

lemmas s3_ops = s3_storage_def s3_PutObject_def s3_GetObject_def s3_GetObjectAttrs_def
  s3_GeneratePresignedURL_def s3_presigned_def s3_PublicURL_def s3_DeleteObject_def

interpretation gcs: storage_client "gcs_storage g" for g
  by unfold_locales (simp_all add: gcs_ops Let_def, auto)

interpretation s3: storage_client "s3_storage uni quoteU s" for uni quoteU s
  by unfold_locales (simp_all add: s3_ops Let_def, auto)

lemma New_storage_client: "New libs cfg m = Inr S \<Longrightarrow> storage_client S"
  by (auto simp: New_def Let_def gcs.storage_client_axioms s3.storage_client_axioms map_sum_def
      split: if_splits sum.splits)

section \<open>Signed URLs\<close>

lemma presign_expiry_exact:
  "0 < ExpiresInSeconds opts \<Longrightarrow> ExpiresInSeconds opts \<le> 9223372036 \<Longrightarrow>
     presign_expiry opts = ExpiresInSeconds opts * Second"
  by (simp add: presign_expiry_def Let_def wrap64_id int64_range_def)

lemma presign_expiry_default: "ExpiresInSeconds opts = 0 \<Longrightarrow> presign_expiry opts = 15 * Minute"
  by (simp add: presign_expiry_def wrap64_def)


definition memory_gcs :: gcs_client where
  "memory_gcs = \<lparr>gc_Write = (\<lambda>n w d. None),
     gc_CloseWriter = (\<lambda>wr d n objs. (None, objs((wr_bucket wr, wr_key wr) \<mapsto>
       \<lparr>obj_data = d, obj_content_type = wr_ContentType wr, obj_metadata = [], obj_etag = []\<rparr>))),
     gc_NewReader = (\<lambda>b k n objs. case objs (b, k) of None \<Rightarrow> Inl (ErrText ''storage: object doesn't exist'')
        | Some ob \<Rightarrow> Inr (obj_data ob)),
     gc_Attrs = (\<lambda>b k n objs. case objs (b, k) of None \<Rightarrow> Inl (ErrText ''storage: object doesn't exist'')
        | Some ob \<Rightarrow> Inr \<lparr>Size = int (length (obj_data ob)), ContentType = obj_content_type ob, ETag = obj_etag ob\<rparr>),
     gc_Delete = (\<lambda>b k n objs. (None, objs((b, k) := None))), gc_Close = None,
     gc_SignedURL = (\<lambda>b k opts. Inr (gcs_url b k @ ''?e='' @ Itoa (Expires opts)))\<rparr>"

definition memory_s3 :: s3_client where
  "memory_s3 = \<lparr>s3c_PutObject = (\<lambda>inp n objs. (None, objs((pi_Bucket inp, pi_Key inp) \<mapsto>
       \<lparr>obj_data = (case pi_Body inp of Some r \<Rightarrow> rd_bytes r | None \<Rightarrow> []),
        obj_content_type = (case pi_ContentType inp of Some t \<Rightarrow> t | None \<Rightarrow> ''binary/octet-stream''),
        obj_metadata = [], obj_etag = []\<rparr>))),
     s3c_GetObject = (\<lambda>b k n objs. case objs (b, k) of None \<Rightarrow> Inl (ErrText ''NoSuchKey'')
        | Some ob \<Rightarrow> Inr (obj_data ob)),
     s3c_HeadObject = (\<lambda>b k n objs. case objs (b, k) of None \<Rightarrow> Inl (ErrText ''NotFound'')
        | Some ob \<Rightarrow> Inr \<lparr>ho_ContentLength = Some (int (length (obj_data ob))),
             ho_ContentType = Some (obj_content_type ob), ho_ETag = Some (obj_etag ob)\<rparr>),
     s3c_DeleteObject = (\<lambda>b k n objs. (None, objs((b, k) := None))),
     s3c_PresignPutObject = (\<lambda>inp d. (Some (pi_Bucket inp @ pi_Key inp), None)),
     s3c_PresignGetObject = (\<lambda>b k d. (Some (b @ k), None))\<rparr>"

definition sample_libs :: storage_libs where
  "sample_libs = \<lparr>sl_uni = id, sl_quoteU = id,
     sl_gcs = \<lparr>gl_NewClient = (\<lambda>p. Inr memory_gcs), gl_ReadFile = (\<lambda>p. Inr (encode (JObject
       [(''client_email'', JString ''svc''), (''private_key'', JString ''key'')])))\<rparr>,
     sl_aws = \<lparr>al_Load = (\<lambda>opts. None), al_NewFromConfig = (\<lambda>l opts. memory_s3)\<rparr>\<rparr>"

definition sample_config :: "string \<Rightarrow> Config" where
  "sample_config p = \<lparr>cfg_Provider = p, cfg_Region = [], cfg_Endpoint = [], cfg_Bucket = ''media'',
     cfg_AccessKeyID = [], cfg_SecretAccessKey = [], cfg_SessionToken = [],
     cfg_GCPServiceAccount = ''/sa.json''\<rparr>"

lemma sample_service_account:
  "Unmarshal_serviceAccount (encode (JObject
     [(''client_email'', JString ''svc''), (''private_key'', JString ''key'')])) =
   Inr \<lparr>ClientEmail = ''svc'', sa_PrivateKey = ''key''\<rparr>"
proof -
  let ?v = "JObject [(''client_email'', JString ''svc''), (''private_key'', JString ''key'')]"
  have "Unmarshal_value (encode ?v) = Inr (raw ?v)"
    by (rule Unmarshal_Marshal) (simp_all add: Marshal_def)
  then show ?thesis
    by (simp add: Unmarshal_serviceAccount_def decode_struct_def find_field_def
        store_serviceAccount_def set_string_def isASCII_def del: encode.simps)
qed

lemma sample_provider:
  "ToLower (sl_uni sample_libs) (cfg_Provider (sample_config ''GCS'')) = ''gcs''"
  "ToLower (sl_uni sample_libs) (cfg_Provider (sample_config ''s3'')) = ''s3''"
  by code_simp+

lemma sample_New_gcs:
  "New sample_libs (sample_config ''GCS'') None = Inr (gcs_storage
     \<lparr>g_client = memory_gcs, secretAccessID = ''svc'', privateKey = ''key'', g_m = None\<rparr>)"
  unfolding New_def sample_provider using sample_service_account
  by (simp add: sample_libs_def sample_config_def NewGCSStorageFromServiceAccountJSON_def
      del: encode.simps)


section \<open>Public URLs\<close>

lemma append_sep_eq:
  "x @ c # y = x' @ c # y' \<Longrightarrow> c \<notin> set x \<Longrightarrow> c \<notin> set x' \<Longrightarrow> x = x' \<and> y = y'"
proof (induction x arbitrary: x')
  case Nil
  then show ?case by (cases x') auto
next
  case (Cons a x)
  then show ?case by (cases x') auto
qed


definition sample_s3 :: s3Storage where
  "sample_s3 = \<lparr>s3_client = memory_s3, region = ''us-east-1'', endpoint = ''http://minio:9000/'', s3_m = None\<rparr>"


section \<open>Round trip through the store\<close>

text \<open>
  The documented behaviour of S3's object calls (read after write, HEAD reports the stored length
  and type, a deleted key is gone), for the calls that report success.
\<close>

definition s3_honest :: "s3_client \<Rightarrow> bool" where
  "s3_honest c \<longleftrightarrow>
     (\<forall>inp rd n objs objs'. s3c_PutObject c inp n objs = (None, objs') \<longrightarrow> pi_Body inp = Some rd \<longrightarrow>
        (\<exists>ob. objs' = objs((pi_Bucket inp, pi_Key inp) \<mapsto> ob) \<and> obj_data ob = rd_bytes rd \<and>
           (\<forall>t. pi_ContentType inp = Some t \<longrightarrow> obj_content_type ob = t))) \<and>
     (\<forall>b k n objs d. s3c_GetObject c b k n objs = Inr d \<longrightarrow>
        (\<exists>ob. objs (b, k) = Some ob \<and> d = obj_data ob)) \<and>
     (\<forall>b k n objs h. s3c_HeadObject c b k n objs = Inr h \<longrightarrow>
        (\<exists>ob. objs (b, k) = Some ob \<and> ho_ContentLength h = Some (int (length (obj_data ob))) \<and>
           ho_ContentType h = Some (obj_content_type ob))) \<and>
     (\<forall>b k n objs objs'. s3c_DeleteObject c b k n objs = (None, objs') \<longrightarrow> objs' = objs((b, k) := None))"

lemma run_recordOperationMetrics [simp]:
  "run_state (recordOperationMetrics p m op ok d) w =
     ((), w\<lparr>tel := tel w @ (if m = None then [] else
        (let attrs = [(''storage.operation'', AStr op), (''storage.provider'', AStr p),
                      (''storage.status'', AStr (if ok then ''success'' else ''error''))]
         in [MetricAdd (if ok then StorageOperationTotal else StorageOperationErrors) 1 attrs,
             MetricRecord StorageOperationDuration (MSeconds d) attrs]))\<rparr>)"
  by (simp add: recordOperationMetrics_def Let_def)

lemma s3_honestD:
  assumes "s3_honest c"
  shows "s3c_PutObject c inp n objs = (None, objs') \<Longrightarrow> pi_Body inp = Some rd \<Longrightarrow>
      \<exists>ob. objs' = objs((pi_Bucket inp, pi_Key inp) \<mapsto> ob) \<and> obj_data ob = rd_bytes rd \<and>
        (\<forall>t. pi_ContentType inp = Some t \<longrightarrow> obj_content_type ob = t)"
    and "s3c_GetObject c b k n objs = Inr d \<Longrightarrow> \<exists>ob. objs (b, k) = Some ob \<and> d = obj_data ob"
    and "s3c_HeadObject c b k n objs = Inr h \<Longrightarrow>
      \<exists>ob. objs (b, k) = Some ob \<and> ho_ContentLength h = Some (int (length (obj_data ob))) \<and>
        ho_ContentType h = Some (obj_content_type ob)"
    and "s3c_DeleteObject c b k n objs = (None, objs') \<Longrightarrow> objs' = objs((b, k) := None)"
  using assms unfolding s3_honest_def by simp_all

lemma s3_PutObject_ok:
  assumes "run_state (s3_PutObject s b k data (Some opts)) w = (None, w')" "s3_honest (s3_client s)"
  shows "\<exists>ob. objects w' = (objects w)((b, k) \<mapsto> ob) \<and> obj_data ob = rd_bytes data \<and>
    (po_ContentType opts \<noteq> [] \<longrightarrow> obj_content_type ob = po_ContentType opts)"
proof -
  define inp where "inp = \<lparr>pi_Bucket = b, pi_Key = k, pi_Body = Some data,
    pi_ContentType = (if po_ContentType opts \<noteq> [] then Some (po_ContentType opts) else None),
    pi_Metadata = po_Metadata opts\<rparr>"
  obtain r objs' where put: "s3c_PutObject (s3_client s) inp (sdk_calls w) (objects w) = (r, objs')"
    by fastforce
  have "r = None \<and> objects w' = objs'"
    using assms(1) put by (auto simp: s3_PutObject_def Let_def inp_def split: option.splits)
  then have "s3c_PutObject (s3_client s) inp (sdk_calls w) (objects w) = (None, objs')"
    "objects w' = objs'" using put by simp_all
  then obtain ob where "objects w' = (objects w)((pi_Bucket inp, pi_Key inp) \<mapsto> ob)"
    "obj_data ob = rd_bytes data" "\<forall>t. pi_ContentType inp = Some t \<longrightarrow> obj_content_type ob = t"
    using s3_honestD(1) [OF assms(2), of inp "sdk_calls w" "objects w" objs' data] by (auto simp: inp_def)
  then show ?thesis by (intro exI [of _ ob]) (simp add: inp_def)
qed

lemma s3_GetObjectAttrs_ok:
  assumes "run_state (s3_GetObjectAttrs s b k) w = (Inr a, w')" "s3_honest (s3_client s)"
  shows "\<exists>ob. objects w (b, k) = Some ob \<and> Size a = int (length (obj_data ob)) \<and>
    ContentType a = obj_content_type ob"
proof -
  obtain h where h: "s3c_HeadObject (s3_client s) b k (sdk_calls w) (objects w) = Inr h"
    "Size a = (case ho_ContentLength h of Some n \<Rightarrow> n | None \<Rightarrow> 0)"
    "ContentType a = (case ho_ContentType h of Some t \<Rightarrow> t | None \<Rightarrow> [])"
    using assms(1) by (auto simp: s3_GetObjectAttrs_def Let_def split: prod.splits sum.splits)
  then obtain ob where "objects w (b, k) = Some ob"
    "ho_ContentLength h = Some (int (length (obj_data ob)))" "ho_ContentType h = Some (obj_content_type ob)"
    using s3_honestD(3) [OF assms(2)] by blast
  then show ?thesis using h by simp
qed

text \<open>C13. With an S3 store that keeps its documented promises, what PutObject stored is what
  GetObject returns, GetObjectAttrs reports its length and content type, and after DeleteObject the
  attributes can no longer be read.\<close>

theorem s3_roundtrip:
  assumes "s3_honest (s3_client s)"
    and "run_state (s3_PutObject s b k data (Some opts)) w = (None, w1)" and "po_ContentType opts \<noteq> []"
    and "run_state (s3_GetObjectAttrs s b k) w1 = (ra, w2)"
    and "run_state (s3_GetObject s b k) w2 = (rg, w3)"
    and "run_state (s3_DeleteObject s b k) w3 = (None, w4)"
    and "run_state (s3_GetObjectAttrs s b k) w4 = (rd, w5)"
  shows "(\<forall>a. ra = Inr a \<longrightarrow> Size a = int (length (rd_bytes data)) \<and> ContentType a = po_ContentType opts) \<and>
    (\<forall>d. rg = Inr d \<longrightarrow> d = rd_bytes data) \<and> (\<exists>e. rd = Inl e)"
proof -
  obtain ob where ob: "objects w1 (b, k) = Some ob" "obj_data ob = rd_bytes data"
    "obj_content_type ob = po_ContentType opts"
    using s3_PutObject_ok [OF assms(2,1)] assms(3) by auto
  have w2: "objects w2 = objects w1"
    using keeps_run [OF s3.attrs_frame [of _ _ s b k]] assms(4) by (fastforce simp: s3_storage_def)
  have "\<forall>d. rg = Inr d \<longrightarrow> d = rd_bytes data"
    using s3_honestD(2) [OF assms(1)] assms(5) ob w2
    by (fastforce simp: s3_GetObject_def Let_def split: sum.splits)
  moreover have "objects w4 (b, k) = None"
  proof -
    obtain r objs' where d: "s3c_DeleteObject (s3_client s) b k (sdk_calls w3) (objects w3) = (r, objs')"
      by fastforce
    then have "r = None" "objects w4 = objs'"
      using assms(6) by (auto simp: s3_DeleteObject_def Let_def split: option.splits)
    then show ?thesis using d s3_honestD(4) [OF assms(1), of b k "sdk_calls w3" "objects w3" objs'] by simp
  qed
  then have "\<exists>e. rd = Inl e" using s3_GetObjectAttrs_ok [of s b k w4 _ w5] assms(1,7) by (cases rd) auto
  ultimately show ?thesis using s3_GetObjectAttrs_ok [of s b k w1 _ w2] assms(1,4) ob by auto
qed

lemma memory_s3_honest: "s3_honest memory_s3"
  unfolding s3_honest_def
  by (intro conjI allI impI) (auto simp: memory_s3_def split: option.splits)

theorem s3_roundtrip_witness:
  "\<exists>w1 w2 w3 w4 w5 ra rg e.
     run_state (s3_PutObject sample_s3 ''b'' ''k'' \<lparr>rd_bytes = ''hi'', rd_err = None\<rparr>
       (Some \<lparr>po_Metadata = None, po_ContentType = ''text/plain''\<rparr>)) idle_world = (None, w1) \<and>
     run_state (s3_GetObjectAttrs sample_s3 ''b'' ''k'') w1 = (ra, w2) \<and>
     run_state (s3_GetObject sample_s3 ''b'' ''k'') w2 = (rg, w3) \<and>
     run_state (s3_DeleteObject sample_s3 ''b'' ''k'') w3 = (None, w4) \<and>
     run_state (s3_GetObjectAttrs sample_s3 ''b'' ''k'') w4 = (Inl e, w5) \<and>
     (\<forall>d. rg = Inr d \<longrightarrow> d = ''hi'')"
proof -
  let ?put = "s3_PutObject sample_s3 ''b'' ''k'' \<lparr>rd_bytes = ''hi'', rd_err = None\<rparr>
       (Some \<lparr>po_Metadata = None, po_ContentType = ''text/plain''\<rparr>)"
  have m: "s3_client sample_s3 = memory_s3" "s3_m sample_s3 = None" by (simp_all add: sample_s3_def)
  obtain w1 where w1: "run_state ?put idle_world = (None, w1)"
    by (simp add: s3_PutObject_def Let_def m memory_s3_def idle_world_def)
  obtain ra w2 where w2: "run_state (s3_GetObjectAttrs sample_s3 ''b'' ''k'') w1 = (ra, w2)" by fastforce
  obtain rg w3 where w3: "run_state (s3_GetObject sample_s3 ''b'' ''k'') w2 = (rg, w3)" by fastforce
  obtain w4 where w4: "run_state (s3_DeleteObject sample_s3 ''b'' ''k'') w3 = (None, w4)"
    by (simp add: s3_DeleteObject_def Let_def m memory_s3_def)
  obtain rd w5 where w5: "run_state (s3_GetObjectAttrs sample_s3 ''b'' ''k'') w4 = (rd, w5)" by fastforce
  from s3_roundtrip [OF _ w1 _ w2 w3 w4 w5] show ?thesis
    using w1 w2 w3 w4 w5 by (auto simp: m memory_s3_honest)
qed

end
