(* ===== verification/Asset_Service.thy ===== *)
theory Asset_Service
  imports Asset_Repo Redis_Queue Storagex
begin

text \<open>
  The package internal/service (asset.go) and the request and response types of internal/models:
  the construction of the service, CreateAsset and MarkAssetUploaded.

  A span is named by the string it is started with. An event emitted on a span after its End is
  emitted by the model as well; the SDK drops it.
\<close>

section \<open>Data\<close>

record UploadAssetRequest =
  FileName :: string
  req_ContentType :: string
  req_Size :: int64

record UploadAssetResponse =
  UploadUrl :: string
  AssetID :: string
  resp_Method :: string
  Headers :: "(string \<times> string) list"
  ObjectPath :: string
  PublicUrl :: string
  ExpiresAt :: int64

record assetService =
  as_repo :: AssetRepository
  as_storage :: StorageX
  as_bucket :: string
  as_queue :: RedisQueue
  as_m :: "Metrics option"

section \<open>Construction\<close>

definition service_queue_options :: RedisQueueOptions where
  "service_queue_options = \<lparr>QueueName = ''media:jobs'', MaxRetries = 3, RetryInterval = 2 * Second,
     ConnectionTimeOut = 2 * Second, ReadTimeout = 0, WriteTimeout = 0, PoolSize = 0,
     AddTimestamp = False, AddSource = False, MaxStreamLength = 10000, EnableMetrics = True\<rparr>"

definition effective_bucket :: "(string \<Rightarrow> string) \<Rightarrow> StorageConfig \<Rightarrow> string" where
  "effective_bucket uni storeCfg =
    (let p = ToLower uni (st_Provider storeCfg)
     in if p = ''s3'' \<or> p = ''minio'' then s3_Bucket (st_S3 storeCfg) else st_Bucket storeCfg)"

definition service_storage_config :: "(string \<Rightarrow> string) \<Rightarrow> StorageConfig \<Rightarrow> Config" where
  "service_storage_config uni storeCfg =
    \<lparr>cfg_Provider = st_Provider storeCfg, cfg_Region = s3_Region (st_S3 storeCfg),
     cfg_Endpoint = s3_EndpointURL (st_S3 storeCfg), cfg_Bucket = effective_bucket uni storeCfg,
     cfg_AccessKeyID = s3_AccessKeyID (st_S3 storeCfg),
     cfg_SecretAccessKey = s3_SecretAccessKey (st_S3 storeCfg), cfg_SessionToken = [],
     cfg_GCPServiceAccount = SAPath (st_GCS storeCfg)\<rparr>"

text \<open>The error of MustGetRedisClient is not looked at: the queue then has no client. The result
  carries the depth callback that the queue registered.\<close>

definition NewAssetService ::
  "storage_libs \<Rightarrow> (string \<Rightarrow> go_error + redis_url) \<Rightarrow> config_state \<Rightarrow> RedisConfig \<Rightarrow>
   AssetRepository \<Rightarrow> Metrics option \<Rightarrow> ((assetService \<times> depth_fn option) go_run) go" where
  "NewAssetService libs ParseURL cstate redisCfg repo m = (case MustGet cstate of
      Inl p \<Rightarrow> go_return (Panics p)
    | Inr cfg \<Rightarrow>
       (let storeCfg = Storage cfg; bucket = effective_bucket (sl_uni libs) storeCfg in
        case New libs (service_storage_config (sl_uni libs) storeCfg) m of
          Inl err \<Rightarrow> do {
            let msg = ''Failed to initialize storage client: '' @ Error err;
            go_return (Exits msg) }
        | Inr storageClient \<Rightarrow> do {
            rc \<leftarrow> MustGetRedisClient ParseURL redisCfg;
            let client = (case rc of Inl _ \<Rightarrow> None | Inr c \<Rightarrow> Some c);
            let (rq, depth) = NewRedisQueue client service_queue_options m;
            go_return (Returns (\<lparr>as_repo = repo, as_storage = storageClient, as_bucket = bucket,
              as_queue = rq, as_m = m\<rparr>, depth)) }))"

section \<open>CreateAsset\<close>

text \<open>A child span around one call.\<close>

definition traced :: "string \<Rightarrow> attrs \<Rightarrow> 'a go \<Rightarrow> 'a go" where
  "traced name as m = do {
     _ \<leftarrow> emit [SpanStart name [], SpanAttrs name as];
     r \<leftarrow> m;
     _ \<leftarrow> emit [SpanEnd name];
     go_return r }"

definition object_key :: "uuid \<Rightarrow> string" where
  "object_key assetID = ''media/raw/'' @ assetID"

definition upload_expiry :: int64 where "upload_expiry = 60 * 5"

definition create_span :: string where "create_span = ''AssetService.CreateAsset''"

definition create_row ::
  "assetService \<Rightarrow> int \<Rightarrow> uuid \<Rightarrow> UploadAssetRequest \<Rightarrow> string \<Rightarrow> string \<Rightarrow>
   (go_error + UploadAssetResponse) go" where
  "create_row s start assetID request signedUrl publicUrl = do {
     let ty = ToAssetTypeFromMimeType (req_ContentType request);
     err \<leftarrow> traced ''AssetRepo.CreateAsset'' [(''asset_id'', AStr assetID)]
             (ar_CreateAsset (as_repo s) assetID publicUrl (req_Size request) ty (req_ContentType request));
     (case err of
        Some e \<Rightarrow> do {
          _ \<leftarrow> emit [SpanError ''AssetRepo.CreateAsset'' e];
          _ \<leftarrow> go_if (as_m s \<noteq> None) (emit [MetricAdd AssetUploadTotal 1
                [(''status'', AStr ''error''), (''error.type'', AStr ''db_error'')]]);
          go_return (Inl e) }
      | None \<Rightarrow> do {
          duration \<leftarrow> time_Since start;
          let attrs = [(''status'', AStr ''success''), (''asset_type'', AStr (AssetType_string ty))];
          _ \<leftarrow> go_if (as_m s \<noteq> None) (emit [MetricAdd AssetUploadTotal 1 attrs,
                MetricRecord AssetUploadDuration (MSeconds duration) attrs,
                MetricRecord AssetSizeBytes (MInt (req_Size request)) attrs]);
          _ \<leftarrow> emit [SpanStatus create_span CodeOk ''Asset created successfully''];
          go_return (Inr \<lparr>UploadUrl = signedUrl, AssetID = assetID, resp_Method = ''PUT'',
            Headers = [(''Content-Type'', req_ContentType request)], ObjectPath = FileName request,
            PublicUrl = publicUrl, ExpiresAt = upload_expiry\<rparr>) }) }"

definition create_public ::
  "assetService \<Rightarrow> int \<Rightarrow> uuid \<Rightarrow> UploadAssetRequest \<Rightarrow> string \<Rightarrow> (go_error + UploadAssetResponse) go" where
  "create_public s start assetID request signedUrl = do {
     pub \<leftarrow> traced ''StorageClient.PublicURL'' [(''object_key'', AStr (object_key assetID))]
       (sx_PublicURL (as_storage s) (as_bucket s) (object_key assetID));
     (case pub of
        Inl err \<Rightarrow> do {
          _ \<leftarrow> emit (span_fails create_span err ''Failed to get public URL'' @
                [LogLine LError (''Failed to get public URL: '' @ Error err) []]);
          go_return (Inl err) }
      | Inr publicUrl \<Rightarrow> do {
          _ \<leftarrow> emit [LogLine LDebug ''Public URL: '' [(''url'', AStr publicUrl)]];
          create_row s start assetID request signedUrl publicUrl }) }"

definition CreateAsset_svc :: "assetService \<Rightarrow> UploadAssetRequest \<Rightarrow> (go_error + UploadAssetResponse) go" where
  "CreateAsset_svc s request = with_span create_span (do {
     start \<leftarrow> time_Now;
     assetID \<leftarrow> uuid_New;
     _ \<leftarrow> emit [SpanAttrs create_span [(''asset_id'', AStr assetID),
           (''content_type'', AStr (req_ContentType request)), (''content_length'', AInt (req_Size request))]];
     let objectKey = object_key assetID;
     res \<leftarrow> traced ''StorageClient.GeneratePresignedURL'' [(''object_key'', AStr objectKey)]
       (sx_GeneratePresignedURL (as_storage s) (as_bucket s) objectKey
         (Some \<lparr>pu_ContentType = req_ContentType request, ExpiresInSeconds = upload_expiry, Method = ''PUT''\<rparr>));
     _ \<leftarrow> emit [LogLine LDebug ''Generated signed URL: ''
           [(''url'', AStr (case res of Inr u \<Rightarrow> u | Inl _ \<Rightarrow> []))]];
     (case res of
        Inl err \<Rightarrow> do {
          _ \<leftarrow> emit (span_fails create_span err ''Failed to generate presigned URL'' @
                [LogLine LError (''Failed to generate presigned URL: '' @ Error err) []]);
          go_return (Inl err) }
      | Inr signedUrl \<Rightarrow> create_public s start assetID request signedUrl) })"

section \<open>MarkAssetUploaded\<close>

text \<open>
  The function from its end backwards: enqueueing after the commit, the commit, the job, the
  update, the transaction with its deferred rollback, and the check of the stored object. Inside
  the transaction a stage returns the error and whether the variable tx is still set when the
  function returns.
\<close>

definition mark_span :: string where "mark_span = ''AssetService.MarkAssetUploaded''"
definition tx_span :: string where "tx_span = ''Database.Transaction''"

definition job_payload :: "int64 \<Rightarrow> uuid \<Rightarrow> int \<Rightarrow> payload" where
  "job_payload jobID assetID now =
     [(''job_id'', JInt jobID), (''asset_id'', JString assetID), (''event'', JString ''asset_uploaded''),
      (''timestamp'', JString (FormatRFC3339 now))]"

definition mark_enqueue :: "assetService \<Rightarrow> uuid \<Rightarrow> int64 \<Rightarrow> (go_error option) go" where
  "mark_enqueue s assetID jobID = do {
     res \<leftarrow> traced ''Queue.Enqueue'' [(''job_id'', AInt jobID), (''asset_id'', AStr assetID),
              (''event'', AStr ''asset_uploaded'')]
            (do { now \<leftarrow> time_Now; Enqueue (as_queue s) (job_payload jobID assetID now) });
     (case res of
        Inl err \<Rightarrow> do {
          _ \<leftarrow> emit (span_fails ''Queue.Enqueue'' err ''Failed to enqueue job'' @
                      span_fails mark_span err ''Queue enqueue failed'');
          go_return (Some err) }
      | Inr _ \<Rightarrow> do {
          _ \<leftarrow> emit [SpanStatus ''Queue.Enqueue'' CodeOk ''Job enqueued successfully'',
                      SpanStatus mark_span CodeOk ''Asset marked as uploaded and job queued''];
          go_return None }) }"

definition mark_commit :: "assetService \<Rightarrow> uuid \<Rightarrow> int64 \<Rightarrow> (go_error option \<times> bool) go" where
  "mark_commit s assetID jobID = do {
     _ \<leftarrow> emit [SpanAttrs ''AssetRepo.InsertProcessAssetJobTx'' [(''job_id'', AInt jobID)]];
     c \<leftarrow> Commit;
     (case c of
        Some err \<Rightarrow> do {
          _ \<leftarrow> emit (span_fails tx_span err ''Transaction commit failed'' @
                      span_fails mark_span err ''Failed to commit transaction'');
          go_return (Some err, True) }
      | None \<Rightarrow> do {
          _ \<leftarrow> emit [SpanStatus tx_span CodeOk ''Transaction committed''];
          r \<leftarrow> mark_enqueue s assetID jobID;
          go_return (r, False) }) }"

definition mark_job :: "assetService \<Rightarrow> uuid \<Rightarrow> (go_error option \<times> bool) go" where
  "mark_job s assetID = do {
     j \<leftarrow> traced ''AssetRepo.InsertProcessAssetJobTx'' [(''asset_id'', AStr assetID)]
           (ar_InsertProcessAssetJobTx (as_repo s) assetID);
     (case j of
        Inl err \<Rightarrow> do {
          _ \<leftarrow> emit (span_fails ''AssetRepo.InsertProcessAssetJobTx'' err ''Failed to create processing job'' @
                      span_fails mark_span err ''Job creation failed'' @
                      [LogLine LError (''Failed to insert process asset job: '' @ Error err) []]);
          go_return (Some err, True) }
      | Inr jobID \<Rightarrow> mark_commit s assetID jobID) }"

definition mark_update :: "assetService \<Rightarrow> uuid \<Rightarrow> (go_error option \<times> bool) go" where
  "mark_update s assetID = do {
     u \<leftarrow> traced ''AssetRepo.MarkAssetUploadedTx'' [(''asset_id'', AStr assetID)]
           (ar_MarkAssetUploadedTx (as_repo s) assetID);
     (case u of
        Inl err \<Rightarrow> do {
          _ \<leftarrow> emit (span_fails ''AssetRepo.MarkAssetUploadedTx'' err ''Failed to mark asset as uploaded'' @
                      span_fails mark_span err ''Database update failed'');
          go_return (Some err, True) }
      | Inr changed \<Rightarrow>
         (if \<not> changed then do {
            _ \<leftarrow> emit [SpanEvent ''AssetRepo.MarkAssetUploadedTx'' ''Asset already uploaded'' [],
                        SpanEvent mark_span ''Asset already in uploaded state'' [],
                        LogLine LInfo (''Asset '' @ assetID @ '' already marked as uploaded'') []];
            go_return (None, True) }
          else mark_job s assetID)) }"

definition deferred_rollback :: "bool \<Rightarrow> unit go" where
  "deferred_rollback tx_set = do {
     _ \<leftarrow> go_if tx_set (do {
            e \<leftarrow> Rollback;
            (case e of
               Some err \<Rightarrow> go_if (\<not> errors_Is err CtxCanceled)
                 (emit [LogLine LError (''Failed to rollback transaction: '' @ Error err) []])
             | None \<Rightarrow> skip) });
     emit [SpanEnd tx_span] }"

definition mark_tx :: "assetService \<Rightarrow> uuid \<Rightarrow> (go_error option) go" where
  "mark_tx s assetID = do {
     _ \<leftarrow> emit [SpanStart tx_span []];
     b \<leftarrow> BeginTx;
     (case b of
        Some err \<Rightarrow> do {
          _ \<leftarrow> emit (span_fails tx_span err ''Failed to begin transaction'' @
                      span_fails mark_span err ''Transaction initialization failed'' @
                      [LogLine LError (''Failed to begin transaction: '' @ Error err) []]);
          _ \<leftarrow> deferred_rollback False;
          go_return (Some err) }
      | None \<Rightarrow> do {
          r \<leftarrow> mark_update s assetID;
          _ \<leftarrow> deferred_rollback (snd r);
          go_return (fst r) }) }"

definition MarkAssetUploaded :: "assetService \<Rightarrow> uuid \<Rightarrow> (go_error option) go" where
  "MarkAssetUploaded s assetID = with_span mark_span (do {
     let objectKey = object_key assetID;
     _ \<leftarrow> emit [SpanAttrs mark_span [(''asset_id'', AStr assetID)],
                 SpanAttrs mark_span [(''object_key'', AStr objectKey)]];
     res \<leftarrow> traced ''StorageClient.GetObjectAttrs'' [(''object_key'', AStr objectKey)]
             (sx_GetObjectAttrs (as_storage s) (as_bucket s) objectKey);
     (case res of
        Inl err \<Rightarrow> do {
          _ \<leftarrow> emit (span_fails ''StorageClient.GetObjectAttrs'' err ''Object not found in storage'' @
                      span_fails mark_span err ''Failed to verify object in storage'' @
                      [LogLine LError (''Failed to get object attrs: '' @ Error err) []]);
          go_return (Some err) }
      | Inr _ \<Rightarrow> mark_tx s assetID) })"

section \<open>Stages of MarkAssetUploaded\<close>

lemma run_traced [simp]:
  "run_state (traced n as m) w =
     (case run_state m (w\<lparr>tel := tel w @ [SpanStart n [], SpanAttrs n as]\<rparr>) of
        (r, w') \<Rightarrow> (r, w'\<lparr>tel := tel w' @ [SpanEnd n]\<rparr>))"
  by (simp add: traced_def split: prod.splits)

lemma peers_update [simp]:
  "peers (w\<lparr>tel := t\<rparr>) = peers w" "peers (w\<lparr>clock_calls := n\<rparr>) = peers w"
  "peers (w\<lparr>uuid_calls := n\<rparr>) = peers w"
  by (simp_all add: peers_def)

lemma peer_predicates_tel [simp]:
  "redis_healthy (w\<lparr>tel := t\<rparr>) = redis_healthy w" "redis_down (w\<lparr>tel := t\<rparr>) = redis_down w"
  "db_healthy (w\<lparr>tel := t\<rparr>) = db_healthy w" "ambiguous_db (w\<lparr>tel := t\<rparr>) = ambiguous_db w"
  by (simp_all add: redis_healthy_def redis_down_def db_healthy_def ambiguous_db_def)

lemma peer_predicates:
  assumes "peers w' = peers w"
  shows "redis_healthy w' = redis_healthy w" "redis_down w' = redis_down w"
    "db_healthy w' = db_healthy w" "ambiguous_db w' = ambiguous_db w"
  using assms by (simp_all add: peers_def redis_healthy_def redis_down_def db_healthy_def ambiguous_db_def)

text \<open>
  \<open>sent\<close>: the streams after an attempt to send the message of a job. Nothing but copies of it were
  added to the queue's stream, and one is there when the attempt reported success; the attempt
  succeeds when Redis is up and fails without a trace when it is down.
\<close>

definition sent ::
  "string \<Rightarrow> nat \<Rightarrow> bool \<Rightarrow> bool \<Rightarrow> int64 \<Rightarrow> uuid \<Rightarrow> (string \<Rightarrow> stream_entry list) \<Rightarrow> go_error option \<Rightarrow>
   (string \<Rightarrow> stream_entry list) \<Rightarrow> bool" where
  "sent stream cap up down j a ss r ss' \<longleftrightarrow>
     (up \<longrightarrow> r = None) \<and> (down \<longrightarrow> r \<noteq> None \<and> ss' = ss) \<and>
     (\<forall>s. s \<noteq> stream \<longrightarrow> ss' s = ss s) \<and>
     (\<exists>now. grew (message (job_payload j a now)) cap (ss stream) (ss' stream) \<and>
        (r = None \<longrightarrow> (\<exists>e \<in> set (ss' stream). entry_fields e = message (job_payload j a now))))"

text \<open>
  What a call of MarkAssetUploaded does, whatever its peers answer: either the tables and streams
  are as before (and it reports success only if the asset was not awaiting its upload), or the
  asset was awaiting and is now marked and has a new job, and the job's message was sent; with a
  database that commits although it reports an error, the message may be missing. When \<open>ok\<close> holds
  (the store answered and the database is healthy), the first case means a success on an asset
  that was not awaiting.
\<close>

definition mark_outcome ::
  "string \<Rightarrow> nat \<Rightarrow> bool \<Rightarrow> bool \<Rightarrow> uuid \<Rightarrow> world \<Rightarrow> go_error option \<Rightarrow> world \<Rightarrow> bool" where
  "mark_outcome stream cap usable ok a w r w' \<longleftrightarrow>
     w_tx w' = None \<and> objects w' = objects w \<and> peers w' = peers w \<and>
     (w_db w' = w_db w \<and> streams w' = streams w \<and> (job_seq w' = job_seq w \<or> job_seq w' = job_seq w + 1) \<and>
        (r = None \<longrightarrow> \<not> awaiting (w_db w) a) \<and> (ok \<longrightarrow> r = None)
      \<or> awaiting (w_db w) a \<and> job_seq w' = job_seq w + 1 \<and>
        (\<exists>now now'. w_db w' = with_new_job (marked (w_db w) a now) a (job_seq w) now') \<and>
        (r \<noteq> None \<and> streams w' = streams w \<and> ambiguous_db w \<or>
         sent stream cap (redis_healthy w \<and> usable) (redis_down w \<or> \<not> usable) (job_seq w) a
           (streams w) r (streams w')))"

lemma completed_inv:
  assumes "jobs_match_status d" "db_inv seq d" "awaiting d a"
  shows "jobs_match_status (with_new_job (marked d a now) a seq now')"
    and "db_inv (seq + 1) (with_new_job (marked d a now) a seq now')"
proof -
  show "jobs_match_status (with_new_job (marked d a now) a seq now')"
    using assms(1,3) by (rule jobs_match_status_complete)
  show "db_inv (seq + 1) (with_new_job (marked d a now) a seq now')"
    using awaiting_no_job [OF assms(1,3)] by (intro db_inv_with_new_job db_inv_marked assms(2)) simp_all
qed

lemma run_deferred_rollback:
  assumes "run_state (deferred_rollback b) w = (u, w')"
  shows "durable w' = durable w \<and> peers w' = peers w \<and> job_seq w' = job_seq w \<and>
    w_tx w' = (if b then None else w_tx w)"
proof (cases b)
  case True
  obtain e w1 where rb: "run_state Rollback w = (e, w1)" by fastforce
  have "durable w' = durable w1 \<and> peers w' = peers w1 \<and> job_seq w' = job_seq w1 \<and> w_tx w' = w_tx w1"
    using assms True rb by (cases e) (auto simp: deferred_rollback_def split: if_splits)
  then show ?thesis using run_Rollback [OF rb] True by simp
next
  case False
  then show ?thesis using assms by (auto simp: deferred_rollback_def)
qed

text \<open>The store, as it is, finds the uploaded object whenever it is asked.\<close>

definition store_answers :: "assetService \<Rightarrow> uuid \<Rightarrow> object_store \<Rightarrow> bool" where
  "store_answers s a objs \<longleftrightarrow>
     (\<forall>w. objects w = objs \<longrightarrow> (\<exists>x. result_of (sx_GetObjectAttrs (as_storage s) (as_bucket s) (object_key a)) w = Inr x))"

locale upload_service =
  repository: asset_repository "as_repo svc" + store: storage_client "as_storage svc" +
  queue: job_queue "Enqueue (as_queue svc)" stream cap usable
  for svc :: assetService and stream :: string and cap :: nat and usable :: bool
begin

text \<open>Whether the message gets through only depends on the peers.\<close>

abbreviation up :: "world \<Rightarrow> bool" where "up w \<equiv> redis_healthy w \<and> usable"
abbreviation down :: "world \<Rightarrow> bool" where "down w \<equiv> redis_down w \<or> \<not> usable"

lemma enqueue_stage:
  assumes "run_state (mark_enqueue svc a j) w = (r, w')"
  shows "w_db w' = w_db w \<and> w_tx w' = w_tx w \<and> objects w' = objects w \<and> job_seq w' = job_seq w \<and>
    peers w' = peers w \<and> sent stream cap (up w) (down w) j a (streams w) r (streams w')"
proof -
  obtain w0 q w1 now where q: "run_state (Enqueue (as_queue svc) (job_payload j a now)) w0 = (q, w1)"
    and w0: "w_db w0 = w_db w" "w_tx w0 = w_tx w" "objects w0 = objects w" "job_seq w0 = job_seq w"
      "peers w0 = peers w" "streams w0 = streams w"
    and w': "w_db w' = w_db w1" "w_tx w' = w_tx w1" "objects w' = objects w1" "job_seq w' = job_seq w1"
      "peers w' = peers w1" "streams w' = streams w1" "r = None \<longleftrightarrow> (\<exists>i. q = Inr i)"
    using assms by (auto simp: mark_enqueue_def split: prod.splits sum.splits)
  have "supported (go_map (job_payload j a now))" by (auto simp: go_map_def list_all_iff job_payload_def)
  then have ud: "up w0 \<Longrightarrow> r = None" "down w0 \<Longrightarrow> r \<noteq> None \<and> streams w1 = streams w0"
    using queue.enqueue_up [OF q] queue.enqueue_down [OF q] w'(7) by auto
  have "sent stream cap (up w0) (down w0) j a (streams w0) r (streams w1)"
    unfolding sent_def using queue.enqueue_grew [OF q] queue.enqueue_other [OF q] ud
      queue.enqueue_delivers [of "job_payload j a now" w0 _ w1] q w'(7) by blast
  then show ?thesis using queue.enqueue_keeps_db [OF q] w0 w' peer_predicates [of w0 w] by simp
qed

lemma commit_stage:
  assumes "open_tx w t" "run_state (mark_commit svc a j) w = (res, w')"
  shows "w_tx w' = None \<and> objects w' = objects w \<and> peers w' = peers w \<and> job_seq w' = job_seq w \<and>
    (w_db w' = w_db w \<and> streams w' = streams w \<and> fst res \<noteq> None \<and> \<not> db_healthy w
     \<or> w_db w' = tx_view t \<and> streams w' = streams w \<and> fst res \<noteq> None \<and> ambiguous_db w
     \<or> w_db w' = tx_view t \<and> sent stream cap (up w) (down w) j a (streams w) (fst res) (streams w'))"
proof -
  let ?w = "w\<lparr>tel := tel w @ [SpanAttrs ''AssetRepo.InsertProcessAssetJobTx'' [(''job_id'', AInt j)]]\<rparr>"
  obtain c w1 where c: "run_state Commit ?w = (c, w1)" by fastforce
  note C = run_Commit [OF c, simplified]
  have tx: "w_tx w = Some t" "\<not> tx_failed t" using assms(1) by (simp_all add: open_tx_def)
  have amb: "ambiguous_db ?w = ambiguous_db w" by (rule ambiguous_db_peers) simp
  show ?thesis
  proof (cases c)
    case None
    then obtain r where r: "run_state (mark_enqueue svc a j)
        (w1\<lparr>tel := tel w1 @ [SpanStatus tx_span CodeOk ''Transaction committed'']\<rparr>) = (r, w')" "fst res = r"
      using assms(2) c by (auto simp: mark_commit_def split: prod.splits)
    show ?thesis using enqueue_stage [OF r(1)] r(2) C(1-3) None tx peer_predicates [of w1 w] by simp
  next
    case (Some e)
    then have "w_tx w' = None \<and> objects w' = objects w1 \<and> peers w' = peers w1 \<and> job_seq w' = job_seq w1 \<and>
        w_db w' = w_db w1 \<and> streams w' = streams w1 \<and> fst res \<noteq> None"
      using assms(2) c C(2) by (auto simp: mark_commit_def)
    moreover have "\<not> db_healthy w" using C(6) [of t] tx Some by (auto simp: db_healthy_def)
    ultimately show ?thesis using C(1,4,5) Some tx amb by auto
  qed
qed

lemma job_stage:
  assumes "open_tx w t" "\<not> has_job (tx_view t) a" "run_state (mark_job svc a) w = (res, w')"
    and "assets (tx_view t) a \<noteq> None"
  shows "objects w' = objects w \<and> peers w' = peers w \<and> job_seq w' = job_seq w + 1 \<and>
    (w_db w' = w_db w \<and> streams w' = streams w \<and> fst res \<noteq> None \<and> (snd res \<or> w_tx w' = None) \<and>
       \<not> db_healthy w
     \<or> w_tx w' = None \<and> (\<exists>now. w_db w' = with_new_job (tx_view t) a (job_seq w) now) \<and>
       (streams w' = streams w \<and> fst res \<noteq> None \<and> ambiguous_db w
        \<or> sent stream cap (up w) (down w) (job_seq w) a (streams w) (fst res) (streams w')))"
proof -
  let ?n = "''AssetRepo.InsertProcessAssetJobTx''"
  let ?w = "w\<lparr>tel := tel w @ [SpanStart ?n [], SpanAttrs ?n [(''asset_id'', AStr a)]]\<rparr>"
  obtain rj w1 where j: "run_state (ar_InsertProcessAssetJobTx (as_repo svc) a) ?w = (rj, w1)" by fastforce
  have op: "open_tx ?w t" using assms(1) by (simp add: open_tx_def)
  note F = repository.job_frame [OF j, simplified]
  show ?thesis
  proof (cases rj)
    case (Inl e)
    then have "res = (Some e, True)" "durable w' = durable w1" "peers w' = peers w1" "job_seq w' = job_seq w1"
      using assms(3) j by (auto simp: mark_job_def)
    moreover have "\<not> db_healthy w"
      using repository.job_succeeds [OF op j] assms(4) Inl by (auto simp: db_healthy_def)
    ultimately show ?thesis using F by (simp add: durable_def)
  next
    case (Inr jid)
    note ok = repository.job_ok [OF op j [unfolded Inr] assms(2), simplified]
    obtain t' now where t': "open_tx w1 t'" "tx_view t' = with_new_job (tx_view t) a jid now"
      and jid: "jid = job_seq w" using ok by blast
    have m: "run_state (mark_commit svc a jid) (w1\<lparr>tel := tel w1 @ [SpanEnd ?n]\<rparr>) = (res, w')"
      using assms(3) j Inr by (simp add: mark_job_def)
    note P = peer_predicates [of w1 w]
    have "open_tx (w1\<lparr>tel := tel w1 @ [SpanEnd ?n]\<rparr>) t'" using t'(1) by (simp add: open_tx_def)
    from commit_stage [OF this m] have "w_tx w' = None \<and> objects w' = objects w1 \<and> peers w' = peers w1 \<and>
       job_seq w' = job_seq w1 \<and>
       (w_db w' = w_db w1 \<and> streams w' = streams w1 \<and> fst res \<noteq> None \<and> \<not> db_healthy w1
        \<or> w_db w' = tx_view t' \<and> streams w' = streams w1 \<and> fst res \<noteq> None \<and> ambiguous_db w1
        \<or> w_db w' = tx_view t' \<and> sent stream cap (up w1) (down w1) jid a (streams w1) (fst res) (streams w'))"
      by simp
    then show ?thesis using F t'(2) jid P by (auto simp: durable_def)
  qed
qed

lemma update_stage:
  assumes "open_tx w t" "jobs_match_status (tx_view t)" "run_state (mark_update svc a) w = (res, w')"
  shows "objects w' = objects w \<and> peers w' = peers w \<and>
    (w_db w' = w_db w \<and> streams w' = streams w \<and> (job_seq w' = job_seq w \<or> job_seq w' = job_seq w + 1) \<and>
       (snd res \<or> w_tx w' = None) \<and> (fst res = None \<longrightarrow> \<not> awaiting (tx_view t) a) \<and>
       (db_healthy w \<longrightarrow> fst res = None)
     \<or> awaiting (tx_view t) a \<and> job_seq w' = job_seq w + 1 \<and> w_tx w' = None \<and>
       (\<exists>now now'. w_db w' = with_new_job (marked (tx_view t) a now) a (job_seq w) now') \<and>
       (streams w' = streams w \<and> fst res \<noteq> None \<and> ambiguous_db w
        \<or> sent stream cap (up w) (down w) (job_seq w) a (streams w) (fst res) (streams w')))"
proof -
  let ?n = "''AssetRepo.MarkAssetUploadedTx''"
  let ?w = "w\<lparr>tel := tel w @ [SpanStart ?n [], SpanAttrs ?n [(''asset_id'', AStr a)]]\<rparr>"
  obtain rm w1 where m: "run_state (ar_MarkAssetUploadedTx (as_repo svc) a) ?w = (rm, w1)" by fastforce
  have op: "open_tx ?w t" using assms(1) by (simp add: open_tx_def)
  note F = repository.mark_frame [OF m, simplified]
  show ?thesis
  proof (cases "rm = Inr True")
    case False
    then have "snd res" "durable w' = durable w1" "peers w' = peers w1" "job_seq w' = job_seq w1"
      "fst res = None \<longleftrightarrow> rm = Inr False"
      using assms(3) m by (cases rm; auto simp: mark_update_def)+
    moreover have "rm = Inr False \<Longrightarrow> \<not> awaiting (tx_view t) a"
      using repository.mark_ok [OF op, of a False w1] m by auto
    moreover have "db_healthy w \<Longrightarrow> rm = Inr False"
      using repository.mark_succeeds [OF op m] False by (auto simp: db_healthy_def)
    ultimately show ?thesis using F by (auto simp: durable_def)
  next
    case True
    obtain t' where t': "open_tx w1 t'" "awaiting (tx_view t) a" "tx_view t' = marked (tx_view t) a (tx_now t)"
      using repository.mark_ok [OF op m [unfolded True]] by auto
    have j: "run_state (mark_job svc a) (w1\<lparr>tel := tel w1 @ [SpanEnd ?n]\<rparr>) = (res, w')"
      using assms(3) m True by (simp add: mark_update_def)
    have nj: "\<not> has_job (tx_view t') a" using awaiting_no_job [OF assms(2) t'(2)] t'(3) by simp
    have op': "open_tx (w1\<lparr>tel := tel w1 @ [SpanEnd ?n]\<rparr>) t'" using t'(1) by (simp add: open_tx_def)
    have "assets (tx_view t') a \<noteq> None" using t'(3) by simp
    from job_stage [OF op' nj j this] show ?thesis
      using F t'(2,3) peer_predicates [of w1 w] by (auto simp: durable_def)
  qed
qed

lemma tx_stage:
  assumes "w_tx w = None" "jobs_match_status (w_db w)" "run_state (mark_tx svc a) w = (r, w')"
  shows "mark_outcome stream cap usable (db_healthy w) a w r w'"
proof -
  let ?w = "w\<lparr>tel := tel w @ [SpanStart tx_span []]\<rparr>"
  obtain b w1 where b: "run_state BeginTx ?w = (b, w1)" by fastforce
  note B = run_BeginTx [OF b, simplified]
  show ?thesis
  proof (cases b)
    case (Some e)
    then have "r = Some e" "durable w' = durable w1" "peers w' = peers w1" "job_seq w' = job_seq w1" "w_tx w' = w_tx w1"
      using assms(3) b by (auto simp: mark_tx_def deferred_rollback_def)
    moreover have "\<not> db_healthy w" using B(4) Some by (auto simp: db_healthy_def)
    ultimately show ?thesis using B(1,3) Some assms(1) by (simp add: mark_outcome_def durable_def)
  next
    case None
    obtain t where t: "open_tx w1 t" "tx_view t = w_db w" using B(2) [OF None] by (auto simp: open_tx_def)
    obtain res w2 where u: "run_state (mark_update svc a) w1 = (res, w2)" by fastforce
    obtain w3 where d: "run_state (deferred_rollback (snd res)) w2 = ((), w3)"
      by (cases "run_state (deferred_rollback (snd res)) w2") simp
    have fin: "r = fst res" "w' = w3" using assms(3) b None u d by (simp_all add: mark_tx_def)
    have eq: "w_db w1 = w_db w" "streams w1 = streams w" "objects w1 = objects w"
      "peers w1 = peers w" "job_seq w1 = job_seq w"
      using B(1) by (simp_all add: durable_def)
    have fin': "w_db w3 = w_db w2" "streams w3 = streams w2" "objects w3 = objects w2"
      "peers w3 = peers w2" "job_seq w3 = job_seq w2" "w_tx w3 = (if snd res then None else w_tx w2)"
      using run_deferred_rollback [OF d] by (simp_all add: durable_def)
    from update_stage [OF t(1), unfolded t(2), OF assms(2) u]
    show ?thesis
      unfolding fin mark_outcome_def fin' eq peer_predicates [OF eq(4)]
      by (elim conjE disjE) simp_all
  qed
qed

lemma mark_effect:
  assumes "w_tx w = None" "jobs_match_status (w_db w)" "run_state (MarkAssetUploaded svc a) w = (r, w')"
  shows "mark_outcome stream cap usable (db_healthy w \<and> store_answers svc a (objects w)) a w r w'"
proof -
  let ?n = "''StorageClient.GetObjectAttrs''"
  let ?w = "w\<lparr>tel := tel w @ [SpanStart mark_span [], SpanAttrs mark_span [(''asset_id'', AStr a)],
     SpanAttrs mark_span [(''object_key'', AStr (object_key a))], SpanStart ?n [],
     SpanAttrs ?n [(''object_key'', AStr (object_key a))]]\<rparr>"
  obtain ra w1 where ra: "run_state (sx_GetObjectAttrs (as_storage svc) (as_bucket svc) (object_key a)) ?w = (ra, w1)"
    by fastforce
  note K = store.reads_keep [OF disjI2, OF disjI2, OF ra, simplified]
  show ?thesis
  proof (cases ra)
    case (Inl e)
    moreover have "\<not> store_answers svc a (objects w)"
      using ra Inl unfolding store_answers_def result_of_def by (auto intro!: exI [of _ ?w])
    ultimately show ?thesis using assms(1,3) ra K
      by (auto simp: MarkAssetUploaded_def mark_outcome_def Let_def)
  next
    case (Inr x)
    let ?w1 = "w1\<lparr>tel := tel w1 @ [SpanEnd ?n]\<rparr>"
    obtain w2 where w2: "run_state (mark_tx svc a) ?w1 = (r, w2)" "w' = w2\<lparr>tel := tel w2 @ [SpanEnd mark_span]\<rparr>"
      using assms(3) ra Inr by (auto simp: MarkAssetUploaded_def Let_def split: prod.splits)
    show ?thesis using tx_stage [OF _ _ w2(1)] assms(1,2) K w2(2) peer_predicates [of w1 w]
      by (auto simp: mark_outcome_def)
  qed
qed

lemma mark_completes:
  assumes "w_tx w = None" "jobs_match_status (w_db w)" "awaiting (w_db w) a"
    and "db_healthy w" "store_answers svc a (objects w)" "up w"
    and "run_state (MarkAssetUploaded svc a) w = (r, w')"
  shows "r = None \<and> (\<exists>now now'. w_db w' = with_new_job (marked (w_db w) a now) a (job_seq w) now') \<and>
    sent stream cap True False (job_seq w) a (streams w) r (streams w')"
proof -
  have "\<not> ambiguous_db w" using assms(4) by (auto simp: ambiguous_db_def db_healthy_def)
  moreover have "\<not> down w"
    using assms(6) unfolding redis_healthy_def redis_down_def by (metis xadd_outcome.distinct(1))
  ultimately show ?thesis
    using mark_effect [OF assms(1,2,7)] assms(3-6) unfolding mark_outcome_def by (auto simp: sent_def)
qed

lemma mark_unannounced:
  assumes "w_tx w = None" "jobs_match_status (w_db w)" "awaiting (w_db w) a"
    and "db_healthy w" "store_answers svc a (objects w)" "down w"
    and "run_state (MarkAssetUploaded svc a) w = (r, w')"
  shows "r \<noteq> None \<and> streams w' = streams w \<and> objects w' = objects w \<and> peers w' = peers w \<and>
    (\<exists>now now'. w_db w' = with_new_job (marked (w_db w) a now) a (job_seq w) now')"
proof -
  have "\<not> ambiguous_db w" using assms(4) by (auto simp: ambiguous_db_def db_healthy_def)
  then show ?thesis
    using mark_effect [OF assms(1,2,7)] assms(3-6) unfolding mark_outcome_def sent_def by auto
qed

text \<open>The invariants of the tables survive every call.\<close>

lemma mark_keeps_invariants:
  assumes "w_tx w = None" "jobs_match_status (w_db w)" "db_inv (job_seq w) (w_db w)"
    and "run_state (MarkAssetUploaded svc a) w = (r, w')"
  shows "w_tx w' = None \<and> jobs_match_status (w_db w') \<and> db_inv (job_seq w') (w_db w')"
proof -
  have "db_inv (job_seq w + 1) (w_db w)" using db_inv_mono [OF assms(3)] by simp
  then show ?thesis
    using mark_effect [OF assms(1,2,4)] assms(2,3) completed_inv [OF assms(2,3)]
    unfolding mark_outcome_def by auto
qed

end

section \<open>The services the program builds\<close>

definition assemble ::
  "Metrics option \<Rightarrow> StorageX \<Rightarrow> string \<Rightarrow> RedisClient option \<Rightarrow> assetService" where
  "assemble m storage bucket client =
     \<lparr>as_repo = NewAssetRepository m, as_storage = storage, as_bucket = bucket,
      as_queue = fst (NewRedisQueue client service_queue_options m), as_m = m\<rparr>"

lemma assemble_sel [simp]:
  "as_repo (assemble m st b c) = NewAssetRepository m" "as_storage (assemble m st b c) = st"
  "as_bucket (assemble m st b c) = b"
  "as_queue (assemble m st b c) = fst (NewRedisQueue c service_queue_options m)"
  by (simp_all add: assemble_def)

lemma service_queue [simp]:
  "QueueName (default_options service_queue_options) = ''media:jobs''"
  "MaxStreamLength (default_options service_queue_options) = 10000"
  by (simp_all add: default_options_def service_queue_options_def)

lemma assemble_upload_service:
  "storage_client st \<Longrightarrow> upload_service (assemble m st b c) ''media:jobs'' 10000 (c \<noteq> None)"
  using redis.job_queue_axioms [of c service_queue_options m]
  by (intro upload_service.intro) (simp_all add: repo.asset_repository_axioms)

interpretation gcs_service: upload_service "assemble m (gcs_storage g) b c" "''media:jobs''" 10000 "c \<noteq> None"
  for m g b c by (rule assemble_upload_service) (rule gcs.storage_client_axioms)

interpretation s3_service: upload_service "assemble m (s3_storage uni quoteU s) b c" "''media:jobs''" 10000
  "c \<noteq> None" for m uni quoteU s b c by (rule assemble_upload_service) (rule s3.storage_client_axioms)

lemma NewAssetService_built:
  assumes "run_state (NewAssetService libs ParseURL cstate rcfg (NewAssetRepository m) m) w0 =
    (Returns (svc, depth), w0')"
  shows "upload_service svc ''media:jobs'' 10000 (rq_redis (as_queue svc) \<noteq> None)"
proof -
  obtain cfg where cfg: "MustGet cstate = Inr cfg"
    using assms by (cases "MustGet cstate") (auto simp: NewAssetService_def)
  let ?c = "service_storage_config (sl_uni libs) (Storage cfg)"
  obtain storage where st: "New libs ?c m = Inr storage"
    using assms cfg by (cases "New libs ?c m") (auto simp: NewAssetService_def Let_def)
  obtain rc w1 where rc: "run_state (MustGetRedisClient ParseURL rcfg) w0 = (rc, w1)" by fastforce
  have "svc = assemble m storage (effective_bucket (sl_uni libs) (Storage cfg))
      (case rc of Inl _ \<Rightarrow> None | Inr c \<Rightarrow> Some c)"
    using assms cfg st rc by (simp add: NewAssetService_def Let_def assemble_def split: prod.splits)
  then show ?thesis using assemble_upload_service [OF New_storage_client [OF st]] by simp
qed

text \<open>A concrete service and world for the witnesses: S3 in memory, one asset whose object has been
  uploaded.\<close>

definition sample_cfg :: EnvConfig where
  "sample_cfg = \<lparr>Environment_name = ''dev'', Server = \<lparr>srv_Port = 5010, srv_Host = []\<rparr>,
     DB = \<lparr>db_Host = [], db_Port = 5432, db_User = [], db_Password = [], db_Name = [], db_SSLMode = []\<rparr>,
     Redis = rc_cfg sample_client,
     Otel = \<lparr>Endpoint = [], TLSInsecure = True, DeploymentEnv = [], TraceSamplingRate = Finite 1,
       ServiceName = [], ServiceVersion = []\<rparr>,
     Storage = \<lparr>st_Provider = ''s3'', st_Bucket = ''gcs-bucket'', st_GCS = \<lparr>SAPath = []\<rparr>,
       st_S3 = \<lparr>s3_Bucket = ''media'', s3_Region = [], s3_AccessKeyID = [], s3_SecretAccessKey = [],
         s3_EndpointURL = []\<rparr>\<rparr>,
     CORSAllowedOrigins = [], LogLevel = [], EncryptionKey = [], AutoMigrate = False,
     MaxAssetSizeBytes = 100\<rparr>"

definition sample_service :: assetService where
  "sample_service = assemble None (s3_storage id id
     \<lparr>s3_client = memory_s3, region = ''us-east-1'', endpoint = [], s3_m = None\<rparr>) ''media'' (Some sample_client)"

lemma sample_built:
  "run_state (NewAssetService sample_libs (\<lambda>u. Inl (ErrText ''bad'')) (Init sample_cfg config_start)
     (rc_cfg sample_client) (NewAssetRepository None) None) idle_world =
   (Returns (sample_service, None), idle_world)"
proof -
  have p: "ToLower (sl_uni sample_libs) ''s3'' = ''s3''" using sample_provider(2) by (simp add: sample_config_def)
  have "New sample_libs (service_storage_config (sl_uni sample_libs) (Storage sample_cfg)) None =
      Inr (s3_storage id id \<lparr>s3_client = memory_s3, region = ''us-east-1'', endpoint = [], s3_m = None\<rparr>)"
    using p by (simp add: New_def service_storage_config_def sample_cfg_def Let_def NewS3Storage_def)
      (simp add: sample_libs_def)
  moreover have "effective_bucket (sl_uni sample_libs) (Storage sample_cfg) = ''media''"
    using p by (simp add: effective_bucket_def sample_cfg_def)
  moreover have "MustGet (Init sample_cfg config_start) = Inr sample_cfg"
    by (simp add: MustGet_def Init_def config_start_def)
  ultimately show ?thesis
    by (simp add: NewAssetService_def MustGetRedisClient_def Let_def sample_service_def assemble_def
        sample_client_def NewRedisQueue_def)
qed

definition upload_world :: world where
  "upload_world = idle_world\<lparr>
     w_db := \<lparr>assets = [''a'' \<mapsto> \<lparr>original_url = ''u'', asset_type = ''image'', mime_type = ''image/png'',
       asset_status = ''uploading'', size_bytes = 2, a_created_at = 0, a_updated_at = 0\<rparr>], jobs = []\<rparr>,
     objects := [(''media'', ''media/raw/a'') \<mapsto> \<lparr>obj_data = ''hi'', obj_content_type = ''image/png'',
       obj_metadata = [], obj_etag = []\<rparr>]\<rparr>"

definition down_world :: world where
  "down_world = upload_world\<lparr>xadd_reply := (\<lambda>n. XFail (ErrText ''connection refused'') None)\<rparr>"

lemma sample_worlds [simp]:
  "w_tx upload_world = None" "w_tx down_world = None"
  "jobs_match_status (w_db upload_world)" "jobs_match_status (w_db down_world)"
  "db_inv (job_seq upload_world) (w_db upload_world)" "db_inv (job_seq down_world) (w_db down_world)"
  "awaiting (w_db upload_world) ''a''" "awaiting (w_db down_world) ''a''"
  "db_healthy upload_world" "db_healthy down_world" "redis_healthy upload_world" "redis_down down_world"
  "objects down_world = objects upload_world" "isASCII ''a''" "rq_redis (as_queue sample_service) \<noteq> None"
  by (auto simp: upload_world_def down_world_def idle_world_def jobs_match_status_def has_job_def
      db_inv_def awaiting_def db_healthy_def redis_healthy_def redis_down_def isASCII_def
      sample_service_def split: if_splits)

lemma sample_store [simp]: "store_answers sample_service ''a'' (objects upload_world)"
  by (auto simp: store_answers_def sample_service_def s3_storage_def s3_GetObjectAttrs_def Let_def
      result_of_def memory_s3_def upload_world_def object_key_def)

abbreviation sample_mark :: "world \<Rightarrow> go_error option \<times> world" where
  "sample_mark w \<equiv> run_state (MarkAssetUploaded sample_service ''a'') w"

lemma sample_mark_results: "fst (sample_mark upload_world) = None" "fst (sample_mark down_world) \<noteq> None"
proof -
  note svc = NewAssetService_built [OF sample_built]
  show "fst (sample_mark upload_world) = None"
    using upload_service.mark_completes [OF svc, of upload_world "''a''" "fst (sample_mark upload_world)"
        "snd (sample_mark upload_world)"] by simp
  show "fst (sample_mark down_world) \<noteq> None"
    using upload_service.mark_unannounced [OF svc, of down_world "''a''" "fst (sample_mark down_world)"
        "snd (sample_mark down_world)"] by simp
qed

section \<open>MarkAssetUploaded\<close>

text \<open>C2. Completing an upload keeps the tables consistent, whatever the store, the database and
  Redis answer: job ids stay unique and below the sequence, there is at most one job per asset and
  type, every job has its asset, an asset has a processing job exactly when it has left the status
  uploading, and no transaction is left open.\<close>

theorem MarkAssetUploaded_invariant:
  assumes "run_state (NewAssetService libs ParseURL cstate rcfg (NewAssetRepository m) m) w0 =
      (Returns (svc, depth), w0')"
    and "w_tx w = None" "jobs_match_status (w_db w)" "db_inv (job_seq w) (w_db w)"
    and "run_state (MarkAssetUploaded svc a) w = (r, w')"
  shows "w_tx w' = None \<and> jobs_match_status (w_db w') \<and> db_inv (job_seq w') (w_db w')"
  using upload_service.mark_keeps_invariants [OF NewAssetService_built [OF assms(1)] assms(2-5)] .

theorem MarkAssetUploaded_invariant_witness:
  "jobs_match_status (w_db (snd (sample_mark upload_world))) \<and>
   db_inv (job_seq (snd (sample_mark upload_world))) (w_db (snd (sample_mark upload_world)))"
  using MarkAssetUploaded_invariant [OF sample_built, of upload_world "''a''", OF _ _ _ prod.collapse [symmetric]]
  by simp

text \<open>The message of a job as a consumer of the stream reads it.\<close>

definition announces :: "stream_entry \<Rightarrow> int64 \<Rightarrow> uuid \<Rightarrow> bool" where
  "announces e j a \<longleftrightarrow> (\<exists>body ms. entry_fields e = [(''body'', body)] \<and>
     Unmarshal_value body = Inr (VObject ms) \<and> map_of ms ''job_id'' = Some (VNumber (Itoa j)) \<and>
     map_of ms ''asset_id'' = Some (VString a))"

lemma announces_payload:
  assumes "isASCII a" "entry_fields e = message (job_payload j a now)"
  shows "announces e j a"
proof -
  have "flat (job_payload j a now)" by (simp add: flat_def job_payload_def)
  from decode_message [OF this] show ?thesis
    using assms unfolding announces_def message_def by (fastforce simp: job_payload_def)
qed

text \<open>C1. When MarkAssetUploaded reports success, either the asset was not awaiting its upload and
  neither the tables nor the streams changed, or it was awaiting and now has the status uploaded, a
  new job in status processing with the next id, and a message in the stream media:jobs from which
  a consumer reads this job id and asset id.\<close>

theorem MarkAssetUploaded_success:
  assumes "run_state (NewAssetService libs ParseURL cstate rcfg (NewAssetRepository m) m) w0 =
      (Returns (svc, depth), w0')"
    and "w_tx w = None" "jobs_match_status (w_db w)" "isASCII a"
    and "run_state (MarkAssetUploaded svc a) w = (None, w')"
  shows "if awaiting (w_db w) a
    then (\<exists>now now'. w_db w' = with_new_job (marked (w_db w) a now) a (job_seq w) now') \<and>
      (\<exists>e \<in> set (streams w' ''media:jobs''). announces e (job_seq w) a)
    else w_db w' = w_db w \<and> streams w' = streams w"
  using upload_service.mark_effect [OF NewAssetService_built [OF assms(1)] assms(2,3,5)]
    announces_payload [OF assms(4)]
  unfolding mark_outcome_def sent_def by auto

theorem MarkAssetUploaded_success_witness:
  "\<exists>e \<in> set (streams (snd (sample_mark upload_world)) ''media:jobs''). announces e (job_seq upload_world) ''a''"
  using MarkAssetUploaded_success [OF sample_built, of upload_world "''a''" "snd (sample_mark upload_world)"]
    sample_mark_results(1) by (simp add: prod_eq_iff)

text \<open>C3. With an answering store, a healthy database and a reachable Redis, completing the upload
  of an awaiting asset succeeds and the job is announced.\<close>

theorem MarkAssetUploaded_completes:
  assumes "run_state (NewAssetService libs ParseURL cstate rcfg (NewAssetRepository m) m) w0 =
      (Returns (svc, depth), w0')"
    and "w_tx w = None" "jobs_match_status (w_db w)" "isASCII a" "awaiting (w_db w) a"
    and "db_healthy w" "store_answers svc a (objects w)" "redis_healthy w" "rq_redis (as_queue svc) \<noteq> None"
    and "run_state (MarkAssetUploaded svc a) w = (r, w')"
  shows "r = None \<and> \<not> awaiting (w_db w') a \<and> has_job (w_db w') a \<and>
    (\<exists>e \<in> set (streams w' ''media:jobs''). announces e (job_seq w) a)"
proof -
  have "r = None \<and> (\<exists>now now'. w_db w' = with_new_job (marked (w_db w) a now) a (job_seq w) now') \<and>
      sent ''media:jobs'' 10000 True False (job_seq w) a (streams w) r (streams w')"
    using upload_service.mark_completes [OF NewAssetService_built [OF assms(1)] assms(2,3,5-7) _ assms(10)]
      assms(8,9) by auto
  then show ?thesis
    using announces_payload [OF assms(4)] unfolding sent_def
    by (auto simp: with_new_job_def has_job_def awaiting_def marked_def)
qed

theorem MarkAssetUploaded_completes_witness:
  "fst (sample_mark upload_world) = None \<and> has_job (w_db (snd (sample_mark upload_world))) ''a''"
  using MarkAssetUploaded_completes [OF sample_built, of upload_world "''a''", OF _ _ _ _ _ _ _ _ prod.collapse [symmetric]]
  by simp

lemma completed_not_awaiting [simp]: "\<not> awaiting (with_new_job (marked d a now) a j now') a"
  by (simp add: awaiting_def with_new_job_def marked_def)

lemma completed_neq: "awaiting d a \<Longrightarrow> with_new_job (marked d a now) a j now' \<noteq> d"
  using completed_not_awaiting by metis

text \<open>C6. A failed call has changed nothing in the tables and streams, or the transaction was
  committed: then the asset is marked and has its job, although the call reports an error, and
  the stream has gained at most copies of the job's message. Only the second case can happen after
  the commit, so the tables are never left half changed.\<close>

theorem MarkAssetUploaded_error:
  assumes "run_state (NewAssetService libs ParseURL cstate rcfg (NewAssetRepository m) m) w0 =
      (Returns (svc, depth), w0')"
    and "w_tx w = None" "jobs_match_status (w_db w)" "isASCII a"
    and "run_state (MarkAssetUploaded svc a) w = (Some err, w')"
  shows "w_db w' = w_db w \<and> streams w' = streams w \<or>
    awaiting (w_db w) a \<and>
    (\<exists>now now'. w_db w' = with_new_job (marked (w_db w) a now) a (job_seq w) now') \<and>
    (\<forall>s. \<forall>e \<in> set (streams w' s). e \<in> set (streams w s) \<or> s = ''media:jobs'' \<and> announces e (job_seq w) a)"
proof -
  have new: "e \<in> set (ss' s) \<Longrightarrow> sent ''media:jobs'' 10000 u dn (job_seq w) a ss q ss' \<Longrightarrow>
      e \<in> set (ss s) \<or> s = ''media:jobs'' \<and> announces e (job_seq w) a" for e s ss ss' u dn q
    using announces_payload [OF assms(4)] unfolding sent_def
    by (cases "s = ''media:jobs''") (auto simp: grew_def dest!: in_set_dropD)
  show ?thesis
    using upload_service.mark_effect [OF NewAssetService_built [OF assms(1)] assms(2,3,5)] new
    unfolding mark_outcome_def by (elim conjE disjE) simp_all
qed

theorem MarkAssetUploaded_error_witness:
  "\<exists>err. fst (sample_mark down_world) = Some err \<and>
     (w_db (snd (sample_mark down_world)) = w_db down_world \<or>
      (\<forall>e \<in> set (streams (snd (sample_mark down_world)) ''other''). e \<in> set (streams down_world ''other'')))"
proof -
  obtain err where err: "fst (sample_mark down_world) = Some err" using sample_mark_results(2) by blast
  then have "sample_mark down_world = (Some err, snd (sample_mark down_world))" by (simp add: prod_eq_iff)
  from MarkAssetUploaded_error [OF sample_built _ _ _ this] err show ?thesis by auto
qed

text \<open>C4. Completing an upload takes effect at most once: after a call that succeeded, or that
  changed the tables before it failed, another call for the same asset changes neither tables nor
  streams.\<close>

theorem MarkAssetUploaded_once:
  assumes "run_state (NewAssetService libs ParseURL cstate rcfg (NewAssetRepository m) m) w0 =
      (Returns (svc, depth), w0')"
    and "w_tx w = None" "jobs_match_status (w_db w)" "db_inv (job_seq w) (w_db w)"
    and "run_state (MarkAssetUploaded svc a) w = (r1, w1)" "r1 = None \<or> w_db w1 \<noteq> w_db w"
    and "run_state (MarkAssetUploaded svc a) w1 = (r2, w2)"
  shows "w_db w2 = w_db w1 \<and> streams w2 = streams w1"
proof -
  note svc = NewAssetService_built [OF assms(1)]
  note inv = upload_service.mark_keeps_invariants [OF svc assms(2-5)]
  have na: "\<not> awaiting (w_db w1) a"
    using upload_service.mark_effect [OF svc assms(2,3,5)] assms(6) unfolding mark_outcome_def by auto
  show ?thesis
    using upload_service.mark_effect [OF svc _ _ assms(7)] inv na unfolding mark_outcome_def by auto
qed

theorem MarkAssetUploaded_once_witness:
  "streams (snd (sample_mark (snd (sample_mark upload_world)))) = streams (snd (sample_mark upload_world))"
  using MarkAssetUploaded_once [OF sample_built, of upload_world "''a''",
      OF _ _ _ prod.collapse [symmetric] _ prod.collapse [symmetric]] sample_mark_results(1) by simp

text \<open>C7. A job can be lost: when Redis cannot be reached (or the client was never made), the call
  on an awaiting asset fails after its commit, leaving a job in status processing that was never
  announced; a repeated call then reports success without announcing it either.\<close>

theorem MarkAssetUploaded_loses_job:
  assumes "run_state (NewAssetService libs ParseURL cstate rcfg (NewAssetRepository m) m) w0 =
      (Returns (svc, depth), w0')"
    and "w_tx w = None" "jobs_match_status (w_db w)" "db_inv (job_seq w) (w_db w)" "awaiting (w_db w) a"
    and "db_healthy w" "store_answers svc a (objects w)"
    and "redis_down w \<or> rq_redis (as_queue svc) = None"
    and "run_state (MarkAssetUploaded svc a) w = (r1, w1)"
    and "run_state (MarkAssetUploaded svc a) w1 = (r2, w2)"
  shows "r1 \<noteq> None \<and> r2 = None \<and> streams w2 = streams w \<and>
    (\<exists>j \<in> set (jobs (w_db w2)). job_asset j = a \<and> job_id j = job_seq w \<and> job_status j = ''processing'')"
proof -
  note svc = NewAssetService_built [OF assms(1)]
  have 1: "r1 \<noteq> None \<and> streams w1 = streams w \<and> objects w1 = objects w \<and> peers w1 = peers w \<and>
      (\<exists>now now'. w_db w1 = with_new_job (marked (w_db w) a now) a (job_seq w) now')"
    using upload_service.mark_unannounced [OF svc assms(2,3,5-7) _ assms(9)] assms(8) by simp
  then have na: "\<not> awaiting (w_db w1) a" by auto
  note inv = upload_service.mark_keeps_invariants [OF svc assms(2-4,9)]
  have h1: "db_healthy w1" "store_answers svc a (objects w1)"
    using assms(6,7) 1 by (auto simp: peers_def db_healthy_def)
  have 2: "r2 = None \<and> streams w2 = streams w1 \<and> w_db w2 = w_db w1"
    using upload_service.mark_effect [OF svc _ _ assms(10)] inv na h1 unfolding mark_outcome_def by auto
  show ?thesis using 1 2 by (auto simp: with_new_job_def)
qed

theorem MarkAssetUploaded_loses_job_witness:
  "fst (sample_mark down_world) \<noteq> None \<and> fst (sample_mark (snd (sample_mark down_world))) = None \<and>
   streams (snd (sample_mark (snd (sample_mark down_world)))) ''media:jobs'' = []"
proof -
  have "streams down_world ''media:jobs'' = []" by (simp add: down_world_def upload_world_def idle_world_def)
  then show ?thesis
    using MarkAssetUploaded_loses_job [OF sample_built, of down_world "''a''",
      OF _ _ _ _ _ _ _ prod.collapse [symmetric] prod.collapse [symmetric]] by simp
qed

section \<open>CreateAsset\<close>

definition request_row :: "UploadAssetRequest \<Rightarrow> uuid \<Rightarrow> string \<Rightarrow> int \<Rightarrow> database \<Rightarrow> database" where
  "request_row req a url now d = with_new_asset d a url
     (ToAssetTypeFromMimeType (req_ContentType req)) (req_ContentType req) (req_Size req) now"

definition response_for :: "UploadAssetRequest \<Rightarrow> uuid \<Rightarrow> string \<Rightarrow> string \<Rightarrow> UploadAssetResponse" where
  "response_for req a surl url = \<lparr>UploadUrl = surl, AssetID = a, resp_Method = ''PUT'',
     Headers = [(''Content-Type'', req_ContentType req)], ObjectPath = FileName req,
     PublicUrl = url, ExpiresAt = 300\<rparr>"

context upload_service
begin

lemma create_row_effect:
  assumes "run_state (create_row svc start a req surl url) w = (r, w')"
  shows "streams w' = streams w \<and> objects w' = objects w \<and> job_seq w' = job_seq w \<and> peers w' = peers w \<and>
    ((\<exists>e. r = Inl e) \<and> w_db w' = w_db w \<or>
     assets (w_db w) a = None \<and> (\<exists>now. w_db w' = request_row req a url now (w_db w)) \<and>
     ((\<exists>e. r = Inl e) \<or> r = Inr (response_for req a surl url)))"
proof -
  let ?n = "''AssetRepo.CreateAsset''"
  let ?w = "w\<lparr>tel := tel w @ [SpanStart ?n [], SpanAttrs ?n [(''asset_id'', AStr a)]]\<rparr>"
  let ?call = "ar_CreateAsset (as_repo svc) a url (req_Size req)
      (ToAssetTypeFromMimeType (req_ContentType req)) (req_ContentType req)"
  obtain q w1 where q: "run_state ?call ?w = (q, w1)" by fastforce
  have eq: "streams w' = streams w1" "objects w' = objects w1" "job_seq w' = job_seq w1"
    "peers w' = peers w1" "w_db w' = w_db w1"
    "r = (case q of Some e \<Rightarrow> Inl e | None \<Rightarrow> Inr (response_for req a surl url))"
    using assms q by (cases q; auto simp: create_row_def response_for_def upload_expiry_def Let_def
        split: if_splits)+
  show ?thesis
  proof (cases q)
    case None
    then show ?thesis using repository.create_frame [OF q] repository.create_ok [of a url _ _ _ ?w w1] q eq
      by (auto simp: request_row_def)
  next
    case (Some e)
    then show ?thesis using repository.create_frame [OF q] repository.create_err [of a url _ _ _ ?w e w1] q eq
      by (auto simp: request_row_def)
  qed
qed

lemma create_public_effect:
  assumes "run_state (create_public svc start a req surl) w = (r, w')"
  shows "streams w' = streams w \<and> objects w' = objects w \<and> job_seq w' = job_seq w \<and> peers w' = peers w \<and>
    ((\<exists>e. r = Inl e) \<and> w_db w' = w_db w \<or>
     assets (w_db w) a = None \<and> (\<exists>url now v. w_db w' = request_row req a url now (w_db w) \<and>
       result_of (sx_PublicURL (as_storage svc) (as_bucket svc) (object_key a)) v = Inr url \<and>
       ((\<exists>e. r = Inl e) \<or> r = Inr (response_for req a surl url))))"
proof -
  let ?n = "''StorageClient.PublicURL''"
  let ?w = "w\<lparr>tel := tel w @ [SpanStart ?n [], SpanAttrs ?n [(''object_key'', AStr (object_key a))]]\<rparr>"
  obtain q w1 where q: "run_state (sx_PublicURL (as_storage svc) (as_bucket svc) (object_key a)) ?w = (q, w1)"
    by fastforce
  note K = store.reads_keep [OF disjI2, OF disjI1, OF q, simplified]
  show ?thesis
  proof (cases q)
    case (Inl e)
    then show ?thesis using assms q K by (auto simp: create_public_def)
  next
    case (Inr url)
    let ?w1 = "w1\<lparr>tel := tel w1 @ [SpanEnd ?n, LogLine LDebug ''Public URL: '' [(''url'', AStr url)]]\<rparr>"
    have "run_state (create_row svc start a req surl url) ?w1 = (r, w')"
      using assms q Inr by (simp add: create_public_def)
    note row = create_row_effect [OF this]
    have url: "result_of (sx_PublicURL (as_storage svc) (as_bucket svc) (object_key a)) ?w = Inr url"
      using q Inr by (simp add: result_of_def)
    show ?thesis using row K url by simp blast
  qed
qed

lemma create_effect:
  assumes "run_state (CreateAsset_svc svc req) w = (r, w')" "a = uuid_supply w (uuid_calls w)"
  shows "streams w' = streams w \<and> objects w' = objects w \<and> job_seq w' = job_seq w \<and> peers w' = peers w \<and>
    ((\<exists>e. r = Inl e) \<and> w_db w' = w_db w \<or>
     assets (w_db w) a = None \<and> (\<exists>url now v. w_db w' = request_row req a url now (w_db w) \<and>
       result_of (sx_PublicURL (as_storage svc) (as_bucket svc) (object_key a)) v = Inr url \<and>
       ((\<exists>e. r = Inl e) \<or> (\<exists>surl v'. r = Inr (response_for req a surl url) \<and>
         result_of (sx_GeneratePresignedURL (as_storage svc) (as_bucket svc) (object_key a)
           (Some \<lparr>pu_ContentType = req_ContentType req, ExpiresInSeconds = 300, Method = ''PUT''\<rparr>)) v'
           = Inr surl))))"
proof -
  let ?opts = "\<lparr>pu_ContentType = req_ContentType req, ExpiresInSeconds = 300, Method = ''PUT''\<rparr>"
  let ?sign = "sx_GeneratePresignedURL (as_storage svc) (as_bucket svc) (object_key a) (Some ?opts)"
  let ?n = "''StorageClient.GeneratePresignedURL''"
  define w0 where "w0 = w\<lparr>clock_calls := Suc (clock_calls w), uuid_calls := Suc (uuid_calls w),
     tel := tel w @ [SpanStart create_span [], SpanAttrs create_span [(''asset_id'', AStr a),
       (''content_type'', AStr (req_ContentType req)), (''content_length'', AInt (req_Size req))],
       SpanStart ?n [], SpanAttrs ?n [(''object_key'', AStr (object_key a))]]\<rparr>"
  have w0: "streams w0 = streams w" "objects w0 = objects w" "job_seq w0 = job_seq w" "peers w0 = peers w"
    "w_db w0 = w_db w" by (simp_all add: w0_def peers_def)
  obtain rs w1 where s: "run_state ?sign w0 = (rs, w1)" by fastforce
  note K = store.reads_keep [OF disjI1, OF s]
  show ?thesis
  proof (cases rs)
    case (Inl e)
    then show ?thesis using assms s K w0
      by (auto simp: CreateAsset_svc_def w0_def Let_def upload_expiry_def)
  next
    case (Inr surl)
    let ?w1 = "w1\<lparr>tel := tel w1 @ [SpanEnd ?n, LogLine LDebug ''Generated signed URL: '' [(''url'', AStr surl)]]\<rparr>"
    obtain v where v: "run_state (create_public svc (clock w (clock_calls w)) a req surl) ?w1 = (r, v)"
      "w' = v\<lparr>tel := tel v @ [SpanEnd create_span]\<rparr>"
      using assms s Inr by (auto simp: CreateAsset_svc_def w0_def Let_def upload_expiry_def split: prod.splits)
    have "result_of ?sign w0 = Inr surl" using s Inr by (simp add: result_of_def)
    then show ?thesis using create_public_effect [OF v(1)] K w0 v(2) by simp blast
  qed
qed

end

text \<open>C11. When CreateAsset reports success, the table gained exactly one row, under the fresh id,
  with status uploading, the type of the content type and the size of the request and the public
  URL of the object media/raw/id; the response carries this id and URL, the URL signed for a PUT of
  this content type for 300 seconds, and nothing else changed. When it fails, the table is as
  before, or has this one row (an insert the database applied and reported as failed).\<close>

theorem CreateAsset_effect:
  assumes "run_state (NewAssetService libs ParseURL cstate rcfg (NewAssetRepository m) m) w0 =
      (Returns (svc, depth), w0')"
    and "run_state (CreateAsset_svc svc req) w = (r, w')" "a = uuid_supply w (uuid_calls w)"
  shows "streams w' = streams w \<and> objects w' = objects w \<and>
    ((\<exists>e. r = Inl e) \<and> w_db w' = w_db w \<or>
     assets (w_db w) a = None \<and> (\<exists>url now v. w_db w' = request_row req a url now (w_db w) \<and>
       result_of (sx_PublicURL (as_storage svc) (as_bucket svc) (object_key a)) v = Inr url \<and>
       ((\<exists>e. r = Inl e) \<or> (\<exists>surl v'. r = Inr (response_for req a surl url) \<and>
         result_of (sx_GeneratePresignedURL (as_storage svc) (as_bucket svc) (object_key a)
           (Some \<lparr>pu_ContentType = req_ContentType req, ExpiresInSeconds = 300, Method = ''PUT''\<rparr>)) v'
           = Inr surl))))"
  using upload_service.create_effect [OF NewAssetService_built [OF assms(1)] assms(2,3)] by blast

definition sample_request :: UploadAssetRequest where
  "sample_request = \<lparr>FileName = ''cat.png'', req_ContentType = ''image/png'', req_Size = 5\<rparr>"

theorem CreateAsset_effect_witness:
  "streams (snd (run_state (CreateAsset_svc sample_service sample_request) upload_world)) = streams upload_world"
  using CreateAsset_effect [OF sample_built prod.collapse [symmetric] refl] by blast

text \<open>C12. Creating an asset keeps the tables consistent too, so every interleaving of complete
  calls of CreateAsset and MarkAssetUploaded does.\<close>

theorem CreateAsset_invariant:
  assumes "run_state (NewAssetService libs ParseURL cstate rcfg (NewAssetRepository m) m) w0 =
      (Returns (svc, depth), w0')"
    and "jobs_match_status (w_db w)" "db_inv (job_seq w) (w_db w)"
    and "run_state (CreateAsset_svc svc req) w = (r, w')"
  shows "jobs_match_status (w_db w') \<and> db_inv (job_seq w') (w_db w')"
  using upload_service.create_effect [OF NewAssetService_built [OF assms(1)] assms(4) refl] assms(2,3)
  by (auto simp: request_row_def db_inv_with_new_asset jobs_match_status_with_new_asset)

theorem CreateAsset_invariant_witness:
  "jobs_match_status (w_db (snd (run_state (CreateAsset_svc sample_service sample_request) upload_world)))"
  using CreateAsset_invariant [OF sample_built _ _ prod.collapse [symmetric]] by simp

text \<open>With a store that signs, a healthy database and a fresh id, creating an asset succeeds.\<close>

definition store_signs :: "assetService \<Rightarrow> uuid \<Rightarrow> bool" where
  "store_signs s a \<longleftrightarrow>
     (\<forall>w. \<exists>u. result_of (sx_PublicURL (as_storage s) (as_bucket s) (object_key a)) w = Inr u) \<and>
     (\<forall>w ct. \<exists>u. result_of (sx_GeneratePresignedURL (as_storage s) (as_bucket s) (object_key a)
        (Some \<lparr>pu_ContentType = ct, ExpiresInSeconds = 300, Method = ''PUT''\<rparr>)) w = Inr u)"

context upload_service
begin

lemma create_row_completes:
  assumes "db_healthy w" "assets (w_db w) a = None" "run_state (create_row svc start a req surl url) w = (r, w')"
  shows "r = Inr (response_for req a surl url)"
proof -
  let ?n = "''AssetRepo.CreateAsset''"
  let ?w = "w\<lparr>tel := tel w @ [SpanStart ?n [], SpanAttrs ?n [(''asset_id'', AStr a)]]\<rparr>"
  obtain q w1 where q: "run_state (ar_CreateAsset (as_repo svc) a url (req_Size req)
      (ToAssetTypeFromMimeType (req_ContentType req)) (req_ContentType req)) ?w = (q, w1)" by fastforce
  have "q = None" using repository.create_succeeds [OF q] assms(1,2) by (simp add: peer_predicates_tel)
  then show ?thesis using assms(3) q
    by (auto simp: create_row_def response_for_def upload_expiry_def Let_def split: if_splits)
qed

lemma create_completes:
  assumes "store_signs svc a" "db_healthy w" "assets (w_db w) a = None" "a = uuid_supply w (uuid_calls w)"
    and "run_state (CreateAsset_svc svc req) w = (r, w')"
  shows "\<exists>surl url. r = Inr (response_for req a surl url)"
proof -
  let ?n = "''StorageClient.GeneratePresignedURL''" let ?p = "''StorageClient.PublicURL''"
  let ?sign = "sx_GeneratePresignedURL (as_storage svc) (as_bucket svc) (object_key a)
    (Some \<lparr>pu_ContentType = req_ContentType req, ExpiresInSeconds = 300, Method = ''PUT''\<rparr>)"
  let ?public = "sx_PublicURL (as_storage svc) (as_bucket svc) (object_key a)"
  define w0 where "w0 = w\<lparr>clock_calls := Suc (clock_calls w), uuid_calls := Suc (uuid_calls w),
     tel := tel w @ [SpanStart create_span [], SpanAttrs create_span [(''asset_id'', AStr a),
       (''content_type'', AStr (req_ContentType req)), (''content_length'', AInt (req_Size req))],
       SpanStart ?n [], SpanAttrs ?n [(''object_key'', AStr (object_key a))]]\<rparr>"
  have "\<exists>surl. result_of ?sign w0 = Inr surl" using assms(1) by (simp add: store_signs_def)
  then obtain surl w1 where s: "run_state ?sign w0 = (Inr surl, w1)" by (auto simp: result_of_def) (metis prod.collapse)
  let ?w1 = "w1\<lparr>tel := tel w1 @ [SpanEnd ?n, LogLine LDebug ''Generated signed URL: '' [(''url'', AStr surl)]]\<rparr>"
  let ?w1' = "?w1\<lparr>tel := tel ?w1 @ [SpanStart ?p [], SpanAttrs ?p [(''object_key'', AStr (object_key a))]]\<rparr>"
  have "\<exists>url. result_of ?public ?w1' = Inr url" using assms(1) by (simp add: store_signs_def)
  then obtain url w2 where p: "run_state ?public ?w1' = (Inr url, w2)" by (auto simp: result_of_def) (metis prod.collapse)
  let ?w2 = "w2\<lparr>tel := tel w2 @ [SpanEnd ?p, LogLine LDebug ''Public URL: '' [(''url'', AStr url)]]\<rparr>"
  note K1 = store.reads_keep [OF disjI1, OF s] and K2 = store.reads_keep [OF disjI2, OF disjI1, OF p]
  have "w_db ?w2 = w_db w" "peers ?w2 = peers w"
    using K1(1,5) K2(1,5) by (simp_all add: w0_def peers_def)
  then have w2: "db_healthy ?w2" "assets (w_db ?w2) a = None"
    using assms(2,3) peer_predicates [of ?w2 w] by simp_all
  obtain v where v: "run_state (create_public svc (clock w (clock_calls w)) a req surl) ?w1 = (r, v)"
    using assms(4,5) s by (auto simp: CreateAsset_svc_def w0_def Let_def upload_expiry_def split: prod.splits)
  then have "run_state (create_row svc (clock w (clock_calls w)) a req surl url) ?w2 = (r, v)"
    using p by (simp add: create_public_def)
  from create_row_completes [OF w2 this] show ?thesis by blast
qed

end

end
