(* ===== verification/Complete_Race.thy ===== *)
theory Complete_Race
  imports Asset_Service
begin

text \<open>
  Concurrent requests to complete uploads (internal/service/asset.go, MarkAssetUploaded, over the
  statements of internal/repository/asset_repo.go). Each request is a process that goes through the
  UPDATE, the INSERT, the COMMIT and the enqueueing; between any two of these any other process may
  run, assets may be created, and a process may fail and roll back. PostgreSQL's default isolation
  level is READ COMMITTED: a statement sees the committed rows, an UPDATE locks the row it changes
  until the end of its transaction, and an UPDATE of a locked row waits.
\<close>

section \<open>Steps\<close>

datatype phase =
    Idle
  | Updated uuid int
  | Inserted uuid int int64 int
  | Committed uuid int64
  | Finished

record race =
  r_db :: database
  r_seq :: int64
  r_lock :: "uuid \<Rightarrow> nat option"
  r_phase :: "nat \<Rightarrow> phase"
  r_sent :: "(int64 \<times> uuid) list"

text \<open>The two statements of a completion, as the transaction sees and at its end applies them.\<close>

definition mark_stmt :: "uuid \<Rightarrow> int \<Rightarrow> database \<Rightarrow> go_error + (nat \<times> database)" where
  "mark_stmt a now d = sql_mark_uploaded (Status_string StatusUploaded) a now d"

definition job_stmt :: "int64 \<Rightarrow> uuid \<Rightarrow> int \<Rightarrow> database \<Rightarrow> go_error + (int64 \<times> database)" where
  "job_stmt seq a now d = sql_upsert_job seq ''process_asset'' a (Status_string StatusProcessing) now d"

inductive race_step :: "race \<Rightarrow> race \<Rightarrow> bool" where
  create: "sql_insert_asset a url (AssetType_string ty) mime (Status_string StatusUploading) sz now (r_db s) = Inr (u, d) \<Longrightarrow>
    race_step s (s\<lparr>r_db := d\<rparr>)"
| update: "r_phase s p = Idle \<Longrightarrow> r_lock s a = None \<Longrightarrow> mark_stmt a now (r_db s) = Inr (1, d) \<Longrightarrow>
    race_step s (s\<lparr>r_lock := (r_lock s)(a := Some p), r_phase := (r_phase s)(p := Updated a now)\<rparr>)"
| already: "r_phase s p = Idle \<Longrightarrow> r_lock s a = None \<Longrightarrow> mark_stmt a now (r_db s) = Inr (0, d) \<Longrightarrow>
    race_step s (s\<lparr>r_phase := (r_phase s)(p := Finished)\<rparr>)"
| insert: "r_phase s p = Updated a now \<Longrightarrow> mark_stmt a now (r_db s) = Inr (n, d) \<Longrightarrow>
    job_stmt (r_seq s) a now' d = Inr (j, d') \<Longrightarrow>
    race_step s (s\<lparr>r_seq := r_seq s + 1, r_phase := (r_phase s)(p := Inserted a now j now')\<rparr>)"
| commit: "r_phase s p = Inserted a now j now' \<Longrightarrow> mark_stmt a now (r_db s) = Inr (n, d) \<Longrightarrow>
    job_stmt j a now' d = Inr (j', d') \<Longrightarrow>
    race_step s (s\<lparr>r_db := d', r_lock := (r_lock s)(a := None), r_phase := (r_phase s)(p := Committed a j)\<rparr>)"
| abort: "r_phase s p = Updated a now \<or> r_phase s p = Inserted a now j now' \<Longrightarrow>
    race_step s (s\<lparr>r_lock := (r_lock s)(a := None), r_phase := (r_phase s)(p := Finished)\<rparr>)"
| announce: "r_phase s p = Committed a j \<Longrightarrow>
    race_step s (s\<lparr>r_sent := r_sent s @ [(j, a)], r_phase := (r_phase s)(p := Finished)\<rparr>)"
| lose: "r_phase s p = Committed a j \<Longrightarrow> race_step s (s\<lparr>r_phase := (r_phase s)(p := Finished)\<rparr>)"

inductive_cases race_stepE: "race_step s t"

definition race_start :: "race \<Rightarrow> bool" where
  "race_start s \<longleftrightarrow> jobs_match_status (r_db s) \<and> db_inv (r_seq s) (r_db s) \<and> r_lock s = (\<lambda>a. None) \<and>
     r_phase s = (\<lambda>p. Idle) \<and> r_sent s = []"

section \<open>The invariant\<close>

fun holds_lock :: "phase \<Rightarrow> uuid option" where
  "holds_lock (Updated a now) = Some a"
| "holds_lock (Inserted a now j now') = Some a"
| "holds_lock _ = None"

fun reserved :: "phase \<Rightarrow> int64 option" where
  "reserved (Inserted a now j now') = Some j"
| "reserved _ = None"

fun announcing :: "phase \<Rightarrow> (int64 \<times> uuid) option" where
  "announcing (Committed a j) = Some (j, a)"
| "announcing _ = None"

definition job_of :: "database \<Rightarrow> int64 \<Rightarrow> uuid \<Rightarrow> bool" where
  "job_of d j a \<longleftrightarrow> (\<exists>k \<in> set (jobs d). job_id k = j \<and> job_asset k = a \<and> job_type k = ''process_asset'')"

text \<open>The tables are consistent; a row lock belongs to the process that updated the row, which is still
  awaiting its upload in the committed table; reserved job ids are new and distinct; and every job that
  is announced, or about to be, is in the table, no two of them for the same asset.\<close>

definition tables_ok :: "race \<Rightarrow> bool" where
  "tables_ok s \<longleftrightarrow> jobs_match_status (r_db s) \<and> db_inv (r_seq s) (r_db s)"

definition locks_ok :: "race \<Rightarrow> bool" where
  "locks_ok s \<longleftrightarrow> (\<forall>p a. holds_lock (r_phase s p) = Some a \<longleftrightarrow> r_lock s a = Some p) \<and>
     (\<forall>p a. holds_lock (r_phase s p) = Some a \<longrightarrow> awaiting (r_db s) a)"

definition ids_ok :: "race \<Rightarrow> bool" where
  "ids_ok s \<longleftrightarrow> (\<forall>p j. reserved (r_phase s p) = Some j \<longrightarrow> j < r_seq s \<and> j \<notin> job_id ` set (jobs (r_db s))) \<and>
     (\<forall>p q j. reserved (r_phase s p) = Some j \<longrightarrow> reserved (r_phase s q) = Some j \<longrightarrow> p = q)"

definition sent_ok :: "race \<Rightarrow> bool" where
  "sent_ok s \<longleftrightarrow> (\<forall>(j, a) \<in> set (r_sent s). job_of (r_db s) j a) \<and> distinct (map snd (r_sent s)) \<and>
     (\<forall>p j a. announcing (r_phase s p) = Some (j, a) \<longrightarrow> job_of (r_db s) j a \<and> a \<notin> snd ` set (r_sent s)) \<and>
     (\<forall>p q j i a. announcing (r_phase s p) = Some (j, a) \<longrightarrow> announcing (r_phase s q) = Some (i, a) \<longrightarrow> p = q)"

definition race_inv :: "race \<Rightarrow> bool" where
  "race_inv s \<longleftrightarrow> tables_ok s \<and> locks_ok s \<and> ids_ok s \<and> sent_ok s"

lemma stmt_eq:
  "mark_stmt a now d = (if awaiting d a then Inr (1, marked d a now) else Inr (0, d))"
  by (simp add: mark_stmt_def sql_mark_uploaded_eq)

lemma job_stmt_new:
  "\<not> has_job d a \<Longrightarrow> assets d a \<noteq> None \<Longrightarrow> job_stmt seq a now d = Inr (seq, with_new_job d a seq now)"
  by (simp add: job_stmt_def sql_upsert_job_new)

lemma job_of_has_job: "job_of d j a \<Longrightarrow> has_job d a"
  by (auto simp: job_of_def has_job_def)

lemma start_inv: "race_start s \<Longrightarrow> race_inv s"
  by (simp add: race_start_def race_inv_def tables_ok_def locks_ok_def ids_ok_def sent_ok_def)

text \<open>What the statements of a lock holder do.\<close>

lemma holder_stmts:
  assumes "race_inv s" "holds_lock (r_phase s p) = Some a"
  shows "awaiting (r_db s) a" "\<not> has_job (r_db s) a" "mark_stmt a now (r_db s) = Inr (1, marked (r_db s) a now)"
    "job_stmt j a now' (marked (r_db s) a now) = Inr (j, with_new_job (marked (r_db s) a now) a j now')"
proof -
  show a: "awaiting (r_db s) a" using assms by (auto simp: race_inv_def locks_ok_def)
  show "\<not> has_job (r_db s) a" using assms(1) a awaiting_no_job by (auto simp: race_inv_def tables_ok_def)
  then show "mark_stmt a now (r_db s) = Inr (1, marked (r_db s) a now)"
    "job_stmt j a now' (marked (r_db s) a now) = Inr (j, with_new_job (marked (r_db s) a now) a j now')"
    using a by (simp_all add: stmt_eq job_stmt_new)
qed

lemma db_inv_add_job:
  assumes "db_inv seq d" "j < seq" "j \<notin> job_id ` set (jobs d)" "\<not> has_job d a" "assets d a \<noteq> None"
  shows "db_inv seq (with_new_job d a j now)"
  using assms by (fastforce simp: db_inv_def with_new_job_def has_job_def)

lemma jobs_complete [simp]:
  "jobs (with_new_job (marked d a now) a j now') = jobs d @
     [\<lparr>job_id = j, job_asset = a, job_type = ''process_asset'', job_status = ''processing'',
       job_attempts = 0, j_created_at = now', j_updated_at = now'\<rparr>]"
  by (simp add: with_new_job_def)

lemma awaiting_complete: "b \<noteq> a \<Longrightarrow> awaiting (with_new_job (marked d a now) a j now') b = awaiting d b"
  by (simp add: awaiting_def with_new_job_def marked_def)

lemmas race_inv_defs = race_inv_def tables_ok_def locks_ok_def ids_ok_def sent_ok_def

lemma lock_free: "race_inv s \<Longrightarrow> holds_lock (r_phase s p) = None \<Longrightarrow> r_lock s b \<noteq> Some p"
  unfolding race_inv_defs by (metis option.distinct(1))

lemma lock_own: "race_inv s \<Longrightarrow> holds_lock (r_phase s p) = Some a \<Longrightarrow> r_lock s b = Some p \<longleftrightarrow> b = a"
  unfolding race_inv_defs by (metis option.inject)

lemma inv_create:
  assumes "race_inv s" "sql_insert_asset a url (AssetType_string ty) mime (Status_string StatusUploading) sz now (r_db s) = Inr (u, d)"
  shows "race_inv (s\<lparr>r_db := d\<rparr>)"
proof -
  have d: "assets (r_db s) a = None" "d = with_new_asset (r_db s) a url ty mime sz now"
    using assms(2) by (auto simp: sql_insert_asset_Inr)
  have "jobs d = jobs (r_db s)" "\<And>b. awaiting (r_db s) b \<Longrightarrow> awaiting d b"
    using d by (auto simp: with_new_asset_def awaiting_def)
  then show ?thesis using assms(1) d jobs_match_status_with_new_asset db_inv_with_new_asset
    by (auto simp: race_inv_defs job_of_def)
qed

lemma inv_update:
  assumes "race_inv s" "r_phase s p = Idle" "r_lock s a = None" "awaiting (r_db s) a"
  shows "race_inv (s\<lparr>r_lock := (r_lock s)(a := Some p), r_phase := (r_phase s)(p := Updated a now)\<rparr>)"
proof -
  have "holds_lock (r_phase s p) = None" "reserved (r_phase s p) = None" "announcing (r_phase s p) = None"
    using assms(2) by simp_all
  then show ?thesis using assms(1,3,4) lock_free [OF assms(1)] unfolding race_inv_defs by (auto split: if_splits)
qed

lemma inv_finish:
  assumes "race_inv s" "r_phase s p = Idle \<or> (\<exists>j a. r_phase s p = Committed a j)"
  shows "race_inv (s\<lparr>r_phase := (r_phase s)(p := Finished)\<rparr>)"
proof -
  have "holds_lock (r_phase s p) = None" "reserved (r_phase s p) = None" using assms(2) by auto
  then show ?thesis using assms(1) lock_free [OF assms(1)] unfolding race_inv_defs by (auto split: if_splits)
qed

lemma inv_insert:
  assumes "race_inv s" "r_phase s p = Updated a now"
  shows "race_inv (s\<lparr>r_seq := r_seq s + 1, r_phase := (r_phase s)(p := Inserted a now (r_seq s) now')\<rparr>)"
proof -
  have "holds_lock (r_phase s p) = Some a" "reserved (r_phase s p) = None" "announcing (r_phase s p) = None"
    using assms(2) by simp_all
  moreover have "db_inv (r_seq s + 1) (r_db s)" using assms(1) db_inv_mono by (auto simp: race_inv_defs)
  moreover have "r_seq s \<notin> job_id ` set (jobs (r_db s))" using assms(1) by (auto simp: race_inv_defs db_inv_def)
  moreover have "reserved (r_phase s q) \<noteq> Some (r_seq s)" for q using assms(1) by (auto simp: race_inv_defs)
  moreover have "j < r_seq s + 1" if "reserved (r_phase s q) = Some j" for q j
    using assms(1) that unfolding race_inv_defs by fastforce
  ultimately show ?thesis using assms(1) lock_own [OF assms(1)] unfolding race_inv_defs by (auto split: if_splits)
qed

text \<open>The end of a transaction releases the only row lock its process holds.\<close>

lemma locks_release:
  assumes "locks_ok s" "holds_lock (r_phase s p) = Some a" "holds_lock ph = None"
    "\<And>b. b \<noteq> a \<Longrightarrow> awaiting (r_db s) b \<Longrightarrow> awaiting d b"
  shows "locks_ok (s\<lparr>r_db := d, r_lock := (r_lock s)(a := None), r_phase := (r_phase s)(p := ph)\<rparr>)"
proof -
  have a: "r_lock s a = Some p" using assms(1,2) unfolding locks_ok_def by blast
  have own: "holds_lock (r_phase s q) = Some b \<longleftrightarrow> r_lock s b = Some q" for q b
    using assms(1) unfolding locks_ok_def by blast
  have b: "r_lock s b \<noteq> Some p" if "b \<noteq> a" for b using own [of p b] assms(2) that by simp
  have c: "awaiting d b" if "holds_lock (r_phase s q) = Some b" "q \<noteq> p" for q b
  proof -
    have "awaiting (r_db s) b" "r_lock s b = Some q" using assms(1) that(1) unfolding locks_ok_def by blast+
    then show ?thesis using assms(4) [of b] a that(2) by (cases "b = a") auto
  qed
  have d: "holds_lock (((r_phase s)(p := ph)) q) = Some b \<longleftrightarrow> ((r_lock s)(a := None)) b = Some q" for q b
    using assms(3) a b [of b] own [of q b] by (cases "q = p"; cases "b = a") simp_all
  have e: "awaiting d b" if "holds_lock (((r_phase s)(p := ph)) q) = Some b" for q b
    using c [of q b] assms(3) that by (cases "q = p") simp_all
  show ?thesis using d e by (simp add: locks_ok_def)
qed

lemma inv_abort:
  assumes "race_inv s" "holds_lock (r_phase s p) = Some a"
  shows "race_inv (s\<lparr>r_lock := (r_lock s)(a := None), r_phase := (r_phase s)(p := Finished)\<rparr>)"
proof -
  let ?t = "s\<lparr>r_lock := (r_lock s)(a := None), r_phase := (r_phase s)(p := Finished)\<rparr>"
  have "locks_ok ?t" using locks_release [of s p a Finished "r_db s"] assms by (simp add: race_inv_def)
  moreover have "tables_ok ?t \<and> ids_ok ?t \<and> sent_ok ?t"
    using assms(1) unfolding race_inv_def tables_ok_def ids_ok_def sent_ok_def by (auto split: if_splits)
  ultimately show ?thesis by (simp add: race_inv_def)
qed

lemma inv_announce:
  assumes "race_inv s" "r_phase s p = Committed a j"
  shows "race_inv (s\<lparr>r_sent := r_sent s @ [(j, a)], r_phase := (r_phase s)(p := Finished)\<rparr>)"
proof -
  have p: "announcing (r_phase s p) = Some (j, a)" "holds_lock (r_phase s p) = None" "reserved (r_phase s p) = None"
    using assms(2) by simp_all
  moreover have "a \<noteq> b" if "announcing (r_phase s q) = Some (i, b)" "q \<noteq> p" for q i b
    using assms(1) that p(1) unfolding race_inv_defs by metis
  ultimately show ?thesis using assms(1) lock_free [OF assms(1)] unfolding race_inv_defs by (auto split: if_splits)
qed

lemma inv_commit:
  assumes "race_inv s" "r_phase s p = Inserted a now j now'"
  shows "race_inv (s\<lparr>r_db := with_new_job (marked (r_db s) a now) a j now', r_lock := (r_lock s)(a := None),
    r_phase := (r_phase s)(p := Committed a j)\<rparr>)"
proof -
  let ?d = "with_new_job (marked (r_db s) a now) a j now'"
  let ?t = "s\<lparr>r_db := ?d, r_lock := (r_lock s)(a := None), r_phase := (r_phase s)(p := Committed a j)\<rparr>"
  have p: "holds_lock (r_phase s p) = Some a" "reserved (r_phase s p) = Some j" "announcing (r_phase s p) = None"
    using assms(2) by simp_all
  note H = holder_stmts [OF assms(1) p(1)]
  have inv: "tables_ok s" "locks_ok s" "ids_ok s" "sent_ok s" using assms(1) by (simp_all add: race_inv_def)
  have j: "j < r_seq s" "j \<notin> job_id ` set (jobs (r_db s))" using inv(3) p(2) by (auto simp: ids_ok_def)
  have jo: "job_of ?d i b \<longleftrightarrow> job_of (r_db s) i b \<or> i = j \<and> b = a" for i b by (auto simp: job_of_def)
  have fresh: "\<not> job_of (r_db s) i a" for i using H(2) job_of_has_job by blast
  have new: "announcing (r_phase s q) \<noteq> Some (i, a)" for q i using inv(4) fresh unfolding sent_ok_def by blast
  have unsent: "a \<notin> snd ` set (r_sent s)" using inv(4) fresh unfolding sent_ok_def by auto
  have "db_inv (r_seq s) ?d" using inv(1) H(2) j by (intro db_inv_add_job db_inv_marked) (auto simp: tables_ok_def)
  then have "tables_ok ?t" using inv(1) H(1) jobs_match_status_complete by (auto simp: tables_ok_def)
  moreover have "locks_ok ?t"
    using locks_release [OF inv(2) p(1), of "Committed a j" ?d] by (simp add: awaiting_complete)
  moreover have "ids_ok ?t"
    using inv(3) p(2) unfolding ids_ok_def by (auto split: if_splits)
  moreover have "sent_ok ?t"
    using inv(4) new unsent unfolding sent_ok_def by (auto simp: jo split: if_splits)
  ultimately show ?thesis by (simp add: race_inv_def)
qed

lemma inv_step: "race_step s t \<Longrightarrow> race_inv s \<Longrightarrow> race_inv t"
proof (induction rule: race_step.induct)
  case (update s p a now d)
  then show ?case using inv_update by (auto simp: stmt_eq split: if_splits)
next
  case (insert s p a now n d now' j d')
  then have "holds_lock (r_phase s p) = Some a" by simp
  from holder_stmts [OF insert.prems this] insert show ?case using inv_insert by auto
next
  case (commit s p a now j now' n d j' d')
  then have "holds_lock (r_phase s p) = Some a" by simp
  from holder_stmts [OF commit.prems this] commit show ?case using inv_commit by auto
next
  case (abort s p a now j now')
  then have "holds_lock (r_phase s p) = Some a" by auto
  then show ?case using inv_abort abort.prems by blast
qed (auto intro: inv_create inv_finish inv_announce)


definition sample_race :: race where
  "sample_race = \<lparr>r_db = w_db upload_world, r_seq = 1, r_lock = (\<lambda>a. None), r_phase = (\<lambda>p. Idle), r_sent = []\<rparr>"

text \<open>One request wins the race for the asset and announces its job.\<close>

definition sample_won :: race where
  "sample_won = sample_race\<lparr>r_db := with_new_job (marked (w_db upload_world) ''a'' 5) ''a'' 1 6, r_seq := 2,
     r_lock := ((\<lambda>a. None)(''a'' := Some 0))(''a'' := None),
     r_phase := ((((\<lambda>p. Idle)(0 := Updated ''a'' 5))(0 := Inserted ''a'' 5 1 6))(0 := Committed ''a'' 1))(0 := Finished),
     r_sent := [(1, ''a'')]\<rparr>"


end
