(* ===== verification/Http_Server.thy ===== *)
theory Http_Server
  imports Asset_Service
begin

text \<open>
  The part of net/http the server uses, and pkg/utils/response.go and context.go on top of it.

  A request carries the values its context holds (request id, route, user id, request-scoped
  logger). A handler is a computation on the server state: the world of the service, the calls that
  reached the connection's ResponseWriter, the wrappers the middlewares put around that writer, the
  timeout contexts that are not cancelled yet, and the rate limiter's clients. It returns or panics;
  a panic runs the deferred calls and carries its value on.
\<close>

section \<open>Requests\<close>

record request =
  r_Method :: string
  r_Path :: string
  r_Scheme :: string
  r_Host :: string
  r_Proto :: string
  r_RemoteAddr :: string
  r_Header :: "(string \<times> string) list"
  r_Body :: "go_error + string"
  r_ContentLength :: int64
  r_ReqID :: string
  r_RoutePattern :: string
  r_URLParams :: "(string \<times> string) list"
  r_userID :: "string option"
  r_logger :: "attrs option"

text \<open>Header.Get and chi's URLParam: the first value of a key, or the empty string. The keys of the
  header are in their canonical form. Reading the body fails before a JSON value is complete
  (the left side) or delivers its bytes.\<close>

definition Header_Get :: "request \<Rightarrow> string \<Rightarrow> string" where
  "Header_Get r k = (case map_of (r_Header r) k of None \<Rightarrow> [] | Some v \<Rightarrow> v)"

definition UserAgent :: "request \<Rightarrow> string" where
  "UserAgent r = Header_Get r ''User-Agent''"

definition URLParam :: "request \<Rightarrow> string \<Rightarrow> string" where
  "URLParam r k = (case map_of (r_URLParams r) k of None \<Rightarrow> [] | Some v \<Rightarrow> v)"

section \<open>Responses\<close>

text \<open>
  The calls on a ResponseWriter; a Write carries the number of bytes the connection accepted. Status
  codes are those of HTTP (WriteHeader panics outside 100 to 999).
\<close>

datatype rw_call = SetHeader string string | WriteHeader int | Write string nat

text \<open>The client sees the status of the first WriteHeader, 200 when a Write or the end of the handler
  comes first; the header fields set before that; and the bytes written.\<close>

fun response_status :: "rw_call list \<Rightarrow> int" where
  "response_status [] = 200"
| "response_status (SetHeader k v # cs) = response_status cs"
| "response_status (WriteHeader c # cs) = c"
| "response_status (Write b n # cs) = 200"

fun response_body :: "rw_call list \<Rightarrow> string" where
  "response_body [] = []"
| "response_body (Write b n # cs) = b @ response_body cs"
| "response_body (c # cs) = response_body cs"

fun response_header :: "rw_call list \<Rightarrow> string \<rightharpoonup> string" where
  "response_header [] = Map.empty"
| "response_header (SetHeader k v # cs) =
     (\<lambda>k'. case response_header cs k' of Some v' \<Rightarrow> Some v' | None \<Rightarrow> if k' = k then Some v else None)"
| "response_header (WriteHeader c # cs) = Map.empty"
| "response_header (Write b n # cs) = Map.empty"

section \<open>Server state\<close>

text \<open>
  The wrappers of internal/middleware: that of metrics.go counts status and bytes, that of tracing.go
  the status. The one of chi, used in logging.go, is known by the calls made through it.
\<close>

record metricsResponseWriter =
  statusCode :: int
  bytesWritten :: int64

datatype writer = MetricsWriter metricsResponseWriter | TracingWriter int | ChiWriter "rw_call list"

record entry =
  lim :: nat
  lastSeen :: int

record srv =
  s_world :: world
  s_calls :: "rw_call list"
  s_accept :: "nat \<Rightarrow> string \<Rightarrow> nat"
  s_writers :: "writer list"
  s_open_ctx :: "duration list"
  s_body_closed :: bool
  s_clients :: "string \<rightharpoonup> entry"
  s_limiters :: "int list list"

type_synonym 'a web = "(srv, 'a) state"
type_synonym handler = "request \<Rightarrow> (unit go_run) web"

definition in_world :: "'a go \<Rightarrow> 'a web" where
  "in_world m = State (\<lambda>s. case run_state m (s_world s) of (a, w) \<Rightarrow> (a, s\<lparr>s_world := w\<rparr>))"

definition w_emit :: "tel_event list \<Rightarrow> unit web" where
  "w_emit es = in_world (emit es)"

definition done_ok :: "(unit go_run) web" where
  "done_ok = go_return (Returns ())"

text \<open>A statement after one that may panic.\<close>

definition web_then :: "('a go_run) web \<Rightarrow> ('a \<Rightarrow> ('b go_run) web) \<Rightarrow> ('b go_run) web" where
  "web_then m f = do {
     r \<leftarrow> m;
     (case r of Returns a \<Rightarrow> f a | Panics p \<Rightarrow> go_return (Panics p) | Exits e \<Rightarrow> go_return (Exits e)) }"

section \<open>Writing a response\<close>

text \<open>metricsResponseWriter and responseWriter: what the wrappers do with a call before they pass it
  on to the writer below.\<close>

definition metrics_WriteHeader :: "int \<Rightarrow> metricsResponseWriter \<Rightarrow> metricsResponseWriter" where
  "metrics_WriteHeader code w = w\<lparr>statusCode := code\<rparr>"

definition metrics_Write :: "nat \<Rightarrow> metricsResponseWriter \<Rightarrow> metricsResponseWriter" where
  "metrics_Write n w = w\<lparr>bytesWritten := wrap64 (bytesWritten w + int n)\<rparr>"

definition tracing_WriteHeader :: "int \<Rightarrow> int \<Rightarrow> int" where
  "tracing_WriteHeader code status = code"

fun wrap_call :: "rw_call \<Rightarrow> writer \<Rightarrow> writer" where
  "wrap_call (WriteHeader c) (MetricsWriter w) = MetricsWriter (metrics_WriteHeader c w)"
| "wrap_call (Write b n) (MetricsWriter w) = MetricsWriter (metrics_Write n w)"
| "wrap_call (SetHeader k v) (MetricsWriter w) = MetricsWriter w"
| "wrap_call (WriteHeader c) (TracingWriter st) = TracingWriter (tracing_WriteHeader c st)"
| "wrap_call (Write b n) (TracingWriter st) = TracingWriter st"
| "wrap_call (SetHeader k v) (TracingWriter st) = TracingWriter st"
| "wrap_call c (ChiWriter cs) = ChiWriter (cs @ [c])"

definition through :: "rw_call \<Rightarrow> srv \<Rightarrow> srv" where
  "through c s = s\<lparr>s_calls := s_calls s @ [c], s_writers := map (wrap_call c) (s_writers s)\<rparr>"

definition rw_SetHeader :: "string \<Rightarrow> string \<Rightarrow> unit web" where
  "rw_SetHeader k v = modify (through (SetHeader k v))"

definition rw_WriteHeader :: "int \<Rightarrow> unit web" where
  "rw_WriteHeader code = modify (through (WriteHeader code))"

definition rw_Write :: "string \<Rightarrow> unit web" where
  "rw_Write b = modify (\<lambda>s. through (Write b (s_accept s (length (s_calls s)) b)) s)"

text \<open>Encoder.Encode calls Write once, and not at all when the value has no JSON form.\<close>

definition rw_Encode :: "json \<Rightarrow> unit web" where
  "rw_Encode v = go_if (supported v) (rw_Write (Encode v))"

definition RespondJSON :: "json option \<Rightarrow> int \<Rightarrow> unit web" where
  "RespondJSON v status = do {
     _ \<leftarrow> rw_SetHeader ''Content-Type'' ''application/json'';
     _ \<leftarrow> rw_WriteHeader status;
     (case v of None \<Rightarrow> skip | Some j \<Rightarrow> rw_Encode j) }"

definition ParseJSON ::
  "(go_error + string) \<Rightarrow> string list \<Rightarrow> (string \<Rightarrow> jvalue \<Rightarrow> 'a \<Rightarrow> 'a option) \<Rightarrow> 'a \<Rightarrow> go_error + 'a" where
  "ParseJSON body names store v = (case body of
      Inl err \<Rightarrow> Inl err
    | Inr s \<Rightarrow> (case Decode_value s of Inl err \<Rightarrow> Inl err | Inr j \<Rightarrow> decode_struct names store v j))"

fun api_error_of :: "go_error \<Rightarrow> ApiError" where
  "api_error_of (ErrApi k a) = a"
| "api_error_of e = \<lparr>Message = ''Internal server error'', Code = ''INTERNAL_ERROR'', Details = None, StatusCode = 500\<rparr>"

definition error_body :: "ApiError \<Rightarrow> json" where
  "error_body a = go_map [(''success'', JBool False), (''message'', JString (Message a)),
     (''error'', go_map [(''code'', JString (Code a)),
        (''details'', case Details a of None \<Rightarrow> JNull | Some d \<Rightarrow> JString d)])]"

definition WriteErrorResponse :: "go_error \<Rightarrow> unit web" where
  "WriteErrorResponse err = do {
     _ \<leftarrow> rw_SetHeader ''Content-Type'' ''application/json'';
     let apiErr = api_error_of err;
     _ \<leftarrow> rw_WriteHeader (StatusCode apiErr);
     rw_Encode (error_body apiErr) }"

text \<open>http.Error: plain text, with a newline after the message.\<close>

definition http_Error :: "string \<Rightarrow> int \<Rightarrow> unit web" where
  "http_Error msg code = do {
     _ \<leftarrow> rw_SetHeader ''Content-Type'' ''text/plain; charset=utf-8'';
     _ \<leftarrow> rw_SetHeader ''X-Content-Type-Options'' ''nosniff'';
     _ \<leftarrow> rw_WriteHeader code;
     rw_Write (msg @ [CHR 0x0A]) }"

section \<open>Timeout contexts\<close>

definition GetTimeoutContext :: "int \<Rightarrow> unit web" where
  "GetTimeoutContext seconds = modify (\<lambda>s. s\<lparr>s_open_ctx := wrap64 (seconds * Second) # s_open_ctx s\<rparr>)"

definition cancel_context :: "unit web" where
  "cancel_context = modify (\<lambda>s. s\<lparr>s_open_ctx := tl (s_open_ctx s)\<rparr>)"

definition Body_Close :: "unit web" where
  "Body_Close = modify (\<lambda>s. s\<lparr>s_body_closed := True\<rparr>)"

section \<open>Running\<close>

lemma run_in_world [simp]:
  "run_state (in_world m) s = (case run_state m (s_world s) of (a, w) \<Rightarrow> (a, s\<lparr>s_world := w\<rparr>))"
  by (simp add: in_world_def)

lemma result_in_world [simp]:
  "result_of (in_world m) s = result_of m (s_world s)"
  "state_of (in_world m) s = s\<lparr>s_world := state_of m (s_world s)\<rparr>"
  by (simp_all add: result_of_def state_of_def split: prod.splits)

lemma run_w_emit [simp]:
  "run_state (w_emit es) s = ((), s\<lparr>s_world := (s_world s)\<lparr>tel := tel (s_world s) @ es\<rparr>\<rparr>)"
  by (simp add: w_emit_def)

lemma state_w_emit [simp]:
  "state_of (w_emit es) s = s\<lparr>s_world := (s_world s)\<lparr>tel := tel (s_world s) @ es\<rparr>\<rparr>"
  by (simp add: state_of_def)

lemma run_done_ok [simp]: "run_state done_ok s = (Returns (), s)"
  by (simp add: done_ok_def)

lemma keeps_in_world [intro, go_frames]: "keeps v m \<Longrightarrow> keeps (v \<circ> s_world) (in_world m)"
  by (simp add: keeps_def)

text \<open>What writing leaves alone: everything but the calls and the wrappers.\<close>

definition behind :: "srv \<Rightarrow> world \<times> duration list \<times> bool \<times> (string \<rightharpoonup> entry) \<times> int list list" where
  "behind s = (s_world s, s_open_ctx s, s_body_closed s, s_clients s, s_limiters s)"

lemma through_simps [simp]:
  "s_calls (through c s) = s_calls s @ [c]" "s_world (through c s) = s_world s"
  "s_writers (through c s) = map (wrap_call c) (s_writers s)" "s_accept (through c s) = s_accept s"
  "behind (through c s) = behind s"
  by (simp_all add: through_def behind_def)

lemma run_rw [simp]:
  "run_state (rw_SetHeader k v) s = ((), through (SetHeader k v) s)"
  "run_state (rw_WriteHeader c) s = ((), through (WriteHeader c) s)"
  "run_state (rw_Write b) s = ((), through (Write b (s_accept s (length (s_calls s)) b)) s)"
  by (simp_all add: rw_SetHeader_def rw_WriteHeader_def rw_Write_def)

text \<open>A computation that only answers the request: the calls it adds, all else unchanged.\<close>

definition answers :: "'a web \<Rightarrow> int \<Rightarrow> string \<Rightarrow> bool" where
  "answers m status body \<longleftrightarrow> (\<forall>s. behind (state_of m s) = behind s \<and>
     (\<exists>new. s_calls (state_of m s) = s_calls s @ new \<and>
        s_writers (state_of m s) = map (\<lambda>w. fold wrap_call new w) (s_writers s) \<and>
        response_status new = status \<and> response_body new = body))"

lemma answersD:
  assumes "answers m status body" "run_state m s = (r, s')"
  obtains new where "behind s' = behind s" "s_calls s' = s_calls s @ new"
    "s_writers s' = map (\<lambda>w. fold wrap_call new w) (s_writers s)"
    "response_status new = status" "response_body new = body"
  using assms by (auto simp: answers_def state_of_def dest!: spec [of _ s])

lemma RespondJSON_answers:
  assumes "supported j"
  shows "answers (RespondJSON (Some j) status) status (Encode j)"
  using assms
  by (auto simp: answers_def RespondJSON_def rw_Encode_def state_of_def o_def)

lemma RespondJSON_nil_answers: "answers (RespondJSON None status) status []"
  by (auto simp: answers_def RespondJSON_def state_of_def o_def)

lemma supported_insert_key:
  "list_all (\<lambda>kv. supported (snd kv)) (insert_key kv kvs) \<longleftrightarrow>
     supported (snd kv) \<and> list_all (\<lambda>kv. supported (snd kv)) kvs"
  by (induction kvs) auto

lemma supported_go_map [simp]: "supported (go_map kvs) \<longleftrightarrow> list_all (\<lambda>kv. supported (snd kv)) kvs"
proof -
  have "list_all (\<lambda>kv. supported (snd kv)) (foldr insert_key kvs []) \<longleftrightarrow>
      list_all (\<lambda>kv. supported (snd kv)) kvs"
    by (induction kvs) (auto simp: supported_insert_key)
  then show ?thesis by (simp add: go_map_def)
qed

lemma supported_error_body [simp]: "supported (error_body a)"
  by (simp add: error_body_def split: option.splits)

lemma WriteErrorResponse_answers:
  "answers (WriteErrorResponse err) (StatusCode (api_error_of err)) (Encode (error_body (api_error_of err)))"
  by (auto simp: answers_def WriteErrorResponse_def rw_Encode_def state_of_def Let_def o_def)

lemma http_Error_answers: "answers (http_Error msg code) code (msg @ [CHR 0x0A])"
  by (auto simp: answers_def http_Error_def state_of_def o_def)



end
