(* ===== verification/Asset_Handler.thy ===== *)
theory Asset_Handler
  imports Http_Server
begin

text \<open>
  internal/handler/asset_handler.go: the two HTTP handlers on top of the asset service. The service
  is the interface AssetService, a record of its two methods; uuid's Parse is a parameter. The
  deferred calls of a handler run in the reverse order of their defer statements, after a panic too.
\<close>

section \<open>Interfaces\<close>

record AssetService =
  svc_CreateAsset :: "UploadAssetRequest \<Rightarrow> (go_error + UploadAssetResponse option) go"
  svc_MarkAssetUploaded :: "uuid \<Rightarrow> (go_error option) go"

definition as_service :: "assetService \<Rightarrow> AssetService" where
  "as_service s = \<lparr>svc_CreateAsset = (\<lambda>req. do { r \<leftarrow> CreateAsset_svc s req; go_return (map_sum id Some r) }),
     svc_MarkAssetUploaded = MarkAssetUploaded s\<rparr>"

record AssetHandler =
  h_svc :: AssetService
  h_m :: "Metrics option"

definition NewAssetHandler :: "AssetService \<Rightarrow> Metrics option \<Rightarrow> AssetHandler" where
  "NewAssetHandler svc m = \<lparr>h_svc = svc, h_m = m\<rparr>"

definition maxAssetSize :: "config_state \<Rightarrow> int64 go_run" where
  "maxAssetSize cstate = (case MustGet cstate of Inl p \<Rightarrow> Panics p | Inr cfg \<Rightarrow> Returns (MaxAssetSizeBytes cfg))"

section \<open>JSON forms of the models\<close>

definition request_fields :: "string list" where
  "request_fields = [''fileName'', ''contentType'', ''size'']"

definition request_store :: "string \<Rightarrow> jvalue \<Rightarrow> UploadAssetRequest \<Rightarrow> UploadAssetRequest option" where
  "request_store f v x =
    (if f = ''fileName'' then set_string (\<lambda>s y. y\<lparr>FileName := s\<rparr>) v x
     else if f = ''contentType'' then set_string (\<lambda>s y. y\<lparr>req_ContentType := s\<rparr>) v x
     else set_int64 (\<lambda>i y. y\<lparr>req_Size := i\<rparr>) v x)"

definition empty_request :: UploadAssetRequest where
  "empty_request = \<lparr>FileName = [], req_ContentType = [], req_Size = 0\<rparr>"

definition response_json :: "UploadAssetResponse \<Rightarrow> json" where
  "response_json res = JObject
     [(''uploadUrl'', JString (UploadUrl res)), (''assetId'', JString (AssetID res)),
      (''method'', JString (resp_Method res)),
      (''headers'', go_map (map (\<lambda>(k, v). (k, JString v)) (Headers res))),
      (''objectPath'', JString (ObjectPath res)), (''publicUrl'', JString (PublicUrl res)),
      (''expiresAt'', JInt (ExpiresAt res))]"

definition error_json :: "string \<Rightarrow> json" where
  "error_json msg = go_map [(''status'', JString ''error''), (''message'', JString msg)]"

definition error_json_with :: "string \<Rightarrow> go_error \<Rightarrow> json" where
  "error_json_with msg err =
     go_map [(''status'', JString ''error''), (''message'', JString msg), (''error'', JString (Error err))]"

section \<open>CreateAsset\<close>

definition h_create_span :: string where "h_create_span = ''AssetHandler.CreateAsset''"

definition create_failed :: "AssetHandler \<Rightarrow> unit web" where
  "create_failed h = go_if (h_m h \<noteq> None) (w_emit [MetricAdd AssetProcessingFailed 1 []])"

definition create_serve :: "AssetHandler \<Rightarrow> UploadAssetRequest \<Rightarrow> unit web" where
  "create_serve h req = do {
     cancelled \<leftarrow> in_world ctx_Err;
     (case cancelled of
        Some err \<Rightarrow> w_emit [SpanError h_create_span err, SpanStatus h_create_span CodeError ''Request cancelled'']
      | None \<Rightarrow> do {
          res \<leftarrow> in_world (svc_CreateAsset (h_svc h) req);
          (case res of
             Inl err \<Rightarrow> do {
               _ \<leftarrow> w_emit [LogLine LError ''Failed to create asset'' [(''error'', AStr (Error err))],
                     SpanError h_create_span err, SpanStatus h_create_span CodeError ''Failed to create asset''];
               _ \<leftarrow> create_failed h;
               RespondJSON (Some (error_json_with ''Failed to create asset'' err)) 500 }
           | Inr None \<Rightarrow> do {
               _ \<leftarrow> w_emit [SpanStatus h_create_span CodeError ''Nil response from CreateAsset''];
               _ \<leftarrow> create_failed h;
               RespondJSON (Some (error_json ''Internal server error'')) 500 }
           | Inr (Some r) \<Rightarrow> do {
               _ \<leftarrow> w_emit [LogLine LInfo (''Asset created: '' @ AssetID r) [],
                     SpanAttrs h_create_span [(''asset_id'', AStr (AssetID r))],
                     SpanStatus h_create_span CodeOk ''Asset created successfully''];
               RespondJSON (Some (go_map [(''status'', JString ''success''), (''data'', response_json r)])) 200 }) }) }"

definition create_refuse :: "string \<Rightarrow> string \<Rightarrow> (unit go_run) web" where
  "create_refuse status msg = do {
     _ \<leftarrow> w_emit [SpanStatus h_create_span CodeError status];
     _ \<leftarrow> RespondJSON (Some (error_json msg)) 400;
     done_ok }"

definition create_checked :: "config_state \<Rightarrow> AssetHandler \<Rightarrow> UploadAssetRequest \<Rightarrow> (unit go_run) web" where
  "create_checked cstate h req =
    (if req_ContentType req = [] then create_refuse ''ContentType is required'' ''ContentType is required''
     else if \<not> IsSupportedMIMEType (req_ContentType req) then
       create_refuse ''unsupported content type'' ''unsupported content type''
     else web_then (go_return (maxAssetSize cstate)) (\<lambda>limit.
       if req_Size req > limit then create_refuse ''file too large'' ''file exceeds maximum allowed size''
       else do { _ \<leftarrow> create_serve h req; done_ok }))"

definition create_parsed :: "config_state \<Rightarrow> AssetHandler \<Rightarrow> request \<Rightarrow> (unit go_run) web" where
  "create_parsed cstate h r = (case ParseJSON (r_Body r) request_fields request_store empty_request of
      Inl err \<Rightarrow> do {
        _ \<leftarrow> w_emit [LogLine LError ''Failed to parse create asset request'' [(''error'', AStr (Error err))],
              SpanError h_create_span err];
        create_refuse ''Invalid request payload'' ''Invalid request payload'' }
    | Inr req \<Rightarrow> do {
        _ \<leftarrow> w_emit [SpanAttrs h_create_span [(''content_type'', AStr (req_ContentType req)),
              (''content_length'', AInt (req_Size req))]];
        create_checked cstate h req })"

definition CreateAsset_handler :: "config_state \<Rightarrow> AssetHandler \<Rightarrow> handler" where
  "CreateAsset_handler cstate h r = defer_call Body_Close (do {
     _ \<leftarrow> w_emit [SpanStart h_create_span []];
     defer_call (w_emit [SpanEnd h_create_span]) (do {
       _ \<leftarrow> GetTimeoutContext 30;
       defer_call cancel_context (do {
         _ \<leftarrow> w_emit [SpanAttrs h_create_span [(''http.method'', AStr (r_Method r)),
               (''http.route'', AStr (r_RoutePattern r))]];
         start \<leftarrow> in_world time_Now;
         defer_call
           (go_if (h_m h \<noteq> None) (do {
              d \<leftarrow> in_world (time_Since start);
              w_emit [MetricRecord AssetUploadDuration (MSeconds d) []] }))
           (do {
             _ \<leftarrow> go_if (h_m h \<noteq> None) (w_emit [MetricAdd AssetUploadTotal 1 []]);
             create_parsed cstate h r }) }) }) })"

section \<open>MarkAssetUploaded\<close>

definition h_mark_span :: string where "h_mark_span = ''AssetHandler.MarkAssetUploaded''"

definition mark_serve :: "AssetHandler \<Rightarrow> uuid \<Rightarrow> unit web" where
  "mark_serve h parsedID = do {
     res \<leftarrow> in_world (svc_MarkAssetUploaded (h_svc h) parsedID);
     (case res of
        Some err \<Rightarrow> do {
          _ \<leftarrow> w_emit [LogLine LError (''Failed to mark asset uploaded: '' @ Error err) [],
                SpanError h_mark_span err, SpanStatus h_mark_span CodeError ''Failed to mark asset uploaded''];
          RespondJSON (Some (error_json_with ''Failed to mark asset uploaded'' err)) 500 }
      | None \<Rightarrow> do {
          _ \<leftarrow> w_emit [SpanStatus h_mark_span CodeOk ''Asset marked as uploaded''];
          RespondJSON (Some (go_map [(''status'', JString ''success''),
            (''message'', JString ''Asset marked as uploaded'')])) 200 }) }"

definition mark_checked :: "(string \<Rightarrow> go_error + uuid) \<Rightarrow> AssetHandler \<Rightarrow> request \<Rightarrow> unit web" where
  "mark_checked Parse h r =
    (let assetID = URLParam r ''assetID'' in
     if assetID = [] then do {
       _ \<leftarrow> w_emit [SpanStatus h_mark_span CodeError ''Asset ID is required''];
       RespondJSON (Some (error_json ''asset id is required'')) 400 }
     else do {
       _ \<leftarrow> w_emit [SpanAttrs h_mark_span [(''asset_id'', AStr assetID)]];
       (case Parse assetID of
          Inl err \<Rightarrow> do {
            _ \<leftarrow> w_emit [SpanError h_mark_span err, SpanStatus h_mark_span CodeError ''Invalid asset ID format''];
            RespondJSON (Some (error_json ''invalid asset id'')) 400 }
        | Inr parsedID \<Rightarrow> mark_serve h parsedID) })"

definition MarkAssetUploaded_handler :: "(string \<Rightarrow> go_error + uuid) \<Rightarrow> AssetHandler \<Rightarrow> handler" where
  "MarkAssetUploaded_handler Parse h r = do {
     _ \<leftarrow> w_emit [SpanStart h_mark_span []];
     defer_call (w_emit [SpanEnd h_mark_span]) (do {
       _ \<leftarrow> GetTimeoutContext 15;
       defer_call cancel_context (do { _ \<leftarrow> mark_checked Parse h r; done_ok }) }) }"

section \<open>The contract of the service\<close>

text \<open>What a handler must not see: telemetry, and how often clock and context were asked.\<close>

definition core ::
  "world \<Rightarrow> (database \<times> (string \<Rightarrow> stream_entry list) \<times> object_store) \<times> txn option \<times> int64 \<times>
     ((nat \<Rightarrow> db_outcome) \<times> (nat \<Rightarrow> xadd_outcome) \<times> (nat \<Rightarrow> uuid) \<times> (nat \<Rightarrow> int)
     \<times> (nat \<Rightarrow> go_error option)) \<times> nat" where
  "core w = (durable w, w_tx w, job_seq w, peers w, uuid_calls w)"

lemma core_update [simp]:
  "core (w\<lparr>tel := t\<rparr>) = core w" "core (w\<lparr>clock_calls := n\<rparr>) = core w" "core (w\<lparr>ctx_calls := n\<rparr>) = core w"
  by (simp_all add: core_def peers_def)

lemma core_eqD:
  assumes "core v = core w"
  shows "w_db v = w_db w" "streams v = streams w" "objects v = objects w" "w_tx v = w_tx w"
    "job_seq v = job_seq w" "peers v = peers w" "uuid_calls v = uuid_calls w" "durable v = durable w"
    "uuid_supply v = uuid_supply w" "ctx_reply v = ctx_reply w"
  using assms by (simp_all add: core_def durable_def peers_def)

text \<open>
  The interface the handlers rely on: CreateAsset and MarkAssetUploaded establish their outcomes, and
  these do not depend on telemetry.
\<close>

locale asset_api =
  fixes svc :: AssetService and ready :: "world \<Rightarrow> bool"
    and created :: "UploadAssetRequest \<Rightarrow> world \<Rightarrow> go_error + UploadAssetResponse option \<Rightarrow> world \<Rightarrow> bool"
    and completed :: "uuid \<Rightarrow> world \<Rightarrow> go_error option \<Rightarrow> world \<Rightarrow> bool"
  assumes create: "run_state (svc_CreateAsset svc req) w = (res, w') \<Longrightarrow> created req w res w'"
    and complete: "ready w \<Longrightarrow> run_state (svc_MarkAssetUploaded svc a) w = (err, w') \<Longrightarrow> completed a w err w'"
    and ready_core: "core v = core w \<Longrightarrow> ready v \<longleftrightarrow> ready w"
    and created_core: "core v = core w \<Longrightarrow> core v' = core w' \<Longrightarrow> created req v res v' \<longleftrightarrow> created req w res w'"
    and completed_core: "core v = core w \<Longrightarrow> core v' = core w' \<Longrightarrow> completed a v err v' \<longleftrightarrow> completed a w err w'"

section \<open>What the handlers do\<close>

text \<open>The request a body stands for, if the handler accepts it.\<close>

definition accepted :: "int64 \<Rightarrow> go_error + string \<Rightarrow> UploadAssetRequest option" where
  "accepted limit body = (case ParseJSON body request_fields request_store empty_request of
      Inl _ \<Rightarrow> None
    | Inr req \<Rightarrow> if IsSupportedMIMEType (req_ContentType req) \<and> req_Size req \<le> limit then Some req else None)"

lemma unsupported_empty [simp]: "\<not> IsSupportedMIMEType []"
  by (simp add: IsSupportedMIMEType_def SupportedMIMETypes_def)

fun create_reply :: "go_error + UploadAssetResponse option \<Rightarrow> json" where
  "create_reply (Inl err) = error_json_with ''Failed to create asset'' err"
| "create_reply (Inr None) = error_json ''Internal server error''"
| "create_reply (Inr (Some r)) = go_map [(''status'', JString ''success''), (''data'', response_json r)]"

fun create_status :: "go_error + UploadAssetResponse option \<Rightarrow> int" where
  "create_status (Inr (Some r)) = 200"
| "create_status res = 500"

definition mark_status :: "go_error option \<Rightarrow> int" where
  "mark_status err = (if err = None then 200 else 500)"

definition mark_reply :: "go_error option \<Rightarrow> json" where
  "mark_reply err = (case err of
      Some e \<Rightarrow> error_json_with ''Failed to mark asset uploaded'' e
    | None \<Rightarrow> go_map [(''status'', JString ''success''), (''message'', JString ''Asset marked as uploaded'')])"

lemma supported_replies [simp]:
  "supported (error_json msg)" "supported (error_json_with msg e)" "supported (response_json resp)"
  "supported (create_reply res)" "supported (mark_reply err)"
proof -
  have r: "supported (response_json resp)" for resp
    by (simp add: response_json_def list_all_iff split: prod.splits)
  then show "supported (response_json resp)" .
  show "supported (error_json msg)" "supported (error_json_with msg e)" "supported (mark_reply err)"
    by (simp_all add: error_json_def error_json_with_def mark_reply_def split: option.splits)
  show "supported (create_reply res)"
    by (cases res rule: create_reply.cases) (simp_all add: error_json_def error_json_with_def r)
qed

text \<open>
  \<open>replied s s' new\<close>: from \<open>s\<close> to \<open>s'\<close> the calls \<open>new\<close> went through the wrappers to the connection, and the
  rate limiter was left alone.
\<close>

definition replied :: "srv \<Rightarrow> srv \<Rightarrow> rw_call list \<Rightarrow> bool" where
  "replied s s' new \<longleftrightarrow> s_calls s' = s_calls s @ new \<and>
     s_writers s' = map (\<lambda>w. fold wrap_call new w) (s_writers s) \<and> s_accept s' = s_accept s \<and>
     s_clients s' = s_clients s \<and> s_limiters s' = s_limiters s"

lemma replied_Nil: "s_calls s' = s_calls s \<Longrightarrow> s_writers s' = s_writers s \<Longrightarrow> s_accept s' = s_accept s \<Longrightarrow>
    s_clients s' = s_clients s \<Longrightarrow> s_limiters s' = s_limiters s \<Longrightarrow> replied s s' []"
  by (simp add: replied_def)

lemma run_RespondJSON:
  assumes "supported j" "run_state (RespondJSON (Some j) st) s = (u, s')"
  shows "s_world s' = s_world s \<and> s_open_ctx s' = s_open_ctx s \<and>
    (\<exists>new. replied s s' new \<and> response_status new = st \<and> response_body new = Encode j)"
  using assms by (auto simp: RespondJSON_def rw_Encode_def replied_def through_def o_def)

definition handled :: "srv \<Rightarrow> srv \<Rightarrow> int \<Rightarrow> json \<Rightarrow> bool" where
  "handled s s' st j \<longleftrightarrow> s_open_ctx s' = s_open_ctx s \<and>
     (\<exists>new. replied s s' new \<and> response_status new = st \<and> response_body new = Encode j)"

lemma handled_RespondJSON:
  assumes "supported j" "run_state (RespondJSON (Some j) st) t = (u, s')" "s_calls t = s_calls s"
    "s_writers t = s_writers s" "s_accept t = s_accept s" "s_clients t = s_clients s"
    "s_limiters t = s_limiters s" "s_open_ctx t = s_open_ctx s"
  shows "s_world s' = s_world t \<and> handled s s' st j"
  using run_RespondJSON [OF assms(1,2)] assms(3-) by (auto simp: handled_def replied_def)

lemma run_create_refuse:
  assumes "run_state (create_refuse status msg) s = (res, s')"
  shows "res = Returns () \<and> core (s_world s') = core (s_world s) \<and> handled s s' 400 (error_json msg)"
proof -
  let ?t = "state_of (w_emit [SpanStatus h_create_span CodeError status]) s"
  obtain u where u: "run_state (RespondJSON (Some (error_json msg)) 400) ?t = (u, s')" "res = Returns ()"
    using assms by (auto simp: create_refuse_def split: prod.splits)
  have "s_world s' = s_world ?t \<and> handled s s' 400 (error_json msg)"
    by (rule handled_RespondJSON [OF _ u(1)]) simp_all
  then show ?thesis using u(2) by simp
qed

text \<open>The telemetry of the answer to a call of CreateAsset.\<close>

fun create_events :: "bool \<Rightarrow> go_error + UploadAssetResponse option \<Rightarrow> tel_event list" where
  "create_events metered (Inl err) =
     [LogLine LError ''Failed to create asset'' [(''error'', AStr (Error err))], SpanError h_create_span err,
      SpanStatus h_create_span CodeError ''Failed to create asset''] @
     (if metered then [MetricAdd AssetProcessingFailed 1 []] else [])"
| "create_events metered (Inr None) =
     SpanStatus h_create_span CodeError ''Nil response from CreateAsset'' #
     (if metered then [MetricAdd AssetProcessingFailed 1 []] else [])"
| "create_events metered (Inr (Some r)) =
     [LogLine LInfo (''Asset created: '' @ AssetID r) [],
      SpanAttrs h_create_span [(''asset_id'', AStr (AssetID r))],
      SpanStatus h_create_span CodeOk ''Asset created successfully'']"

lemma run_create_serve:
  assumes "ctx_reply (s_world s) (ctx_calls (s_world s)) = None"
    and "run_state (svc_CreateAsset (h_svc h) req) ((s_world s)\<lparr>ctx_calls := Suc (ctx_calls (s_world s))\<rparr>) = (res, w1)"
  shows "run_state (create_serve h req) s =
    run_state (RespondJSON (Some (create_reply res)) (create_status res))
      (s\<lparr>s_world := w1\<lparr>tel := tel w1 @ create_events (h_m h \<noteq> None) res\<rparr>\<rparr>)"
  using assms by (cases res rule: create_reply.cases) (simp_all add: create_serve_def create_failed_def)

context asset_api
begin

abbreviation svc_handler :: "Metrics option \<Rightarrow> AssetHandler" where
  "svc_handler m \<equiv> NewAssetHandler svc m"

lemma create_served:
  assumes "run_state (create_serve (svc_handler m) req) s = (u, s')"
  shows "(\<exists>e. ctx_reply (s_world s) (ctx_calls (s_world s)) = Some e) \<and> core (s_world s') = core (s_world s) \<and>
      s_open_ctx s' = s_open_ctx s \<and> replied s s' []
    \<or> (\<exists>res. created req (s_world s) res (s_world s') \<and> handled s s' (create_status res) (create_reply res))"
proof (cases "ctx_reply (s_world s) (ctx_calls (s_world s))")
  case (Some e)
  then show ?thesis using assms by (auto simp: create_serve_def intro: replied_Nil)
next
  case None
  let ?w = "(s_world s)\<lparr>ctx_calls := Suc (ctx_calls (s_world s))\<rparr>"
  obtain res w1 where c: "run_state (svc_CreateAsset svc req) ?w = (res, w1)" by fastforce
  define t where "t = s\<lparr>s_world := w1\<lparr>tel := tel w1 @ create_events (m \<noteq> None) res\<rparr>\<rparr>"
  have t: "run_state (RespondJSON (Some (create_reply res)) (create_status res)) t = (u, s')"
    using assms run_create_serve [of s "svc_handler m" req, OF None] c by (simp add: NewAssetHandler_def t_def)
  have "s_world s' = s_world t \<and> handled s s' (create_status res) (create_reply res)"
    by (rule handled_RespondJSON [OF _ t]) (simp_all add: t_def)
  moreover have "created req (s_world s) res w1" using created_core [THEN iffD1, OF _ _ create [OF c]] by simp
  ultimately show ?thesis using created_core [of "s_world s" "s_world s" "s_world s'" w1] by (auto simp: t_def)
qed

text \<open>The effect of a CreateAsset request up to telemetry: what \<open>accepted\<close> rejects is answered with 400 and
  changes nothing; else the handler finds its context cancelled and says nothing, or it answers with
  the outcome of the service.\<close>

definition create_spec :: "int64 \<Rightarrow> go_error + string \<Rightarrow> srv \<Rightarrow> srv \<Rightarrow> bool" where
  "create_spec limit body s s' \<longleftrightarrow> s_open_ctx s' = s_open_ctx s \<and> (case accepted limit body of
      None \<Rightarrow> core (s_world s') = core (s_world s) \<and> (\<exists>msg. handled s s' 400 (error_json msg))
    | Some req \<Rightarrow>
        (\<exists>e n. ctx_reply (s_world s) n = Some e) \<and> core (s_world s') = core (s_world s) \<and> replied s s' []
        \<or> (\<exists>res. created req (s_world s) res (s_world s') \<and> handled s s' (create_status res) (create_reply res)))"

lemma create_spec_core:
  assumes "create_spec limit body t t'"
    and "core (s_world s) = core (s_world t)" "core (s_world s') = core (s_world t')"
    and "s_calls s = s_calls t" "s_calls s' = s_calls t'" "s_writers s = s_writers t" "s_writers s' = s_writers t'"
    and "s_accept s = s_accept t" "s_accept s' = s_accept t'" "s_clients s = s_clients t" "s_clients s' = s_clients t'"
    and "s_limiters s = s_limiters t" "s_limiters s' = s_limiters t'" "s_open_ctx s' = s_open_ctx s"
  shows "create_spec limit body s s'"
proof -
  have h: "handled s s' st j \<longleftrightarrow> handled t t' st j" for st j
    using assms by (simp add: create_spec_def handled_def replied_def)
  have r: "replied s s' [] \<longleftrightarrow> replied t t' []" using assms by (simp add: replied_def)
  show ?thesis
    using assms(1) created_core [OF assms(2,3)] core_eqD(10) [OF assms(2)]
    unfolding create_spec_def h r assms(2,3) by (simp add: assms(14) split: option.splits)
qed

lemma create_parse:
  assumes "MustGet cstate = Inr cfg" "run_state (create_parsed cstate (svc_handler m) r) s = (res, s')"
  shows "res = Returns () \<and> create_spec (MaxAssetSizeBytes cfg) (r_Body r) s s'"
proof (cases "ParseJSON (r_Body r) request_fields request_store empty_request")
  case (Inl err)
  let ?t = "state_of (w_emit [LogLine LError ''Failed to parse create asset request'' [(''error'', AStr (Error err))],
              SpanError h_create_span err]) s"
  have "run_state (create_refuse ''Invalid request payload'' ''Invalid request payload'') ?t = (res, s')"
    using assms(2) Inl by (simp add: create_parsed_def)
  from run_create_refuse [OF this] show ?thesis using Inl
    by (auto simp: create_spec_def accepted_def handled_def replied_def)
next
  case (Inr req)
  define t where "t = state_of (w_emit [SpanAttrs h_create_span [(''content_type'', AStr (req_ContentType req)),
              (''content_length'', AInt (req_Size req))]]) s"
  have c: "run_state (create_checked cstate (svc_handler m) req) t = (res, s')"
    using assms(2) Inr by (simp add: create_parsed_def t_def)
  have "res = Returns () \<and> create_spec (MaxAssetSizeBytes cfg) (r_Body r) t s'"
  proof (cases "accepted (MaxAssetSizeBytes cfg) (r_Body r)")
    case None
    then obtain status msg where "run_state (create_refuse status msg) t = (res, s')"
      using c Inr assms(1)
      by (auto simp: create_checked_def accepted_def web_then_def maxAssetSize_def split: if_splits)
    from run_create_refuse [OF this] show ?thesis using None by (auto simp: create_spec_def handled_def)
  next
    case (Some req')
    then have "req' = req" "IsSupportedMIMEType (req_ContentType req)" "\<not> MaxAssetSizeBytes cfg < req_Size req"
      using Inr by (auto simp: accepted_def split: if_splits)
    moreover from this obtain u where u: "run_state (create_serve (svc_handler m) req) t = (u, s')" "res = Returns ()"
      using c assms(1) by (cases "req_ContentType req = []")
        (auto simp: create_checked_def web_then_def maxAssetSize_def split: prod.splits)
    ultimately show ?thesis using create_served [OF u(1)] Some unfolding create_spec_def
      by (auto simp: handled_def)
  qed
  then show ?thesis
    using create_spec_core [of "MaxAssetSizeBytes cfg" "r_Body r" t s' s s'] by (auto simp: t_def create_spec_def)
qed

lemma create_handled:
  assumes "MustGet cstate = Inr cfg" "run_state (CreateAsset_handler cstate (svc_handler m) r) s = (res, s')"
  shows "res = Returns () \<and> s_body_closed s' \<and> create_spec (MaxAssetSizeBytes cfg) (r_Body r) s s'"
proof -
  define t0 where "t0 = state_of (do {
     _ \<leftarrow> w_emit [SpanStart h_create_span []];
     _ \<leftarrow> GetTimeoutContext 30;
     _ \<leftarrow> w_emit [SpanAttrs h_create_span [(''http.method'', AStr (r_Method r)), (''http.route'', AStr (r_RoutePattern r))]];
     start \<leftarrow> in_world time_Now;
     go_if (m \<noteq> None) (w_emit [MetricAdd AssetUploadTotal 1 []]) }) s"
  obtain res1 t1 where c: "run_state (create_parsed cstate (svc_handler m) r) t0 = (res1, t1)" by fastforce
  have t0: "core (s_world t0) = core (s_world s)" "s_calls t0 = s_calls s" "s_writers t0 = s_writers s"
    "s_accept t0 = s_accept s" "s_clients t0 = s_clients s" "s_limiters t0 = s_limiters s"
    "s_open_ctx t0 = 30000000000 # s_open_ctx s"
    by (simp_all add: t0_def GetTimeoutContext_def wrap64_def state_of_def)
  have x: "res = res1" "core (s_world s') = core (s_world t1)" "s_calls s' = s_calls t1" "s_writers s' = s_writers t1"
    "s_accept s' = s_accept t1" "s_clients s' = s_clients t1" "s_limiters s' = s_limiters t1"
    "s_open_ctx s' = tl (s_open_ctx t1)" "s_body_closed s'"
    using assms(2) c unfolding t0_def
    by (auto simp: CreateAsset_handler_def GetTimeoutContext_def cancel_context_def Body_Close_def
        NewAssetHandler_def state_of_def split: prod.splits if_splits)
  from create_parse [OF assms(1) c]
  have p: "res1 = Returns ()" "create_spec (MaxAssetSizeBytes cfg) (r_Body r) t0 t1" by auto
  then have "s_open_ctx s' = s_open_ctx s" using t0 x by (simp add: create_spec_def)
  then show ?thesis using create_spec_core [OF p(2), of s s'] p(1) t0 x by simp
qed

text \<open>The effect of a MarkAssetUploaded request: 400 unless the route carries a valid id; else the answer
  reports the outcome of the service.\<close>

definition mark_spec :: "(string \<Rightarrow> go_error + uuid) \<Rightarrow> request \<Rightarrow> srv \<Rightarrow> srv \<Rightarrow> bool" where
  "mark_spec Parse r s s' \<longleftrightarrow>
    (case (if URLParam r ''assetID'' = [] then Inl (ErrText []) else Parse (URLParam r ''assetID'')) of
       Inl _ \<Rightarrow> core (s_world s') = core (s_world s) \<and> (\<exists>msg. handled s s' 400 (error_json msg))
     | Inr a \<Rightarrow> \<exists>err. completed a (s_world s) err (s_world s') \<and>
         handled s s' (mark_status err) (mark_reply err))"

lemma mark_served:
  assumes "ready (s_world s)" "run_state (mark_serve (svc_handler m) a) s = (u, s')"
  shows "\<exists>err. completed a (s_world s) err (s_world s') \<and>
    handled s s' (mark_status err) (mark_reply err)"
proof -
  obtain err w1 where c: "run_state (svc_MarkAssetUploaded svc a) (s_world s) = (err, w1)" by fastforce
  define es where "es = (case err of
      Some e \<Rightarrow> [LogLine LError (''Failed to mark asset uploaded: '' @ Error e) [],
                SpanError h_mark_span e, SpanStatus h_mark_span CodeError ''Failed to mark asset uploaded'']
    | None \<Rightarrow> [SpanStatus h_mark_span CodeOk ''Asset marked as uploaded''])"
  define t where "t = s\<lparr>s_world := w1\<lparr>tel := tel w1 @ es\<rparr>\<rparr>"
  have t: "run_state (RespondJSON (Some (mark_reply err)) (mark_status err)) t = (u, s')"
    using assms(2) c by (cases err) (simp_all add: mark_serve_def NewAssetHandler_def mark_reply_def mark_status_def t_def es_def)
  have "s_world s' = s_world t \<and> handled s s' (mark_status err) (mark_reply err)"
    by (rule handled_RespondJSON [OF _ t]) (simp_all add: t_def)
  moreover have "completed a (s_world s) err (s_world t)"
    using completed_core [OF refl, of "s_world t" w1] complete [OF assms(1) c] by (simp add: t_def)
  ultimately show ?thesis by auto
qed

lemma mark_check:
  assumes "ready (s_world s)" "run_state (mark_checked Parse (svc_handler m) r) s = (u, s')"
  shows "mark_spec Parse r s s'"
proof (cases "if URLParam r ''assetID'' = [] then Inl (ErrText []) else Parse (URLParam r ''assetID'')")
  case (Inl err)
  then obtain es msg where t: "run_state (RespondJSON (Some (error_json msg)) 400) (state_of (w_emit es) s) = (u, s')"
  proof (cases "URLParam r ''assetID'' = []")
    case True
    then show ?thesis using assms(2)
      by (intro that [of "''asset id is required''" "[SpanStatus h_mark_span CodeError ''Asset ID is required'']"])
        (simp add: mark_checked_def)
  next
    case False
    then show ?thesis using assms(2) Inl
      by (intro that [of "''invalid asset id''" "[SpanAttrs h_mark_span [(''asset_id'', AStr (URLParam r ''assetID''))],
          SpanError h_mark_span err, SpanStatus h_mark_span CodeError ''Invalid asset ID format'']"])
        (simp add: mark_checked_def)
  qed
  have "s_world s' = s_world (state_of (w_emit es) s) \<and> handled s s' 400 (error_json msg)"
    by (rule handled_RespondJSON [OF _ t]) simp_all
  then show ?thesis using Inl by (auto simp: mark_spec_def)
next
  case (Inr a)
  let ?t = "state_of (w_emit [SpanAttrs h_mark_span [(''asset_id'', AStr (URLParam r ''assetID''))]]) s"
  have t: "run_state (mark_serve (svc_handler m) a) ?t = (u, s')"
    using assms(2) Inr by (simp add: mark_checked_def Let_def split: if_splits)
  moreover have "ready (s_world ?t)" using assms(1) ready_core [of "s_world ?t" "s_world s"] by simp
  ultimately obtain err where "completed a (s_world ?t) err (s_world s')"
    "handled ?t s' (mark_status err) (mark_reply err)" using mark_served by blast
  moreover have "completed a (s_world s) err (s_world s') \<longleftrightarrow> completed a (s_world ?t) err (s_world s')" for err
    by (rule completed_core) simp_all
  moreover have "handled ?t s' st j = handled s s' st j" for st j by (simp add: handled_def replied_def)
  ultimately show ?thesis using Inr unfolding mark_spec_def by auto
qed

lemma mark_handled:
  assumes "ready (s_world s)" "run_state (MarkAssetUploaded_handler Parse (svc_handler m) r) s = (res, s')"
  shows "res = Returns () \<and> s_open_ctx s' = s_open_ctx s \<and> mark_spec Parse r s s'"
proof -
  define t0 where "t0 = s\<lparr>s_world := (s_world s)\<lparr>tel := tel (s_world s) @ [SpanStart h_mark_span []]\<rparr>,
    s_open_ctx := 15000000000 # s_open_ctx s\<rparr>"
  obtain u t1 where c: "run_state (mark_checked Parse (svc_handler m) r) t0 = (u, t1)"
    by (cases "run_state (mark_checked Parse (svc_handler m) r) t0")
  have x: "res = Returns ()" "s' = t1\<lparr>s_open_ctx := tl (s_open_ctx t1),
      s_world := (s_world t1)\<lparr>tel := tel (s_world t1) @ [SpanEnd h_mark_span]\<rparr>\<rparr>"
    using assms(2) c
    by (auto simp: MarkAssetUploaded_handler_def GetTimeoutContext_def cancel_context_def t0_def wrap64_def
        split: prod.splits)
  have "ready (s_world t0)" using assms(1) ready_core [of "s_world t0" "s_world s"] by (simp add: t0_def)
  from mark_check [OF this c] have m: "mark_spec Parse r t0 t1" .
  have h: "handled t0 t1 st j \<Longrightarrow> handled s s' st j \<and> s_open_ctx s' = s_open_ctx s" for st j
    using x(2) by (simp add: handled_def replied_def t0_def)
  have k: "completed a (s_world s) err (s_world s') \<longleftrightarrow> completed a (s_world t0) err (s_world t1)" for a err
    by (rule completed_core) (simp_all add: x t0_def)
  have e: "core (s_world s') = core (s_world s) \<longleftrightarrow> core (s_world t1) = core (s_world t0)"
    by (simp add: x(2) t0_def)
  show ?thesis
  proof (cases "if URLParam r ''assetID'' = [] then Inl (ErrText []) else Parse (URLParam r ''assetID'')")
    case (Inl err)
    then show ?thesis using m x(1) h unfolding mark_spec_def e by auto
  next
    case (Inr a)
    from m obtain err where "completed a (s_world t0) err (s_world t1)" "handled t0 t1 (mark_status err) (mark_reply err)"
      unfolding mark_spec_def Inr sum.case by blast
    then show ?thesis using x(1) h unfolding mark_spec_def Inr sum.case k by blast
  qed
qed

end

section \<open>The services of the program meet the contract\<close>

definition create_outcome ::
  "assetService \<Rightarrow> UploadAssetRequest \<Rightarrow> world \<Rightarrow> go_error + UploadAssetResponse option \<Rightarrow> world \<Rightarrow> bool" where
  "create_outcome sv req w r w' \<longleftrightarrow>
     (let a = uuid_supply w (uuid_calls w) in
      streams w' = streams w \<and> objects w' = objects w \<and> job_seq w' = job_seq w \<and> peers w' = peers w \<and>
      ((\<exists>e. r = Inl e) \<and> w_db w' = w_db w \<or>
       assets (w_db w) a = None \<and> (\<exists>url now. w_db w' = request_row req a url now (w_db w) \<and>
         ((\<exists>e. r = Inl e) \<or> (\<exists>surl. r = Inr (Some (response_for req a surl url)))))))"

definition upload_ready :: "world \<Rightarrow> bool" where
  "upload_ready w \<longleftrightarrow> w_tx w = None \<and> jobs_match_status (w_db w)"

lemma as_service_sel [simp]:
  "svc_CreateAsset (as_service s) req = do { r \<leftarrow> CreateAsset_svc s req; go_return (map_sum id Some r) }"
  "svc_MarkAssetUploaded (as_service s) = MarkAssetUploaded s"
  by (simp_all add: as_service_def)

lemma upload_service_api:
  assumes "upload_service sv stream cap usable"
  shows "asset_api (as_service sv) upload_ready (create_outcome sv)
    (\<lambda>a w. mark_outcome stream cap usable (db_healthy w \<and> store_answers sv a (objects w)) a w)"
proof
  fix req w res w'
  assume "run_state (svc_CreateAsset (as_service sv) req) w = (res, w')"
  then obtain r where r: "run_state (CreateAsset_svc sv req) w = (r, w')" "res = map_sum id Some r"
    by (auto split: prod.splits)
  from upload_service.create_effect [OF assms r(1) refl]
  show "create_outcome sv req w res w'" unfolding create_outcome_def Let_def r(2)
    by (cases r) (simp_all, blast+)
next
  fix w a err w'
  assume "upload_ready w" "run_state (svc_MarkAssetUploaded (as_service sv) a) w = (err, w')"
  then show "mark_outcome stream cap usable (db_healthy w \<and> store_answers sv a (objects w)) a w err w'"
    using upload_service.mark_effect [OF assms] by (simp add: upload_ready_def)
next
  fix v w :: world
  assume c: "core v = core w"
  show "upload_ready v \<longleftrightarrow> upload_ready w" by (simp add: upload_ready_def core_eqD [OF c])
next
  fix v w v' w' req res
  assume c: "core v = core w" "core v' = core w'"
  show "create_outcome sv req v res v' \<longleftrightarrow> create_outcome sv req w res w'"
    by (simp add: create_outcome_def core_eqD [OF c(1)] core_eqD [OF c(2)])
next
  fix v w v' w' a err
  assume c: "core v = core w" "core v' = core w'"
  from peer_predicates [OF core_eqD(6) [OF c(1)]]
  show "mark_outcome stream cap usable (db_healthy v \<and> store_answers sv a (objects v)) a v err v' \<longleftrightarrow>
    mark_outcome stream cap usable (db_healthy w \<and> store_answers sv a (objects w)) a w err w'"
    by (simp add: mark_outcome_def core_eqD [OF c(1)] core_eqD [OF c(2)])
qed

interpretation gcs_api: asset_api "as_service (assemble m (gcs_storage g) b c)" upload_ready
  "create_outcome (assemble m (gcs_storage g) b c)"
  "\<lambda>a w. mark_outcome ''media:jobs'' 10000 (c \<noteq> None)
     (db_healthy w \<and> store_answers (assemble m (gcs_storage g) b c) a (objects w)) a w" for m g b c
  by (rule upload_service_api) (rule gcs_service.upload_service_axioms)

interpretation s3_api: asset_api "as_service (assemble m (s3_storage uni quoteU s) b c)" upload_ready
  "create_outcome (assemble m (s3_storage uni quoteU s) b c)"
  "\<lambda>a w. mark_outcome ''media:jobs'' 10000 (c \<noteq> None)
     (db_healthy w \<and> store_answers (assemble m (s3_storage uni quoteU s) b c) a (objects w)) a w"
  for m uni quoteU s b c
  by (rule upload_service_api) (rule s3_service.upload_service_axioms)

section \<open>Properties\<close>

text \<open>The JSON value at a path of object keys, as a client reads it.\<close>

fun jpath :: "string list \<Rightarrow> jvalue \<Rightarrow> jvalue option" where
  "jpath [] v = Some v"
| "jpath (k # ks) (VObject ms) = (case map_of ms k of None \<Rightarrow> None | Some v \<Rightarrow> jpath ks v)"
| "jpath (k # ks) v = None"

lemma Decode_Encode:
  assumes "supported j" "nesting j \<le> 10000"
  shows "Decode_value (Encode j) = Inr (raw j)"
  using Unmarshal_Marshal(2) [of j "encode j" "[CHR 0x0A]"] assms
  by (simp add: Encode_def Marshal_def ends_value_def is_digit_def digit_val_def)

lemma nesting_go_map: "nesting (go_map kvs) = Suc (foldr (\<lambda>kv m. max (nesting (snd kv)) m) kvs 0)"
proof -
  let ?f = "\<lambda>kv m. max (nesting (snd kv)) m"
  have "foldr ?f (insert_key kv l) 0 = max (nesting (snd kv)) (foldr ?f l 0)" for kv l
    by (induction l) auto
  then have "foldr ?f (foldr insert_key kvs []) 0 = foldr ?f kvs 0" by (induction kvs) auto
  then show ?thesis by (simp add: go_map_def)
qed

lemma nesting_response: "nesting (response_json r) \<le> 3"
proof -
  have "foldr (\<lambda>kv m. max (nesting (snd kv)) m) (map (\<lambda>(k, v). (k, JString v)) l) 0 = 0"
    for l :: "(string \<times> string) list"
    by (induction l) auto
  then show ?thesis by (simp add: response_json_def nesting_go_map)
qed

lemma decode_created:
  "\<exists>v. Decode_value (Encode (create_reply (Inr (Some r)))) = Inr v \<and>
     jpath [''status''] v = Some (VString ''success'') \<and>
     jpath [''data'', ''assetId''] v = Some (VString (to_valid (AssetID r))) \<and>
     jpath [''data'', ''uploadUrl''] v = Some (VString (to_valid (UploadUrl r)))"
proof -
  have "nesting (create_reply (Inr (Some r))) \<le> 10000"
    using nesting_response [of r] by (simp add: nesting_go_map)
  then have "Decode_value (Encode (create_reply (Inr (Some r)))) = Inr (raw (create_reply (Inr (Some r))))"
    by (rule Decode_Encode [OF supported_replies(4)])
  moreover have "raw (create_reply (Inr (Some r))) =
      VObject [(''data'', raw (response_json r)), (''status'', VString ''success'')]"
    by (simp add: go_map_def byte_def)
  ultimately have "Decode_value (Encode (create_reply (Inr (Some r)))) =
      Inr (VObject [(''data'', raw (response_json r)), (''status'', VString ''success'')])" by argo
  then show ?thesis by (intro exI conjI, assumption) (simp_all add: response_json_def)
qed


definition sample_srv :: "world \<Rightarrow> srv" where
  "sample_srv w = \<lparr>s_world = w, s_calls = [], s_accept = (\<lambda>n b. length b), s_writers = [], s_open_ctx = [],
     s_body_closed = False, s_clients = Map.empty, s_limiters = []\<rparr>"

definition sample_body :: string where
  "sample_body = encode (JObject [(''fileName'', JString ''cat.png''), (''contentType'', JString ''image/png''),
     (''size'', JInt 5)])"

definition sample_http :: request where
  "sample_http = \<lparr>r_Method = ''POST'', r_Path = ''/api/v1/storage/presign'', r_Scheme = [], r_Host = ''h'',
     r_Proto = ''HTTP/1.1'', r_RemoteAddr = ''10.0.0.1:4711'', r_Header = [], r_Body = Inr sample_body,
     r_ContentLength = 0, r_ReqID = ''q'', r_RoutePattern = [], r_URLParams = [(''assetID'', ''a'')],
     r_userID = None, r_logger = None\<rparr>"

lemma sample_accepted: "accepted 100 (Inr sample_body) = Some sample_request"
  by code_simp

lemma sample_MustGet [simp]: "MustGet (Init cfg config_start) = Inr cfg"
  by (simp add: MustGet_def Init_def config_start_def)



text \<open>A parser of ids for the witness: it accepts the ASCII strings.\<close>

definition ascii_id :: "string \<Rightarrow> go_error + uuid" where
  "ascii_id p = (if isASCII p then Inr p else Inl (ErrText ''invalid UUID length''))"


text \<open>C34. The answer to an error carries the status and the code of its kind: every constructor of
  pkg/errors is reported with its own status, any other error as an internal one, and the body decodes
  to an object with success false, the message, and the code.\<close>

theorem WriteErrorResponse_reports:
  "\<exists>new v. s_calls (state_of (WriteErrorResponse err) s) = s_calls s @ new \<and>
     s_world (state_of (WriteErrorResponse err) s) = s_world s \<and>
     Decode_value (response_body new) = Inr v \<and> jpath [''success''] v = Some (VBool False) \<and>
     response_header new ''Content-Type'' = Some ''application/json'' \<and>
     (case err of
        ErrApi k a \<Rightarrow> response_status new = StatusCode a \<and>
          jpath [''message''] v = Some (VString (to_valid (Message a))) \<and>
          jpath [''error'', ''code''] v = Some (VString (to_valid (Code a))) \<and>
          jpath [''error'', ''details''] v =
            Some (case Details a of None \<Rightarrow> VNull | Some d \<Rightarrow> VString (to_valid d))
      | _ \<Rightarrow> response_status new = 500 \<and>
          jpath [''message''] v = Some (VString ''Internal server error'') \<and>
          jpath [''error'', ''code''] v = Some (VString ''INTERNAL_ERROR''))"
proof -
  define a where "a = api_error_of err"
  define v where "v = raw (error_body a)"
  have n: "nesting (error_body a) \<le> 10000" by (simp add: error_body_def nesting_go_map split: option.splits)
  have d: "Decode_value (Encode (error_body a)) = Inr v" unfolding v_def by (rule Decode_Encode [OF _ n]) simp
  have v: "v = VObject [(''error'', VObject [(''code'', VString (to_valid (Code a))),
       (''details'', case Details a of None \<Rightarrow> VNull | Some d \<Rightarrow> VString (to_valid d))]),
     (''message'', VString (to_valid (Message a))), (''success'', VBool False)]"
    by (simp add: v_def error_body_def go_map_def byte_def split: option.splits)
  let ?new = "[SetHeader ''Content-Type'' ''application/json'', WriteHeader (StatusCode a),
     Write (Encode (error_body a)) (s_accept s (length (s_calls s) + 2) (Encode (error_body a)))]"
  have "s_calls (state_of (WriteErrorResponse err) s) = s_calls s @ ?new \<and>
      s_world (state_of (WriteErrorResponse err) s) = s_world s"
    by (simp add: WriteErrorResponse_def rw_Encode_def state_of_def Let_def a_def)
  then show ?thesis using d v
    by (intro exI [of _ ?new] exI [of _ v]) (simp add: a_def split: go_error.splits)
qed

end
