(* ===== verification/Go_Crypto.thy ===== *)
theory Go_Crypto
  imports Go_Prelude
begin

unbundle bit_operations_syntax

text \<open>
  The parts of encoding/base64, crypto/aes and crypto/cipher that tokens are made of: the URL-safe
  base64 alphabet without padding, the AES-256 block cipher of FIPS 197 and Galois/counter mode of
  NIST SP 800-38D with a nonce of 12 bytes and a tag of 16 bytes.
\<close>

section \<open>base64.RawURLEncoding\<close>

definition b64_char :: "nat \<Rightarrow> char" where
  "b64_char n =
    (if n < 26 then char_of (65 + n) else if n < 52 then char_of (71 + n)
     else if n < 62 then char_of (n - 4) else if n = 62 then CHR ''-'' else CHR ''_'')"

definition b64_value :: "char \<Rightarrow> nat option" where
  "b64_value c =
    (let n = of_char c :: nat in
     if 65 \<le> n \<and> n \<le> 90 then Some (n - 65) else if 97 \<le> n \<and> n \<le> 122 then Some (n - 71)
     else if 48 \<le> n \<and> n \<le> 57 then Some (n + 4) else if c = CHR ''-'' then Some 62
     else if c = CHR ''_'' then Some 63 else None)"

fun b64_sextets :: "nat list \<Rightarrow> nat list" where
  "b64_sextets (a # b # c # r) =
     [a div 4, a mod 4 * 16 + b div 16, b mod 16 * 4 + c div 64, c mod 64] @ b64_sextets r"
| "b64_sextets [a, b] = [a div 4, a mod 4 * 16 + b div 16, b mod 16 * 4]"
| "b64_sextets [a] = [a div 4, a mod 4 * 16]"
| "b64_sextets [] = []"

definition b64_encode :: "string \<Rightarrow> string" where
  "b64_encode s = map b64_char (b64_sextets (map of_char s))"

text \<open>A group of two or three characters may end the input; its spare bits are not looked at.\<close>

fun b64_octets :: "nat list \<Rightarrow> nat list option" where
  "b64_octets (w # x # y # z # r) = map_option
     ((@) [w * 4 + x div 16, x mod 16 * 16 + y div 4, y mod 4 * 64 + z]) (b64_octets r)"
| "b64_octets [w, x, y] = Some [w * 4 + x div 16, x mod 16 * 16 + y div 4]"
| "b64_octets [w, x] = Some [w * 4 + x div 16]"
| "b64_octets [w] = None"
| "b64_octets [] = Some []"

text \<open>Line breaks are ignored.\<close>

definition b64_decode :: "string \<Rightarrow> string option" where
  "b64_decode s =
    (case those (map b64_value (filter (\<lambda>c. c \<noteq> CHR 0x0A \<and> c \<noteq> CHR 0x0D) s)) of
       None \<Rightarrow> None
     | Some vs \<Rightarrow> map_option (map char_of) (b64_octets vs))"

section \<open>AES-256\<close>

type_synonym byte8 = "8 word"
type_synonym block = "128 word"

definition xtime :: "byte8 \<Rightarrow> byte8" where
  "xtime b = push_bit 1 b XOR (if bit b 7 then 0x1b else 0)"

fun gf_mul :: "nat \<Rightarrow> byte8 \<Rightarrow> byte8 \<Rightarrow> byte8" where
  "gf_mul 0 a b = 0"
| "gf_mul (Suc n) a b = (if bit b 0 then a else 0) XOR gf_mul n (xtime a) (drop_bit 1 b)"

definition gmul :: "byte8 \<Rightarrow> byte8 \<Rightarrow> byte8" where
  "gmul a b = gf_mul 8 a b"

text \<open>The inverse of a byte is its 254th power: 254 = 2 + 4 + 8 + 16 + 32 + 64 + 128.\<close>

definition gf_inv :: "byte8 \<Rightarrow> byte8" where
  "gf_inv b =
    (let b2 = gmul b b; b4 = gmul b2 b2; b8 = gmul b4 b4; b16 = gmul b8 b8; b32 = gmul b16 b16;
         b64 = gmul b32 b32; b128 = gmul b64 b64
     in gmul b2 (gmul b4 (gmul b8 (gmul b16 (gmul b32 (gmul b64 b128))))))"

definition rotl8 :: "nat \<Rightarrow> byte8 \<Rightarrow> byte8" where
  "rotl8 n b = push_bit n b OR drop_bit (8 - n) b"

definition sbox :: "byte8 \<Rightarrow> byte8" where
  "sbox b = (let i = gf_inv b in i XOR rotl8 1 i XOR rotl8 2 i XOR rotl8 3 i XOR rotl8 4 i XOR 0x63)"

definition xor_list :: "byte8 list \<Rightarrow> byte8 list \<Rightarrow> byte8 list" where
  "xor_list xs ys = map2 (XOR) xs ys"

text \<open>The key schedule: words of four bytes; each new word is made from the last one and the one
  eight places back.\<close>

fun rcon :: "nat \<Rightarrow> byte8" where
  "rcon 0 = 1"
| "rcon (Suc n) = xtime (rcon n)"

definition next_word :: "nat \<Rightarrow> byte8 list list \<Rightarrow> byte8 list" where
  "next_word i ws =
    (let prev = last ws;
         temp = (if i mod 8 = 0 then
                   (let t = map sbox (rotate1 prev) in (hd t XOR rcon (i div 8 - 1)) # tl t)
                 else if i mod 8 = 4 then map sbox prev else prev)
     in xor_list (ws ! (i - 8)) temp)"

fun expand :: "nat \<Rightarrow> byte8 list list \<Rightarrow> byte8 list list" where
  "expand 0 ws = ws"
| "expand (Suc n) ws = expand n (ws @ [next_word (length ws) ws])"

definition key_words :: "byte8 list \<Rightarrow> byte8 list list" where
  "key_words k = map (\<lambda>i. take 4 (drop (4 * i) k)) [0..<8]"

definition round_key :: "byte8 list list \<Rightarrow> nat \<Rightarrow> byte8 list" where
  "round_key ws r = concat (take 4 (drop (4 * r) ws))"

definition shift_rows :: "byte8 list \<Rightarrow> byte8 list" where
  "shift_rows s = map (\<lambda>i. s ! (i mod 4 + 4 * ((i div 4 + i mod 4) mod 4))) [0..<16]"

definition mix_column :: "byte8 list \<Rightarrow> byte8 list" where
  "mix_column c =
    [gmul 2 (c ! 0) XOR gmul 3 (c ! 1) XOR c ! 2 XOR c ! 3,
     c ! 0 XOR gmul 2 (c ! 1) XOR gmul 3 (c ! 2) XOR c ! 3,
     c ! 0 XOR c ! 1 XOR gmul 2 (c ! 2) XOR gmul 3 (c ! 3),
     gmul 3 (c ! 0) XOR c ! 1 XOR c ! 2 XOR gmul 2 (c ! 3)]"

definition mix_columns :: "byte8 list \<Rightarrow> byte8 list" where
  "mix_columns s = concat (map (\<lambda>i. mix_column (take 4 (drop (4 * i) s))) [0..<4])"

definition aes_round :: "byte8 list list \<Rightarrow> byte8 list \<Rightarrow> nat \<Rightarrow> byte8 list" where
  "aes_round ws s r = xor_list (mix_columns (shift_rows (map sbox s))) (round_key ws r)"

definition aes_encrypt :: "byte8 list \<Rightarrow> byte8 list \<Rightarrow> byte8 list" where
  "aes_encrypt k inp =
    (let ws = expand 52 (key_words k);
         s = foldl (aes_round ws) (xor_list inp (round_key ws 0)) [1..<14]
     in xor_list (shift_rows (map sbox s)) (round_key ws 14))"

section \<open>Galois/counter mode\<close>

definition block_bytes :: "block \<Rightarrow> byte8 list" where
  "block_bytes b = map (\<lambda>i. ucast (drop_bit (120 - 8 * i) b)) [0..<16]"

definition bytes_block :: "byte8 list \<Rightarrow> block" where
  "bytes_block bs = foldl (\<lambda>acc b. push_bit 8 acc OR ucast b) 0 bs"

definition aes :: "byte8 list \<Rightarrow> block \<Rightarrow> block" where
  "aes k b = bytes_block (aes_encrypt k (block_bytes b))"

fun gcm_mul_steps :: "nat \<Rightarrow> block \<Rightarrow> block \<Rightarrow> block \<Rightarrow> block" where
  "gcm_mul_steps 0 x z v = z"
| "gcm_mul_steps (Suc n) x z v =
     gcm_mul_steps n (push_bit 1 x) (if bit x 127 then z XOR v else z)
       (if bit v 0 then drop_bit 1 v XOR push_bit 120 0xe1 else drop_bit 1 v)"

definition gcm_mul :: "block \<Rightarrow> block \<Rightarrow> block" where
  "gcm_mul x y = gcm_mul_steps 128 x 0 y"

definition chunks16 :: "byte8 list \<Rightarrow> byte8 list list" where
  "chunks16 bs = map (\<lambda>i. take 16 (drop (16 * i) bs)) [0..<(length bs + 15) div 16]"

definition pad16 :: "byte8 list \<Rightarrow> byte8 list" where
  "pad16 bs = bs @ replicate (16 - length bs) 0"

definition ghash :: "block \<Rightarrow> byte8 list \<Rightarrow> block" where
  "ghash h c =
    (let y = foldl (\<lambda>y bs. gcm_mul (y XOR bytes_block (pad16 bs)) h) 0 (chunks16 c)
     in gcm_mul (y XOR of_nat (8 * length c)) h)"

text \<open>The counter block of a 12-byte nonce, and the key stream from counter 2 on.\<close>

definition counter_block :: "byte8 list \<Rightarrow> nat \<Rightarrow> block" where
  "counter_block nonce i = push_bit 32 (bytes_block nonce) OR of_nat (i mod 2 ^ 32)"

definition keystream :: "byte8 list \<Rightarrow> byte8 list \<Rightarrow> nat \<Rightarrow> byte8 list" where
  "keystream k nonce n =
     take n (concat (map (\<lambda>i. block_bytes (aes k (counter_block nonce (i + 2)))) [0..<(n + 15) div 16]))"

definition ctr :: "byte8 list \<Rightarrow> byte8 list \<Rightarrow> byte8 list \<Rightarrow> byte8 list" where
  "ctr k nonce p = xor_list p (keystream k nonce (length p))"

definition gcm_tag :: "byte8 list \<Rightarrow> byte8 list \<Rightarrow> byte8 list \<Rightarrow> byte8 list" where
  "gcm_tag k nonce c = block_bytes (ghash (aes k 0) c XOR aes k (counter_block nonce 1))"

definition gcm_limit :: nat where
  "gcm_limit = (2 ^ 32 - 2) * 16"

text \<open>Seal and Open without additional data. Seal of a message over the limit panics (None).\<close>

definition gcm_seal :: "byte8 list \<Rightarrow> byte8 list \<Rightarrow> byte8 list \<Rightarrow> byte8 list option" where
  "gcm_seal k nonce p =
    (if length p > gcm_limit then None else (let c = ctr k nonce p in Some (c @ gcm_tag k nonce c)))"

definition gcm_open :: "byte8 list \<Rightarrow> byte8 list \<Rightarrow> byte8 list \<Rightarrow> byte8 list option" where
  "gcm_open k nonce ct =
    (if length ct < 16 \<or> length ct > gcm_limit + 16 then None
     else (let c = take (length ct - 16) ct; tag = drop (length ct - 16) ct
           in if tag = gcm_tag k nonce c then Some (ctr k nonce c) else None))"

definition string_bytes :: "string \<Rightarrow> byte8 list" where
  "string_bytes s = map (\<lambda>c. of_nat (of_char c)) s"

definition bytes_string :: "byte8 list \<Rightarrow> string" where
  "bytes_string bs = map (\<lambda>b. char_of (unat b)) bs"

section \<open>Laws\<close>

text \<open>A codec on strings, and authenticated encryption: opening what was sealed gives the message,
  and nothing else opens. Sealing may refuse a message that is too long.\<close>

locale byte_codec =
  fixes enc :: "string \<Rightarrow> string" and dec :: "string \<Rightarrow> string option"
  assumes dec_enc: "dec (enc s) = Some s"

locale aead =
  fixes seal :: "byte8 list \<Rightarrow> byte8 list \<Rightarrow> byte8 list \<Rightarrow> byte8 list option"
    and unseal :: "byte8 list \<Rightarrow> byte8 list \<Rightarrow> byte8 list \<Rightarrow> byte8 list option"
  assumes open_seal: "seal k n p = Some c \<Longrightarrow> unseal k n c = Some p"
    and open_sound: "unseal k n c = Some p \<Longrightarrow> seal k n p = Some c"
begin

lemma open_iff: "unseal k n c = Some p \<longleftrightarrow> seal k n p = Some c"
  using open_seal open_sound by blast

end

lemma b64_value_char: "n < 64 \<Longrightarrow> b64_value (b64_char n) = Some n"
  by (auto simp: b64_value_def b64_char_def Let_def)

lemma b64_char_not_break: "n < 64 \<Longrightarrow> b64_char n \<noteq> CHR 0x0A \<and> b64_char n \<noteq> CHR 0x0D"
proof -
  assume "n < 64"
  then have "b64_value (b64_char n) = Some n" by (rule b64_value_char)
  moreover have "b64_value (CHR 0x0A) = None" "b64_value (CHR 0x0D) = None"
    by (simp_all add: b64_value_def)
  ultimately show ?thesis by auto
qed

lemma group_div_mod:
  "y < m \<Longrightarrow> (x * m + y) div m = x" "y < m \<Longrightarrow> (x * m + y) mod m = (y :: nat)"
  by simp_all

lemma octet_parts:
  assumes "(a :: nat) < 256"
  shows "a div 4 < 64" "a div 16 < 16" "a div 64 < 4" "a mod 4 < 4" "a mod 16 < 16" "a mod 64 < 64"
  using assms by (auto intro: less_mult_imp_div_less)

lemma sextet_bound:
  "x < 4 \<Longrightarrow> y < 16 \<Longrightarrow> x * 16 + y < (64 :: nat)" "x < 16 \<Longrightarrow> y < 4 \<Longrightarrow> x * 4 + y < (64 :: nat)"
  "x < 4 \<Longrightarrow> x * 16 < (64 :: nat)" "x < 16 \<Longrightarrow> x * 4 < (64 :: nat)"
  by simp_all

lemma b64_sextets_bound:
  "\<forall>b \<in> set bs. b < 256 \<Longrightarrow> \<forall>v \<in> set (b64_sextets bs). v < 64"
proof (induction bs rule: b64_sextets.induct)
  case (1 a b c r)
  then have "a < 256" "b < 256" "c < 256" "\<forall>v \<in> set (b64_sextets r). v < 64" by simp_all
  note this(4) octet_parts [OF this(1)] octet_parts [OF this(2)] octet_parts [OF this(3)]
  then show ?case unfolding b64_sextets.simps by (auto simp only: set_append set_simps intro: sextet_bound)
next
  case (2 a b)
  then have "a < 256" "b < 256" by simp_all
  note octet_parts [OF this(1)] octet_parts [OF this(2)]
  then show ?case unfolding b64_sextets.simps by (auto simp only: set_simps intro: sextet_bound)
next
  case (3 a)
  then have "a < 256" by simp
  note octet_parts [OF this]
  then show ?case unfolding b64_sextets.simps by (auto simp only: set_simps intro: sextet_bound)
qed simp

lemma b64_octets_sextets:
  "\<forall>b \<in> set bs. b < 256 \<Longrightarrow> b64_octets (b64_sextets bs) = Some bs"
proof (induction bs rule: b64_sextets.induct)
  case (1 a b c r)
  then show ?case using octet_parts [of a] octet_parts [of b] octet_parts [of c]
    by (simp add: group_div_mod)
next
  case (2 a b)
  then show ?case using octet_parts [of a] octet_parts [of b] by (simp add: group_div_mod)
qed simp_all

lemma those_map_Some: "\<forall>x \<in> set xs. f (g x) = Some x \<Longrightarrow> those (map f (map g xs)) = Some xs"
  by (induction xs) auto

lemma b64_decode_encode: "b64_decode (b64_encode s) = Some s"
proof -
  let ?vs = "b64_sextets (map of_char s)"
  have bound: "\<forall>v \<in> set ?vs. v < 64" by (rule b64_sextets_bound) auto
  have "filter (\<lambda>c. c \<noteq> CHR 0x0A \<and> c \<noteq> CHR 0x0D) (map b64_char ?vs) = map b64_char ?vs"
    using bound b64_char_not_break by (intro filter_True) auto
  moreover have "those (map b64_value (map b64_char ?vs)) = Some ?vs"
    using bound b64_value_char by (intro those_map_Some) auto
  moreover have "b64_octets ?vs = Some (map of_char s)" by (rule b64_octets_sextets) auto
  moreover have "map char_of (map of_char s :: nat list) = s" by (simp add: o_def)
  ultimately show ?thesis by (simp add: b64_decode_def b64_encode_def)
qed

interpretation base64: byte_codec b64_encode b64_decode
  by unfold_locales (rule b64_decode_encode)

lemma length_block_bytes [simp]: "length (block_bytes b) = 16"
  by (simp add: block_bytes_def)

lemma length_concat_blocks: "length (concat (map (\<lambda>i. block_bytes (f i)) xs)) = 16 * length xs"
  by (induction xs) auto

lemma length_keystream [simp]: "length (keystream k nonce n) = n"
proof -
  have "n \<le> 16 * ((n + 15) div 16)" by simp
  then show ?thesis by (simp add: keystream_def length_concat_blocks min_def)
qed

lemma xor_list_cancel: "length ks = length xs \<Longrightarrow> xor_list (xor_list xs ks) ks = xs"
  by (rule nth_equalityI) (auto simp: xor_list_def xor.assoc)

lemma length_ctr [simp]: "length (ctr k nonce p) = length p"
  by (simp add: ctr_def xor_list_def)

lemma ctr_ctr [simp]: "ctr k nonce (ctr k nonce p) = p"
  by (simp add: ctr_def xor_list_cancel) (simp add: xor_list_def xor_list_cancel [unfolded xor_list_def])

lemma length_gcm_tag [simp]: "length (gcm_tag k nonce c) = 16"
  by (simp add: gcm_tag_def)

interpretation gcm: aead gcm_seal gcm_open
proof
  show "gcm_open k n c = Some p" if "gcm_seal k n p = Some c" for k n p c
    using that by (auto simp: gcm_seal_def gcm_open_def Let_def split: if_splits)
  show "gcm_seal k n p = Some c" if o: "gcm_open k n c = Some p" for k n p c
  proof -
    let ?c = "take (length c - 16) c"
    have "16 \<le> length c" "length c \<le> gcm_limit + 16" "drop (length c - 16) c = gcm_tag k n ?c" "p = ctr k n ?c"
      using o by (auto simp: gcm_open_def Let_def split: if_splits)
    then show ?thesis
      using append_take_drop_id [of "length c - 16" c] by (auto simp: gcm_seal_def Let_def)
  qed
qed

lemma string_bytes_inverse [simp]: "bytes_string (string_bytes s) = s"
proof -
  have "unat (of_nat (of_char c) :: byte8) = of_char c" for c
    by (simp add: unat_of_nat take_bit_eq_mod)
  then show ?thesis by (simp add: bytes_string_def string_bytes_def o_def)
qed

lemma bytes_string_inverse [simp]: "string_bytes (bytes_string bs) = bs"
proof -
  have "(of_char (char_of (unat b)) :: nat) = unat b" for b :: byte8
    using unsigned_less [of b, where ?'a = nat] by (simp add: take_bit_eq_mod)
  then show ?thesis by (simp add: bytes_string_def string_bytes_def o_def)
qed

lemma length_string_bytes [simp]: "length (string_bytes s) = length s" "length (bytes_string bs) = length bs"
  by (simp_all add: string_bytes_def bytes_string_def)

end
