(* ===== verification/Token_Crypt.thy ===== *)
theory Token_Crypt
  imports App_Errors Go_Crypto
begin

text \<open>
  pkg/utils/crypt.go: password hashes and the encrypted tokens that carry a user id.

  Parameters: \<open>hash\<close> and \<open>compare\<close> are the two functions of the bcrypt package; \<open>rnd\<close> is what reading
  twelve bytes from crypto/rand delivers. Sealing a message beyond the limit of the cipher mode
  panics.
\<close>

section \<open>Passwords\<close>

definition GenerateHash :: "(string \<Rightarrow> int \<Rightarrow> string \<times> go_error option) \<Rightarrow> string \<Rightarrow> string \<times> go_error option" where
  "GenerateHash hash target = hash target 10"

definition CompareHashAndPassword :: "(string \<Rightarrow> string \<Rightarrow> go_error option) \<Rightarrow> string \<Rightarrow> string \<Rightarrow> bool" where
  "CompareHashAndPassword compare hash password = (compare hash password = None)"

section \<open>Tokens\<close>

definition parseKey :: "string \<Rightarrow> go_error + byte8 list" where
  "parseKey key =
    (if length key \<noteq> 32 then
       Inl (ErrText (''encryption key must be exactly 32 bytes for AES-256, got '' @ Itoa (int (length key))))
     else Inr (string_bytes key))"

text \<open>
  The error of base64's DecodeString names the first character outside the alphabet, or the last
  one when a single character is left over.
\<close>

definition b64_legal :: "char \<Rightarrow> bool" where
  "b64_legal c \<longleftrightarrow> b64_value c \<noteq> None \<or> c = CHR 0x0A \<or> c = CHR 0x0D"

definition b64_error :: "string \<Rightarrow> go_error" where
  "b64_error s =
    (let good = length (takeWhile b64_legal s);
         at = (if good < length s then good else length s - 1)
     in ErrText (''illegal base64 data at input byte '' @ Itoa (int at)))"

definition DecodeString :: "string \<Rightarrow> go_error + string" where
  "DecodeString s = (case b64_decode s of None \<Rightarrow> Inl (b64_error s) | Some d \<Rightarrow> Inr d)"

definition GenerateToken :: "(go_error + string) \<Rightarrow> string \<Rightarrow> string \<Rightarrow> (go_error + string) go_run" where
  "GenerateToken rnd userID key = (case parseKey key of
      Inl err \<Rightarrow> Returns (Inl err)
    | Inr k \<Rightarrow>
       (case rnd of
          Inl err \<Rightarrow> Returns (Inl err)
        | Inr nonce \<Rightarrow>
           (case gcm_seal k (string_bytes nonce) (string_bytes userID) of
              None \<Rightarrow> Panics ''crypto/cipher: message too large for GCM''
            | Some ciphertext \<Rightarrow> Returns (Inr (b64_encode (nonce @ bytes_string ciphertext))))))"

definition auth_failed :: go_error where
  "auth_failed = ErrText ''cipher: message authentication failed''"

definition DecryptToken :: "string \<Rightarrow> string \<Rightarrow> go_error + string" where
  "DecryptToken token key = (case DecodeString token of
      Inl err \<Rightarrow> Inl err
    | Inr data \<Rightarrow>
       (case parseKey key of
          Inl err \<Rightarrow> Inl err
        | Inr k \<Rightarrow>
           (if length data < 12 then Inl (ErrText ''invalid token length'')
            else
              (case gcm_open k (string_bytes (take 12 data)) (string_bytes (drop 12 data)) of
                 None \<Rightarrow> Inl (Errorf_w ''failed to decrypt token: '' auth_failed)
               | Some plaintext \<Rightarrow> Inr (bytes_string plaintext)))))"

section \<open>Properties\<close>

lemma bytes_string_eq: "bytes_string bs = s \<longleftrightarrow> bs = string_bytes s"
  by auto

lemma DecryptToken_Inr:
  "DecryptToken token key = Inr userID \<longleftrightarrow>
     length key = 32 \<and> (\<exists>nonce sealed. length nonce = 12 \<and>
       gcm_seal (string_bytes key) (string_bytes nonce) (string_bytes userID) = Some (string_bytes sealed) \<and>
       b64_decode token = Some (nonce @ sealed))"
proof
  assume "DecryptToken token key = Inr userID"
  then obtain data where d: "b64_decode token = Some data" "length key = 32" "12 \<le> length data"
    "gcm_open (string_bytes key) (string_bytes (take 12 data)) (string_bytes (drop 12 data)) =
      Some (string_bytes userID)"
    by (auto simp: DecryptToken_def DecodeString_def parseKey_def bytes_string_eq
        split: option.splits if_splits)
  then show "length key = 32 \<and> (\<exists>nonce sealed. length nonce = 12 \<and>
       gcm_seal (string_bytes key) (string_bytes nonce) (string_bytes userID) = Some (string_bytes sealed) \<and>
       b64_decode token = Some (nonce @ sealed))"
    by (intro conjI exI [of _ "take 12 data"] exI [of _ "drop 12 data"]) (auto simp: gcm.open_iff)
next
  assume "length key = 32 \<and> (\<exists>nonce sealed. length nonce = 12 \<and>
       gcm_seal (string_bytes key) (string_bytes nonce) (string_bytes userID) = Some (string_bytes sealed) \<and>
       b64_decode token = Some (nonce @ sealed))"
  then obtain nonce sealed where k: "length key = 32" "length nonce = 12"
    and s: "gcm_seal (string_bytes key) (string_bytes nonce) (string_bytes userID) = Some (string_bytes sealed)"
    and d: "b64_decode token = Some (nonce @ sealed)" by blast
  from gcm.open_seal [OF s] show "DecryptToken token key = Inr userID"
    using k d by (simp add: DecryptToken_def DecodeString_def parseKey_def)
qed

text \<open>C23. A token decrypts to the user id it was generated for: GenerateToken with any twelve
  random bytes and DecryptToken with the same 32-byte key are inverse.\<close>

theorem token_roundtrip:
  assumes "GenerateToken (Inr nonce) userID key = Returns (Inr token)" and "length nonce = 12"
  shows "DecryptToken token key = Inr userID"
proof -
  obtain c where c: "length key = 32" "token = b64_encode (nonce @ bytes_string c)"
    "gcm_seal (string_bytes key) (string_bytes nonce) (string_bytes userID) = Some c"
    using assms(1) by (auto simp: GenerateToken_def parseKey_def split: if_splits option.splits)
  then have "length nonce = 12 \<and>
      gcm_seal (string_bytes key) (string_bytes nonce) (string_bytes userID) = Some (string_bytes (bytes_string c)) \<and>
      b64_decode token = Some (nonce @ bytes_string c)" using assms(2) base64.dec_enc by simp
  then show ?thesis unfolding DecryptToken_Inr using c(1) by blast
qed

definition sample_key :: string where
  "sample_key = replicate 32 (CHR ''k'')"

definition sample_nonce :: string where
  "sample_nonce = replicate 12 (CHR ''n'')"

definition token_of :: "(go_error + string) go_run \<Rightarrow> string" where
  "token_of r = (case r of Returns (Inr t) \<Rightarrow> t | _ \<Rightarrow> [])"

lemma sample_token:
  "GenerateToken (Inr sample_nonce) ''user-7'' sample_key =
     Returns (Inr (token_of (GenerateToken (Inr sample_nonce) ''user-7'' sample_key)))"
  by (simp add: GenerateToken_def parseKey_def sample_key_def gcm_seal_def gcm_limit_def Let_def token_of_def)

theorem token_roundtrip_witness:
  "DecryptToken (token_of (GenerateToken (Inr sample_nonce) ''user-7'' sample_key)) sample_key = Inr ''user-7''"
  using token_roundtrip [OF sample_token] by (simp add: sample_nonce_def)

text \<open>C24. DecryptToken accepts nothing but what the holder of the key sealed: it returns a user id
  exactly when the key has 32 bytes and the token, decoded from base64, is a twelve-byte nonce
  followed by the encryption of this user id under this key and nonce, authentication tag
  included.\<close>

theorem DecryptToken_authentic:
  "DecryptToken token key = Inr userID \<longleftrightarrow>
     length key = 32 \<and> (\<exists>nonce. length nonce = 12 \<and>
       GenerateToken (Inr nonce) userID key \<noteq> Panics ''crypto/cipher: message too large for GCM'' \<and>
       b64_decode token = b64_decode (token_of (GenerateToken (Inr nonce) userID key)))"
proof -
  have eq: "(\<exists>sealed. gcm_seal (string_bytes key) (string_bytes nonce) (string_bytes userID) =
        Some (string_bytes sealed) \<and> b64_decode token = Some (nonce @ sealed)) \<longleftrightarrow>
      GenerateToken (Inr nonce) userID key \<noteq> Panics ''crypto/cipher: message too large for GCM'' \<and>
      b64_decode token = b64_decode (token_of (GenerateToken (Inr nonce) userID key))"
    if "length key = 32" for nonce
  proof (cases "gcm_seal (string_bytes key) (string_bytes nonce) (string_bytes userID)")
    case None
    then show ?thesis using that by (simp add: GenerateToken_def parseKey_def)
  next
    case (Some c)
    then have "GenerateToken (Inr nonce) userID key = Returns (Inr (b64_encode (nonce @ bytes_string c)))"
      using that by (simp add: GenerateToken_def parseKey_def)
    then show ?thesis using Some base64.dec_enc by (auto simp: token_of_def intro: exI [of _ "bytes_string c"])
  qed
  show ?thesis using eq unfolding DecryptToken_Inr by blast
qed

end
