(* ===== verification/Middleware.thy ===== *)
theory Middleware
  imports Asset_Handler Token_Crypt
begin

text \<open>
  The package internal/middleware: authorization.go, logging.go, metrics.go, recovery.go,
  slow_request.go and tracing.go, and the functions of pkg/logger that put a logger into a context
  and take it out (context.go).

  A middleware maps a handler to a handler. A logger is given by the fields it adds to each line; a
  context without a logger yields zap's global logger, which discards everything. Parameters: \<open>uni\<close>,
  the Unicode case tables; \<open>chi_Status\<close> and \<open>chi_Bytes\<close>, what chi's WrapResponseWriter reports after
  the calls made through it; \<open>zone\<close>, the offset of the local time zone.
\<close>

section \<open>Loggers\<close>

type_synonym logger = attrs

definition logger_With :: "logger \<Rightarrow> attrs \<Rightarrow> logger" where
  "logger_With l fs = l @ fs"

definition log_on :: "logger \<Rightarrow> log_level \<Rightarrow> string \<Rightarrow> attrs \<Rightarrow> unit web" where
  "log_on l lvl msg fs = w_emit [LogLine lvl msg (l @ fs)]"

definition WithLogger :: "request \<Rightarrow> logger \<Rightarrow> request" where
  "WithLogger r l = r\<lparr>r_logger := Some l\<rparr>"

text \<open>FromContext: the logger of the context, else the global one (\<^const>\<open>None\<close>).\<close>

definition FromContext :: "request \<Rightarrow> logger option" where
  "FromContext r = r_logger r"

definition LoggerFromContext :: "request \<Rightarrow> logger option" where
  "LoggerFromContext r = FromContext r"

definition log_ctx :: "logger option \<Rightarrow> log_level \<Rightarrow> string \<Rightarrow> attrs \<Rightarrow> unit web" where
  "log_ctx l lvl msg fs = (case l of None \<Rightarrow> skip | Some l' \<Rightarrow> log_on l' lvl msg fs)"

text \<open>A response writer put around the current one for the time of a call.\<close>

definition with_writer :: "writer \<Rightarrow> 'a web \<Rightarrow> ('a \<times> writer) web" where
  "with_writer w m = do {
     _ \<leftarrow> modify (\<lambda>s. s\<lparr>s_writers := w # s_writers s\<rparr>);
     r \<leftarrow> m;
     ws \<leftarrow> gets s_writers;
     _ \<leftarrow> modify (\<lambda>s. s\<lparr>s_writers := tl (s_writers s)\<rparr>);
     go_return (r, hd ws) }"

section \<open>authorization.go\<close>

definition auth_refuse :: "logger \<Rightarrow> string \<Rightarrow> attrs \<Rightarrow> string \<Rightarrow> go_error option \<Rightarrow> (unit go_run) web" where
  "auth_refuse l line fs msg cause = do {
     _ \<leftarrow> log_on l LWarn line fs;
     _ \<leftarrow> WriteErrorResponse (NewUnauthorizedError msg cause);
     done_ok }"

definition AuthMiddleware :: "(string \<Rightarrow> string) \<Rightarrow> config_state \<Rightarrow> logger \<Rightarrow> handler \<Rightarrow> handler" where
  "AuthMiddleware uni cstate l nxt r =
    (let authHeader = Header_Get r ''Authorization'';
         parts = SplitN2 authHeader (CHR '' '')
     in if authHeader = [] then
          auth_refuse l ''Authorization header is empty'' [] ''Missing Authorization header'' None
        else if length parts \<noteq> 2 \<or> ToLower uni (parts ! 0) \<noteq> ''bearer'' then
          auth_refuse l ''Invalid Authorization header format'' [] ''Invalid Authorization format'' None
        else if parts ! 1 = [] then auth_refuse l ''Token is empty'' [] ''Empty token'' None
        else (case MustGet cstate of
           Inl p \<Rightarrow> go_return (Panics p)
         | Inr cfg \<Rightarrow>
            (case DecryptToken (parts ! 1) (EncryptionKey cfg) of
               Inl err \<Rightarrow> auth_refuse l ''Invalid or expired token'' [(''error'', AStr (Error err))]
                 ''Invalid token'' (Some err)
             | Inr userID \<Rightarrow> nxt (r\<lparr>r_userID := Some userID\<rparr>))))"

definition GetUserID :: "request \<Rightarrow> string \<times> bool" where
  "GetUserID r = (case r_userID r of None \<Rightarrow> ([], False) | Some userID \<Rightarrow> (userID, True))"

section \<open>logging.go\<close>

definition durationInUnits :: "duration \<Rightarrow> string" where
  "durationInUnits d =
    (if d \<ge> Second then Duration_String (d - d mod Millisecond)
     else if d \<ge> Millisecond then Duration_String (d - d mod Microsecond)
     else Duration_String d)"

definition charset :: string where
  "charset = ''abcdefghijklmnopqrstuvwxyz0123456789''"

definition rand_IntN :: "nat \<Rightarrow> nat go" where
  "rand_IntN n = State (\<lambda>w. (rand_reply w (rand_calls w) mod n, w\<lparr>rand_calls := Suc (rand_calls w)\<rparr>))"

fun randomString :: "nat \<Rightarrow> string go" where
  "randomString 0 = go_return []"
| "randomString (Suc n) = do {
     i \<leftarrow> rand_IntN (length charset);
     b \<leftarrow> randomString n;
     go_return (charset ! i # b) }"

text \<open>The layout 20060102150405.\<close>

definition Format_stamp :: "int \<Rightarrow> string" where
  "Format_stamp t =
    (let secs = t div 1000000000;
         sod = secs mod 86400;
         (y, m, d) = civil_from_days (secs div 86400)
     in padInt 4 y @ padInt 2 m @ padInt 2 d @ padInt 2 (sod div 3600) @ padInt 2 (sod div 60 mod 60) @
        padInt 2 (sod mod 60))"

definition generateRequestID :: "(int \<Rightarrow> int) \<Rightarrow> string go" where
  "generateRequestID zone = do {
     now \<leftarrow> time_Now;
     suf \<leftarrow> randomString 8;
     go_return (Format_stamp (now + zone now) @ ''-'' @ suf) }"

definition completed_level :: "int \<Rightarrow> log_level" where
  "completed_level status = (if status \<ge> 500 then LError else if status \<ge> 400 then LWarn else LInfo)"

definition LoggerMiddleware ::
  "(int \<Rightarrow> int) \<Rightarrow> (rw_call list \<Rightarrow> int) \<Rightarrow> (rw_call list \<Rightarrow> int) \<Rightarrow> logger \<Rightarrow> handler \<Rightarrow> handler" where
  "LoggerMiddleware zone chi_Status chi_Bytes l nxt r = do {
     start \<leftarrow> in_world time_Now;
     requestID \<leftarrow> (if r_ReqID r = [] then in_world (generateRequestID zone) else go_return (r_ReqID r));
     let reqLogger = logger_With l [(''request_id'', AStr requestID), (''method'', AStr (r_Method r)),
           (''path'', AStr (r_Path r)), (''remote_addr'', AStr (r_RemoteAddr r)),
           (''user_agent'', AStr (UserAgent r)), (''proto'', AStr (r_Proto r))];
     rw \<leftarrow> with_writer (ChiWriter []) (do {
       _ \<leftarrow> rw_SetHeader ''X-Request-Id'' requestID;
       _ \<leftarrow> log_on reqLogger LInfo ''Incoming request'' [];
       nxt (WithLogger r reqLogger) });
     (case rw of
        (Returns u, ChiWriter cs) \<Rightarrow> do {
          let status = chi_Status cs;
          d \<leftarrow> in_world (time_Since start);
          _ \<leftarrow> log_on reqLogger (completed_level status) ''Request completed''
             [(''status'', AInt status), (''duration'', AStr (durationInUnits d)),
              (''bytes_written'', AInt (chi_Bytes cs))];
          done_ok }
      | (res, _) \<Rightarrow> go_return res) }"

section \<open>metrics.go\<close>

definition recordHTTPMetrics ::
  "Metrics option \<Rightarrow> request \<Rightarrow> metricsResponseWriter \<Rightarrow> int \<Rightarrow> attrs \<Rightarrow> unit web" where
  "recordHTTPMetrics m r w start baseAttrs = go_if (m \<noteq> None) (do {
     d \<leftarrow> in_world (time_Since start);
     let attrs = baseAttrs @ [(''http.status_code'', AInt (statusCode w))];
     w_emit [MetricRecord HTTPRequestDuration (MSeconds d) attrs,
       MetricAdd HTTPRequestCount 1 attrs,
       MetricRecord HTTPRequestSize (MInt (if r_ContentLength r < 0 then 0 else r_ContentLength r)) attrs,
       MetricRecord HTTPResponseSize (MInt (bytesWritten w)) attrs] })"

definition metrics_attrs :: "request \<Rightarrow> attrs" where
  "metrics_attrs r = [(''http.method'', AStr (r_Method r)),
     (''http.route'', AStr (if r_RoutePattern r = [] then ''unknown'' else r_RoutePattern r))]"

definition MetricsMiddleware :: "Metrics option \<Rightarrow> handler \<Rightarrow> handler" where
  "MetricsMiddleware m nxt r = do {
     start \<leftarrow> in_world time_Now;
     let attrs = metrics_attrs r;
     _ \<leftarrow> go_if (m \<noteq> None) (w_emit [MetricAdd HTTPActiveRequests 1 attrs]);
     defer_call (go_if (m \<noteq> None) (w_emit [MetricAdd HTTPActiveRequests (- 1) attrs])) (do {
       rw \<leftarrow> with_writer (MetricsWriter \<lparr>statusCode = 200, bytesWritten = 0\<rparr>) (nxt r);
       (case rw of
          (Panics p, MetricsWriter w) \<Rightarrow> do {
            _ \<leftarrow> recordHTTPMetrics m r (w\<lparr>statusCode := 500\<rparr>) start attrs;
            go_return (Panics p) }
        | (Returns u, MetricsWriter w) \<Rightarrow> do {
            _ \<leftarrow> recordHTTPMetrics m r w start attrs;
            done_ok }
        | (res, _) \<Rightarrow> go_return res) }) }"

section \<open>recovery.go\<close>

definition recovery_body :: string where
  "recovery_body = CHR ''{'' # quote_char # ''error'' @ quote_char # '': '' @ quote_char #
     ''Internal Server Error'' @ quote_char # ''}''"

definition RecoveryMiddleware :: "logger \<Rightarrow> handler \<Rightarrow> handler" where
  "RecoveryMiddleware l nxt r = do {
     res \<leftarrow> nxt r;
     (case res of
        Panics p \<Rightarrow> do {
          _ \<leftarrow> log_ctx (LoggerFromContext r) LError ''Panic recovered''
             [(''panic'', AStr p), (''method'', AStr (r_Method r)), (''path'', AStr (r_Path r))];
          _ \<leftarrow> rw_WriteHeader 500;
          _ \<leftarrow> rw_Write recovery_body;
          done_ok }
      | _ \<Rightarrow> go_return res) }"

section \<open>slow\_request.go\<close>

definition SlowRequestMiddleware :: "logger \<Rightarrow> duration \<Rightarrow> handler \<Rightarrow> handler" where
  "SlowRequestMiddleware l threshold nxt r = do {
     start \<leftarrow> in_world time_Now;
     web_then (nxt r) (\<lambda>_. do {
       d \<leftarrow> in_world (time_Since start);
       _ \<leftarrow> go_if (d > threshold) (log_ctx (LoggerFromContext r) LWarn ''Slow request detected''
              [(''duration'', AInt d), (''threshold'', AInt threshold)]);
       done_ok }) }"

section \<open>tracing.go\<close>

text \<open>http.StatusText for the codes from 400 on, which is where it is used.\<close>

definition status_texts :: "(int \<times> string) list" where
  "status_texts = [
    (400, ''Bad Request''), (401, ''Unauthorized''), (402, ''Payment Required''),
    (403, ''Forbidden''), (404, ''Not Found''), (405, ''Method Not Allowed''),
    (406, ''Not Acceptable''), (407, ''Proxy Authentication Required''), (408, ''Request Timeout''),
    (409, ''Conflict''), (410, ''Gone''), (411, ''Length Required''), (412, ''Precondition Failed''),
    (413, ''Request Entity Too Large''), (414, ''Request URI Too Long''),
    (415, ''Unsupported Media Type''), (416, ''Requested Range Not Satisfiable''),
    (417, ''Expectation Failed''), (418, ''I'm a teapot''), (421, ''Misdirected Request''),
    (422, ''Unprocessable Entity''), (423, ''Locked''), (424, ''Failed Dependency''),
    (425, ''Too Early''), (426, ''Upgrade Required''), (428, ''Precondition Required''),
    (429, ''Too Many Requests''), (431, ''Request Header Fields Too Large''),
    (451, ''Unavailable For Legal Reasons''), (500, ''Internal Server Error''),
    (501, ''Not Implemented''), (502, ''Bad Gateway''), (503, ''Service Unavailable''),
    (504, ''Gateway Timeout''), (505, ''HTTP Version Not Supported''),
    (506, ''Variant Also Negotiates''), (507, ''Insufficient Storage''), (508, ''Loop Detected''),
    (510, ''Not Extended''), (511, ''Network Authentication Required'')]"

definition StatusText :: "int \<Rightarrow> string" where
  "StatusText code = (case map_of status_texts code of None \<Rightarrow> [] | Some t \<Rightarrow> t)"

definition TracingMiddleware :: "handler \<Rightarrow> handler" where
  "TracingMiddleware nxt r = do {
     _ \<leftarrow> w_emit [SpanStart (r_Path r) [(''http.method'', AStr (r_Method r)), (''http.target'', AStr (r_Path r)),
           (''http.route'', AStr (r_Path r)), (''http.scheme'', AStr (r_Scheme r)),
           (''http.user_agent'', AStr (UserAgent r)), (''net.host.name'', AStr (r_Host r))]];
     defer_call (w_emit [SpanEnd (r_Path r)]) (do {
       rw \<leftarrow> with_writer (TracingWriter 200) (nxt r);
       (case rw of
          (Returns u, TracingWriter status) \<Rightarrow> do {
            _ \<leftarrow> w_emit [SpanAttrs (r_Path r) [(''http.status_code'', AInt status)]];
            _ \<leftarrow> go_if (status \<ge> 400) (w_emit [SpanStatus (r_Path r) CodeError (StatusText status)]);
            done_ok }
        | (res, _) \<Rightarrow> go_return res) }) }"

section \<open>The contract of a handler\<close>

text \<open>
  \<open>wrote s s' new\<close>: the calls \<open>new\<close> reached the connection, each through all the wrappers. A handler only
  reaches the connection this way, and never ends the process.
\<close>

definition wrote :: "srv \<Rightarrow> srv \<Rightarrow> rw_call list \<Rightarrow> bool" where
  "wrote s s' new \<longleftrightarrow> s_calls s' = s_calls s @ new \<and> s_accept s' = s_accept s \<and>
     s_writers s' = map (\<lambda>w. fold wrap_call new w) (s_writers s)"

lemma wrote_refl [simp]: "wrote s (s\<lparr>s_world := w\<rparr>) []" "wrote s s []"
  by (simp_all add: wrote_def)

lemma wrote_trans: "wrote s t a \<Longrightarrow> wrote t u b \<Longrightarrow> wrote s u (a @ b)"
  by (auto simp: wrote_def)

lemma wrote_through: "wrote s (through c s) [c]"
  by (simp add: wrote_def through_def)

lemma replied_wrote: "replied s s' new \<Longrightarrow> wrote s s' new"
  by (simp add: replied_def wrote_def)

lemma wrote_world [simp]: "wrote s (t\<lparr>s_world := w\<rparr>) new = wrote s t new"
  "wrote (s\<lparr>s_world := w\<rparr>) t new = wrote s t new"
  by (simp_all add: wrote_def)

locale http_handler =
  fixes serve :: handler
  assumes writes: "run_state (serve r) s = (res, s') \<Longrightarrow> \<exists>new. wrote s s' new"
    and no_exit: "run_state (serve r) s = (res, s') \<Longrightarrow> res \<noteq> Exits e"

lemma run_with_writer:
  assumes "run_state (with_writer w m) s = ((res, w'), s')"
    and "\<And>s s'. run_state m s = (res, s') \<Longrightarrow> \<exists>new. wrote s s' new"
  obtains new t where "run_state m (s\<lparr>s_writers := w # s_writers s\<rparr>) = (res, t)" "wrote s s' new"
    "w' = fold wrap_call new w" "s_world s' = s_world t"
proof -
  obtain t where t: "run_state m (s\<lparr>s_writers := w # s_writers s\<rparr>) = (res, t)"
    "s' = t\<lparr>s_writers := tl (s_writers t)\<rparr>" "w' = hd (s_writers t)"
    using assms(1) by (auto simp: with_writer_def split: prod.splits)
  obtain new where "wrote (s\<lparr>s_writers := w # s_writers s\<rparr>) t new" using assms(2) [OF t(1)] by blast
  then show ?thesis using t by (intro that [OF t(1), of new]) (auto simp: wrote_def)
qed

lemma fold_wrap_Metrics:
  "fold wrap_call new (MetricsWriter w) =
     MetricsWriter (fold (\<lambda>c w. case c of WriteHeader k \<Rightarrow> metrics_WriteHeader k w
       | Write b n \<Rightarrow> metrics_Write n w | SetHeader k v \<Rightarrow> w) new w)"
  by (induction new arbitrary: w) (auto split: rw_call.splits)

text \<open>The status that the wrappers of tracing.go and metrics.go hold: that of the last WriteHeader.\<close>

fun last_status :: "int \<Rightarrow> rw_call list \<Rightarrow> int" where
  "last_status st [] = st"
| "last_status st (WriteHeader c # cs) = last_status c cs"
| "last_status st (c # cs) = last_status st cs"

lemma fold_wrap_Tracing: "fold wrap_call new (TracingWriter st) = TracingWriter (last_status st new)"
  by (induction st new rule: last_status.induct) (auto simp: tracing_WriteHeader_def)

lemma fold_wrap_Chi: "fold wrap_call new (ChiWriter cs) = ChiWriter (cs @ new)"
proof (induction new arbitrary: cs)
  case (Cons c new)
  then show ?case by (cases c) auto
qed simp

lemma fold_wrap_status:
  "fold wrap_call new (MetricsWriter w) = MetricsWriter w' \<Longrightarrow> statusCode w' = last_status (statusCode w) new"
proof (induction new arbitrary: w)
  case (Cons c new)
  then show ?case
    by (cases c) (force simp: metrics_Write_def metrics_WriteHeader_def dest: Cons.IH)+
qed simp

lemma fold_wrap_Metrics_ex:
  "\<exists>w'. fold wrap_call new (MetricsWriter w) = MetricsWriter w' \<and> statusCode w' = last_status (statusCode w) new"
  using fold_wrap_status [of new w] fold_wrap_Metrics [of new w] by blast

lemma run_log_on [simp]:
  "run_state (log_on l lvl msg f) s =
     ((), s\<lparr>s_world := (s_world s)\<lparr>tel := tel (s_world s) @ [LogLine lvl msg (l @ f)]\<rparr>\<rparr>)"
  by (simp add: log_on_def)

lemma run_log_ctx:
  "run_state (log_ctx lo lvl msg f) s = ((), s\<lparr>s_world := (s_world s)\<lparr>tel := tel (s_world s) @
     (case lo of None \<Rightarrow> [] | Some l \<Rightarrow> [LogLine lvl msg (l @ f)])\<rparr>\<rparr>)"
  by (simp add: log_ctx_def split: option.splits)

lemma run_WriteErrorResponse:
  assumes "run_state (WriteErrorResponse e) s = (u, s')"
  shows "s_world s' = s_world s \<and> s_open_ctx s' = s_open_ctx s \<and> (\<exists>new. replied s s' new \<and>
    response_status new = StatusCode (api_error_of e) \<and> response_body new = Encode (error_body (api_error_of e)))"
  using assms by (auto simp: WriteErrorResponse_def rw_Encode_def replied_def through_def o_def Let_def)

lemma run_auth_refuse:
  assumes "run_state (auth_refuse l line f msg cause) s = (res, s')"
  shows "res = Returns () \<and> core (s_world s') = core (s_world s) \<and>
    (\<exists>new. replied s s' new \<and> response_status new = 401)"
proof -
  let ?t = "s\<lparr>s_world := (s_world s)\<lparr>tel := tel (s_world s) @ [LogLine LWarn line (l @ f)]\<rparr>\<rparr>"
  have t: "run_state (WriteErrorResponse (NewUnauthorizedError msg cause)) ?t = ((), s')" "res = Returns ()"
    using assms by (auto simp: auth_refuse_def split: prod.splits)
  from run_WriteErrorResponse [OF t(1)] obtain new where "s_world s' = s_world ?t" "replied ?t s' new"
    "response_status new = 401" by (auto simp: NewUnauthorizedError_def)
  then show ?thesis using t(2) by (auto simp: replied_def)
qed

lemma refuse_ends:
  "run_state (auth_refuse l line f msg cause) s = (res, s') \<Longrightarrow> (\<exists>new. wrote s s' new) \<and> (\<forall>e. res \<noteq> Exits e)"
  using run_auth_refuse replied_wrote by blast

text \<open>
  The token a request carries and the user it belongs to: AuthMiddleware either refuses a request or
  hands it on under that user.
\<close>

definition bearer_user :: "(string \<Rightarrow> string) \<Rightarrow> string \<Rightarrow> string \<Rightarrow> string option" where
  "bearer_user uni key authHeader =
    (let parts = SplitN2 authHeader (CHR '' '') in
     if length parts = 2 \<and> ToLower uni (parts ! 0) = ''bearer'' then
       (case DecryptToken (parts ! 1) key of Inl _ \<Rightarrow> None | Inr u \<Rightarrow> Some u)
     else None)"

lemma DecryptToken_empty: "\<exists>e. DecryptToken [] key = Inl e"
proof (cases "DecryptToken [] key")
  case (Inr u)
  then have "\<exists>n c. length n = 12 \<and> b64_decode [] = Some (n @ c)" unfolding DecryptToken_Inr by blast
  moreover have "b64_decode [] = Some []" using base64.dec_enc [of "[]"] by (simp add: b64_encode_def)
  ultimately show ?thesis by auto
qed simp

lemma AuthMiddleware_cases:
  assumes "MustGet cstate = Inr cfg"
  obtains (accept) u where "bearer_user uni (EncryptionKey cfg) (Header_Get r ''Authorization'') = Some u"
      "AuthMiddleware uni cstate l nxt r = nxt (r\<lparr>r_userID := Some u\<rparr>)"
  | (refuse) line f msg cause where "bearer_user uni (EncryptionKey cfg) (Header_Get r ''Authorization'') = None"
      "AuthMiddleware uni cstate l nxt r = auth_refuse l line f msg cause"
proof -
  let ?a = "Header_Get r ''Authorization''"
  let ?p = "SplitN2 ?a (CHR '' '')"
  have e: "SplitN2 [] (CHR '' '') = [[]]" by (simp add: SplitN2_def)
  consider "length ?p \<noteq> 2 \<or> ToLower uni (?p ! 0) \<noteq> ''bearer''"
    | "length ?p = 2" "ToLower uni (?p ! 0) = ''bearer''" by blast
  then show ?thesis
  proof cases
    case 1
    then show ?thesis using refuse by (cases "?a = []") (auto simp: AuthMiddleware_def bearer_user_def Let_def e)
  next
    case 2
    then have "?a \<noteq> []" using e by auto
    then show ?thesis using 2 assms accept refuse DecryptToken_empty [of "EncryptionKey cfg"]
      by (cases "?p ! 1 = []"; cases "DecryptToken (?p ! 1) (EncryptionKey cfg)")
        (auto simp: AuthMiddleware_def bearer_user_def Let_def)
  qed
qed

text \<open>The metrics of one request.\<close>

definition http_events :: "request \<Rightarrow> duration \<Rightarrow> int \<Rightarrow> int64 \<Rightarrow> tel_event list" where
  "http_events r d status n =
    (let as = metrics_attrs r @ [(''http.status_code'', AInt status)] in
     [MetricRecord HTTPRequestDuration (MSeconds d) as, MetricAdd HTTPRequestCount 1 as,
      MetricRecord HTTPRequestSize (MInt (if r_ContentLength r < 0 then 0 else r_ContentLength r)) as,
      MetricRecord HTTPResponseSize (MInt n) as])"

definition metrics_entry :: "Metrics option \<Rightarrow> request \<Rightarrow> srv \<Rightarrow> srv" where
  "metrics_entry m r s = s\<lparr>s_world := (s_world s)\<lparr>clock_calls := Suc (clock_calls (s_world s)),
      tel := tel (s_world s) @ (if m = None then [] else [MetricAdd HTTPActiveRequests 1 (metrics_attrs r)])\<rparr>\<rparr>"

lemma run_recordHTTPMetrics:
  "run_state (recordHTTPMetrics (Some m) r w start (metrics_attrs r)) s =
     ((), s\<lparr>s_world := (s_world s)\<lparr>clock_calls := Suc (clock_calls (s_world s)),
        tel := tel (s_world s) @ http_events r (clock (s_world s) (clock_calls (s_world s)) - start)
          (statusCode w) (bytesWritten w)\<rparr>\<rparr>)"
  "run_state (recordHTTPMetrics None r w start as) s = ((), s)"
  by (simp_all add: recordHTTPMetrics_def http_events_def Let_def)

context http_handler
begin

lemma ends:
  assumes "run_state (serve r) s = (res, s')"
  obtains (returned) "res = Returns ()" | (panicked) p where "res = Panics p"
  using no_exit [OF assms] by (cases res) auto

text \<open>The handler under a wrapper: its result, its calls, and the wrapper's final state.\<close>

lemma wrapped:
  assumes "run_state (with_writer w (serve r)) s = (rw, s')"
  obtains res new t where "rw = (res, fold wrap_call new w)" "wrote s s' new"
    "run_state (serve r) (s\<lparr>s_writers := w # s_writers s\<rparr>) = (res, t)" "s_world s' = s_world t"
proof -
  obtain res w' where rw: "rw = (res, w')" by (cases rw)
  show ?thesis
    by (rule run_with_writer [OF assms [unfolded rw] writes]) (auto intro: that simp: rw)
qed

lemma auth_handler: "http_handler (AuthMiddleware uni cstate l serve)"
proof
  fix r s res s'
  assume run: "run_state (AuthMiddleware uni cstate l serve r) s = (res, s')"
  have "(\<exists>new. wrote s s' new) \<and> (\<forall>e. res \<noteq> Exits e)"
  proof (cases "MustGet cstate")
    case (Inl p)
    have "AuthMiddleware uni cstate l serve r \<in>
        {auth_refuse l line f msg cause |line f msg cause. True} \<union> {go_return (Panics p)}"
      unfolding AuthMiddleware_def Let_def Inl sum.case by (simp split: if_split) blast
    then consider line f msg cause where "AuthMiddleware uni cstate l serve r = auth_refuse l line f msg cause"
      | "AuthMiddleware uni cstate l serve r = go_return (Panics p)" by blast
    then show ?thesis
    proof cases
      case 1
      then show ?thesis using run refuse_ends by simp
    next
      case 2
      then show ?thesis using run by (auto intro: exI [of _ "[]"])
    qed
  next
    case (Inr cfg)
    then show ?thesis
    proof (cases rule: AuthMiddleware_cases [of cstate cfg uni r l serve])
      case (accept u)
      then show ?thesis using run writes no_exit by metis
    next
      case refuse
      then show ?thesis using run refuse_ends by simp
    qed
  qed
  then show "\<exists>new. wrote s s' new" and "\<And>e. res \<noteq> Exits e" by auto
qed

lemma recovery_run:
  assumes "run_state (RecoveryMiddleware l serve r) s = (res, s')"
  obtains (returned) "res = Returns ()" "run_state (serve r) s = (Returns (), s')"
  | (recovered) p t n where "res = Returns ()" "run_state (serve r) s = (Panics p, t)"
      "wrote t s' [WriteHeader 500, Write recovery_body n]" "core (s_world s') = core (s_world t)"
      "tel (s_world s') = tel (s_world t) @ (case r_logger r of None \<Rightarrow> []
         | Some l \<Rightarrow> [LogLine LError ''Panic recovered'' (l @ [(''panic'', AStr p),
             (''method'', AStr (r_Method r)), (''path'', AStr (r_Path r))])])"
proof -
  obtain res0 t where t: "run_state (serve r) s = (res0, t)" by fastforce
  then show ?thesis
  proof (cases rule: ends)
    case returned
    then show ?thesis using assms t that(1) by (simp add: RecoveryMiddleware_def)
  next
    case (panicked p)
    then show ?thesis using assms t that(2) [OF _ t [unfolded panicked]]
      by (auto simp: RecoveryMiddleware_def run_log_ctx LoggerFromContext_def FromContext_def wrote_def o_def)
  qed
qed

lemma recovery_handler: "http_handler (RecoveryMiddleware l serve)"
proof
  fix r s res s'
  assume run: "run_state (RecoveryMiddleware l serve r) s = (res, s')"
  then have "(\<exists>new. wrote s s' new) \<and> res = Returns ()"
    by (cases rule: recovery_run) (auto dest: writes intro: wrote_trans)
  then show "\<exists>new. wrote s s' new" and "\<And>e. res \<noteq> Exits e" by auto
qed

lemma metrics_run:
  assumes "run_state (MetricsMiddleware m serve r) s = (res, s')"
  obtains t new d n where
    "run_state (serve r) ((metrics_entry m r s)\<lparr>s_writers :=
       MetricsWriter \<lparr>statusCode = 200, bytesWritten = 0\<rparr> # s_writers s\<rparr>) = (res, t)"
    "wrote s s' new" "core (s_world s') = core (s_world t)"
    "tel (s_world s') = tel (s_world t) @ (if m = None then []
       else http_events r d (if res = Returns () then last_status 200 new else 500) n @
         [MetricAdd HTTPActiveRequests (- 1) (metrics_attrs r)])"
proof -
  let ?w0 = "MetricsWriter \<lparr>statusCode = 200, bytesWritten = 0\<rparr>"
  obtain rw t1 where b: "run_state (with_writer ?w0 (serve r)) (metrics_entry m r s) = (rw, t1)" by fastforce
  obtain res0 new t where w: "rw = (res0, fold wrap_call new ?w0)" "wrote (metrics_entry m r s) t1 new"
    "run_state (serve r) ((metrics_entry m r s)\<lparr>s_writers := ?w0 # s_writers (metrics_entry m r s)\<rparr>) = (res0, t)"
    "s_world t1 = s_world t" by (rule wrapped [OF b])
  obtain mw where mw: "fold wrap_call new ?w0 = MetricsWriter mw" "statusCode mw = last_status 200 new"
    using fold_wrap_Metrics_ex [of new "\<lparr>statusCode = 200, bytesWritten = 0\<rparr>"] by auto
  let ?d = "clock (s_world t1) (clock_calls (s_world t1)) - clock (s_world s) (clock_calls (s_world s))"
  have e: "wrote (metrics_entry m r s) t1 new = wrote s t1 new"
    by (simp add: metrics_entry_def)
  from w(3) have "res = res0 \<and> wrote s s' new \<and> core (s_world s') = core (s_world t) \<and>
    tel (s_world s') = tel (s_world t) @ (if m = None then []
       else http_events r ?d (if res = Returns () then last_status 200 new else 500) (bytesWritten mw) @
         [MetricAdd HTTPActiveRequests (- 1) (metrics_attrs r)])"
    by (cases rule: ends; cases m)
      (use assms b [unfolded w(1) mw(1)] w(2,4) mw(2) e in
        \<open>auto simp: MetricsMiddleware_def metrics_entry_def Let_def run_recordHTTPMetrics\<close>)
  moreover have "s_writers (metrics_entry m r s) = s_writers s" by (simp add: metrics_entry_def)
  ultimately show ?thesis using that w(3) by metis
qed

lemma metrics_handler: "http_handler (MetricsMiddleware m serve)"
proof
  fix r s res s'
  assume run: "run_state (MetricsMiddleware m serve r) s = (res, s')"
  then show "\<exists>new. wrote s s' new" by (cases rule: metrics_run) auto
  from run show "res \<noteq> Exits e" for e by (cases rule: metrics_run) (auto dest: no_exit)
qed

lemma tracing_handler: "http_handler (TracingMiddleware serve)"
proof
  fix r s res s'
  assume run: "run_state (TracingMiddleware serve r) s = (res, s')"
  define t0 where "t0 = state_of (w_emit [SpanStart (r_Path r) [(''http.method'', AStr (r_Method r)),
     (''http.target'', AStr (r_Path r)), (''http.route'', AStr (r_Path r)), (''http.scheme'', AStr (r_Scheme r)),
     (''http.user_agent'', AStr (UserAgent r)), (''net.host.name'', AStr (r_Host r))]]) s"
  obtain rw t1 where b: "run_state (with_writer (TracingWriter 200) (serve r)) t0 = (rw, t1)" by fastforce
  obtain res0 new t where w: "rw = (res0, fold wrap_call new (TracingWriter 200))" "wrote t0 t1 new"
    "run_state (serve r) (t0\<lparr>s_writers := TracingWriter 200 # s_writers t0\<rparr>) = (res0, t)" by (rule wrapped [OF b])
  from w(3) have "wrote s s' new \<and> res = res0"
    by (cases rule: ends)
      (use run b [unfolded w(1) fold_wrap_Tracing] w(2) in
        \<open>auto simp: TracingMiddleware_def t0_def split: prod.splits if_splits\<close>)
  then show "\<exists>new. wrote s s' new" and "\<And>e. res \<noteq> Exits e" using no_exit [OF w(3)] by auto
qed

lemma slow_handler: "http_handler (SlowRequestMiddleware l threshold serve)"
proof
  fix r s res s'
  assume run: "run_state (SlowRequestMiddleware l threshold serve r) s = (res, s')"
  define t0 where "t0 = state_of (in_world time_Now) s"
  obtain res0 t where b: "run_state (serve r) t0 = (res0, t)" by fastforce
  obtain new where n: "wrote t0 t new" using writes [OF b] by blast
  from b have "wrote s s' new \<and> res = res0"
    by (cases rule: ends)
      (use run b n in \<open>auto simp: SlowRequestMiddleware_def web_then_def t0_def state_of_def run_log_ctx
          split: if_splits\<close>)
  then show "\<exists>new. wrote s s' new" and "\<And>e. res \<noteq> Exits e" using no_exit [OF b] by auto
qed

lemma header_first_handler:
  "run_state (do { _ \<leftarrow> rw_SetHeader k v; _ \<leftarrow> log_on l lvl msg f; serve r }) s = (res, s') \<Longrightarrow>
     (\<exists>new. wrote s s' (SetHeader k v # new)) \<and> res \<noteq> Exits e"
  using wrote_trans [OF wrote_through] by (fastforce dest: writes no_exit)

lemma logger_handler: "http_handler (LoggerMiddleware zone chi_Status chi_Bytes l serve)"
proof
  fix r s res s'
  assume run: "run_state (LoggerMiddleware zone chi_Status chi_Bytes l serve r) s = (res, s')"
  define t0 where "t0 = state_of (in_world time_Now) s"
  obtain q t1 where q: "run_state (if r_ReqID r = [] then in_world (generateRequestID zone) else go_return (r_ReqID r)) t0 = (q, t1)"
    by fastforce
  then obtain v where t1: "t1 = s\<lparr>s_world := v\<rparr>" by (auto simp: t0_def state_of_def split: if_splits prod.splits)
  let ?l = "logger_With l [(''request_id'', AStr q), (''method'', AStr (r_Method r)),
           (''path'', AStr (r_Path r)), (''remote_addr'', AStr (r_RemoteAddr r)),
           (''user_agent'', AStr (UserAgent r)), (''proto'', AStr (r_Proto r))]"
  define m where "m = do { _ \<leftarrow> rw_SetHeader ''X-Request-Id'' q; _ \<leftarrow> log_on ?l LInfo ''Incoming request'' [];
     serve (WithLogger r ?l) }"
  have m: "(\<exists>new. wrote v v' new) \<and> res \<noteq> Exits e" if "run_state m v = (res, v')" for v v' res e
    using header_first_handler that unfolding m_def by blast
  obtain rw t2 where "run_state (with_writer (ChiWriter []) m) t1 = (rw, t2)" by fastforce
  then obtain res0 w where b: "run_state (with_writer (ChiWriter []) m) t1 = ((res0, w), t2)" by (cases rw) simp
  obtain new t where w: "w = ChiWriter new" "wrote t1 t2 new"
    "run_state m (t1\<lparr>s_writers := ChiWriter [] # s_writers t1\<rparr>) = (res0, t)"
    by (rule run_with_writer [OF b]) (use m fold_wrap_Chi [of _ "[]"] in auto)
  have x: "res0 \<noteq> Exits e" for e using m [OF w(3)] by blast
  have "wrote s t2 new" using w(2) by (simp add: t1)
  then have "wrote s s' new \<and> res = res0"
    using run q b [unfolded m_def w(1)] x
    by (cases res0) (auto simp: LoggerMiddleware_def t0_def state_of_def Let_def)
  then show "\<exists>new. wrote s s' new" and "\<And>e. res \<noteq> Exits e" using x by auto
qed

end

section \<open>Who may change something\<close>

text \<open>
  \<open>quiet A h\<close>: the handler leaves the tables, the streams and the objects alone on requests whose
  Authorization header satisfies \<open>A\<close>. No middleware of the package adds an effect of its own.
\<close>

abbreviation stored :: "srv \<Rightarrow> database \<times> (string \<Rightarrow> stream_entry list) \<times> object_store" where
  "stored \<equiv> durable \<circ> s_world"

definition quiet :: "(string \<Rightarrow> bool) \<Rightarrow> handler \<Rightarrow> bool" where
  "quiet A h \<longleftrightarrow> (\<forall>r. A (Header_Get r ''Authorization'') \<longrightarrow> keeps stored (h r))"

lemma quietD: "quiet A h \<Longrightarrow> A (Header_Get r ''Authorization'') \<Longrightarrow> keeps stored (h r)"
  by (simp add: quiet_def)

lemma keeps_world_calls [intro!, go_frames]:
  "keeps durable (emit es)" "keeps durable time_Now" "keeps durable (time_Since t)" "keeps durable (rand_IntN n)"
  by (simp_all add: keeps_def state_of_def rand_IntN_def)

lemma keeps_randomString [intro!, go_frames]: "keeps durable (randomString n)"
  by (induction n) auto

lemma keeps_generateRequestID [intro!, go_frames]: "keeps durable (generateRequestID zone)"
  unfolding generateRequestID_def by auto

lemma keeps_stored [intro!, go_frames]:
  "keeps stored (w_emit es)" "keeps stored done_ok" "keeps stored (log_on l lvl msg f)"
  "keeps stored (rw_SetHeader k v)" "keeps stored (rw_WriteHeader c)" "keeps stored (rw_Write b)"
  "keeps stored (log_ctx lo lvl msg f)" "keeps stored (WriteErrorResponse e)"
  "keeps stored (http_Error msg c)" "keeps stored (RespondJSON j c)"
proof -
  show w: "keeps stored (rw_SetHeader k v)" "keeps stored (rw_WriteHeader c)" "keeps stored (rw_Write b)"
    for k v c b by (simp_all add: keeps_def state_of_def)
  show "keeps stored (w_emit es)" "keeps stored done_ok" "keeps stored (log_on l lvl msg f)"
    "keeps stored (log_ctx lo lvl msg f)"
    by (simp_all add: keeps_def state_of_def run_log_ctx)
  show "keeps stored (WriteErrorResponse e)" "keeps stored (http_Error msg c)" "keeps stored (RespondJSON j c)"
    unfolding WriteErrorResponse_def http_Error_def RespondJSON_def rw_Encode_def Let_def using w by auto
qed

lemma keeps_auth_refuse [intro!, go_frames]: "keeps stored (auth_refuse l line f msg cause)"
  unfolding auth_refuse_def by auto

lemma keeps_with_writer [intro!, go_frames]: "keeps stored m \<Longrightarrow> keeps stored (with_writer w m)"
  unfolding with_writer_def by (intro keeps_bind keeps_basic) (auto simp: keeps_def)

lemma keeps_case_go_run [intro!, go_frames]:
  "(\<And>a. x = Returns a \<Longrightarrow> keeps v (f a)) \<Longrightarrow> (\<And>p. x = Panics p \<Longrightarrow> keeps v (g p)) \<Longrightarrow>
   (\<And>e. x = Exits e \<Longrightarrow> keeps v (k e)) \<Longrightarrow>
   keeps v (case x of Returns a \<Rightarrow> f a | Panics p \<Rightarrow> g p | Exits e \<Rightarrow> k e)"
  by (cases x) auto

lemma keeps_case_writer [intro!, go_frames]:
  "(\<And>a. keeps v (f a)) \<Longrightarrow> (\<And>p. keeps v (g p)) \<Longrightarrow> (\<And>e. keeps v (k e)) \<Longrightarrow>
   keeps v (case x of MetricsWriter a \<Rightarrow> f a | TracingWriter p \<Rightarrow> g p | ChiWriter e \<Rightarrow> k e)"
  by (cases x) auto

lemma keeps_web_then [intro!, go_frames]:
  "keeps v m \<Longrightarrow> (\<And>a. keeps v (f a)) \<Longrightarrow> keeps v (web_then m f)"
  unfolding web_then_def by auto

lemma keeps_recordHTTPMetrics [intro!, go_frames]: "keeps stored (recordHTTPMetrics m r w start as)"
  unfolding recordHTTPMetrics_def Let_def by auto

lemma quiet_middleware [intro]:
  assumes "quiet A nxt"
  shows "quiet A (RecoveryMiddleware l nxt)" "quiet A (MetricsMiddleware m nxt)" "quiet A (TracingMiddleware nxt)"
    "quiet A (SlowRequestMiddleware l threshold nxt)" "quiet A (LoggerMiddleware zone chi_Status chi_Bytes l nxt)"
proof -
  have k: "keeps stored (nxt r)" if "A (Header_Get r ''Authorization'')" for r using assms that by (rule quietD)
  have w: "keeps stored (nxt (WithLogger r l))" if "A (Header_Get r ''Authorization'')" for r l
    using k that by (simp add: WithLogger_def Header_Get_def)
  show "quiet A (RecoveryMiddleware l nxt)" "quiet A (MetricsMiddleware m nxt)" "quiet A (TracingMiddleware nxt)"
    "quiet A (SlowRequestMiddleware l threshold nxt)" "quiet A (LoggerMiddleware zone chi_Status chi_Bytes l nxt)"
    using k w unfolding quiet_def RecoveryMiddleware_def MetricsMiddleware_def TracingMiddleware_def
      SlowRequestMiddleware_def LoggerMiddleware_def Let_def by auto
qed

lemma quiet_auth:
  assumes "MustGet cstate = Inr cfg"
  shows "quiet (\<lambda>a. bearer_user uni (EncryptionKey cfg) a = None) (AuthMiddleware uni cstate l nxt)"
  unfolding quiet_def
proof (intro allI impI)
  fix r
  assume none: "bearer_user uni (EncryptionKey cfg) (Header_Get r ''Authorization'') = None"
  from assms show "keeps stored (AuthMiddleware uni cstate l nxt r)"
    by (cases rule: AuthMiddleware_cases [of cstate cfg uni r l nxt]) (auto simp: none)
qed

section \<open>Handlers meet the contract\<close>

definition writing :: "'a web \<Rightarrow> bool" where
  "writing m \<longleftrightarrow> (\<forall>s. \<exists>new. wrote s (state_of m s) new)"

lemma writing_bind [intro!]: "writing m \<Longrightarrow> (\<And>a. writing (f a)) \<Longrightarrow> writing (State_Monad.bind m f)"
  unfolding writing_def by (simp, meson wrote_trans)

lemma writing_basic [intro!, simp]:
  "writing (go_return a)" "writing skip" "writing done_ok" "writing (in_world n)" "writing (w_emit es)"
  "writing (rw_SetHeader k v)" "writing (rw_WriteHeader c)" "writing (rw_Write b)"
  "writing (GetTimeoutContext i)" "writing cancel_context" "writing Body_Close"
proof -
  show "writing (rw_SetHeader k v)" "writing (rw_WriteHeader c)" "writing (rw_Write b)"
    using wrote_through by (auto simp: writing_def state_of_def)
  have "wrote s (s\<lparr>s_open_ctx := x\<rparr>) []" "wrote s (s\<lparr>s_body_closed := b'\<rparr>) []" for s x b'
    by (simp_all add: wrote_def)
  then show "writing (GetTimeoutContext i)" "writing cancel_context" "writing Body_Close"
    by (simp_all add: writing_def GetTimeoutContext_def cancel_context_def Body_Close_def) blast+
qed (auto simp: writing_def state_of_def split: prod.splits intro: exI [of _ "[]"])

lemma writing_control [intro!]:
  "writing m \<Longrightarrow> writing (go_if b m)"
  "writing c \<Longrightarrow> writing n \<Longrightarrow> writing (defer_call c n)"
  "(\<And>a. x = Inl a \<Longrightarrow> writing (f a)) \<Longrightarrow> (\<And>b. x = Inr b \<Longrightarrow> writing (g b)) \<Longrightarrow>
     writing (case x of Inl a \<Rightarrow> f a | Inr b \<Rightarrow> g b)"
  "(o' = None \<Longrightarrow> writing m) \<Longrightarrow> (\<And>a. o' = Some a \<Longrightarrow> writing (h a)) \<Longrightarrow>
     writing (case o' of None \<Rightarrow> m | Some a \<Rightarrow> h a)"
proof -
  show "writing m \<Longrightarrow> writing (go_if b m)" by (auto simp: go_if_def)
  show "writing c \<Longrightarrow> writing n \<Longrightarrow> writing (defer_call c n)" for n :: "'f web" unfolding defer_call_def
    by (auto simp flip: go_return_def)
qed (auto split: sum.splits option.splits)

lemma writing_RespondJSON [intro!]: "writing (RespondJSON j c)"
  unfolding RespondJSON_def rw_Encode_def by auto

lemma writing_web_then [intro!]:
  "writing m \<Longrightarrow> (\<And>a. writing (f a)) \<Longrightarrow> writing (web_then m f)"
  unfolding web_then_def by (auto split: go_run.splits)

text \<open>No part of a handler ends the process.\<close>

definition no_exits :: "('a go_run) web \<Rightarrow> bool" where
  "no_exits m \<longleftrightarrow> (\<forall>s e. result_of m s \<noteq> Exits e)"

lemma no_exits_intros [intro!, simp]:
  "no_exits done_ok" "no_exits (go_return (Panics p))" "no_exits (go_return (Returns a))"
  "(\<And>a. no_exits (f a)) \<Longrightarrow> no_exits (State_Monad.bind n f)" "no_exits k \<Longrightarrow> no_exits (defer_call c k)"
  by (simp_all add: no_exits_def done_ok_def)

lemma http_handlerI: "(\<And>r. writing (h r)) \<Longrightarrow> (\<And>r. no_exits (h r)) \<Longrightarrow> http_handler h"
  by unfold_locales (simp_all add: writing_def no_exits_def state_of_def result_of_def, metis snd_conv, metis fst_conv)

lemma no_exits_create_refuse [intro!, simp]: "no_exits (create_refuse status msg)"
  by (auto simp: create_refuse_def)

lemma no_exits_web_then [simp]:
  "no_exits (web_then (go_return (Panics p)) f)"
  "no_exits (web_then (go_return (Returns a)) g) = no_exits (g a)"
  by (simp_all add: web_then_def no_exits_def)

lemma no_exits_checked [intro!]: "no_exits (create_checked cstate h req)"
  by (cases "MustGet cstate") (simp_all add: create_checked_def maxAssetSize_def)

interpretation create_http: http_handler "CreateAsset_handler cstate h" for cstate h
proof (rule http_handlerI)
  fix r
  have "writing (create_refuse status msg)" for status msg unfolding create_refuse_def by auto
  then have "writing (create_parsed cstate h r)"
    unfolding create_parsed_def create_checked_def create_serve_def create_failed_def
    by (auto split: sum.splits option.splits)
  then show "writing (CreateAsset_handler cstate h r)" unfolding CreateAsset_handler_def by auto
  have "no_exits (create_parsed cstate h r)" unfolding create_parsed_def by (auto split: sum.splits)
  then show "no_exits (CreateAsset_handler cstate h r)" unfolding CreateAsset_handler_def by auto
qed

interpretation mark_http: http_handler "MarkAssetUploaded_handler Parse h" for Parse h
proof (rule http_handlerI)
  fix r
  have "writing (mark_checked Parse h r)"
    unfolding mark_checked_def mark_serve_def Let_def by (auto split: sum.splits)
  then show "writing (MarkAssetUploaded_handler Parse h r)" unfolding MarkAssetUploaded_handler_def by auto
  show "no_exits (MarkAssetUploaded_handler Parse h r)" unfolding MarkAssetUploaded_handler_def by auto
qed

section \<open>Properties\<close>

lemma bearer_user_iff:
  "bearer_user uni key h = Some u \<longleftrightarrow> (\<exists>scheme token. h = scheme @ CHR '' '' # token \<and>
     CHR '' '' \<notin> set scheme \<and> ToLower uni scheme = ''bearer'' \<and> DecryptToken token key = Inr u)"
proof
  assume b: "bearer_user uni key h = Some u"
  then obtain a c where "SplitN2 h (CHR '' '') = [a, c]" "h = a @ CHR '' '' # c" "CHR '' '' \<notin> set a"
    using SplitN2_cases [of h "CHR '' ''"] by (auto simp: bearer_user_def Let_def)
  then show "\<exists>scheme token. h = scheme @ CHR '' '' # token \<and> CHR '' '' \<notin> set scheme \<and>
      ToLower uni scheme = ''bearer'' \<and> DecryptToken token key = Inr u" using b
    by (intro exI [of _ a] exI [of _ c]) (auto simp: bearer_user_def Let_def split: if_splits sum.splits)
next
  assume "\<exists>scheme token. h = scheme @ CHR '' '' # token \<and> CHR '' '' \<notin> set scheme \<and>
      ToLower uni scheme = ''bearer'' \<and> DecryptToken token key = Inr u"
  then show "bearer_user uni key h = Some u" by (auto simp: bearer_user_def Let_def SplitN2_append)
qed

text \<open>C25. AuthMiddleware is a gate. A request reaches the handler behind it exactly when its
  Authorization header is the word bearer, a space and a token that DecryptToken accepts under the
  configured key; the handler then runs with the user id of this token in its context. Every other
  request is answered with 401 and nothing is changed.\<close>

theorem AuthMiddleware_gate:
  assumes "MustGet cstate = Inr cfg" "run_state (AuthMiddleware uni cstate l nxt r) s = (res, s')"
  shows "(\<exists>scheme token u. Header_Get r ''Authorization'' = scheme @ '' '' @ token \<and> CHR '' '' \<notin> set scheme \<and>
        ToLower uni scheme = ''bearer'' \<and> DecryptToken token (EncryptionKey cfg) = Inr u \<and>
        GetUserID (r\<lparr>r_userID := Some u\<rparr>) = (u, True) \<and>
        run_state (nxt (r\<lparr>r_userID := Some u\<rparr>)) s = (res, s'))
    \<or> (\<nexists>scheme token u. Header_Get r ''Authorization'' = scheme @ '' '' @ token \<and> CHR '' '' \<notin> set scheme \<and>
        ToLower uni scheme = ''bearer'' \<and> DecryptToken token (EncryptionKey cfg) = Inr u) \<and>
      res = Returns () \<and> durable (s_world s') = durable (s_world s) \<and>
      (\<exists>new. s_calls s' = s_calls s @ new \<and> response_status new = 401)"
  using assms(1)
proof (cases rule: AuthMiddleware_cases [of cstate cfg uni r l nxt])
  case (accept u)
  then show ?thesis using assms(2) bearer_user_iff [of uni "EncryptionKey cfg" "Header_Get r ''Authorization''" u]
    by (auto simp: GetUserID_def)
next
  case refuse
  from run_auth_refuse [OF assms(2) [unfolded refuse(2)]]
  have "res = Returns ()" "durable (s_world s') = durable (s_world s)"
    "\<exists>new. s_calls s' = s_calls s @ new \<and> response_status new = 401"
    by (auto simp: replied_def dest: core_eqD(8))
  moreover have "bearer_user uni (EncryptionKey cfg) (Header_Get r ''Authorization'') \<noteq> Some u" for u
    using refuse(1) by simp
  ultimately show ?thesis unfolding bearer_user_iff append.simps by blast
qed

definition key_cfg :: EnvConfig where
  "key_cfg = sample_cfg\<lparr>EncryptionKey := sample_key\<rparr>"

definition sample_token_text :: string where
  "sample_token_text = token_of (GenerateToken (Inr sample_nonce) ''user-7'' sample_key)"

definition signed_http :: request where
  "signed_http = sample_http\<lparr>r_Header := [(''Authorization'', ''Bearer '' @ sample_token_text)]\<rparr>"

definition echo_user :: handler where
  "echo_user r = do { _ \<leftarrow> rw_Write (fst (GetUserID r)); done_ok }"

lemma ToLower_Bearer: "ToLower id ''Bearer'' = ''bearer''"
  by code_simp

lemma sample_decrypts: "DecryptToken sample_token_text sample_key = Inr ''user-7''"
proof -
  obtain c where c: "gcm_seal (string_bytes sample_key) (string_bytes sample_nonce) (string_bytes ''user-7'') = Some c"
    by (simp add: gcm_seal_def gcm_limit_def Let_def)
  then have t: "sample_token_text = b64_encode (sample_nonce @ bytes_string c)"
    by (simp add: sample_token_text_def token_of_def GenerateToken_def parseKey_def sample_key_def)
  have "b64_decode sample_token_text = Some (sample_nonce @ bytes_string c)" unfolding t by (rule base64.dec_enc)
  then show ?thesis unfolding DecryptToken_Inr using c
    by (intro conjI exI [of _ sample_nonce] exI [of _ "bytes_string c"])
      (simp_all add: sample_key_def sample_nonce_def)
qed

lemma signed_user: "bearer_user id sample_key (Header_Get signed_http ''Authorization'') = Some ''user-7''"
  unfolding bearer_user_iff
  by (intro exI [of _ "''Bearer''"] exI [of _ sample_token_text])
    (simp add: signed_http_def Header_Get_def ToLower_Bearer sample_decrypts)

theorem AuthMiddleware_gate_witness:
  "response_status (s_calls (snd (run_state
     (AuthMiddleware id (Init key_cfg config_start) [] echo_user sample_http) (sample_srv idle_world)))) = 401 \<and>
   response_body (s_calls (snd (run_state
     (AuthMiddleware id (Init key_cfg config_start) [] echo_user signed_http) (sample_srv idle_world)))) = ''user-7''"
proof -
  let ?run = "\<lambda>r. run_state (AuthMiddleware id (Init key_cfg config_start) [] echo_user r) (sample_srv idle_world)"
  have k: "EncryptionKey key_cfg = sample_key" by (simp add: key_cfg_def)
  have e: "Header_Get sample_http ''Authorization'' = []" by (simp add: sample_http_def Header_Get_def)
  have z: "s_calls (sample_srv idle_world) = []" by (simp add: sample_srv_def)
  have 1: "response_status (s_calls (snd (?run sample_http))) = 401"
    using AuthMiddleware_gate [where uni = id and l = "[]" and nxt = echo_user and r = sample_http and
        s = "sample_srv idle_world", OF sample_MustGet [of key_cfg] prod.collapse [symmetric]] e z by auto
  have ex: "\<exists>scheme token u. Header_Get signed_http ''Authorization'' = scheme @ '' '' @ token \<and>
      CHR '' '' \<notin> set scheme \<and> ToLower id scheme = ''bearer'' \<and> DecryptToken token (EncryptionKey key_cfg) = Inr u"
    using signed_user unfolding bearer_user_iff k append.simps by blast
  from AuthMiddleware_gate [where uni = id and l = "[]" and nxt = echo_user and r = signed_http and
      s = "sample_srv idle_world", OF sample_MustGet [of key_cfg] prod.collapse [symmetric]] ex
  obtain scheme token u where u: "Header_Get signed_http ''Authorization'' = scheme @ '' '' @ token"
    "CHR '' '' \<notin> set scheme" "ToLower id scheme = ''bearer''" "DecryptToken token (EncryptionKey key_cfg) = Inr u"
    and r: "run_state (echo_user (signed_http\<lparr>r_userID := Some u\<rparr>)) (sample_srv idle_world) =
      (fst (?run signed_http), snd (?run signed_http))" by blast
  have "bearer_user id sample_key (Header_Get signed_http ''Authorization'') = Some u"
    unfolding bearer_user_iff using u k by auto
  then have "u = ''user-7''" using signed_user by simp
  with r have run: "?run signed_http =
      run_state (echo_user (signed_http\<lparr>r_userID := Some ''user-7''\<rparr>)) (sample_srv idle_world)" by simp
  have "response_body (s_calls (snd (?run signed_http))) = ''user-7''"
    unfolding run by (simp add: echo_user_def GetUserID_def z)
  then show ?thesis using 1 by simp
qed

text \<open>C31. RecoveryMiddleware contains every panic. Whatever the handler behind it does, the middleware
  returns; a handler that returns is not interfered with; after a panic the durable state is that of the
  handler, and a client that has not been answered yet receives the status 500. A panic of a request
  whose context carries no logger leaves no line in any log.\<close>

theorem RecoveryMiddleware_recovers:
  assumes "http_handler nxt" "run_state (nxt r) s = (res0, t)"
    and "run_state (RecoveryMiddleware l nxt r) s = (res, s')"
  shows "res = Returns () \<and> (res0 = Returns () \<longrightarrow> s' = t) \<and> durable (s_world s') = durable (s_world t) \<and>
    (\<forall>p. res0 = Panics p \<longrightarrow> (s_calls t = [] \<longrightarrow> response_status (s_calls s') = 500 \<and>
       response_body (s_calls s') = recovery_body) \<and>
       (r_logger r = None \<longrightarrow> tel (s_world s') = tel (s_world t)))"
  using assms(3)
  by (cases rule: http_handler.recovery_run [OF assms(1)])
    (use assms(2) in \<open>auto simp: wrote_def dest: core_eqD(8)\<close>)

definition panicking :: handler where
  "panicking r = go_return (Panics ''boom'')"

interpretation panicking: http_handler panicking
  by (rule http_handlerI) (simp_all add: panicking_def)

theorem RecoveryMiddleware_recovers_witness:
  "response_status (s_calls (snd (run_state (RecoveryMiddleware [] panicking sample_http) (sample_srv idle_world)))) = 500"
  using RecoveryMiddleware_recovers [OF panicking.http_handler_axioms _ prod.collapse [symmetric],
      of sample_http "sample_srv idle_world" "Panics ''boom''" "sample_srv idle_world" "[]"]
  by (simp add: panicking_def sample_srv_def)

text \<open>What a counter or gauge has been given in total.\<close>

fun added :: "metric_field \<Rightarrow> tel_event list \<Rightarrow> int" where
  "added f [] = 0"
| "added f (MetricAdd g n as # es) = (if g = f then n else 0) + added f es"
| "added f (e # es) = added f es"

lemma added_append [simp]: "added f (xs @ ys) = added f xs + added f ys"
  by (induction f xs rule: added.induct) auto

definition traffic :: "srv \<Rightarrow> int \<times> int" where
  "traffic s = (added HTTPActiveRequests (tel (s_world s)), added HTTPRequestCount (tel (s_world s)))"

text \<open>C32. MetricsMiddleware keeps its books whether the handler returns or panics: the gauge of active
  requests is back at its value, the request is counted exactly once, under the status the handler set
  last or under 500 after a panic, and a panic goes on with the same value. (The handler itself leaves
  the two instruments alone.)\<close>

theorem MetricsMiddleware_balanced:
  assumes "http_handler nxt" "\<And>r. keeps traffic (nxt r)" "m \<noteq> None"
    and "run_state (MetricsMiddleware m nxt r) s = (res, s')"
  shows "traffic s' = (fst (traffic s), snd (traffic s) + 1) \<and>
    (\<exists>new t t'. s_calls s' = s_calls s @ new \<and> run_state (nxt r) t = (res, t') \<and>
       durable (s_world t) = durable (s_world s) \<and> durable (s_world s') = durable (s_world t') \<and>
       MetricAdd HTTPRequestCount 1 (metrics_attrs r @ [(''http.status_code'',
         AInt (if res = Returns () then last_status 200 new else 500))]) \<in> set (tel (s_world s')))"
proof (rule http_handler.metrics_run [OF assms(1,4)], goal_cases)
  case (1 t' new d n)
  let ?t = "(metrics_entry m r s)\<lparr>s_writers :=
       MetricsWriter \<lparr>statusCode = 200, bytesWritten = 0\<rparr> # s_writers s\<rparr>"
  have "traffic t' = traffic ?t" using keeps_run [OF assms(2) 1(1)] .
  moreover have "traffic ?t = (fst (traffic s) + 1, snd (traffic s))"
    using assms(3) by (simp add: traffic_def metrics_entry_def)
  ultimately have "traffic s' = (fst (traffic s), snd (traffic s) + 1)"
    using 1(4) assms(3) by (simp add: traffic_def http_events_def Let_def)
  moreover have "durable (s_world ?t) = durable (s_world s)" by (simp add: metrics_entry_def)
  ultimately show ?thesis using 1 assms(3) core_eqD(8) [OF 1(3)]
    by (intro conjI exI [of _ new] exI [of _ ?t] exI [of _ t']) (simp_all add: wrote_def http_events_def Let_def)
qed

theorem MetricsMiddleware_balanced_witness:
  "traffic (snd (run_state (MetricsMiddleware (Some Map.empty) panicking sample_http) (sample_srv idle_world))) = (0, 1)"
proof -
  have "keeps traffic (panicking r)" for r by (simp add: panicking_def)
  from MetricsMiddleware_balanced [OF panicking.http_handler_axioms this _ prod.collapse [symmetric],
      of "Some Map.empty" sample_http "sample_srv idle_world"]
  show ?thesis by (simp add: traffic_def sample_srv_def idle_world_def)
qed

end
