(* ===== verification/App_Logger.thy ===== *)
theory App_Logger
  imports World Go_Json Go_Time "HOL-Library.Multiset"
begin

text \<open>
  The package pkg/logger: configuration and levels (config.go), construction (logger.go), the
  console core (prettycore.go), and the helpers of helpers.go, sync.go and trace.go. Loggers and
  contexts (context.go) are in the theory of the middlewares.

  zap is not code of the repository. Parameters: \<open>UnmarshalText\<close>, zap's parser of level names;
  \<open>enabled\<close>, whether a level lets a message through; \<open>AddTo\<close>, what a field does to a map encoder;
  \<open>NewIncreaseLevelCore\<close>. A range over a Go map visits its keys in any order: the order is an
  argument.
\<close>

section \<open>config.go\<close>

text \<open>A level is zapcore's int8: debug is -1, info 0, warn 1, error 2.\<close>

type_synonym Level = int

abbreviation DebugLevel :: Level where "DebugLevel \<equiv> - 1"
abbreviation InfoLevel :: Level where "InfoLevel \<equiv> 0"
abbreviation WarnLevel :: Level where "WarnLevel \<equiv> 1"
abbreviation ErrorLevel :: Level where "ErrorLevel \<equiv> 2"

record LoggerConfig =
  lc_ServiceName :: string
  lc_Environment :: string
  lc_Level :: Level
  lc_EnableOTel :: bool

definition ParseLevel :: "(string \<Rightarrow> go_error + Level) \<Rightarrow> string \<Rightarrow> Level" where
  "ParseLevel UnmarshalText s = (case UnmarshalText s of Inl err \<Rightarrow> InfoLevel | Inr l \<Rightarrow> l)"

section \<open>prettycore.go\<close>

record prettyCore =
  pc_Level :: Level
  pc_fields :: attrs

definition pretty_With :: "prettyCore \<Rightarrow> attrs \<Rightarrow> prettyCore" where
  "pretty_With c fs = \<lparr>pc_Level = pc_Level c, pc_fields = pc_fields c @ fs\<rparr>"

record log_entry =
  le_Level :: Level
  le_Time :: int
  le_Caller :: string
  le_Message :: string

text \<open>A checked entry is the list of cores that will write the entry.\<close>

definition pretty_Check ::
  "(Level \<Rightarrow> Level \<Rightarrow> bool) \<Rightarrow> prettyCore \<Rightarrow> log_entry \<Rightarrow> prettyCore list \<Rightarrow> prettyCore list" where
  "pretty_Check enabled c entry ce = (if enabled (pc_Level c) (le_Level entry) then ce @ [c] else ce)"

definition esc :: "string \<Rightarrow> string" where
  "esc code = CHR 0x1B # CHR ''['' # code @ ''m''"

definition grey :: "string \<Rightarrow> string" where "grey s = esc ''90'' @ s @ esc ''0''"
definition green :: "string \<Rightarrow> string" where "green s = esc ''32'' @ s @ esc ''0''"
definition yellow :: "string \<Rightarrow> string" where "yellow s = esc ''33'' @ s @ esc ''0''"
definition red :: "string \<Rightarrow> string" where "red s = esc ''31'' @ s @ esc ''0''"
definition blue :: "string \<Rightarrow> string" where "blue s = esc ''34'' @ s @ esc ''0''"

definition colorLevel :: "Level \<Rightarrow> string" where
  "colorLevel l =
    (if l = DebugLevel then blue ''DEBUG''
     else if l = InfoLevel then green ''INFO ''
     else if l = WarnLevel then yellow ''WARN ''
     else if l = ErrorLevel then red ''ERROR''
     else ''?????'')"

text \<open>The verb \<open>%-*s\<close> pads to a number of runes, an invalid byte counting as one; the verb v prints a
  string or an integer.\<close>

function rune_count :: "string \<Rightarrow> nat" where
  "rune_count [] = 0"
| "rune_count (c # s) = Suc (rune_count (drop (max 1 (utf8_multi (c # s))) (c # s)))"
  by pat_completeness auto
termination
  by (relation "measure length") auto

definition pad_right :: "nat \<Rightarrow> string \<Rightarrow> string" where
  "pad_right n s = s @ replicate (n - rune_count s) (CHR '' '')"

fun show_attr :: "attr \<Rightarrow> string" where
  "show_attr (AStr s) = s"
| "show_attr (AInt i) = Itoa i"

definition Format_clock :: "int \<Rightarrow> string" where
  "Format_clock t = (let sod = t div 1000000000 mod 86400 in
     padInt 2 (sod div 3600) @ '':'' @ padInt 2 (sod div 60 mod 60) @ '':'' @ padInt 2 (sod mod 60))"

text \<open>The fields of a line as the map encoder holds them, and the line itself; \<open>order\<close> lists the keys in
  the order the range statement visits them.\<close>

definition encode_fields ::
  "(string \<times> attr \<Rightarrow> (string \<rightharpoonup> attr) \<Rightarrow> (string \<rightharpoonup> attr)) \<Rightarrow> attrs \<Rightarrow> string \<rightharpoonup> attr" where
  "encode_fields AddTo fs = fold AddTo fs Map.empty"

definition max_len :: "string list \<Rightarrow> nat" where
  "max_len ks = fold (\<lambda>k n. if length k > n then length k else n) ks 0"

definition field_line :: "nat \<Rightarrow> (string \<rightharpoonup> attr) \<Rightarrow> string \<Rightarrow> string" where
  "field_line n enc k = ''  '' @ grey (pad_right n k) @ '': '' @
     (case enc k of Some v \<Rightarrow> show_attr v | None \<Rightarrow> []) @ [CHR 0x0A]"

definition pretty_line ::
  "(string \<times> attr \<Rightarrow> (string \<rightharpoonup> attr) \<Rightarrow> (string \<rightharpoonup> attr)) \<Rightarrow> (int \<Rightarrow> int) \<Rightarrow> string list \<Rightarrow>
   prettyCore \<Rightarrow> log_entry \<Rightarrow> attrs \<Rightarrow> string" where
  "pretty_line AddTo zone order c entry fs =
    (let enc = encode_fields AddTo (pc_fields c @ fs);
         ts = Format_clock (le_Time entry + zone (le_Time entry));
         head = grey ts @ ''  '' @ colorLevel (le_Level entry) @ ''  '' @ le_Caller entry @ ''  '' @
           le_Message entry @ [CHR 0x0A];
         body = (if order = [] then []
           else CHR 0x0A # concat (map (field_line (max_len order) enc) order))
     in head @ body @ [CHR 0x0A])"

text \<open>\<open>stdout\<close> is the error a write to the standard output reports.\<close>

definition pretty_Write ::
  "(string \<times> attr \<Rightarrow> (string \<rightharpoonup> attr) \<Rightarrow> (string \<rightharpoonup> attr)) \<Rightarrow> (int \<Rightarrow> int) \<Rightarrow> (string \<Rightarrow> go_error option) \<Rightarrow>
   string list \<Rightarrow> prettyCore \<Rightarrow> log_entry \<Rightarrow> attrs \<Rightarrow> string \<times> go_error option" where
  "pretty_Write AddTo zone stdout order c entry fs =
    (let line = pretty_line AddTo zone order c entry fs in (line, stdout line))"

definition pretty_Sync :: "prettyCore \<Rightarrow> go_error option" where
  "pretty_Sync c = None"

section \<open>logger.go\<close>

record EncoderConfig =
  TimeKey :: string
  LevelKey :: string
  MessageKey :: string
  CallerKey :: string
  StacktraceKey :: string

datatype zap_core =
    JSONCore EncoderConfig Level
  | Pretty prettyCore
  | OTelCore string
  | FilteredCore zap_core Level
  | TeeCore zap_core zap_core

record zap_logger =
  zl_core :: zap_core
  zl_AddCaller :: bool
  zl_AddStacktrace :: "Level option"
  zl_fields :: attrs

definition zap_With :: "zap_logger \<Rightarrow> attrs \<Rightarrow> zap_logger" where
  "zap_With l fs = l\<lparr>zl_fields := zl_fields l @ fs\<rparr>"

definition withOTelCore ::
  "(zap_core \<Rightarrow> Level \<Rightarrow> go_error + zap_core) \<Rightarrow> LoggerConfig \<Rightarrow> zap_core \<Rightarrow> zap_core" where
  "withOTelCore NewIncreaseLevelCore cfg base =
    (if \<not> lc_EnableOTel cfg then base
     else (case NewIncreaseLevelCore (OTelCore (lc_ServiceName cfg)) (lc_Level cfg) of
         Inl err \<Rightarrow> base
       | Inr filtered \<Rightarrow> TeeCore base filtered))"

definition encoderCfg :: EncoderConfig where
  "encoderCfg = \<lparr>TimeKey = ''ts'', LevelKey = ''level'', MessageKey = ''msg'', CallerKey = ''caller'',
     StacktraceKey = ''stacktrace''\<rparr>"

definition newProdLogger :: "(zap_core \<Rightarrow> Level \<Rightarrow> go_error + zap_core) \<Rightarrow> LoggerConfig \<Rightarrow> zap_logger" where
  "newProdLogger NewIncreaseLevelCore cfg = zap_With
     \<lparr>zl_core = withOTelCore NewIncreaseLevelCore cfg (JSONCore encoderCfg (lc_Level cfg)),
      zl_AddCaller = True, zl_AddStacktrace = Some ErrorLevel, zl_fields = []\<rparr>
     [(''service'', AStr (lc_ServiceName cfg)), (''env'', AStr (lc_Environment cfg))]"

definition newDevLogger :: "(zap_core \<Rightarrow> Level \<Rightarrow> go_error + zap_core) \<Rightarrow> LoggerConfig \<Rightarrow> zap_logger" where
  "newDevLogger NewIncreaseLevelCore cfg = zap_With
     \<lparr>zl_core = withOTelCore NewIncreaseLevelCore cfg (Pretty \<lparr>pc_Level = lc_Level cfg, pc_fields = []\<rparr>),
      zl_AddCaller = True, zl_AddStacktrace = None, zl_fields = []\<rparr>
     [(''service'', AStr (lc_ServiceName cfg)), (''env'', AStr (lc_Environment cfg))]"

definition New_logger :: "(zap_core \<Rightarrow> Level \<Rightarrow> go_error + zap_core) \<Rightarrow> LoggerConfig \<Rightarrow> zap_logger" where
  "New_logger NewIncreaseLevelCore cfg =
    (if lc_Environment cfg = ''prod'' \<or> lc_Environment cfg = ''production''
     then newProdLogger NewIncreaseLevelCore cfg else newDevLogger NewIncreaseLevelCore cfg)"

section \<open>Helpers\<close>

definition WithRequestID :: "zap_logger \<Rightarrow> string \<Rightarrow> zap_logger" where
  "WithRequestID l requestID = zap_With l [(''request_id'', AStr requestID)]"

text \<open>\<open>sync\<close> is the result of the logger's own Sync.\<close>

definition Sync :: "string \<Rightarrow> go_error option \<Rightarrow> go_error option" where
  "Sync goos sync = (case sync of
      None \<Rightarrow> None
    | Some err \<Rightarrow> if goos = ''windows'' \<and> Contains (Error err) ''The handle is invalid'' then None else Some err)"

text \<open>The span of the context: absent, or its validity, trace id and span id.\<close>

definition WithTrace :: "(bool \<times> string \<times> string) option \<Rightarrow> zap_logger \<Rightarrow> zap_logger" where
  "WithTrace sp l = (case sp of
      None \<Rightarrow> l
    | Some (valid, traceID, spanID) \<Rightarrow>
        if \<not> valid then l else zap_With l [(''trace_id'', AStr traceID), (''span_id'', AStr spanID)])"

section \<open>Properties\<close>

lemma max_len_Max: "max_len ks = Max (insert 0 (length ` set ks))"
proof -
  have "fold (\<lambda>k n. if length k > n then length k else n) ks n = Max (insert n (length ` set ks))" for n
  proof (induction ks arbitrary: n)
    case (Cons a ks)
    have "Max (insert n (length ` set (a # ks))) = Max (insert (max n (length a)) (length ` set ks))"
      by (cases "set ks = {}") (auto simp: max.assoc)
    then show ?case using Cons by (simp add: max_def)
  qed simp
  then show ?thesis by (simp add: max_len_def)
qed

lemma max_len_ge: "k \<in> set ks \<Longrightarrow> length k \<le> max_len ks"
  by (simp add: max_len_Max)

lemma max_len_order: "set ks = set ks' \<Longrightarrow> max_len ks = max_len ks'"
  by (simp add: max_len_Max)

lemma utf8_multi_ASCII: "of_char c < (128 :: nat) \<Longrightarrow> utf8_multi (c # s) = 0"
  by (auto simp: utf8_multi_def utf8_two_def utf8_three_def utf8_four_def in_range_def byte_def)

lemma rune_count_ASCII: "isASCII s \<Longrightarrow> rune_count s = length s"
  by (induction s) (auto simp: utf8_multi_ASCII)

lemma pretty_lines:
  assumes "distinct order" "set order = dom (encode_fields AddTo (pc_fields c @ fs))"
    and "distinct order'" "set order' = dom (encode_fields AddTo (pc_fields c @ fs))"
  shows "\<exists>head lines lines'. fst (pretty_Write AddTo zone stdout order c entry fs) = head @ concat lines @ [CHR 0x0A] \<and>
      fst (pretty_Write AddTo zone stdout order' c entry fs) = head @ concat lines' @ [CHR 0x0A] \<and>
      mset lines = mset lines' \<and> length lines = card (dom (encode_fields AddTo (pc_fields c @ fs)))"
    and "k \<in> set order \<Longrightarrow> isASCII k \<Longrightarrow> length (pad_right (max_len order) k) = max_len order"
proof -
  let ?enc = "encode_fields AddTo (pc_fields c @ fs)"
  let ?ls = "\<lambda>o'. map (field_line (max_len o') ?enc) o'"
  have m: "mset order = mset order'" using assms by (metis set_eq_iff_mset_eq_distinct)
  have n: "max_len order = max_len order'" using assms by (auto intro: max_len_order)
  have e: "order = [] \<longleftrightarrow> order' = []" using m by auto
  let ?head = "grey (Format_clock (le_Time entry + zone (le_Time entry))) @ ''  '' @ colorLevel (le_Level entry) @
    ''  '' @ le_Caller entry @ ''  '' @ le_Message entry @ [CHR 0x0A]"
  have "mset (?ls order) = mset (?ls order')" unfolding n mset_map m ..
  moreover have "length (?ls order) = card (dom ?enc)" using assms(1,2) distinct_card by fastforce
  ultimately show "\<exists>head lines lines'. fst (pretty_Write AddTo zone stdout order c entry fs) = head @ concat lines @ [CHR 0x0A] \<and>
      fst (pretty_Write AddTo zone stdout order' c entry fs) = head @ concat lines' @ [CHR 0x0A] \<and>
      mset lines = mset lines' \<and> length lines = card (dom ?enc)"
    using e
    by (intro exI [of _ "?head @ (if order = [] then [] else [CHR 0x0A])"] exI [of _ "?ls order"] exI [of _ "?ls order'"])
      (auto simp: pretty_Write_def pretty_line_def Let_def)
  show "k \<in> set order \<Longrightarrow> isASCII k \<Longrightarrow> length (pad_right (max_len order) k) = max_len order"
    using max_len_ge by (simp add: pad_right_def rune_count_ASCII)
qed


text \<open>The documented behaviour of a field on a map encoder, for the witness.\<close>

definition put_field :: "string \<times> attr \<Rightarrow> (string \<rightharpoonup> attr) \<Rightarrow> (string \<rightharpoonup> attr)" where
  "put_field kv m = m(fst kv \<mapsto> snd kv)"


text \<open>The levels at which the sinks of a logger let messages through.\<close>

fun sink_levels :: "zap_core \<Rightarrow> Level set" where
  "sink_levels (JSONCore e l) = {l}"
| "sink_levels (Pretty c) = {pc_Level c}"
| "sink_levels (OTelCore n) = {}"
| "sink_levels (FilteredCore c l) = {l}"
| "sink_levels (TeeCore c d) = sink_levels c \<union> sink_levels d"

fun base_core :: "zap_core \<Rightarrow> zap_core" where
  "base_core (TeeCore c d) = c"
| "base_core c = c"

lemma New_logger_facts:
  assumes raise: "\<And>core l f. NewIncreaseLevelCore core l = Inr f \<Longrightarrow> f = FilteredCore core l"
    and "cfg = \<lparr>lc_ServiceName = svc, lc_Environment = env, lc_Level = ParseLevel UnmarshalText name, lc_EnableOTel = otel\<rparr>"
  shows "(\<exists>e l. base_core (zl_core (New_logger NewIncreaseLevelCore cfg)) = JSONCore e l) \<longleftrightarrow> env \<in> {''prod'', ''production''}"
    and "sink_levels (zl_core (New_logger NewIncreaseLevelCore cfg)) =
      {case UnmarshalText name of Inl _ \<Rightarrow> InfoLevel | Inr l \<Rightarrow> l}"
    and "zl_fields (New_logger NewIncreaseLevelCore cfg) = [(''service'', AStr svc), (''env'', AStr env)]"
    and "NewIncreaseLevelCore (OTelCore svc) (lc_Level cfg) = Inl err \<Longrightarrow>
      zl_core (New_logger NewIncreaseLevelCore cfg) = base_core (zl_core (New_logger NewIncreaseLevelCore cfg))"
  unfolding assms(2)
  by (auto simp: New_logger_def newProdLogger_def newDevLogger_def zap_With_def withOTelCore_def ParseLevel_def
      split: sum.splits dest!: raise)



end
