(* ===== verification/Router.thy ===== *)
theory Router
  imports Middleware App_Logger
begin

text \<open>
  internal/router/router.go: the rate limiter of the presign route, the handlers written in place, the
  route table, and the stack of middlewares around it.

  chi, cors and rate are not code of the repository. Parameters (the record \<open>web_libs\<close>): their
  middlewares as maps of handlers; chi's matching of a method and a path against the registered
  patterns, with the values of the pattern's variables, and the handler of unmatched requests; \<open>Allow\<close>,
  the answer of a rate.Limiter with a given limit and burst at an instant, as a function of the instants
  of its earlier calls; uuid's Parse. A limiter is an object on the heap, here an index into
  \<^const>\<open>s_limiters\<close>, which holds the instants at which it has been called.
\<close>

section \<open>presignRateLimiter\<close>

type_synonym allow = "int \<Rightarrow> int \<Rightarrow> int list \<Rightarrow> int \<Rightarrow> bool"

definition getLimiter :: "string \<Rightarrow> nat web" where
  "getLimiter ip = do {
     clients \<leftarrow> gets s_clients;
     e \<leftarrow> (case clients ip of
        Some e \<Rightarrow> go_return e
      | None \<Rightarrow> do {
          n \<leftarrow> gets (\<lambda>s. length (s_limiters s));
          _ \<leftarrow> modify (\<lambda>s. s\<lparr>s_limiters := s_limiters s @ [[]]\<rparr>);
          let e = \<lparr>lim = n, lastSeen = 0\<rparr>;
          _ \<leftarrow> modify (\<lambda>s. s\<lparr>s_clients := (s_clients s)(ip \<mapsto> e)\<rparr>);
          go_return e });
     now \<leftarrow> in_world time_Now;
     _ \<leftarrow> modify (\<lambda>s. s\<lparr>s_clients := (s_clients s)(ip \<mapsto> e\<lparr>lastSeen := now\<rparr>)\<rparr>);
     go_return (lim e) }"

definition limiter_Allow :: "allow \<Rightarrow> nat \<Rightarrow> bool web" where
  "limiter_Allow Allow n = do {
     now \<leftarrow> in_world time_Now;
     earlier \<leftarrow> gets (\<lambda>s. s_limiters s ! n);
     _ \<leftarrow> modify (\<lambda>s. s\<lparr>s_limiters := (s_limiters s)[n := earlier @ [now]]\<rparr>);
     go_return (Allow 10 20 earlier now) }"

text \<open>One tick of the background goroutine; \<open>seen\<close> gives the instant at which it looks at an entry.\<close>

definition evict :: "(string \<Rightarrow> int) \<Rightarrow> (string \<rightharpoonup> entry) \<Rightarrow> (string \<rightharpoonup> entry)" where
  "evict seen clients = (\<lambda>ip. case clients ip of
      None \<Rightarrow> None
    | Some e \<Rightarrow> if seen ip - lastSeen e > 5 * Minute then None else Some e)"

definition client_key :: "request \<Rightarrow> string" where
  "client_key r =
    (let xff = Header_Get r ''X-Forwarded-For'';
         ip = (if xff \<noteq> [] then SplitN2 xff (CHR '','') ! 0 else r_RemoteAddr r)
     in TrimSpace ip)"

definition limit_message :: string where
  "limit_message = encode (JObject [(''status'', JString ''error''), (''message'', JString ''rate limit exceeded'')])"

definition presignRateLimiter :: "allow \<Rightarrow> handler \<Rightarrow> handler" where
  "presignRateLimiter Allow nxt r = do {
     l \<leftarrow> getLimiter (client_key r);
     ok \<leftarrow> limiter_Allow Allow l;
     (if \<not> ok then do { _ \<leftarrow> http_Error limit_message 429; done_ok }
      else nxt r) }"

section \<open>Handlers written in place\<close>

definition plain :: "int \<Rightarrow> string \<Rightarrow> handler" where
  "plain status msg r = do {
     _ \<leftarrow> rw_WriteHeader status;
     _ \<leftarrow> rw_Write (CHR ''{'' # quote_char # ''status'' @ quote_char # '': '' @ quote_char # ''ok'' @ quote_char #
           '', '' @ quote_char # ''message'' @ quote_char # '': '' @ quote_char # msg @ quote_char # ''}'');
     done_ok }"

definition metric_test :: handler where
  "metric_test r = do {
     i \<leftarrow> in_world (rand_IntN 500);
     _ \<leftarrow> in_world (time_Sleep (int i * Millisecond));
     plain 200 ''Metric test endpoint'' r }"

definition favicon :: handler where
  "favicon r = do { _ \<leftarrow> rw_WriteHeader 204; done_ok }"

definition api_status :: handler where
  "api_status r = do {
     _ \<leftarrow> RespondJSON (Some (go_map [(''status'', JString ''ok''), (''message'', JString ''mpiper API is running'')])) 200;
     done_ok }"

section \<open>NewRouter\<close>

record route =
  rt_Method :: string
  rt_Pattern :: string
  rt_handler :: handler

record cors_Options =
  co_AllowedOrigins :: "string list"
  co_AllowedMethods :: "string list"
  co_AllowedHeaders :: "string list"
  co_ExposedHeaders :: "string list"
  co_AllowCredentials :: bool
  co_MaxAge :: int

record web_libs =
  wl_RequestID :: "handler \<Rightarrow> handler"
  wl_RealIP :: "handler \<Rightarrow> handler"
  wl_Cors :: "cors_Options \<Rightarrow> handler \<Rightarrow> handler"
  wl_Timeout :: "duration \<Rightarrow> handler \<Rightarrow> handler"
  wl_Compress :: "int \<Rightarrow> handler \<Rightarrow> handler"
  wl_Status :: "rw_call list \<Rightarrow> int"
  wl_Bytes :: "rw_call list \<Rightarrow> int"
  wl_match :: "string \<Rightarrow> string \<Rightarrow> (string \<times> (string \<times> string) list) option"
  wl_unmatched :: handler
  wl_Allow :: allow
  wl_Parse :: "string \<Rightarrow> go_error + uuid"
  wl_uni :: "string \<Rightarrow> string"
  wl_zone :: "int \<Rightarrow> int"
  wl_UnmarshalText :: "string \<Rightarrow> go_error + Level"
  wl_NewIncreaseLevelCore :: "zap_core \<Rightarrow> Level \<Rightarrow> go_error + zap_core"

definition MiddlewareTimeout :: duration where "MiddlewareTimeout = 30 * Second"

definition app_logger :: "web_libs \<Rightarrow> EnvConfig \<Rightarrow> zap_logger" where
  "app_logger libs cfg = New_logger (wl_NewIncreaseLevelCore libs)
     \<lparr>lc_ServiceName = ServiceName (Otel cfg), lc_Environment = Environment_name cfg,
      lc_Level = ParseLevel (wl_UnmarshalText libs) (LogLevel cfg), lc_EnableOTel = False\<rparr>"

definition routes :: "web_libs \<Rightarrow> config_state \<Rightarrow> logger \<Rightarrow> AssetHandler \<Rightarrow> route list" where
  "routes libs cstate l h =
    (let auth = AuthMiddleware (wl_uni libs) cstate l in
     [\<lparr>rt_Method = ''GET'', rt_Pattern = ''/'', rt_handler = plain 200 ''Welcome to mpiper API''\<rparr>,
      \<lparr>rt_Method = ''GET'', rt_Pattern = ''/metric_test'', rt_handler = metric_test\<rparr>,
      \<lparr>rt_Method = ''GET'', rt_Pattern = ''/favicon.ico'', rt_handler = favicon\<rparr>,
      \<lparr>rt_Method = ''GET'', rt_Pattern = ''/healthz'', rt_handler = plain 200 ''mpiper is healthy''\<rparr>,
      \<lparr>rt_Method = ''GET'', rt_Pattern = ''/api/v1/'', rt_handler = plain 200 ''mpiper API v1''\<rparr>,
      \<lparr>rt_Method = ''GET'', rt_Pattern = ''/api/v1/status'', rt_handler = api_status\<rparr>,
      \<lparr>rt_Method = ''POST'', rt_Pattern = ''/api/v1/storage/presign'',
       rt_handler = auth (presignRateLimiter (wl_Allow libs) (CreateAsset_handler cstate h))\<rparr>,
      \<lparr>rt_Method = ''GET'', rt_Pattern = ''/api/v1/assets/{assetID}/complete'',
       rt_handler = auth (MarkAssetUploaded_handler (wl_Parse libs) h)\<rparr>])"

definition dispatch :: "web_libs \<Rightarrow> route list \<Rightarrow> handler" where
  "dispatch libs rts r = (case wl_match libs (r_Method r) (r_Path r) of
      None \<Rightarrow> wl_unmatched libs r
    | Some (pat, params) \<Rightarrow>
       (case find (\<lambda>rt. rt_Method rt = r_Method r \<and> rt_Pattern rt = pat) rts of
          None \<Rightarrow> wl_unmatched libs r
        | Some rt \<Rightarrow> rt_handler rt (r\<lparr>r_RoutePattern := pat, r_URLParams := params\<rparr>)))"

definition cors_options :: "string list \<Rightarrow> cors_Options" where
  "cors_options allowedOrigins = \<lparr>co_AllowedOrigins = allowedOrigins,
     co_AllowedMethods = [''GET'', ''POST'', ''PUT'', ''DELETE'', ''OPTIONS''],
     co_AllowedHeaders = [''Accept'', ''Authorization'', ''Content-Type'', ''X-CSRF-Token''],
     co_ExposedHeaders = [''Link''], co_AllowCredentials = True, co_MaxAge = 300\<rparr>"

definition stack :: "web_libs \<Rightarrow> EnvConfig \<Rightarrow> logger \<Rightarrow> Metrics option \<Rightarrow> handler \<Rightarrow> handler" where
  "stack libs cfg l m h =
     wl_RequestID libs (wl_RealIP libs (RecoveryMiddleware l (wl_Cors libs (cors_options (CORSAllowedOrigins cfg))
       (LoggerMiddleware (wl_zone libs) (wl_Status libs) (wl_Bytes libs) l
         (wl_Timeout libs MiddlewareTimeout (TracingMiddleware (MetricsMiddleware m (wl_Compress libs 5
           (SlowRequestMiddleware l (2 * Second) h)))))))))"

definition NewRouter ::
  "web_libs \<Rightarrow> storage_libs \<Rightarrow> (string \<Rightarrow> go_error + redis_url) \<Rightarrow> config_state \<Rightarrow> EnvConfig \<Rightarrow>
   Metrics option \<Rightarrow> ((handler \<times> depth_fn option) go_run) go" where
  "NewRouter libs slibs ParseURL cstate cfg m = (case MustGet cstate of
      Inl p \<Rightarrow> go_return (Panics p)
    | Inr cfg2 \<Rightarrow> do {
        let l = zl_fields (app_logger libs cfg2);
        sv \<leftarrow> NewAssetService slibs ParseURL cstate (Redis cfg) (NewAssetRepository m) m;
        go_return (run_then sv (\<lambda>(assetSvc, depth).
          Returns (stack libs cfg2 l m (dispatch libs
            (routes libs cstate l (NewAssetHandler (as_service assetSvc) m))), depth))) })"

section \<open>The stack\<close>

text \<open>
  What the program relies on in a middleware of a library: around a handler that keeps its hands off the
  durable state it does so too, and around a lawful handler it is lawful.
\<close>

definition neutral :: "(handler \<Rightarrow> handler) \<Rightarrow> bool" where
  "neutral mw \<longleftrightarrow> (\<forall>A nxt. quiet A nxt \<longrightarrow> quiet A (mw nxt)) \<and> (\<forall>nxt. http_handler nxt \<longrightarrow> http_handler (mw nxt))"

definition neutral_libs :: "web_libs \<Rightarrow> bool" where
  "neutral_libs libs \<longleftrightarrow> neutral (wl_RequestID libs) \<and> neutral (wl_RealIP libs) \<and> (\<forall>o'. neutral (wl_Cors libs o')) \<and>
     (\<forall>d. neutral (wl_Timeout libs d)) \<and> (\<forall>i. neutral (wl_Compress libs i)) \<and>
     quiet (\<lambda>_. True) (wl_unmatched libs) \<and> http_handler (wl_unmatched libs)"

lemma neutral_handler: "neutral mw \<Longrightarrow> http_handler nxt \<Longrightarrow> http_handler (mw nxt)"
  by (simp add: neutral_def)

lemma neutral_libsD:
  assumes "neutral_libs libs"
  shows "neutral (wl_Cors libs o')" "neutral (wl_Timeout libs d)" "neutral (wl_Compress libs i)"
    "http_handler (wl_unmatched libs)"
  using assms by (simp_all add: neutral_libs_def)

lemma quiet_mono: "quiet A h \<Longrightarrow> (\<And>a. B a \<Longrightarrow> A a) \<Longrightarrow> quiet B h"
  by (simp add: quiet_def)

lemma keeps_time_Sleep [intro!, go_frames]: "keeps durable (time_Sleep d)"
  by (simp add: keeps_def state_of_def)

lemma quiet_inline:
  "quiet A (plain st msg)" "quiet A metric_test" "quiet A favicon" "quiet A api_status"
  unfolding quiet_def plain_def metric_test_def favicon_def api_status_def by auto

lemma quiet_dispatch:
  assumes "quiet A (wl_unmatched libs)" "\<forall>rt \<in> set rts. quiet A (rt_handler rt)"
  shows "quiet A (dispatch libs rts)"
  unfolding quiet_def
proof (intro allI impI)
  fix r
  assume a: "A (Header_Get r ''Authorization'')"
  have "keeps stored (rt_handler rt (r\<lparr>r_RoutePattern := pat, r_URLParams := params\<rparr>))"
    if "find P rts = Some rt" for P rt pat params
    using assms(2) find_SomeD [OF that] a by (auto simp: quiet_def Header_Get_def)
  moreover have "keeps stored (wl_unmatched libs r)" using assms(1) a by (rule quietD)
  ultimately show "keeps stored (dispatch libs rts r)" by (auto simp: dispatch_def split: option.splits)
qed

lemma quiet_routes:
  assumes "MustGet cstate = Inr cfg"
  shows "\<forall>rt \<in> set (routes libs cstate l h).
    quiet (\<lambda>a. bearer_user (wl_uni libs) (EncryptionKey cfg) a = None) (rt_handler rt)"
  using quiet_auth [OF assms] quiet_inline by (simp add: routes_def Let_def)

lemma quiet_stack:
  assumes "neutral_libs libs" "quiet A h"
  shows "quiet A (stack libs cfg l m h)"
  using assms unfolding stack_def neutral_libs_def neutral_def by (meson quiet_middleware)

lemma NewRouter_built:
  assumes "run_state (NewRouter libs slibs ParseURL cstate cfg m) w0 = (Returns (h, depth), w0')"
  obtains cfg2 sv where "MustGet cstate = Inr cfg2"
    "h = stack libs cfg2 (zl_fields (app_logger libs cfg2)) m (dispatch libs
      (routes libs cstate (zl_fields (app_logger libs cfg2)) (NewAssetHandler (as_service sv) m)))"
    "run_state (NewAssetService slibs ParseURL cstate (Redis cfg) (NewAssetRepository m) m) w0 = (Returns (sv, depth), w0')"
  using assms by (auto simp: NewRouter_def run_then_Returns Let_def split: sum.splits prod.splits)

text \<open>C26. Without a token nothing happens. For the router the program builds, and libraries whose
  middlewares do not touch the stores, a request whose Authorization header does not carry a token
  sealed under the configured key leaves the tables, the streams and the objects exactly as they were,
  on whatever method and path.\<close>

theorem router_requires_token:
  assumes "run_state (NewRouter libs slibs ParseURL cstate cfg m) w0 = (Returns (h, depth), w0')"
    and "neutral_libs libs" "MustGet cstate = Inr cfg2"
    and "\<nexists>scheme token u. Header_Get r ''Authorization'' = scheme @ '' '' @ token \<and> CHR '' '' \<notin> set scheme \<and>
      ToLower (wl_uni libs) scheme = ''bearer'' \<and> DecryptToken token (EncryptionKey cfg2) = Inr u"
    and "run_state (h r) s = (res, s')"
  shows "durable (s_world s') = durable (s_world s)"
proof -
  let ?A = "\<lambda>a. bearer_user (wl_uni libs) (EncryptionKey cfg2) a = None"
  from assms(1) have "quiet ?A h"
  proof (rule NewRouter_built)
    fix cfg3 sv
    assume c: "MustGet cstate = Inr cfg3" and h: "h = stack libs cfg3 (zl_fields (app_logger libs cfg3)) m (dispatch libs
        (routes libs cstate (zl_fields (app_logger libs cfg3)) (NewAssetHandler (as_service sv) m)))"
    have "quiet ?A (wl_unmatched libs)" using assms(2) quiet_mono unfolding neutral_libs_def by blast
    then show "quiet ?A h" unfolding h
      by (intro quiet_stack [OF assms(2)] quiet_dispatch quiet_routes [OF assms(3)])
  qed
  moreover have "?A (Header_Get r ''Authorization'')"
    using assms(4) bearer_user_iff [of "wl_uni libs" "EncryptionKey cfg2" "Header_Get r ''Authorization''"]
    by (metis append_Cons append_Nil not_None_eq)
  ultimately have "keeps stored (h r)" by (rule quietD)
  from keeps_run [OF this assms(5)] show ?thesis by simp
qed

text \<open>Libraries for the witnesses: middlewares that only call the next handler, matching by equality, and
  a token bucket as the limiter.\<close>

definition not_found :: handler where
  "not_found r = do { _ \<leftarrow> http_Error ''404 page not found'' 404; done_ok }"

definition bucket_step :: "int \<Rightarrow> int \<Rightarrow> int \<times> int \<Rightarrow> int \<Rightarrow> bool \<times> int \<times> int" where
  "bucket_step limit burst st now =
    (let tokens = min (burst * Second) (fst st + limit * max 0 (now - snd st))
     in if tokens \<ge> Second then (True, tokens - Second, now) else (False, tokens, now))"

definition token_bucket :: allow where
  "token_bucket limit burst earlier now =
    fst (bucket_step limit burst
      (fold (\<lambda>t st. snd (bucket_step limit burst st t)) earlier (burst * Second, hd (earlier @ [now]))) now)"

definition sample_web :: web_libs where
  "sample_web = \<lparr>wl_RequestID = id, wl_RealIP = id, wl_Cors = (\<lambda>o'. id), wl_Timeout = (\<lambda>d. id),
     wl_Compress = (\<lambda>i. id), wl_Status = last_status 0, wl_Bytes = (\<lambda>cs. int (length (response_body cs))),
     wl_match = (\<lambda>m p. Some (p, [])), wl_unmatched = not_found, wl_Allow = token_bucket,
     wl_Parse = ascii_id, wl_uni = id, wl_zone = (\<lambda>t. 0), wl_UnmarshalText = (\<lambda>s. Inr 0),
     wl_NewIncreaseLevelCore = (\<lambda>c l. Inr (FilteredCore c l))\<rparr>"

lemma writing_http_Error [intro!]: "writing (http_Error msg c)"
  unfolding http_Error_def by auto

lemma neutral_id: "neutral id"
  by (simp add: neutral_def)

lemma neutral_sample: "neutral_libs sample_web"
proof -
  have "http_handler not_found" by (rule http_handlerI) (auto simp: not_found_def)
  moreover have "quiet (\<lambda>_. True) not_found" unfolding quiet_def not_found_def by auto
  ultimately show ?thesis using neutral_id by (simp add: neutral_libs_def sample_web_def)
qed

definition sample_router :: handler where
  "sample_router = (let l = zl_fields (app_logger sample_web sample_cfg) in
     stack sample_web sample_cfg l None (dispatch sample_web
       (routes sample_web (Init sample_cfg config_start) l (NewAssetHandler (as_service sample_service) None))))"

lemma sample_router_built:
  "run_state (NewRouter sample_web sample_libs (\<lambda>u. Inl (ErrText ''bad'')) (Init sample_cfg config_start)
     sample_cfg None) idle_world = (Returns (sample_router, None), idle_world)"
proof -
  have "Redis sample_cfg = rc_cfg sample_client" by (simp add: sample_cfg_def)
  then show ?thesis using sample_built by (simp add: NewRouter_def sample_router_def Let_def)
qed

theorem router_requires_token_witness:
  "durable (s_world (snd (run_state (sample_router sample_http) (sample_srv upload_world)))) = durable upload_world"
proof -
  have "Header_Get sample_http ''Authorization'' = []" by (simp add: sample_http_def Header_Get_def)
  then show ?thesis
    using router_requires_token [OF sample_router_built neutral_sample sample_MustGet _ prod.collapse [symmetric],
        of sample_http "sample_srv upload_world"]
    by (simp add: sample_srv_def)
qed

section \<open>Every request ends\<close>

lemma http_handler_parts:
  assumes "http_handler h"
  shows "writing (h r)" "no_exits (h r)"
  using http_handler.writes [OF assms] http_handler.no_exit [OF assms]
  by (simp_all add: writing_def no_exits_def state_of_def result_of_def) (metis prod.collapse)+

lemma writing_getLimiter [intro!]: "writing (getLimiter ip)" "writing (limiter_Allow Allow n)"
proof -
  show "writing (getLimiter ip)" unfolding getLimiter_def Let_def
    by (auto simp: writing_def wrote_def state_of_def split: option.splits intro!: exI [of _ "[]"])
  show "writing (limiter_Allow Allow n)" unfolding limiter_Allow_def
    by (auto simp: writing_def wrote_def state_of_def intro!: exI [of _ "[]"])
qed

lemma limiter_handler: "http_handler nxt \<Longrightarrow> http_handler (presignRateLimiter Allow nxt)"
  by (rule http_handlerI) (auto simp: presignRateLimiter_def http_handler_parts)

interpretation plain: http_handler "plain st msg" for st msg
  by (rule http_handlerI) (auto simp: plain_def)

interpretation metric_test: http_handler metric_test
  by (rule http_handlerI) (auto simp: metric_test_def http_handler_parts [OF plain.http_handler_axioms])

interpretation favicon: http_handler favicon
  by (rule http_handlerI) (auto simp: favicon_def)

interpretation api_status: http_handler api_status
  by (rule http_handlerI) (auto simp: api_status_def)

lemma routes_lawful: "\<forall>rt \<in> set (routes libs cstate l h). http_handler (rt_handler rt)"
  using http_handler.auth_handler [OF limiter_handler [OF create_http.http_handler_axioms]]
    http_handler.auth_handler [OF mark_http.http_handler_axioms] plain.http_handler_axioms
    metric_test.http_handler_axioms favicon.http_handler_axioms api_status.http_handler_axioms
  by (simp add: routes_def Let_def)

lemma dispatch_lawful:
  assumes "http_handler (wl_unmatched libs)" "\<forall>rt \<in> set rts. http_handler (rt_handler rt)"
  shows "http_handler (dispatch libs rts)"
  by (rule http_handlerI)
    (auto simp: dispatch_def split: option.splits dest!: find_SomeD
      intro: http_handler_parts [OF assms(1)] http_handler_parts [OF bspec [OF assms(2)]])

text \<open>C30. No panic escapes. For libraries whose middlewares return when the handler behind them does,
  every request to the router the program builds ends normally, whatever the handlers, the service
  and their peers do.\<close>

theorem router_contains_panics:
  assumes "run_state (NewRouter libs slibs ParseURL cstate cfg m) w0 = (Returns (h, depth), w0')"
    and "neutral_libs libs"
    and outer: "\<And>nxt. (\<And>r s. fst (run_state (nxt r) s) = Returns ()) \<Longrightarrow>
      (\<forall>r s. fst (run_state (wl_RequestID libs nxt r) s) = Returns () \<and>
             fst (run_state (wl_RealIP libs nxt r) s) = Returns ())"
  shows "fst (run_state (h r) s) = Returns ()"
  using assms(1)
proof (rule NewRouter_built)
  fix cfg2 sv
  let ?l = "zl_fields (app_logger libs cfg2)"
  let ?d = "dispatch libs (routes libs cstate ?l (NewAssetHandler (as_service sv) m))"
  assume h: "h = stack libs cfg2 ?l m ?d"
  note law = neutral_libsD [OF assms(2)]
  define slow where "slow = SlowRequestMiddleware ?l (2 * Second) ?d"
  define traced where "traced = TracingMiddleware (MetricsMiddleware m (wl_Compress libs 5 slow))"
  define logged where "logged = LoggerMiddleware (wl_zone libs) (wl_Status libs) (wl_Bytes libs) ?l
    (wl_Timeout libs MiddlewareTimeout traced)"
  define inner where "inner = wl_Cors libs (cors_options (CORSAllowedOrigins cfg2)) logged"
  have "http_handler ?d" by (rule dispatch_lawful [OF law(4) routes_lawful])
  then have "http_handler slow" unfolding slow_def by (rule http_handler.slow_handler)
  then have "http_handler (wl_Compress libs 5 slow)" by (rule neutral_handler [OF law(3)])
  then have "http_handler traced" unfolding traced_def
    by (intro http_handler.tracing_handler http_handler.metrics_handler)
  then have "http_handler (wl_Timeout libs MiddlewareTimeout traced)" by (rule neutral_handler [OF law(2)])
  then have "http_handler logged" unfolding logged_def by (rule http_handler.logger_handler)
  then have i: "http_handler inner" unfolding inner_def by (rule neutral_handler [OF law(1)])
  have "fst (run_state (RecoveryMiddleware ?l inner r) s) = Returns ()" for r s
    by (rule http_handler.recovery_run [OF i prod.collapse [symmetric], of ?l r s])
  then have "fst (run_state (wl_RealIP libs (RecoveryMiddleware ?l inner) r) s) = Returns ()" for r s
    using outer by blast
  then have "fst (run_state (wl_RequestID libs (wl_RealIP libs (RecoveryMiddleware ?l inner)) r) s) = Returns ()"
    using outer by blast
  then show "fst (run_state (h r) s) = Returns ()"
    unfolding h stack_def inner_def logged_def traced_def slow_def .
qed

theorem router_contains_panics_witness:
  "fst (run_state (sample_router sample_http) (sample_srv down_world)) = Returns ()"
  using router_contains_panics [OF sample_router_built neutral_sample, of sample_http "sample_srv down_world"]
  by (simp add: sample_web_def)

section \<open>The rate limiter\<close>

text \<open>
  The life of the limiter as a sequence of steps: a request of a client, with the instants at which
  getLimiter and Allow read the clock, and a tick of the eviction. What the code keeps is the map of
  clients and the limiters on the heap; a request runs getLimiter and Allow on it.
\<close>

datatype rl_event = Arrive string int int | Tick "string \<Rightarrow> int"

type_synonym rl_state = "(string \<rightharpoonup> entry) \<times> int list list"

definition rl_arrive :: "allow \<Rightarrow> string \<Rightarrow> int \<Rightarrow> int \<Rightarrow> rl_state \<Rightarrow> bool \<times> rl_state" where
  "rl_arrive Allow ip t1 t2 st =
    (let s = (sample_srv (idle_world\<lparr>clock := (\<lambda>n. if n = 0 then t1 else t2)\<rparr>))
           \<lparr>s_clients := fst st, s_limiters := snd st\<rparr>;
         (ok, s') = run_state (do { l \<leftarrow> getLimiter ip; limiter_Allow Allow l }) s
     in (ok, s_clients s', s_limiters s'))"

lemma rl_arrive_eq:
  "rl_arrive Allow ip t1 t2 (clients, limiters) =
    (let n = (case clients ip of Some e \<Rightarrow> lim e | None \<Rightarrow> length limiters);
         limiters' = (case clients ip of Some e \<Rightarrow> limiters | None \<Rightarrow> limiters @ [[]]);
         earlier = limiters' ! n
     in (Allow 10 20 earlier t2, clients(ip \<mapsto> \<lparr>lim = n, lastSeen = t1\<rparr>), limiters'[n := earlier @ [t2]]))"
proof (cases "clients ip")
  case None
  then show ?thesis
    by (simp add: rl_arrive_def getLimiter_def limiter_Allow_def Let_def sample_srv_def idle_world_def)
next
  case (Some e)
  then show ?thesis
    by (cases e) (simp add: rl_arrive_def getLimiter_def limiter_Allow_def Let_def sample_srv_def idle_world_def)
qed

fun decisions :: "allow \<Rightarrow> rl_event list \<Rightarrow> rl_state \<Rightarrow> bool list" where
  "decisions Allow [] st = []"
| "decisions Allow (Arrive ip t1 t2 # es) st =
     (let (ok, st') = rl_arrive Allow ip t1 t2 st in ok # decisions Allow es st')"
| "decisions Allow (Tick seen # es) st = decisions Allow es (evict seen (fst st), snd st)"

text \<open>The specification: one limiter for each client, which lives forever.\<close>

fun spec_decisions :: "allow \<Rightarrow> rl_event list \<Rightarrow> (string \<Rightarrow> int list) \<Rightarrow> bool list" where
  "spec_decisions Allow [] h = []"
| "spec_decisions Allow (Arrive ip t1 t2 # es) h =
     Allow 10 20 (h ip) t2 # spec_decisions Allow es (h(ip := h ip @ [t2]))"
| "spec_decisions Allow (Tick seen # es) h = spec_decisions Allow es h"

text \<open>Time goes forward, and a request reaches Allow within four minutes of getLimiter.\<close>

fun timed :: "int \<Rightarrow> rl_event list \<Rightarrow> bool" where
  "timed T [] = True"
| "timed T (Arrive ip t1 t2 # es) = (T \<le> t1 \<and> t1 \<le> t2 \<and> t2 \<le> t1 + 4 * Minute \<and> timed t2 es)"
| "timed T (Tick seen # es) = (\<exists>T'. (\<forall>ip. T \<le> seen ip \<and> seen ip \<le> T') \<and> timed T' es)"

text \<open>A limiter that has been idle for more than a minute answers like a new one.\<close>

definition forgets :: "allow \<Rightarrow> bool" where
  "forgets Allow \<longleftrightarrow> (\<forall>h g now. h \<noteq> [] \<longrightarrow> hd (g @ [now]) - last h > Minute \<longrightarrow>
     Allow 10 20 (h @ g) now = Allow 10 20 g now)"

text \<open>The history of a client, and the part of it its present limiter knows: what came before lies more
  than a minute earlier.\<close>

definition known :: "int list \<Rightarrow> int list \<Rightarrow> bool" where
  "known h cur \<longleftrightarrow> (\<exists>old. h = old @ cur \<and> (old = [] \<or> cur \<noteq> [] \<and> hd cur - last old > Minute))"

definition rl_inv :: "int \<Rightarrow> rl_state \<Rightarrow> (string \<Rightarrow> int list) \<Rightarrow> bool" where
  "rl_inv T st h \<longleftrightarrow>
     (\<forall>ip e. fst st ip = Some e \<longrightarrow> lim e < length (snd st) \<and> known (h ip) (snd st ! lim e) \<and>
        snd st ! lim e \<noteq> [] \<and> last (snd st ! lim e) \<le> lastSeen e + 4 * Minute \<and> last (snd st ! lim e) \<le> T) \<and>
     (\<forall>ip. fst st ip = None \<longrightarrow> h ip = [] \<or> T - last (h ip) > Minute) \<and>
     (\<forall>ip ip' e e'. fst st ip = Some e \<longrightarrow> fst st ip' = Some e' \<longrightarrow> lim e = lim e' \<longrightarrow> ip = ip')"

lemma rl_inv_evict:
  assumes "rl_inv T (clients, ls) h" "\<forall>ip. T \<le> seen ip \<and> seen ip \<le> T'"
  shows "rl_inv T' (evict seen clients, ls) h"
proof -
  have T: "T \<le> T'" using assms(2) by force
  have gone: "h ip = [] \<or> T' - last (h ip) > Minute" if "evict seen clients ip = None" for ip
  proof (cases "clients ip")
    case None
    then show ?thesis using assms(1) T unfolding rl_inv_def by force
  next
    case (Some e)
    then have e: "seen ip - lastSeen e > 5 * Minute" using that by (auto simp: evict_def split: if_splits)
    have k: "known (h ip) (ls ! lim e)" "ls ! lim e \<noteq> []" "last (ls ! lim e) \<le> lastSeen e + 4 * Minute"
      using assms(1) Some by (auto simp: rl_inv_def)
    then have "last (h ip) = last (ls ! lim e)" by (auto simp: known_def)
    then show ?thesis using e k(3) assms(2) [rule_format, of ip] by auto
  qed
  have sub: "evict seen clients ip = Some e \<Longrightarrow> clients ip = Some e" for ip e
    by (auto simp: evict_def split: option.splits if_splits)
  show ?thesis using assms(1) gone T sub unfolding rl_inv_def fst_conv snd_conv by (meson order_trans)
qed

lemma known_snoc: "known h cur \<Longrightarrow> cur \<noteq> [] \<Longrightarrow> known (h @ [t]) (cur @ [t])"
  by (auto simp: known_def)

lemma known_new: "h = [] \<or> t - last h > Minute \<Longrightarrow> known (h @ [t]) [t]"
  by (auto simp: known_def)

lemma forgets_known:
  assumes "forgets Allow" "known h cur" "cur \<noteq> []"
  shows "Allow 10 20 h t = Allow 10 20 cur t"
proof -
  obtain old where "h = old @ cur" "old = [] \<or> hd (cur @ [t]) - last old > Minute"
    using assms(2,3) by (auto simp: known_def)
  then show ?thesis using assms(1) unfolding forgets_def by (cases "old = []") auto
qed

lemma forgets_idle:
  assumes "forgets Allow" "h = [] \<or> t - last h > Minute"
  shows "Allow 10 20 h t = Allow 10 20 [] t"
  using assms(1) [unfolded forgets_def, rule_format, of h "[]" t] assms(2) by (cases "h = []") simp_all

lemma rl_inv_put:
  assumes "rl_inv T (clients, ls) h" "T \<le> t2"
    and "n < length ls'" "known h' (ls' ! n)" "ls' ! n \<noteq> []" "last (ls' ! n) \<le> t1 + 4 * Minute" "last (ls' ! n) \<le> t2"
    and "\<And>ip' e. ip' \<noteq> ip \<Longrightarrow> clients ip' = Some e \<Longrightarrow> lim e \<noteq> n \<and> lim e < length ls' \<and> ls' ! lim e = ls ! lim e"
  shows "rl_inv t2 (clients(ip \<mapsto> \<lparr>lim = n, lastSeen = t1\<rparr>), ls') (h(ip := h'))"
proof -
  note inv = assms(1) [unfolded rl_inv_def fst_conv snd_conv]
  have 1: "lim e < length ls' \<and> known ((h(ip := h')) ip') (ls' ! lim e) \<and> ls' ! lim e \<noteq> [] \<and>
      last (ls' ! lim e) \<le> lastSeen e + 4 * Minute \<and> last (ls' ! lim e) \<le> t2"
    if "(clients(ip \<mapsto> \<lparr>lim = n, lastSeen = t1\<rparr>)) ip' = Some e" for ip' e
  proof (cases "ip' = ip")
    case True
    then show ?thesis using that assms(3-7) by auto
  next
    case False
    then have c: "clients ip' = Some e" using that by simp
    then have "lim e < length ls" "known (h ip') (ls ! lim e)" "ls ! lim e \<noteq> []"
      "last (ls ! lim e) \<le> lastSeen e + 4 * Minute" "last (ls ! lim e) \<le> T" using inv by auto
    then show ?thesis using assms(8) [OF False c] assms(2) False by auto
  qed
  have 2: "(h(ip := h')) ip' = [] \<or> t2 - last ((h(ip := h')) ip') > Minute"
    if "(clients(ip \<mapsto> \<lparr>lim = n, lastSeen = t1\<rparr>)) ip' = None" for ip'
  proof -
    from that have "ip' \<noteq> ip" "clients ip' = None" by (auto split: if_splits)
    then have "h ip' = [] \<or> T - last (h ip') > Minute" using inv by blast
    then show ?thesis using assms(2) \<open>ip' \<noteq> ip\<close> by auto
  qed
  have 3: "ip' = ip''" if "(clients(ip \<mapsto> \<lparr>lim = n, lastSeen = t1\<rparr>)) ip' = Some e"
    "(clients(ip \<mapsto> \<lparr>lim = n, lastSeen = t1\<rparr>)) ip'' = Some e'" "lim e = lim e'" for ip' ip'' e e'
    using that inv assms(8) [of ip' e] assms(8) [of ip'' e'] by (auto split: if_splits)
  show ?thesis unfolding rl_inv_def fst_conv snd_conv using 1 2 3 by blast
qed

lemma rl_inv_arrive:
  assumes "rl_inv T st h" "forgets Allow" "T \<le> t1" "t1 \<le> t2" "t2 \<le> t1 + 4 * Minute"
  shows "fst (rl_arrive Allow ip t1 t2 st) = Allow 10 20 (h ip) t2"
    and "rl_inv t2 (snd (rl_arrive Allow ip t1 t2 st)) (h(ip := h ip @ [t2]))"
proof -
  obtain clients ls where st: "st = (clients, ls)" by (cases st)
  note inv = assms(1) [unfolded st rl_inv_def fst_conv snd_conv]
  have bound: "lim e < length ls" if "clients ip' = Some e" for ip' e using inv that by blast
  have other: "lim e \<noteq> lim e'" if "ip' \<noteq> ip" "clients ip = Some e'" "clients ip' = Some e" for ip' e e'
    using inv that by metis
  have "fst (rl_arrive Allow ip t1 t2 st) = Allow 10 20 (h ip) t2 \<and>
    rl_inv t2 (snd (rl_arrive Allow ip t1 t2 st)) (h(ip := h ip @ [t2]))"
  proof (cases "clients ip")
    case None
    then have "h ip = [] \<or> T - last (h ip) > Minute" using inv by blast
    then have n: "h ip = [] \<or> t2 - last (h ip) > Minute" using assms(3,4) by auto
    have "Allow 10 20 [] t2 = Allow 10 20 (h ip) t2" by (rule forgets_idle [OF assms(2) n, symmetric])
    moreover have "rl_inv t2 (clients(ip \<mapsto> \<lparr>lim = length ls, lastSeen = t1\<rparr>), ls @ [[t2]]) (h(ip := h ip @ [t2]))"
      by (rule rl_inv_put [OF assms(1) [unfolded st]])
        (use known_new [OF n] assms(3-5) in \<open>auto simp: nth_append dest: bound\<close>)
    ultimately show ?thesis using None by (simp add: st rl_arrive_eq Let_def)
  next
    case (Some e)
    then have k: "lim e < length ls" "known (h ip) (ls ! lim e)" "ls ! lim e \<noteq> []" using inv by auto
    have "rl_inv t2 (clients(ip \<mapsto> \<lparr>lim = lim e, lastSeen = t1\<rparr>), ls[lim e := ls ! lim e @ [t2]]) (h(ip := h ip @ [t2]))"
      by (rule rl_inv_put [OF assms(1) [unfolded st]])
        (use known_snoc [OF k(2,3)] k(1) assms(3-5) in \<open>auto simp: bound nth_list_update dest: other [OF _ Some]\<close>)
    then show ?thesis using Some forgets_known [OF assms(2) k(2,3)] by (simp add: st rl_arrive_eq Let_def)
  qed
  then show "fst (rl_arrive Allow ip t1 t2 st) = Allow 10 20 (h ip) t2"
    and "rl_inv t2 (snd (rl_arrive Allow ip t1 t2 st)) (h(ip := h ip @ [t2]))" by auto
qed

lemma decisions_spec:
  assumes "forgets Allow"
  shows "rl_inv T st h \<Longrightarrow> timed T es \<Longrightarrow> decisions Allow es st = spec_decisions Allow es h"
proof (induction T es arbitrary: st h rule: timed.induct)
  case (2 T ip t1 t2 es)
  then show ?case using rl_inv_arrive [OF 2(2) assms, of t1 t2 ip]
    by (cases "rl_arrive Allow ip t1 t2 st") (auto simp: fun_upd_def)
next
  case (3 T seen es)
  then obtain T' where T: "\<forall>ip. T \<le> seen ip \<and> seen ip \<le> T'" "timed T' es" by auto
  show ?case using 3(1) [OF rl_inv_evict [OF _ T(1)] T(2)] 3(2) by (cases st) auto
qed simp

text \<open>C27. Evicting idle clients is unobservable. Take any interleaving of requests and ticks of the eviction
  in which time goes forward and a limiter that answers like a new one after a minute of idleness: the
  code, with its map of clients, its shared limiters and its deletions, decides every request as one
  limiter per client that is never discarded would.\<close>

theorem eviction_unobservable:
  assumes "forgets Allow" "timed T es"
  shows "decisions Allow es (Map.empty, []) = spec_decisions Allow es (\<lambda>ip. [])"
proof -
  have "rl_inv T (Map.empty, []) (\<lambda>ip. [])" by (simp add: rl_inv_def)
  then show ?thesis by (rule decisions_spec [OF assms(1) _ assms(2)])
qed

text \<open>The token bucket forgets.\<close>

lemma bucket_step_props:
  "snd (snd (bucket_step l b st t)) = t" "0 \<le> fst st \<Longrightarrow> 0 \<le> fst (snd (bucket_step 10 20 st t))"
  by (auto simp: bucket_step_def Let_def min_def)

lemma bucket_step_full:
  "0 \<le> fst st \<Longrightarrow> t - snd st > Minute \<Longrightarrow> bucket_step 10 20 st t = bucket_step 10 20 (20 * Second, t) t"
  by (auto simp: bucket_step_def Let_def min_def max_def)

lemma bucket_history:
  assumes "0 \<le> fst st" "h \<noteq> []"
  defines "st' \<equiv> fold (\<lambda>t st. snd (bucket_step 10 20 st t)) h st"
  shows "0 \<le> fst st' \<and> snd st' = last h"
  using assms(2) unfolding st'_def
proof (induction h rule: rev_nonempty_induct)
  case (snoc x xs)
  then show ?case by (simp add: bucket_step_props)
qed (use assms(1) in \<open>simp add: bucket_step_props\<close>)

lemma token_bucket_forgets: "forgets token_bucket"
  unfolding forgets_def
proof (intro allI impI)
  fix h g :: "int list" and now
  assume h: "h \<noteq> []" and gap: "hd (g @ [now]) - last h > Minute"
  define f where "f = (\<lambda>t st. snd (bucket_step 10 20 st t))"
  define st where "st = fold f h (20 * Second, hd h)"
  have "0 \<le> fst st \<and> snd st = last h" unfolding st_def f_def by (rule bucket_history) (use h in auto)
  then have full: "bucket_step 10 20 st (hd (g @ [now])) = bucket_step 10 20 (20 * Second, hd (g @ [now])) (hd (g @ [now]))"
    using gap by (intro bucket_step_full) auto
  have t: "token_bucket 10 20 (h @ g) now = fst (bucket_step 10 20 (fold f g st) now)"
    using h by (simp add: token_bucket_def f_def st_def)
  show "token_bucket 10 20 (h @ g) now = token_bucket 10 20 g now"
    unfolding t using full by (cases g) (simp_all add: token_bucket_def f_def)
qed

text \<open>A client that goes on after eviction, among others.\<close>

definition sample_events :: "rl_event list" where
  "sample_events = [Arrive ''a'' 0 0, Arrive ''b'' 1 2, Tick (\<lambda>ip. 6 * Minute), Arrive ''a'' (7 * Minute) (7 * Minute)]"

theorem eviction_unobservable_witness:
  "decisions token_bucket sample_events (Map.empty, []) = spec_decisions token_bucket sample_events (\<lambda>ip. [])"
proof -
  have "timed 0 sample_events" by (auto simp: sample_events_def intro: exI [of _ "6 * Minute"])
  then show ?thesis by (rule eviction_unobservable [OF token_bucket_forgets])
qed

text \<open>Trimming leaves a string alone that starts and ends with a digit.\<close>

lemma first_match_None: "\<forall>p \<in> set ps. p \<noteq> [] \<and> hd p \<noteq> hd s \<Longrightarrow> first_match ps s = None"
proof (induction ps)
  case (Cons p ps)
  then show ?case by (cases p; cases s) auto
qed simp

lemma space_runes_no_digit:
  "\<forall>p \<in> set space_runes. p \<noteq> [] \<and> \<not> is_digit (hd p)" "\<forall>p \<in> set (map rev space_runes). p \<noteq> [] \<and> \<not> is_digit (hd p)"
  by (simp_all add: space_runes_def bytes_def is_digit_def digit_val_def)

lemma TrimSpace_digits:
  assumes "s \<noteq> []" "is_digit (hd s)" "is_digit (last s)"
  shows "TrimSpace s = s"
proof -
  have "first_match space_runes s = None" "first_match (map rev space_runes) (rev s) = None"
    using assms space_runes_no_digit by (intro first_match_None; metis hd_rev)+
  then show ?thesis by (simp add: TrimSpace_def trim_left.simps [of _ s] trim_left.simps [of _ "rev s"])
qed

lemma fresh_clients:
  assumes "\<And>t. Allow 10 20 [] t"
  shows "distinct ks \<Longrightarrow> \<forall>k \<in> set ks. cs k = None \<Longrightarrow>
    decisions Allow (map (\<lambda>k. Arrive k t t) ks) (cs, ls) = replicate (length ks) True"
proof (induction ks arbitrary: cs ls)
  case (Cons k ks)
  have "decisions Allow (map (\<lambda>k. Arrive k t t) ks) (cs(k \<mapsto> e), ls') = replicate (length ks) True" for e ls'
    using Cons.prems by (intro Cons.IH) auto
  then show ?case using Cons.prems assms by (simp add: rl_arrive_eq Let_def)
qed simp

text \<open>C33. The limit binds a connection, not an address. A client that sends no X-Forwarded-For header is
  known by its address and port, so one that opens a new connection, with a new port, for every request
  is never refused, however many requests it sends at whatever rate.\<close>

theorem rate_limit_per_connection:
  assumes "Header_Get r ''X-Forwarded-For'' = []" "\<And>t. Allow 10 20 [] t"
    and "distinct ports" "host \<noteq> []" "is_digit (hd host)" "\<And>port. port \<in> set ports \<Longrightarrow> port \<noteq> [] \<and> is_digit (last port)"
  shows "decisions Allow (map (\<lambda>port. Arrive (client_key (r\<lparr>r_RemoteAddr := host @ '':'' @ port\<rparr>)) t t) ports)
      (Map.empty, []) = replicate (length ports) True"
proof -
  let ?k = "\<lambda>port. client_key (r\<lparr>r_RemoteAddr := host @ '':'' @ port\<rparr>)"
  have k: "?k p = host @ '':'' @ p" if "p \<in> set ports" for p
    using assms(1,4,5) assms(6) [OF that] by (simp add: client_key_def Header_Get_def TrimSpace_digits)
  have "map ?k ports = map (\<lambda>p. host @ '':'' @ p) ports" using k by simp
  then have "distinct (map ?k ports)" using assms(3) by (simp only: distinct_map) (simp add: inj_on_def)
  from fresh_clients [of Allow, OF assms(2) this, of Map.empty t "[]"] show ?thesis by (simp add: o_def)
qed

theorem rate_limit_per_connection_witness:
  "decisions token_bucket (map (\<lambda>port. Arrive (client_key (sample_http\<lparr>r_RemoteAddr := ''10.0.0.1'' @ '':'' @ port\<rparr>)) 0 0)
     [''1'', ''2'', ''3'']) (Map.empty, []) = [True, True, True]"
proof -
  have "Header_Get sample_http ''X-Forwarded-For'' = []" by (simp add: sample_http_def Header_Get_def)
  moreover have "token_bucket 10 20 [] t" for t by (simp add: token_bucket_def bucket_step_def)
  moreover have "port \<noteq> [] \<and> is_digit (last port)" if "port \<in> set [''1'', ''2'', ''3'']" for port
    using that by (auto simp: is_digit_def digit_val_def)
  moreover have "is_digit (hd ''10.0.0.1'')" by (simp add: is_digit_def digit_val_def)
  ultimately show ?thesis
    using rate_limit_per_connection [of sample_http token_bucket "[''1'', ''2'', ''3'']" "''10.0.0.1''" 0]
    by (simp add: numeral_3_eq_3)
qed

end
