(* ===== verification/App_Main.thy ===== *)
theory App_Main
  imports Router
begin

text \<open>
  The life of the process: cmd/server/main.go, internal/server/server.go and internal/database
  (pg.go, migrate.go).

  The process state is the list of what the program did to its surroundings and the world in which the
  router is built. What the surroundings answer (the environment variables, the exporters, PostgreSQL,
  the migration library, the listener, the syncing of the log) are the fields of \<open>surroundings\<close>. A
  deferred call runs when main returns or panics, in reverse order, and may panic itself; it does not run
  when a Fatal log line ends the process.
\<close>

section \<open>The process\<close>

datatype resource = Signals | LogSink zap_logger | Tracer | Meter | Database string | Listener string

record pool =
  MaxOpenConns :: int
  MaxIdleConns :: int
  ConnMaxLifetime :: duration
  ConnMaxIdleTime :: duration

datatype proc_event =
    Acquired resource
  | Released resource
  | Pool pool
  | Migrated
  | Logged log_level string

record proc =
  p_events :: "proc_event list"
  p_world :: world

record surroundings =
  su_environ :: environ
  su_load :: "string \<Rightarrow> environ \<Rightarrow> environ"
  su_parseFloat :: "string \<Rightarrow> float64 option"
  su_web :: web_libs
  su_storage :: storage_libs
  su_ParseURL :: "string \<Rightarrow> go_error + redis_url"
  su_traces :: "otlp_option list \<Rightarrow> go_error + unit"
  su_metrics :: "otlp_option list \<Rightarrow> go_error + unit"
  su_resource :: "resource_attrs \<Rightarrow> go_error + resource_attrs"
  su_instance :: string
  su_meter :: meter
  su_connect :: "string \<Rightarrow> go_error option"
  su_ping :: "go_error option"
  su_iofs :: "go_error option"
  su_driver :: "go_error option"
  su_migrate :: "go_error option"
  su_up :: "go_error option"
  su_serve :: "go_error option"
  su_shutdown :: "go_error option"
  su_db_close :: "go_error option"
  su_metrics_shutdown :: "go_error option"
  su_tracer_shutdown :: "go_error option"
  su_sync :: "go_error option"
  su_goos :: string

type_synonym 'a prog = "(proc, 'a) state"

definition ev :: "proc_event list \<Rightarrow> unit prog" where
  "ev es = modify (\<lambda>p. p\<lparr>p_events := p_events p @ es\<rparr>)"

definition fin :: "'a go_run \<Rightarrow> ('a go_run) prog" where
  "fin r = go_return r"

definition prog_then :: "('a go_run) prog \<Rightarrow> ('a \<Rightarrow> ('b go_run) prog) \<Rightarrow> ('b go_run) prog" where
  "prog_then m f = do {
     r \<leftarrow> m;
     (case r of Returns a \<Rightarrow> f a | Panics p \<Rightarrow> go_return (Panics p) | Exits e \<Rightarrow> go_return (Exits e)) }"

definition deferred :: "(unit go_run) prog \<Rightarrow> (unit go_run) prog \<Rightarrow> (unit go_run) prog" where
  "deferred cleanup body = do {
     r \<leftarrow> body;
     (case r of
        Exits e \<Rightarrow> go_return (Exits e)
      | _ \<Rightarrow> do { c \<leftarrow> cleanup; go_return (case c of Returns u \<Rightarrow> r | _ \<Rightarrow> c) }) }"

definition Fatal :: "string \<Rightarrow> ('a go_run) prog" where
  "Fatal msg = do { _ \<leftarrow> ev [Logged LError msg]; go_return (Exits msg) }"

section \<open>internal/database\<close>

definition dsn :: "DatabaseConfig \<Rightarrow> string" where
  "dsn c = ''host='' @ db_Host c @ '' port='' @ Itoa (db_Port c) @ '' user='' @ db_User c @ '' password='' @
     db_Password c @ '' dbname='' @ db_Name c @ '' sslmode='' @ db_SSLMode c"

definition db_pool :: pool where
  "db_pool = \<lparr>MaxOpenConns = 25, MaxIdleConns = 25, ConnMaxLifetime = 300, ConnMaxIdleTime = 30\<rparr>"

definition NewPostgresDB :: "surroundings \<Rightarrow> config_state \<Rightarrow> DatabaseConfig \<Rightarrow> ((go_error + string) go_run) prog" where
  "NewPostgresDB su cstate c = (case MustGet cstate of
      Inl p \<Rightarrow> go_return (Panics p)
    | Inr cfg \<Rightarrow> do {
        _ \<leftarrow> ev [Logged LInfo (''Connecting to database: '' @ db_Name c)];
        (case su_connect su (dsn c) of
           Some err \<Rightarrow> fin (Returns (Inl (Errorf_w ''failed to connect to database: '' err)))
         | None \<Rightarrow> do {
             _ \<leftarrow> ev [Acquired (Database (dsn c)), Logged LInfo ''Connected to database successfully'', Pool db_pool];
             (case su_ping su of
                Some err \<Rightarrow> fin (Returns (Inl (Errorf_w ''failed to ping database: '' err)))
              | None \<Rightarrow> fin (Returns (Inr (dsn c)))) }) })"

definition RunMigrations :: "surroundings \<Rightarrow> (go_error option) prog" where
  "RunMigrations su = (case su_iofs su of
      Some err \<Rightarrow> go_return (Some (Errorf_w ''migration source: '' err))
    | None \<Rightarrow> (case su_driver su of
        Some err \<Rightarrow> go_return (Some (Errorf_w ''migration driver: '' err))
      | None \<Rightarrow> (case su_migrate su of
          Some err \<Rightarrow> go_return (Some (Errorf_w ''migrate init: '' err))
        | None \<Rightarrow> do {
            _ \<leftarrow> ev [Migrated];
            go_return (case su_up su of
                Some err \<Rightarrow> if \<not> errors_Is err ErrNoChange then Some (Errorf_w ''migrate up: '' err) else None
              | None \<Rightarrow> None) })))"

section \<open>internal/server\<close>

text \<open>The fields of the embedded http.Server that the program sets are in place.\<close>

record AppServer =
  app_db :: string
  app_log :: zap_logger
  app_Addr :: string
  app_Handler :: handler

definition NewServer :: "surroundings \<Rightarrow> config_state \<Rightarrow> string \<Rightarrow> EnvConfig \<Rightarrow> Metrics \<Rightarrow> (AppServer go_run) prog" where
  "NewServer su cstate db cfg m = (case MustGet cstate of
      Inl p \<Rightarrow> go_return (Panics p)
    | Inr cfg2 \<Rightarrow> State (\<lambda>p.
        case run_state (NewRouter (su_web su) (su_storage su) (su_ParseURL su) cstate cfg (Some m)) (p_world p) of
          (h, w) \<Rightarrow> (run_then h (\<lambda>(handler, depth).
             Returns \<lparr>app_db = db, app_log = app_logger (su_web su) cfg2,
               app_Addr = srv_Host (Server cfg) @ '':'' @ Itoa (srv_Port (Server cfg)), app_Handler = handler\<rparr>),
           p\<lparr>p_world := w\<rparr>)))"

text \<open>Start serves until the listener fails; \<open>su_serve\<close> is what ListenAndServe reports before the signal
  to stop, if it returns before.\<close>

definition Start :: "surroundings \<Rightarrow> AppServer \<Rightarrow> (go_error option) prog" where
  "Start su s = do {
     _ \<leftarrow> ev [Logged LInfo (''Starting server on '' @ app_Addr s), Acquired (Listener (app_Addr s))];
     go_return (su_serve su) }"

definition Stop :: "surroundings \<Rightarrow> AppServer \<Rightarrow> (go_error option) prog" where
  "Stop su s = do {
     _ \<leftarrow> ev [Logged LInfo ''Stopping server'', Released (Listener (app_Addr s))];
     go_return (su_shutdown su) }"

section \<open>main\<close>

definition release :: "resource \<Rightarrow> go_error option \<Rightarrow> string \<Rightarrow> (unit go_run) prog" where
  "release res err msg = do {
     _ \<leftarrow> ev [Released res];
     _ \<leftarrow> (case err of Some e \<Rightarrow> ev [Logged LError (msg @ Error e)] | None \<Rightarrow> skip);
     fin (Returns ()) }"

definition baseLogger :: "surroundings \<Rightarrow> EnvConfig \<Rightarrow> attrs \<Rightarrow> zap_logger" where
  "baseLogger su cfg build = zap_With (New_logger (wl_NewIncreaseLevelCore (su_web su))
     \<lparr>lc_ServiceName = ServiceName (Otel cfg), lc_Environment = Environment_name cfg,
      lc_Level = ParseLevel (wl_UnmarshalText (su_web su)) (LogLevel cfg), lc_EnableOTel = True\<rparr>) build"

definition sync_log :: "surroundings \<Rightarrow> zap_logger \<Rightarrow> (unit go_run) prog" where
  "sync_log su l = do {
     _ \<leftarrow> ev [Released (LogSink l)];
     fin (case Sync (su_goos su) (su_sync su) of Some err \<Rightarrow> Panics (Error err) | None \<Rightarrow> Returns ()) }"

definition main_stop :: "surroundings \<Rightarrow> AppServer \<Rightarrow> (unit go_run) prog" where
  "main_stop su srv = do {
     _ \<leftarrow> ev [Logged LInfo ''Shutting down server...''];
     e \<leftarrow> Stop su srv;
     _ \<leftarrow> (case e of Some err \<Rightarrow> ev [Logged LError ''shutdown failed''] | None \<Rightarrow> skip);
     fin (Returns ()) }"

definition main_serve :: "surroundings \<Rightarrow> config_state \<Rightarrow> string \<Rightarrow> EnvConfig \<Rightarrow> Metrics \<Rightarrow> (unit go_run) prog" where
  "main_serve su cstate db cfg m = prog_then (NewServer su cstate db cfg m) (\<lambda>srv. do {
     e \<leftarrow> Start su srv;
     (case e of
        Some err \<Rightarrow> if \<not> errors_Is err ErrServerClosed then Fatal ''Server error'' else main_stop su srv
      | None \<Rightarrow> main_stop su srv) })"

definition main_migrate :: "surroundings \<Rightarrow> config_state \<Rightarrow> string \<Rightarrow> EnvConfig \<Rightarrow> Metrics \<Rightarrow> (unit go_run) prog" where
  "main_migrate su cstate db cfg m =
    (if AutoMigrate cfg then do {
          _ \<leftarrow> ev [Logged LInfo ''AUTO_MIGRATE=true: running migrations''];
          e \<leftarrow> RunMigrations su;
          (case e of
             Some err \<Rightarrow> Fatal (''Migration failed: '' @ Error err)
           | None \<Rightarrow> do {
               _ \<leftarrow> ev [Logged LInfo ''Migrations applied successfully''];
               main_serve su cstate db cfg m }) }
        else main_serve su cstate db cfg m)"

definition main_db :: "surroundings \<Rightarrow> config_state \<Rightarrow> EnvConfig \<Rightarrow> Metrics \<Rightarrow> (unit go_run) prog" where
  "main_db su cstate cfg m = prog_then (NewPostgresDB su cstate (DB cfg)) (\<lambda>d. case d of
      Inl err \<Rightarrow> Fatal (''Failed to connect to database: '' @ Error err)
    | Inr db \<Rightarrow> deferred (release (Database db) (su_db_close su) ''Failed to close database connection: '')
       (main_migrate su cstate db cfg m))"

definition main_telemetry :: "surroundings \<Rightarrow> config_state \<Rightarrow> EnvConfig \<Rightarrow> (unit go_run) prog" where
  "main_telemetry su cstate cfg =
     prog_then (fin (InitTracer cstate (su_traces su) (su_resource su) (su_instance su))) (\<lambda>tp. do {
       _ \<leftarrow> ev [Acquired Tracer];
       deferred (release Tracer (su_tracer_shutdown su) ''Failed to shut down tracer: '')
         (prog_then (fin (InitMetrics cstate (su_metrics su) (su_resource su) (su_instance su) (su_meter su))) (\<lambda>(m, mp). do {
            _ \<leftarrow> ev [Acquired Meter];
            deferred (release Meter (su_metrics_shutdown su) ''Failed to shut down metrics: '')
              (main_db su cstate cfg m) })) })"

text \<open>The variables the linker sets: the name of the environment, version, commit, build time, author.\<close>

record build_vars =
  Env :: string
  Version :: string
  CommitHash :: string
  BuildTime :: string
  Author :: string

definition build_defaults :: build_vars where
  "build_defaults = \<lparr>Env = ''development'', Version = ''1.0.0'', CommitHash = ''abc1234'',
     BuildTime = ''2024-06-01T12:00:00Z'', Author = ''RndmCodeGuy''\<rparr>"

definition main :: "build_vars \<Rightarrow> surroundings \<Rightarrow> (unit go_run) prog" where
  "main b su = (case InitializeConfig (su_load su) (su_parseFloat su) (wl_uni (su_web su)) (ToEnvironment (Env b)) (su_environ su) of
      Inl err \<Rightarrow> fin (Panics (Error err))
    | Inr cfg \<Rightarrow> do {
        let cstate = Init cfg config_start;
        let l = baseLogger su cfg [(''version'', AStr (Version b)), (''commit_hash'', AStr (CommitHash b)),
              (''build_time'', AStr (BuildTime b)), (''author'', AStr (Author b))];
        _ \<leftarrow> ev [Acquired Signals];
        deferred (do { _ \<leftarrow> ev [Released Signals]; fin (Returns ()) }) (do {
          _ \<leftarrow> ev [Acquired (LogSink l)];
          deferred (sync_log su l) (do {
            _ \<leftarrow> ev [Logged LInfo (''Starting MPiper server on https://'' @ srv_Host (Server cfg) @ '':'' @
                  Itoa (srv_Port (Server cfg)) @ '' in '' @ Environment_name cfg @ '' mode'')];
            main_telemetry su cstate cfg }) }) })"

section \<open>Properties\<close>

lemma run_ev [simp]: "run_state (ev es) p = ((), p\<lparr>p_events := p_events p @ es\<rparr>)"
  by (simp add: ev_def)

lemma state_ev [simp]: "state_of (ev es) p = p\<lparr>p_events := p_events p @ es\<rparr>"
  by (simp add: state_of_def)

lemma run_fin [simp]: "run_state (fin r) p = (r, p)"
  by (simp add: fin_def)

fun acquired :: "proc_event list \<Rightarrow> resource list" where
  "acquired [] = []"
| "acquired (Acquired r # es) = r # acquired es"
| "acquired (e # es) = acquired es"

fun released :: "proc_event list \<Rightarrow> resource list" where
  "released [] = []"
| "released (Released r # es) = r # released es"
| "released (e # es) = released es"

lemma acquired_append [simp]: "acquired (xs @ ys) = acquired xs @ acquired ys"
  by (induction xs rule: acquired.induct) auto

lemma released_append [simp]: "released (xs @ ys) = released xs @ released ys"
  by (induction xs rule: released.induct) auto

text \<open>
  \<open>bal m\<close>: a part of the program that gives back what it takes, last first, however it returns or
  panics; only a part that ends the process gives nothing back.
\<close>

definition gives_back :: "'a go_run \<Rightarrow> proc_event list \<Rightarrow> bool" where
  "gives_back r es \<longleftrightarrow> (case r of Exits e \<Rightarrow> released es = [] | _ \<Rightarrow> released es = rev (acquired es))"

definition bal :: "('a go_run) prog \<Rightarrow> bool" where
  "bal m \<longleftrightarrow> (\<forall>p. \<exists>es. p_events (state_of m p) = p_events p @ es \<and> gives_back (result_of m p) es)"

definition silent :: "'a prog \<Rightarrow> bool" where
  "silent m \<longleftrightarrow> (\<forall>p. \<exists>es. p_events (state_of m p) = p_events p @ es \<and> acquired es = [] \<and> released es = [])"

lemma bal_fin [intro!]: "bal (fin r)"
  by (auto simp: bal_def fin_def gives_back_def intro!: exI [of _ "[]"] split: go_run.splits)

lemma silent_ev [intro!]: "acquired es = [] \<Longrightarrow> released es = [] \<Longrightarrow> silent (ev es)"
  by (auto simp: silent_def state_of_def)

lemma bal_after: "silent m \<Longrightarrow> (\<And>a. bal (f a)) \<Longrightarrow> bal (State_Monad.bind m f)"
  unfolding bal_def
proof (intro allI)
  fix p
  assume m: "silent m" and f: "\<And>a. \<forall>p. \<exists>es. p_events (state_of (f a) p) = p_events p @ es \<and> gives_back (result_of (f a) p) es"
  obtain es where es: "p_events (state_of m p) = p_events p @ es" "acquired es = []" "released es = []"
    using m by (auto simp: silent_def)
  obtain fs where fs: "p_events (state_of (f (result_of m p)) (state_of m p)) = p_events (state_of m p) @ fs"
    "gives_back (result_of (f (result_of m p)) (state_of m p)) fs" using f by blast
  show "\<exists>es. p_events (state_of (State_Monad.bind m f) p) = p_events p @ es \<and> gives_back (result_of (State_Monad.bind m f) p) es"
    using es fs by (intro exI [of _ "es @ fs"]) (auto simp: gives_back_def split: go_run.splits)
qed

lemma bal_then: "silent m \<Longrightarrow> (\<And>a. bal (f a)) \<Longrightarrow> bal (prog_then m f)"
  unfolding prog_then_def by (intro bal_after) (auto split: go_run.splits simp flip: fin_def)

lemma bal_Fatal [intro!]: "bal (Fatal msg)"
  by (auto simp: Fatal_def bal_def gives_back_def state_of_def result_of_def)

text \<open>A deferred release of one resource.\<close>

definition frees :: "resource \<Rightarrow> (unit go_run) prog \<Rightarrow> bool" where
  "frees r c \<longleftrightarrow> (\<forall>p. (\<forall>e. result_of c p \<noteq> Exits e) \<and>
     (\<exists>es. p_events (state_of c p) = p_events p @ Released r # es \<and> acquired es = [] \<and> released es = []))"

lemma bal_bracket:
  assumes "bal body" "frees r c"
  shows "\<exists>es. p_events (state_of (deferred c body) p) = p_events p @ es \<and> gives_back (result_of (deferred c body) p) (Acquired r # es)"
proof -
  obtain es where es: "p_events (state_of body p) = p_events p @ es" "gives_back (result_of body p) es"
    using assms(1) by (auto simp: bal_def)
  let ?q = "state_of body p"
  obtain fs where fs: "p_events (state_of c ?q) = p_events ?q @ Released r # fs" "acquired fs = []" "released fs = []"
    "\<forall>e. result_of c ?q \<noteq> Exits e" using assms(2) by (auto simp: frees_def)
  show ?thesis
  proof (cases "result_of body p")
    case (Exits e)
    then show ?thesis using es by (auto simp: deferred_def gives_back_def)
  next
    case (Returns u)
    then show ?thesis using es fs
      by (intro exI [of _ "es @ Released r # fs"]) (cases "result_of c ?q"; auto simp: deferred_def gives_back_def)
  next
    case (Panics x)
    then show ?thesis using es fs
      by (intro exI [of _ "es @ Released r # fs"]) (cases "result_of c ?q"; auto simp: deferred_def gives_back_def)
  qed
qed

lemma bal_acquire: "bal body \<Longrightarrow> frees r c \<Longrightarrow> bal (do { _ \<leftarrow> ev [Acquired r]; deferred c body })"
  unfolding bal_def [of "State_Monad.bind (ev [Acquired r]) (\<lambda>_. deferred c body)"]
proof (intro allI)
  fix p
  assume "bal body" "frees r c"
  from bal_bracket [OF this, of "state_of (ev [Acquired r]) p"]
  show "\<exists>es. p_events (state_of (do { _ \<leftarrow> ev [Acquired r]; deferred c body }) p) = p_events p @ es \<and>
      gives_back (result_of (do { _ \<leftarrow> ev [Acquired r]; deferred c body }) p) es" by auto
qed

lemma frees_release: "frees r (release r err msg)"
  by (auto simp: frees_def release_def state_of_def result_of_def split: option.splits)

lemma frees_sync: "frees (LogSink l) (sync_log su l)"
  by (auto simp: frees_def sync_log_def state_of_def result_of_def split: option.splits)

lemma frees_signals: "frees Signals (do { _ \<leftarrow> ev [Released Signals]; fin (Returns ()) })"
  by (auto simp: frees_def state_of_def result_of_def)

lemma bal_stop: "\<exists>es. p_events (state_of (main_stop su srv) p) = p_events p @ es \<and> acquired es = [] \<and>
    released es = [Listener (app_Addr srv)] \<and> result_of (main_stop su srv) p = Returns ()"
  by (auto simp: main_stop_def Stop_def fin_def split: option.splits)

lemma bal_Start: "bal (do {
     e \<leftarrow> Start su srv;
     (case e of
        Some err \<Rightarrow> if \<not> errors_Is err ErrServerClosed then Fatal ''Server error'' else main_stop su srv
      | None \<Rightarrow> main_stop su srv) })"
proof (cases "case su_serve su of Some err \<Rightarrow> \<not> errors_Is err ErrServerClosed | None \<Rightarrow> False")
  case True
  then show ?thesis by (auto simp: bal_def gives_back_def Start_def Fatal_def split: option.splits)
next
  case False
  then have "(case su_serve su of
        Some err \<Rightarrow> if \<not> errors_Is err ErrServerClosed then Fatal ''Server error'' else main_stop su srv
      | None \<Rightarrow> main_stop su srv) = main_stop su srv" by (auto split: option.splits)
  note stop = this
  show ?thesis unfolding bal_def
  proof
    fix p
    let ?xs = "[Logged LInfo (''Starting server on '' @ app_Addr srv), Acquired (Listener (app_Addr srv))]"
    obtain es where "p_events (state_of (main_stop su srv) (p\<lparr>p_events := p_events p @ ?xs\<rparr>)) = p_events p @ ?xs @ es"
      "acquired es = []" "released es = [Listener (app_Addr srv)]"
      "result_of (main_stop su srv) (p\<lparr>p_events := p_events p @ ?xs\<rparr>) = Returns ()"
      using bal_stop [of su srv "p\<lparr>p_events := p_events p @ ?xs\<rparr>"] by auto
    then show "\<exists>es. p_events (state_of (do { e \<leftarrow> Start su srv; (case e of
        Some err \<Rightarrow> if \<not> errors_Is err ErrServerClosed then Fatal ''Server error'' else main_stop su srv
      | None \<Rightarrow> main_stop su srv) }) p) = p_events p @ es \<and> gives_back (result_of (do { e \<leftarrow> Start su srv; (case e of
        Some err \<Rightarrow> if \<not> errors_Is err ErrServerClosed then Fatal ''Server error'' else main_stop su srv
      | None \<Rightarrow> main_stop su srv) }) p) es"
      by (intro exI [of _ "?xs @ es"]) (simp add: Start_def stop gives_back_def)
  qed
qed

lemma silent_NewServer: "silent (NewServer su cstate db cfg m)"
  by (auto simp: silent_def NewServer_def state_of_def split: sum.splits prod.splits intro!: exI [of _ "[]"])

lemma bal_serve: "bal (main_serve su cstate db cfg m)"
  unfolding main_serve_def by (intro bal_then silent_NewServer bal_Start)

lemma silent_RunMigrations: "silent (RunMigrations su)"
  by (auto simp: silent_def RunMigrations_def split: option.splits intro!: exI [of _ "[]"])

lemma bal_migrate: "bal (main_migrate su cstate db cfg m)"
  unfolding main_migrate_def by (auto intro!: bal_after silent_RunMigrations bal_serve split: option.splits)

lemma bal_db: "bal (main_db su cstate cfg m)"
proof -
  let ?db = "dsn (DB cfg)"
  let ?c = "release (Database ?db) (su_db_close su) ''Failed to close database connection: ''"
  consider "su_connect su ?db = None" "su_ping su = None" "\<exists>c. MustGet cstate = Inr c"
    | "su_connect su ?db \<noteq> None \<or> su_ping su \<noteq> None \<or> (\<nexists>c. MustGet cstate = Inr c)" by blast
  then show ?thesis
  proof cases
    case 1
    show ?thesis unfolding bal_def
    proof
      fix p :: proc
      let ?xs = "[Logged LInfo (''Connecting to database: '' @ db_Name (DB cfg)), Acquired (Database ?db),
        Logged LInfo ''Connected to database successfully'', Pool db_pool]"
      let ?p = "p\<lparr>p_events := p_events p @ ?xs\<rparr>"
      from bal_bracket [OF bal_migrate [of su cstate ?db cfg m] frees_release, of "Database ?db" "su_db_close su" "''Failed to close database connection: ''" ?p]
      obtain es where "p_events (state_of (deferred ?c (main_migrate su cstate ?db cfg m)) ?p) = p_events p @ ?xs @ es"
        "gives_back (result_of (deferred ?c (main_migrate su cstate ?db cfg m)) ?p) (Acquired (Database ?db) # es)" by auto
      moreover have "state_of (main_db su cstate cfg m) p = state_of (deferred ?c (main_migrate su cstate ?db cfg m)) ?p"
        "result_of (main_db su cstate cfg m) p = result_of (deferred ?c (main_migrate su cstate ?db cfg m)) ?p"
        using 1 unfolding main_db_def by (auto simp: prog_then_def NewPostgresDB_def fin_def)
      ultimately show "\<exists>es. p_events (state_of (main_db su cstate cfg m) p) = p_events p @ es \<and>
          gives_back (result_of (main_db su cstate cfg m) p) es"
        by (intro exI [of _ "?xs @ es"]) (auto simp: gives_back_def split: go_run.splits)
    qed
  next
    case 2
    then show ?thesis unfolding main_db_def
      by (auto simp: bal_def prog_then_def NewPostgresDB_def fin_def Fatal_def gives_back_def
          split: sum.splits option.splits)
  qed
qed

lemma silent_fin [intro!]: "silent (fin r)"
  by (auto simp: silent_def fin_def intro!: exI [of _ "[]"])

lemma bal_telemetry: "bal (main_telemetry su cstate cfg)"
  unfolding main_telemetry_def
  by (intro bal_then bal_acquire silent_fin frees_release) (auto intro!: bal_acquire frees_release bal_db)


lemma result_deferred:
  "result_of (deferred c body) p = Returns () \<longleftrightarrow>
     result_of body p = Returns () \<and> result_of c (state_of body p) = Returns ()"
  by (cases "result_of body p"; cases "result_of c (state_of body p)") (simp_all add: deferred_def)

lemma result_prog_then:
  "result_of (prog_then n f) p = Returns x \<longleftrightarrow>
     (\<exists>a. result_of n p = Returns a \<and> result_of (f a) (state_of n p) = Returns x)"
  by (cases "result_of n p") (simp_all add: prog_then_def)

lemma result_simple [simp]:
  "result_of (fin r) p = r" "state_of (fin r) p = p" "result_of (release res err msg) p = Returns ()"
  "result_of (sync_log su l) p = Returns () \<longleftrightarrow> Sync (su_goos su) (su_sync su) = None"
  "result_of (Fatal msg) p \<noteq> Returns x" "result_of (main_stop su srv) p = Returns ()"
  by (auto simp: fin_def release_def sync_log_def Fatal_def main_stop_def split: option.splits)

lemma p_world_ev [simp]: "p_world (state_of (RunMigrations su) p) = p_world p"
  by (simp add: RunMigrations_def split: option.splits)

definition migrates :: "surroundings \<Rightarrow> bool" where
  "migrates su \<longleftrightarrow> su_iofs su = None \<and> su_driver su = None \<and> su_migrate su = None \<and>
     (case su_up su of None \<Rightarrow> True | Some err \<Rightarrow> errors_Is err ErrNoChange)"

lemma result_RunMigrations:
  obtains r where "\<And>p. result_of (RunMigrations su) p = r" "r = None \<longleftrightarrow> migrates su"
proof
  show "result_of (RunMigrations su) p = result_of (RunMigrations su) undefined" for p
    by (simp add: RunMigrations_def split: option.splits)
  show "result_of (RunMigrations su) undefined = None \<longleftrightarrow> migrates su"
    by (auto simp: RunMigrations_def migrates_def split: option.splits)
qed

lemma result_serve:
  assumes "MustGet cstate = Inr c2"
  shows "result_of (main_serve su cstate db cfg m) p = Returns () \<longleftrightarrow>
    (\<exists>h d w. run_state (NewRouter (su_web su) (su_storage su) (su_ParseURL su) cstate cfg (Some m)) (p_world p) = (Returns (h, d), w)) \<and>
    (case su_serve su of None \<Rightarrow> True | Some err \<Rightarrow> errors_Is err ErrServerClosed)"
proof -
  obtain r w where r: "run_state (NewRouter (su_web su) (su_storage su) (su_ParseURL su) cstate cfg (Some m)) (p_world p) = (r, w)"
    by fastforce
  have "(\<exists>srv. result_of (NewServer su cstate db cfg m) p = Returns srv) \<longleftrightarrow> (\<exists>h d. r = Returns (h, d))"
    using assms r by (cases r) (auto simp: NewServer_def result_of_def)
  then show ?thesis using r unfolding main_serve_def result_prog_then
    by (auto simp: Start_def split: option.splits)
qed

text \<open>C38. When the server ends cleanly. main returns exactly when the configuration loads, the exporters and
  instruments can be made, the database can be reached, the migrations apply (or there is nothing to
  apply) if they are wanted, the router can be built, the listener does not fail before the signal, and
  the final flush of the log reports no error. On every other outcome the process panics or exits: in
  particular a clean shutdown on a system where syncing the standard output is an error ends in a panic.\<close>

theorem main_returns:
  "result_of (main b su) p = Returns () \<longleftrightarrow>
    (\<exists>cfg tp m mp h d w.
       InitializeConfig (su_load su) (su_parseFloat su) (wl_uni (su_web su)) (ToEnvironment (Env b)) (su_environ su) = Inr cfg \<and>
       InitTracer (Init cfg config_start) (su_traces su) (su_resource su) (su_instance su) = Returns tp \<and>
       InitMetrics (Init cfg config_start) (su_metrics su) (su_resource su) (su_instance su) (su_meter su) = Returns (m, mp) \<and>
       su_connect su (dsn (DB cfg)) = None \<and> su_ping su = None \<and>
       (if AutoMigrate cfg then migrates su else True) \<and>
       run_state (NewRouter (su_web su) (su_storage su) (su_ParseURL su) (Init cfg config_start) cfg (Some m)) (p_world p)
         = (Returns (h, d), w)) \<and>
    (case su_serve su of None \<Rightarrow> True | Some err \<Rightarrow> errors_Is err ErrServerClosed) \<and>
    Sync (su_goos su) (su_sync su) = None"
proof (cases "InitializeConfig (su_load su) (su_parseFloat su) (wl_uni (su_web su)) (ToEnvironment (Env b)) (su_environ su)")
  case (Inl err)
  then show ?thesis by (simp add: main_def)
next
  case (Inr cfg)
  let ?cs = "Init cfg config_start"
  have db: "result_of (main_db su ?cs cfg m) q = Returns () \<longleftrightarrow>
      su_connect su (dsn (DB cfg)) = None \<and> su_ping su = None \<and> (if AutoMigrate cfg then migrates su else True) \<and>
      (\<exists>h d w. run_state (NewRouter (su_web su) (su_storage su) (su_ParseURL su) ?cs cfg (Some m)) (p_world q) = (Returns (h, d), w)) \<and>
      (case su_serve su of None \<Rightarrow> True | Some err \<Rightarrow> errors_Is err ErrServerClosed)" for m q
  proof -
    obtain r where r: "\<And>p. result_of (RunMigrations su) p = r" "r = None \<longleftrightarrow> migrates su"
      using result_RunMigrations by blast
    show ?thesis unfolding main_db_def main_migrate_def result_prog_then r(2) [symmetric]
      by (cases "su_connect su (dsn (DB cfg))"; cases "su_ping su"; cases r)
        (auto simp: NewPostgresDB_def result_deferred result_serve r(1) split: option.splits)
  qed
  have "result_of (main_telemetry su ?cs cfg) q = Returns () \<longleftrightarrow>
      (\<exists>tp. InitTracer ?cs (su_traces su) (su_resource su) (su_instance su) = Returns tp) \<and>
      (\<exists>m mp. InitMetrics ?cs (su_metrics su) (su_resource su) (su_instance su) (su_meter su) = Returns (m, mp) \<and>
        result_of (main_db su ?cs cfg m) q = Returns ())" for q
    unfolding main_telemetry_def result_prog_then
    by (auto simp: result_deferred db result_prog_then)
  then show ?thesis using Inr unfolding db by (auto simp: main_def Let_def result_deferred)
qed

end
