(* ===== verification/Spec2Isabelle.thy ===== *)
theory Spec2Isabelle
  imports Env_Config App_Metrics Tx_Retry Redis_Queue Storagex Complete_Race App_Main
begin

text \<open>
  Verification of the mpiper API server, a Go program that takes requests to upload media files.

  The program. A client asks for an upload (POST /api/v1/storage/presign): the server stores a row in
  PostgreSQL with status uploading and answers with a URL signed for a PUT to the object store. After the
  PUT the client reports the upload (GET /api/v1/assets/{assetID}/complete): the server looks the object
  up, sets the status to uploaded and inserts a job in one transaction, and after the commit adds a message
  for the job to a Redis stream, which a separate worker reads.

  Theories, from the bottom up, with the files they model.

  \<^item> Go_Prelude, Go_Time, Go_Json, Go_Json_Decode, Go_Crypto: what the program uses of Go's standard
    library (strings, strconv, int64 arithmetic, time formats, encoding/json, base64, AES-GCM), and the
    state monad. Go_Json_Decode ends with the proof that the step bound of the parser, one more than the
    length of the input, gives the result of every larger bound; reading an encoded value gives it back.
  \<^item> App_Errors (pkg/errors), Env_Config (internal/config), App_Logger (pkg/logger), App_Metrics
    (internal/metrics).
  \<^item> World: the state of the outside (tables, open transaction, streams, objects, clock, ids, telemetry)
    and the calls that leave the process. Each peer is a reply function of the state, so a theorem
    about an operation holds for every behaviour of the peers, failures included.
  \<^item> Asset_Repo and Tx_Retry (internal/repository/asset_repo.go): the SQL statements as functions on the
    tables, the repository methods, the transaction helper with its retries and backoff. The locale
    asset_repository states what the service may rely on.
  \<^item> Redis_Queue (internal/queue): client, producer and retry loop; locale job_queue.
  \<^item> Storagex (pkg/utils/storagex): both implementations and the factory; locale storage_client.
  \<^item> Asset_Service (internal/service/asset.go, internal/models): CreateAsset and MarkAssetUploaded over the
    three interfaces (locale upload_service), with the invariant of the tables: an asset has a processing
    job exactly when it has left the status uploading.
  \<^item> Complete_Race: the statements of MarkAssetUploaded as steps of concurrent processes under row locks.
  \<^item> Token_Crypt (pkg/utils/crypt.go): token encryption, authenticity and round trip.
  \<^item> Http_Server (pkg/utils/response.go, context.go and the calls on net/http), Asset_Handler
    (internal/handler), Middleware (internal/middleware), Router (internal/router): handlers are
    computations on the server state that return or panic; middlewares map handlers to handlers. The locale
    asset_api is what a handler needs of the service, http_handler what a middleware needs of a handler.
  \<^item> App_Main (cmd/server, internal/server, internal/database): the life of the process.

  Conventions. A pair of value and error is a sum with the error on the left; a struct is a record, an
  int64 is an int kept in range by the arithmetic of Go_Prelude, a float64 only appears where its values are
  exact. A run of a program part returns, panics with a value, or exits (\<open>go_run\<close>). Deferred calls run in
  reverse order on every return and panic. Functions with loops are structural or carry their measure; only
  the JSON parser has a step bound.

  What the lemmas show. Completing an upload: effect, atomicity, at most once, also under races, and how a
  job can get lost (C1 to C7). Queue, transactions, creation, storage (C8 to C15). Configuration, options,
  backoff (C16 to C22). Tokens and the access control built on them (C23 to C26). Limiter, handlers,
  middlewares and logging (C27 to C36). The process (C37, C38), the decoder (C39), and, below, a whole upload
  (C40).

  Not modelled. pkg/utils/format.go (a wrapper of fmt.Sprintf without callers). The worker (Python), the SQL of the
  migrations beyond the constraints the statements can violate, container, Kubernetes and observability files, and
  the tests. Third-party packages (chi, cors, rate, zap, OpenTelemetry, go-redis, the cloud SDKs, bcrypt, godotenv,
  migrate, uuid) are parameters of the definitions that use them. The scheduling of goroutines appears in two places
  only: the steps of Complete_Race, and the ticks of the limiter's eviction in Router. In App_Main the goroutine of
  the listener either fails before the signal to stop or does not matter any more.
\<close>

section \<open>A whole upload\<close>

text \<open>C40. A whole upload succeeds when the peers do. In a consistent world, with a fresh id, a store that
  signs and a healthy database, creating an asset succeeds with a response for this id; once the client has put the
  object and with Redis reachable, completing that id succeeds. The row then is uploaded, with the content type, size
  and public URL of the request and response, and the job is in the table and announced on the stream.\<close>

theorem upload_lifecycle:
  assumes "run_state (NewAssetService libs ParseURL cstate rcfg (NewAssetRepository m) m) w0 = (Returns (svc, depth), w0')"
    and "jobs_match_status (w_db w)" "db_healthy w" "a = uuid_supply w (uuid_calls w)" "isASCII a"
    and "assets (w_db w) a = None" "store_signs svc a"
    and "run_state (CreateAsset_svc svc req) w = (rc, w1)"
    and "w_db w2 = w_db w1" "w_tx w2 = None" "store_answers svc a (objects w2)"
    and "db_healthy w2" "redis_healthy w2" "rq_redis (as_queue svc) \<noteq> None"
    and "run_state (MarkAssetUploaded svc a) w2 = (rm, w3)"
  shows "\<exists>res row. rc = Inr res \<and> AssetID res = a \<and> rm = None \<and> assets (w_db w3) a = Some row \<and>
    asset_status row = Status_string StatusUploaded \<and> mime_type row = req_ContentType req \<and>
    size_bytes row = req_Size req \<and> original_url row = PublicUrl res \<and> has_job (w_db w3) a \<and>
    (\<exists>e \<in> set (streams w3 ''media:jobs''). announces e (job_seq w2) a)"
proof -
  note svc = NewAssetService_built [OF assms(1)]
  obtain surl url where rc: "rc = Inr (response_for req a surl url)"
    using upload_service.create_completes [OF svc assms(7,3,6,4,8)] by blast
  obtain now where c: "w_db w1 = request_row req a url now (w_db w)"
    using upload_service.create_effect [OF svc assms(8,4)] rc by (auto simp: response_for_def)
  have w1: "jobs_match_status (w_db w1)" "awaiting (w_db w1) a"
    using c assms(2,6) jobs_match_status_with_new_asset unfolding request_row_def
    by simp_all (simp add: awaiting_def with_new_asset_def)
  have "rm = None \<and> (\<exists>now now'. w_db w3 = with_new_job (marked (w_db w2) a now) a (job_seq w2) now') \<and>
      sent ''media:jobs'' 10000 True False (job_seq w2) a (streams w2) rm (streams w3)"
    using upload_service.mark_completes [OF svc assms(10) _ _ assms(12,11) _ assms(15)] w1 assms(9,13,14) by auto
  moreover from this have "\<exists>e \<in> set (streams w3 ''media:jobs''). announces e (job_seq w2) a"
    using announces_payload [OF assms(5)] unfolding sent_def by auto
  ultimately show ?thesis using c assms(9) rc
    by (auto simp: with_new_job_def has_job_def marked_def request_row_def with_new_asset_def response_for_def)
qed

lemma sample_signs: "store_signs sample_service a"
proof -
  have "ToUpper id ''PUT'' = ''PUT''" by (simp add: ToUpper_def isASCII_def upper_char_def)
  then show ?thesis
    by (simp add: store_signs_def result_of_def sample_service_def s3_storage_def s3_GeneratePresignedURL_def
        s3_PublicURL_def Let_def s3_presigned_def memory_s3_def)
qed

text \<open>The world after the client has put the object of the first id.\<close>

definition put_world :: "database \<Rightarrow> world" where
  "put_world d = upload_world\<lparr>w_db := d, objects := [(''media'', ''media/raw/u0'') \<mapsto>
     \<lparr>obj_data = ''hello'', obj_content_type = ''image/png'', obj_metadata = [], obj_etag = []\<rparr>]\<rparr>"

theorem upload_lifecycle_witness:
  "\<exists>res row. fst (run_state (CreateAsset_svc sample_service sample_request) upload_world) = Inr res \<and>
     AssetID res = ''u0'' \<and> assets (w_db (snd (run_state (MarkAssetUploaded sample_service ''u0'')
       (put_world (w_db (snd (run_state (CreateAsset_svc sample_service sample_request) upload_world))))))) ''u0'' = Some row \<and>
     size_bytes row = 5"
proof -
  let ?d = "w_db (snd (run_state (CreateAsset_svc sample_service sample_request) upload_world))"
  have zero: "show_nat 0 = ''0''" by code_simp
  have u: "''u0'' = uuid_supply upload_world (uuid_calls upload_world)" "assets (w_db upload_world) ''u0'' = None"
    using zero by (simp_all add: upload_world_def idle_world_def)
  have p: "w_db (put_world d) = d" "w_tx (put_world d) = None" "db_healthy (put_world d)" "redis_healthy (put_world d)" for d
    by (simp_all add: put_world_def upload_world_def idle_world_def db_healthy_def redis_healthy_def)
  have st: "store_answers sample_service ''u0'' (objects (put_world d))" for d
    by (auto simp: store_answers_def sample_service_def s3_storage_def s3_GetObjectAttrs_def Let_def
        result_of_def memory_s3_def put_world_def object_key_def)
  show ?thesis
    using upload_lifecycle [OF sample_built _ _ u(1) _ u(2) sample_signs prod.collapse [symmetric] p(1,2) st p(3,4) _
        prod.collapse [symmetric], of sample_request]
    by (auto simp: isASCII_def sample_request_def)
qed

end
